(* ===== verification/Amun_Prelude.thy ===== *)
theory Amun_Prelude
  imports Main "HOL-Library.Monad_Syntax"
begin

text \<open>
  The prelude of the Amun development: the theorem collections, the weakest-precondition
  reading of option programs (\<open>None\<close> is undefined behaviour of the C++ code), the signed
  reading of \<open>char\<close>, and the string functions of the C++ standard library that the
  sources call (\<open>substr\<close>, \<open>erase\<close>/\<open>remove\<close>, \<open>to_string\<close>, \<open>stol\<close>).
\<close>

named_theorems ensures_rules \<open>specifications of option programs, as introduction rules\<close>
named_theorems char_simps \<open>facts that evaluate character classes\<close>

subsection \<open>Option programs: a computation that may hit undefined behaviour\<close>

text \<open>
  \<open>ensures m Q\<close>: the program \<open>m\<close> is defined (no out-of-range read, no exception) and its
  result satisfies \<open>Q\<close>.
\<close>

definition ensures :: "'a option \<Rightarrow> ('a \<Rightarrow> bool) \<Rightarrow> bool" where
  "ensures m Q = (case m of None \<Rightarrow> False | Some r \<Rightarrow> Q r)"

lemma ensures_Some [simp]: "ensures (Some r) Q = Q r"
  by (simp add: ensures_def)

lemma ensures_None [simp]: "ensures None Q = False"
  by (simp add: ensures_def)

lemma ensures_bind [simp]: "ensures (Option.bind m f) Q = ensures m (\<lambda>r. ensures (f r) Q)"
  by (cases m) simp_all

lemma ensures_if [simp]:
  "ensures (if b then m else n) Q = ((b \<longrightarrow> ensures m Q) \<and> (\<not> b \<longrightarrow> ensures n Q))"
  by simp

lemma ensures_mono: "ensures m P \<Longrightarrow> (\<And>r. P r \<Longrightarrow> Q r) \<Longrightarrow> ensures m Q"
  by (cases m) simp_all

lemma ensuresE: "ensures m Q \<Longrightarrow> (\<And>r. m = Some r \<Longrightarrow> Q r \<Longrightarrow> P) \<Longrightarrow> P"
  by (cases m) simp_all

lemma ensures_iff: "ensures m Q \<longleftrightarrow> (\<exists>r. m = Some r \<and> Q r)"
  by (cases m) simp_all

lemma ensures_split_conj: "ensures m P \<Longrightarrow> ensures m Q \<Longrightarrow> ensures m (\<lambda>r. P r \<and> Q r)"
  by (cases m) simp_all

subsection \<open>Characters as the signed 8-bit integers of the C++ code\<close>

definition schar :: "char \<Rightarrow> int" where
  "schar c = (if (of_char c :: nat) < 128 then int (of_char c) else int (of_char c) - 256)"

lemma int_of_char_bound: "int (of_char c) < 256"
proof -
  have "(of_char c :: nat) < 256" by simp
  then show ?thesis by linarith
qed

lemma schar_low: "(of_char c :: nat) < 128 \<Longrightarrow> schar c = int (of_char c)"
  by (simp add: schar_def)

lemma schar_high: "\<not> (of_char c :: nat) < 128 \<Longrightarrow> schar c = int (of_char c) - 256"
  by (simp add: schar_def)

lemma schar_bounds: "-128 \<le> schar c \<and> schar c < 128"
  using int_of_char_bound [of c] schar_low [of c] schar_high [of c]
  by (cases "(of_char c :: nat) < 128") linarith+

lemma schar_inject [simp]: "schar c = schar d \<longleftrightarrow> c = d"
proof
  assume eq: "schar c = schar d"
  have "(of_char c :: nat) = of_char d"
    using eq int_of_char_bound [of c] int_of_char_bound [of d]
      schar_low [of c] schar_high [of c] schar_low [of d] schar_high [of d]
    by (cases "(of_char c :: nat) < 128"; cases "(of_char d :: nat) < 128") linarith+
  then show "c = d" by (simp add: of_char_eq_iff)
qed simp

text \<open>The byte of a small integer: \<open>char\<close> assignment of an \<open>int\<close>.\<close>

definition char_of_int :: "int \<Rightarrow> char" where
  "char_of_int i = char_of (nat (i mod 256))"

subsection \<open>Strings\<close>

definition contains :: "'a list \<Rightarrow> 'a \<Rightarrow> bool" where
  "contains xs x \<longleftrightarrow> x \<in> set xs"

lemma contains_simps [simp]:
  "contains [] x = False" "contains (y # ys) x = (x = y \<or> contains ys x)"
  by (auto simp: contains_def)

text \<open>
  \<open>std::string::substr(pos, len)\<close>: throws \<open>std::out_of_range\<close> (here \<open>None\<close>) when
  \<open>pos > size()\<close>, and stops at the end of the string.
\<close>

definition substr :: "string \<Rightarrow> nat \<Rightarrow> nat \<Rightarrow> string option" where
  "substr s pos len = (if pos \<le> length s then Some (take len (drop pos s)) else None)"

text \<open>\<open>literal.erase(std::remove(begin, end, c), end)\<close>.\<close>

definition erase_char :: "char \<Rightarrow> string \<Rightarrow> string" where
  "erase_char c s = filter (\<lambda>d. d \<noteq> c) s"

lemma length_erase_char: "length (erase_char c s) \<le> length s"
  by (simp add: erase_char_def)

lemma set_erase_char [simp]: "set (erase_char c s) = set s - {c}"
  by (auto simp: erase_char_def)

subsection \<open>Decimal numerals: \<open>std::to_string\<close>\<close>

definition digit_char :: "int \<Rightarrow> char" where
  "digit_char d = char_of (48 + nat d)"

function decimal_digits :: "int \<Rightarrow> string" where
  "decimal_digits n = (if n < 10 then [digit_char n]
                       else decimal_digits (n div 10) @ [digit_char (n mod 10)])"
  by pat_completeness auto
termination
  by (relation "measure nat") (auto simp: nat_less_iff)

declare decimal_digits.simps [simp del]

definition to_string :: "int \<Rightarrow> string" where
  "to_string i = (if i < 0 then CHR ''-'' # decimal_digits (- i) else decimal_digits i)"

lemma decimal_digits_nonempty [simp]: "decimal_digits n \<noteq> []"
  by (subst decimal_digits.simps) simp

lemma schar_digit_char:
  assumes "0 \<le> d" and "d < 10"
  shows "schar (digit_char d) = 48 + d"
proof -
  have "(of_char (digit_char d) :: nat) = 48 + nat d"
    using assms by (simp add: digit_char_def nat_less_iff)
  then show ?thesis
    using assms by (simp add: schar_low)
qed

lemma decimal_digits_are_digits:
  "0 \<le> n \<Longrightarrow> \<forall>c \<in> set (decimal_digits n). 48 \<le> schar c \<and> schar c \<le> 57"
proof (induction n rule: decimal_digits.induct)
  case (1 n)
  show ?case
  proof (cases "n < 10")
    case True
    then show ?thesis
      using "1.prems" by (subst decimal_digits.simps) (simp add: schar_digit_char)
  next
    case False
    then show ?thesis using 1
      by (subst decimal_digits.simps) (simp add: ball_Un schar_digit_char)
  qed
qed

subsection \<open>Numerals in a base: \<open>std::stol(s, nullptr, base)\<close>\<close>

text \<open>The value of a digit character, for bases up to sixteen.\<close>

definition digit_value :: "char \<Rightarrow> int" where
  "digit_value c = (let n = schar c in
     if 48 \<le> n \<and> n \<le> 57 then n - 48
     else if 65 \<le> n \<and> n \<le> 70 then n - 55
     else if 97 \<le> n \<and> n \<le> 102 then n - 87
     else 16)"

definition digits_value :: "int \<Rightarrow> string \<Rightarrow> int" where
  "digits_value base s = foldl (\<lambda>v c. v * base + digit_value c) 0 s"

text \<open>
  \<open>stol\<close> on a string of digits of the base: \<open>std::invalid_argument\<close> on the empty string and
  \<open>std::out_of_range\<close> above \<open>LONG_MAX\<close> (64-bit \<open>long\<close>), both as \<open>None\<close>.  The callers strip
  everything but digits of the base first, so no sign, space or prefix reaches it.
\<close>

definition stol :: "int \<Rightarrow> string \<Rightarrow> int option" where
  "stol base s = (if s = [] \<or> 2 ^ 63 \<le> digits_value base s then None
                  else Some (digits_value base s))"

lemma digits_value_Nil [simp]: "digits_value b [] = 0"
  by (simp add: digits_value_def)

lemma digits_value_snoc [simp]:
  "digits_value b (s @ [c]) = digits_value b s * b + digit_value c"
  by (simp add: digits_value_def)

lemma digit_value_nonneg: "0 \<le> digit_value c"
  by (simp add: digit_value_def Let_def)

lemma digits_value_nonneg: "0 \<le> b \<Longrightarrow> 0 \<le> digits_value b s"
  by (induction s rule: rev_induct) (simp_all add: digit_value_nonneg)

lemma digit_value_digit_char [simp]: "0 \<le> d \<Longrightarrow> d < 10 \<Longrightarrow> digit_value (digit_char d) = d"
  by (simp add: digit_value_def schar_digit_char Let_def)

lemma digits_value_decimal_digits [simp]: "0 \<le> n \<Longrightarrow> digits_value 10 (decimal_digits n) = n"
proof (induction n rule: decimal_digits.induct)
  case (1 n)
  show ?case
  proof (cases "n < 10")
    case True
    then have "decimal_digits n = [] @ [digit_char n]"
      by (subst decimal_digits.simps) simp
    then show ?thesis
      using True "1.prems" by (simp only: digits_value_snoc) simp
  next
    case False
    then show ?thesis using 1
      by (subst decimal_digits.simps) simp
  qed
qed

lemma decimal_digits_inject:
  "0 \<le> m \<Longrightarrow> 0 \<le> n \<Longrightarrow> decimal_digits m = decimal_digits n \<longleftrightarrow> m = n"
  by (metis digits_value_decimal_digits)

lemma stol_range: "0 \<le> b \<Longrightarrow> stol b s = Some v \<Longrightarrow> 0 \<le> v \<and> v < 2 ^ 63"
  by (auto simp: stol_def digits_value_nonneg split: if_splits)

end
