(* ===== verification/Tokens.thy ===== *)
theory Tokens
  imports Amun_Prelude
begin

text \<open>
  \<open>include/amun_token.hpp\<close>: the token kinds, tokens with their source spans, and the static
  tables the tokenizer, the parser and the name mangler look tokens up in.  A table
  (\<open>std::unordered_map\<close>) is an association list without repeated keys, a set
  (\<open>std::unordered_set\<close>) a list; \<open>map_of\<close> and \<open>contains\<close> are the lookups.  A key a map lacks
  reads as a null \<open>const char*\<close> in the code, \<open>None\<close> here.
\<close>

subsection \<open>Token kinds, spans and tokens\<close>

datatype (plugins only: code) token_kind =
      TOKEN_LOAD | TOKEN_IMPORT | TOKEN_VAR | TOKEN_CONST | TOKEN_ENUM | TOKEN_TYPE
    | TOKEN_STRUCT | TOKEN_FUN | TOKEN_OPERATOR | TOKEN_RETURN | TOKEN_IF | TOKEN_ELSE
    | TOKEN_FOR | TOKEN_WHILE | TOKEN_SWITCH | TOKEN_CAST | TOKEN_DEFER | TOKEN_BREAK
    | TOKEN_CONTINUE | TOKEN_TYPE_SIZE | TOKEN_TYPE_ALLIGN | TOKEN_VALUE_SIZE | TOKEN_TRUE
    | TOKEN_FALSE | TOKEN_NULL | TOKEN_UNDEFINED | TOKEN_VARARGS | TOKEN_DOT | TOKEN_DOT_DOT
    | TOKEN_COMMA | TOKEN_COLON | TOKEN_COLON_COLON | TOKEN_SEMICOLON | TOKEN_AT | TOKEN_PLUS
    | TOKEN_MINUS | TOKEN_STAR | TOKEN_SLASH | TOKEN_PERCENT | TOKEN_OR | TOKEN_OR_OR
    | TOKEN_AND | TOKEN_AND_AND | TOKEN_XOR | TOKEN_NOT | TOKEN_EQUAL | TOKEN_EQUAL_EQUAL
    | TOKEN_BANG | TOKEN_BANG_EQUAL | TOKEN_GREATER | TOKEN_GREATER_EQUAL | TOKEN_SMALLER
    | TOKEN_SMALLER_EQUAL | TOKEN_RIGHT_SHIFT | TOKEN_RIGHT_SHIFT_EQUAL | TOKEN_LEFT_SHIFT
    | TOKEN_LEFT_SHIFT_EQUAL | TOKEN_PLUS_EQUAL | TOKEN_MINUS_EQUAL | TOKEN_STAR_EQUAL
    | TOKEN_SLASH_EQUAL | TOKEN_PARCENT_EQUAL | TOKEN_OR_EQUAL | TOKEN_AND_EQUAL
    | TOKEN_XOR_EQUAL | TOKEN_PLUS_PLUS | TOKEN_MINUS_MINUS | TOKEN_RIGHT_ARROW
    | TOKEN_OPEN_PAREN | TOKEN_CLOSE_PAREN | TOKEN_OPEN_BRACKET | TOKEN_CLOSE_BRACKET
    | TOKEN_OPEN_BRACE | TOKEN_CLOSE_BRACE | TOKEN_IDENTIFIER | TOKEN_STRING | TOKEN_CHARACTER
    | TOKEN_INT | TOKEN_INT1 | TOKEN_INT8 | TOKEN_INT16 | TOKEN_INT32 | TOKEN_INT64
    | TOKEN_UINT8 | TOKEN_UINT16 | TOKEN_UINT32 | TOKEN_UINT64 | TOKEN_FLOAT | TOKEN_FLOAT32
    | TOKEN_FLOAT64 | TOKEN_INVALID | TOKEN_END_OF_FILE

record token_span =
  file_id :: int
  line_number :: int
  column_start :: int
  column_end :: int

record token =
  kind :: token_kind
  position :: token_span
  literal :: string

record two_tokens_operator =
  first_op :: token_kind
  second_op :: token_kind
  both_op :: token_kind

subsection \<open>The literal of a kind (error messages)\<close>

definition token_kind_literal :: "(token_kind \<times> string) list" where
  "token_kind_literal = [
     (TOKEN_LOAD, ''load''), (TOKEN_IMPORT, ''import''), (TOKEN_VAR, ''var''),
     (TOKEN_CONST, ''const''), (TOKEN_FUN, ''fun''), (TOKEN_OPERATOR, ''operator''),
     (TOKEN_ENUM, ''enum''), (TOKEN_TYPE, ''type''), (TOKEN_STRUCT, ''struct''),
     (TOKEN_RETURN, ''return''), (TOKEN_IF, ''if''), (TOKEN_ELSE, ''else''),
     (TOKEN_FOR, ''for''), (TOKEN_WHILE, ''while''), (TOKEN_SWITCH, ''switch''),
     (TOKEN_CAST, ''cast''), (TOKEN_DEFER, ''defer''), (TOKEN_TRUE, ''true''),
     (TOKEN_FALSE, ''false''), (TOKEN_NULL, ''null''), (TOKEN_UNDEFINED, ''undefined''),
     (TOKEN_BREAK, ''break''), (TOKEN_CONTINUE, ''continue''),
     (TOKEN_TYPE_SIZE, ''type_size''), (TOKEN_TYPE_ALLIGN, ''type_allign''),
     (TOKEN_VALUE_SIZE, ''value_size''), (TOKEN_VARARGS, ''varargs''), (TOKEN_DOT, ''.''),
     (TOKEN_DOT_DOT, ''..''), (TOKEN_COMMA, '',''), (TOKEN_COLON, '':''),
     (TOKEN_COLON_COLON, ''::''), (TOKEN_SEMICOLON, '';''), (TOKEN_AT, ''@''),
     (TOKEN_PLUS, ''+''), (TOKEN_MINUS, ''-''), (TOKEN_STAR, ''*''), (TOKEN_SLASH, ''/''),
     (TOKEN_PERCENT, ''%''), (TOKEN_AND, ''&''), (TOKEN_AND_AND, ''&&''), (TOKEN_OR, ''|''),
     (TOKEN_OR_OR, ''||''), (TOKEN_XOR, ''^''), (TOKEN_NOT, ''~''), (TOKEN_EQUAL, ''=''),
     (TOKEN_EQUAL_EQUAL, ''==''), (TOKEN_BANG, ''!''), (TOKEN_BANG_EQUAL, ''!=''),
     (TOKEN_GREATER, ''>''), (TOKEN_GREATER_EQUAL, ''>=''), (TOKEN_SMALLER, ''<''),
     (TOKEN_SMALLER_EQUAL, ''<=''), (TOKEN_RIGHT_SHIFT, ''>>''),
     (TOKEN_RIGHT_SHIFT_EQUAL, ''>>=''), (TOKEN_LEFT_SHIFT, ''<<''),
     (TOKEN_LEFT_SHIFT_EQUAL, ''<<=''), (TOKEN_PLUS_EQUAL, ''+=''),
     (TOKEN_MINUS_EQUAL, ''-=''), (TOKEN_STAR_EQUAL, ''*=''), (TOKEN_SLASH_EQUAL, ''/=''),
     (TOKEN_PARCENT_EQUAL, ''%=''), (TOKEN_PLUS_PLUS, ''++''), (TOKEN_MINUS_MINUS, ''--''),
     (TOKEN_RIGHT_ARROW, ''->''), (TOKEN_OPEN_PAREN, ''(''), (TOKEN_CLOSE_PAREN, '')''),
     (TOKEN_OPEN_BRACKET, ''[''), (TOKEN_CLOSE_BRACKET, '']''), (TOKEN_OPEN_BRACE, ''{''),
     (TOKEN_CLOSE_BRACE, ''}''), (TOKEN_IDENTIFIER, ''identifier''),
     (TOKEN_STRING, ''string''), (TOKEN_CHARACTER, ''char''), (TOKEN_INT, ''int''),
     (TOKEN_INT1, ''int1''), (TOKEN_INT8, ''int8''), (TOKEN_INT16, ''int16''),
     (TOKEN_INT32, ''int32''), (TOKEN_INT64, ''int64''), (TOKEN_UINT8, ''uint8''),
     (TOKEN_UINT16, ''uint16''), (TOKEN_UINT32, ''uint32''), (TOKEN_UINT64, ''uint64''),
     (TOKEN_FLOAT, ''float''), (TOKEN_FLOAT32, ''float32''), (TOKEN_FLOAT64, ''float64''),
     (TOKEN_INVALID, ''Invalid''), (TOKEN_END_OF_FILE, ''End of the file'')]"

subsection \<open>Operator classes\<close>

definition unary_operators :: "token_kind list" where
  "unary_operators = [
     TOKEN_MINUS, TOKEN_BANG, TOKEN_STAR, TOKEN_AND, TOKEN_NOT]"

definition assignments_operators :: "token_kind list" where
  "assignments_operators = [
     TOKEN_EQUAL, TOKEN_PLUS_EQUAL, TOKEN_MINUS_EQUAL, TOKEN_STAR_EQUAL, TOKEN_SLASH_EQUAL,
     TOKEN_PARCENT_EQUAL, TOKEN_OR_EQUAL, TOKEN_AND_EQUAL, TOKEN_XOR_EQUAL,
     TOKEN_RIGHT_SHIFT_EQUAL, TOKEN_LEFT_SHIFT_EQUAL]"

definition assignments_binary_operators :: "(token_kind \<times> token_kind) list" where
  "assignments_binary_operators = [
     (TOKEN_PLUS_EQUAL, TOKEN_PLUS), (TOKEN_MINUS_EQUAL, TOKEN_MINUS),
     (TOKEN_STAR_EQUAL, TOKEN_STAR), (TOKEN_SLASH_EQUAL, TOKEN_SLASH),
     (TOKEN_PARCENT_EQUAL, TOKEN_PERCENT)]"

definition assignments_bitwise_operators :: "(token_kind \<times> token_kind) list" where
  "assignments_bitwise_operators = [
     (TOKEN_OR_EQUAL, TOKEN_OR), (TOKEN_AND_EQUAL, TOKEN_AND), (TOKEN_XOR_EQUAL, TOKEN_XOR),
     (TOKEN_RIGHT_SHIFT_EQUAL, TOKEN_RIGHT_SHIFT), (TOKEN_LEFT_SHIFT_EQUAL, TOKEN_LEFT_SHIFT)]"

definition overloading_operator_literal :: "(token_kind \<times> string) list" where
  "overloading_operator_literal = [
     (TOKEN_PLUS, ''plus''), (TOKEN_MINUS, ''minus''), (TOKEN_STAR, ''star''),
     (TOKEN_SLASH, ''slash''), (TOKEN_PERCENT, ''percent''), (TOKEN_BANG, ''bang''),
     (TOKEN_NOT, ''not''), (TOKEN_EQUAL_EQUAL, ''eq_eq''), (TOKEN_BANG_EQUAL, ''not_eq''),
     (TOKEN_GREATER, ''gt''), (TOKEN_GREATER_EQUAL, ''gt_eq''), (TOKEN_SMALLER, ''lt''),
     (TOKEN_SMALLER_EQUAL, ''lt_eq''), (TOKEN_AND, ''and''), (TOKEN_OR, ''or''),
     (TOKEN_XOR, ''xor''), (TOKEN_AND_AND, ''and_and''), (TOKEN_OR_OR, ''or_or''),
     (TOKEN_RIGHT_SHIFT, ''rsh''), (TOKEN_LEFT_SHIFT, ''lsh''),
     (TOKEN_PLUS_PLUS, ''plus_plus''), (TOKEN_MINUS_MINUS, ''minus_minus'')]"

definition overloading_prefix_operators :: "token_kind list" where
  "overloading_prefix_operators = [
     TOKEN_NOT, TOKEN_BANG, TOKEN_MINUS, TOKEN_PLUS_PLUS, TOKEN_MINUS_MINUS]"

definition overloading_infix_operators :: "token_kind list" where
  "overloading_infix_operators = [
     TOKEN_PLUS, TOKEN_MINUS, TOKEN_STAR, TOKEN_SLASH, TOKEN_PERCENT, TOKEN_EQUAL_EQUAL,
     TOKEN_BANG_EQUAL, TOKEN_GREATER, TOKEN_GREATER_EQUAL, TOKEN_SMALLER, TOKEN_SMALLER_EQUAL,
     TOKEN_AND, TOKEN_OR, TOKEN_XOR, TOKEN_AND_AND, TOKEN_OR_OR, TOKEN_RIGHT_SHIFT,
     TOKEN_LEFT_SHIFT]"

definition overloading_postfix_operators :: "token_kind list" where
  "overloading_postfix_operators = [
     TOKEN_PLUS_PLUS, TOKEN_MINUS_MINUS]"

definition comparisons_operators :: "token_kind list" where
  "comparisons_operators = [
     TOKEN_EQUAL, TOKEN_EQUAL_EQUAL, TOKEN_BANG_EQUAL, TOKEN_GREATER, TOKEN_GREATER_EQUAL,
     TOKEN_SMALLER, TOKEN_SMALLER_EQUAL]"

text \<open>Operators made of two tokens, for the message about a space in the middle.\<close>

definition two_tokens_operators :: "two_tokens_operator list" where
  "two_tokens_operators = map (\<lambda>(f, s, b). \<lparr>first_op = f, second_op = s, both_op = b\<rparr>) [
     (TOKEN_PLUS, TOKEN_PLUS, TOKEN_PLUS_PLUS),
     (TOKEN_GREATER, TOKEN_GREATER, TOKEN_RIGHT_SHIFT),
     (TOKEN_SMALLER, TOKEN_SMALLER, TOKEN_LEFT_SHIFT),
     (TOKEN_EQUAL, TOKEN_EQUAL, TOKEN_EQUAL_EQUAL),
     (TOKEN_BANG, TOKEN_EQUAL, TOKEN_BANG_EQUAL),
     (TOKEN_GREATER, TOKEN_EQUAL, TOKEN_GREATER_EQUAL),
     (TOKEN_SMALLER, TOKEN_EQUAL, TOKEN_SMALLER_EQUAL),
     (TOKEN_PLUS, TOKEN_EQUAL, TOKEN_PLUS_EQUAL),
     (TOKEN_MINUS, TOKEN_EQUAL, TOKEN_MINUS_EQUAL),
     (TOKEN_STAR, TOKEN_EQUAL, TOKEN_STAR_EQUAL),
     (TOKEN_SLASH, TOKEN_EQUAL, TOKEN_SLASH_EQUAL),
     (TOKEN_PERCENT, TOKEN_EQUAL, TOKEN_PARCENT_EQUAL),
     (TOKEN_OR, TOKEN_EQUAL, TOKEN_OR_EQUAL), (TOKEN_AND, TOKEN_EQUAL, TOKEN_AND_EQUAL),
     (TOKEN_XOR, TOKEN_EQUAL, TOKEN_XOR_EQUAL)]"

subsection \<open>Predicates\<close>

definition is_supported_overloading_operator :: "token_kind \<Rightarrow> bool" where
  "is_supported_overloading_operator k \<longleftrightarrow> map_of overloading_operator_literal k \<noteq> None"

definition is_overloading_prefix_operator :: "token_kind \<Rightarrow> bool" where
  "is_overloading_prefix_operator k \<longleftrightarrow> contains overloading_prefix_operators k"

definition is_overloading_infix_operator :: "token_kind \<Rightarrow> bool" where
  "is_overloading_infix_operator k \<longleftrightarrow> contains overloading_infix_operators k"

definition is_overloading_postfix_operator :: "token_kind \<Rightarrow> bool" where
  "is_overloading_postfix_operator k \<longleftrightarrow> contains overloading_postfix_operators k"

definition is_assignments_operator_token :: "token \<Rightarrow> bool" where
  "is_assignments_operator_token t \<longleftrightarrow> contains assignments_operators (kind t)"

definition is_unary_operator_token :: "token \<Rightarrow> bool" where
  "is_unary_operator_token t \<longleftrightarrow> contains unary_operators (kind t)"

definition is_float_number_token :: "token \<Rightarrow> bool" where
  "is_float_number_token t \<longleftrightarrow>
     kind t = TOKEN_FLOAT \<or> kind t = TOKEN_FLOAT32 \<or> kind t = TOKEN_FLOAT64"

lemmas operator_table_defs =
  unary_operators_def assignments_operators_def assignments_binary_operators_def
  assignments_bitwise_operators_def overloading_operator_literal_def
  overloading_prefix_operators_def overloading_infix_operators_def
  overloading_postfix_operators_def comparisons_operators_def two_tokens_operators_def

lemmas operator_predicate_defs =
  is_supported_overloading_operator_def is_overloading_prefix_operator_def
  is_overloading_infix_operator_def is_overloading_postfix_operator_def
  is_assignments_operator_token_def is_unary_operator_token_def is_float_number_token_def

end
