(* ===== verification/Tokenizer.thy ===== *)
theory Tokenizer
  imports Tokens
begin

text \<open>
  \<open>include/amun_tokenizer.hpp\<close> and \<open>src/amun_tokenizer.cpp\<close>: the scanner, one definition per
  member function.  The state is the record \<open>tokenizer\<close>, passed and returned; a function that may
  read the source out of range or throw returns an \<open>option\<close> (\<open>None\<close> is undefined behaviour, an
  exception, or a loop that does not end), and the loops are \<^theory_text>\<open>partial_function\<close>s, so
  that definedness and termination are theorems (theory \<open>Tokenizer_Safety\<close>).  \<open>size_t\<close> fields
  are \<open>nat\<close>; lines and columns (\<open>int\<close>) are unbounded \<open>int\<close>s, which is what the code computes on a
  source shorter than \<open>2^31\<close> bytes.  \<open>char\<close> is signed, as on x86-64.
\<close>

subsection \<open>State\<close>

record tokenizer =
  source_code :: string
  source_file_id :: int
  source_code_length :: nat
  start_position :: nat
  current_position :: nat
  tline_number :: int
  tcolumn_start :: int
  column_current :: int

definition new_tokenizer :: "int \<Rightarrow> string \<Rightarrow> tokenizer" where
  "new_tokenizer fid source = \<lparr>source_code = source, source_file_id = fid,
     source_code_length = length source, start_position = 0, current_position = 0,
     tline_number = 1, tcolumn_start = 0, column_current = 0\<rparr>"

definition get_source_file_id :: "tokenizer \<Rightarrow> int" where
  "get_source_file_id t = source_file_id t"

abbreviation nul :: char where
  "nul \<equiv> CHR 0x00"

abbreviation newline :: char where
  "newline \<equiv> CHR 0x0A"

text \<open>The \<open>char\<close> \<open>-1\<close>, which \<open>consume_one_character\<close> returns for an invalid escape.\<close>

abbreviation minus_one_char :: char where
  "minus_one_char \<equiv> CHR 0xFF"

subsection \<open>Reading the source\<close>

text \<open>\<open>std::string::operator[]\<close>: the terminating null at \<open>size()\<close>, undefined beyond.\<close>

definition char_at :: "string \<Rightarrow> nat \<Rightarrow> char option" where
  "char_at s i = (if i < length s then Some (s ! i) else if i = length s then Some nul else None)"

definition is_source_available :: "tokenizer \<Rightarrow> bool" where
  "is_source_available t \<longleftrightarrow> current_position t < source_code_length t"

definition peek :: "tokenizer \<Rightarrow> char option" where
  "peek t = char_at (source_code t) (current_position t)"

definition peek_next :: "tokenizer \<Rightarrow> char option" where
  "peek_next t = (if current_position t + 1 < source_code_length t
                  then char_at (source_code t) (current_position t + 1) else Some nul)"

definition advance :: "tokenizer \<Rightarrow> (char \<times> tokenizer) option" where
  "advance t = (if is_source_available t then do {
       let t = t\<lparr>current_position := current_position t + 1,
                 column_current := column_current t + 1\<rparr>;
       c \<leftarrow> char_at (source_code t) (current_position t - 1);
       Some (c, t)
     } else Some (nul, t))"

definition match_char :: "char \<Rightarrow> tokenizer \<Rightarrow> (bool \<times> tokenizer) option" where
  "match_char current t = (if \<not> is_source_available t then Some (False, t) else do {
       c \<leftarrow> peek t;
       if current \<noteq> c then Some (False, t)
       else Some (True, t\<lparr>current_position := current_position t + 1,
                          column_current := column_current t + 1\<rparr>)
     })"

definition match_two :: "char \<Rightarrow> char \<Rightarrow> tokenizer \<Rightarrow> (bool \<times> tokenizer) option" where
  "match_two current next t = do {
       c \<leftarrow> peek t;
       d \<leftarrow> peek_next t;
       if current = c \<and> next = d
       then Some (True, t\<lparr>current_position := current_position t + 2,
                          column_current := column_current t + 2\<rparr>)
       else Some (False, t)
     }"

text \<open>The short-circuit condition \<open>match(a) && match(b)\<close>; the first match is not undone.\<close>

definition match_and :: "char \<Rightarrow> char \<Rightarrow> tokenizer \<Rightarrow> (bool \<times> tokenizer) option" where
  "match_and a b t = do { (m, t) \<leftarrow> match_char a t; if m then match_char b t else Some (False, t) }"

subsection \<open>Character classes\<close>

definition is_digit :: "char \<Rightarrow> bool" where
  "is_digit c \<longleftrightarrow> schar c \<le> schar (CHR ''9'') \<and> schar (CHR ''0'') \<le> schar c"

definition is_hex_digit :: "char \<Rightarrow> bool" where
  "is_hex_digit c \<longleftrightarrow> is_digit c \<or>
     (schar c \<le> schar (CHR ''F'') \<and> schar (CHR ''A'') \<le> schar c) \<or>
     (schar c \<le> schar (CHR ''f'') \<and> schar (CHR ''a'') \<le> schar c)"

definition is_binary_digit :: "char \<Rightarrow> bool" where
  "is_binary_digit c \<longleftrightarrow> c = CHR ''1'' \<or> c = CHR ''0''"

definition is_octal_digit :: "char \<Rightarrow> bool" where
  "is_octal_digit c \<longleftrightarrow> schar c \<le> schar (CHR ''7'') \<and> schar (CHR ''0'') \<le> schar c"

definition is_alpha :: "char \<Rightarrow> bool" where
  "is_alpha c \<longleftrightarrow> (if schar c \<le> schar (CHR ''z'') \<and> schar (CHR ''a'') \<le> schar c then True
     else schar c \<le> schar (CHR ''Z'') \<and> schar (CHR ''A'') \<le> schar c)"

definition is_alpha_num :: "char \<Rightarrow> bool" where
  "is_alpha_num c \<longleftrightarrow> is_alpha c \<or> is_digit c"

definition is_underscore :: "char \<Rightarrow> bool" where
  "is_underscore c \<longleftrightarrow> c = CHR ''_''"

lemmas char_class_defs [char_simps] =
  is_digit_def is_hex_digit_def is_binary_digit_def is_octal_digit_def is_alpha_def
  is_alpha_num_def is_underscore_def schar_def

text \<open>\<open>hex_to_int\<close> (\<open>int8_t\<close>): the letters are read without the \<open>+ 10\<close>, as in the code.\<close>

definition hex_to_int :: "char \<Rightarrow> int" where
  "hex_to_int c =
     (if schar c \<le> schar (CHR ''9'') then schar c - schar (CHR ''0'')
      else if schar c \<le> schar (CHR ''F'') then schar c - schar (CHR ''A'')
      else schar c - schar (CHR ''a''))"

definition hex_to_decimal :: "string \<Rightarrow> int" where
  "hex_to_decimal hex = (case stol 16 hex of Some v \<Rightarrow> v | None \<Rightarrow> -1)"

definition binary_to_decimal :: "string \<Rightarrow> int" where
  "binary_to_decimal binary = (case stol 2 binary of Some v \<Rightarrow> v | None \<Rightarrow> -1)"

definition octal_to_decimal :: "string \<Rightarrow> int" where
  "octal_to_decimal octal = (case stol 8 octal of Some v \<Rightarrow> v | None \<Rightarrow> -1)"

subsection \<open>Building tokens\<close>

definition build_token_span :: "tokenizer \<Rightarrow> token_span" where
  "build_token_span t = \<lparr>file_id = source_file_id t, line_number = tline_number t,
     column_start = tcolumn_start t, column_end = column_current t\<rparr>"

definition build_token_lit :: "token_kind \<Rightarrow> string \<Rightarrow> tokenizer \<Rightarrow> token" where
  "build_token_lit k lit t = \<lparr>kind = k, position = build_token_span t, literal = lit\<rparr>"

definition build_token :: "token_kind \<Rightarrow> tokenizer \<Rightarrow> token" where
  "build_token k t = build_token_lit k '''' t"

subsection \<open>Keywords\<close>

text \<open>The C string functions: \<open>strlen\<close>, and the macros \<open>str2Equals\<close> to \<open>str11Equals\<close>.\<close>

definition strlen :: "string \<Rightarrow> nat" where
  "strlen s = length (takeWhile (\<lambda>c. c \<noteq> nul) s)"

definition str_equals :: "nat \<Rightarrow> string \<Rightarrow> string \<Rightarrow> bool" where
  "str_equals n first other \<longleftrightarrow> take n first = take n other"

definition resolve_keyword_token_kind :: "string \<Rightarrow> token_kind" where
  "resolve_keyword_token_kind k = (let n = strlen k in
     if n = 2 then
       (if str_equals 2 ''if'' k then TOKEN_IF else TOKEN_IDENTIFIER)
     else if n = 3 then
       (if str_equals 3 ''fun'' k then TOKEN_FUN
        else if str_equals 3 ''var'' k then TOKEN_VAR
        else if str_equals 3 ''for'' k then TOKEN_FOR
        else TOKEN_IDENTIFIER)
     else if n = 4 then
       (if str_equals 4 ''load'' k then TOKEN_LOAD
        else if str_equals 4 ''null'' k then TOKEN_NULL
        else if str_equals 4 ''true'' k then TOKEN_TRUE
        else if str_equals 4 ''cast'' k then TOKEN_CAST
        else if str_equals 4 ''else'' k then TOKEN_ELSE
        else if str_equals 4 ''enum'' k then TOKEN_ENUM
        else if str_equals 4 ''type'' k then TOKEN_TYPE
        else TOKEN_IDENTIFIER)
     else if n = 5 then
       (if str_equals 5 ''while'' k then TOKEN_WHILE
        else if str_equals 5 ''defer'' k then TOKEN_DEFER
        else if str_equals 5 ''false'' k then TOKEN_FALSE
        else if str_equals 5 ''break'' k then TOKEN_BREAK
        else if str_equals 5 ''const'' k then TOKEN_CONST
        else TOKEN_IDENTIFIER)
     else if n = 6 then
       (if str_equals 6 ''import'' k then TOKEN_IMPORT
        else if str_equals 6 ''struct'' k then TOKEN_STRUCT
        else if str_equals 6 ''return'' k then TOKEN_RETURN
        else if str_equals 6 ''switch'' k then TOKEN_SWITCH
        else TOKEN_IDENTIFIER)
     else if n = 7 then
       (if str_equals 7 ''varargs'' k then TOKEN_VARARGS else TOKEN_IDENTIFIER)
     else if n = 8 then
       (if str_equals 8 ''continue'' k then TOKEN_CONTINUE
        else if str_equals 8 ''operator'' k then TOKEN_OPERATOR
        else TOKEN_IDENTIFIER)
     else if n = 9 then
       (if str_equals 9 ''type_size'' k then TOKEN_TYPE_SIZE
        else if str_equals 9 ''undefined'' k then TOKEN_UNDEFINED
        else TOKEN_IDENTIFIER)
     else if n = 10 then
       (if str_equals 10 ''value_size'' k then TOKEN_VALUE_SIZE else TOKEN_IDENTIFIER)
     else if n = 11 then
       (if str_equals 11 ''type_allign'' k then TOKEN_TYPE_ALLIGN else TOKEN_IDENTIFIER)
     else TOKEN_IDENTIFIER)"

subsection \<open>White space and comments\<close>

partial_function (option) skip_single_line_comment :: "tokenizer \<Rightarrow> tokenizer option" where
  "skip_single_line_comment t = (if \<not> is_source_available t then Some t else do {
       c \<leftarrow> peek t;
       if c = newline then Some t
       else do { (_, t) \<leftarrow> advance t; skip_single_line_comment t }
     })"

text \<open>\<open>line_number++; column_current = 0\<close> when the next character is a newline.\<close>

definition count_newline :: "tokenizer \<Rightarrow> tokenizer option" where
  "count_newline t = do {
       c \<leftarrow> peek t;
       Some (if c = newline then t\<lparr>tline_number := tline_number t + 1, column_current := 0\<rparr> else t)
     }"

partial_function (option) multi_lines_loop :: "tokenizer \<Rightarrow> tokenizer option" where
  "multi_lines_loop t = (if \<not> is_source_available t then Some t else do {
       c \<leftarrow> peek t;
       d \<leftarrow> peek_next t;
       if c \<noteq> CHR ''*'' \<or> d \<noteq> CHR ''/''
       then do { (_, t) \<leftarrow> advance t; t \<leftarrow> count_newline t; multi_lines_loop t }
       else Some t
     })"

definition skip_multi_lines_comment :: "tokenizer \<Rightarrow> tokenizer option" where
  "skip_multi_lines_comment t = do {
       t \<leftarrow> multi_lines_loop t;
       (_, t) \<leftarrow> advance t;
       (_, t) \<leftarrow> advance t;
       count_newline t
     }"

partial_function (option) skip_whitespaces :: "tokenizer \<Rightarrow> tokenizer option" where
  "skip_whitespaces t = (if \<not> is_source_available t then Some t else do {
       c \<leftarrow> peek t;
       if c = CHR '' '' \<or> c = CHR 0x0D \<or> c = CHR 0x09 then
         do { (_, t) \<leftarrow> advance t; skip_whitespaces t }
       else if c = newline then do {
         (_, t) \<leftarrow> advance (t\<lparr>tline_number := tline_number t + 1\<rparr>);
         skip_whitespaces (t\<lparr>column_current := 0\<rparr>)
       }
       else if c = CHR ''/'' then do {
         d \<leftarrow> peek_next t;
         if d = CHR ''/'' \<or> d = CHR ''*'' then do {
           (_, t) \<leftarrow> advance t;
           (m, t) \<leftarrow> match_char (CHR ''/'') t;
           if m then do { t \<leftarrow> skip_single_line_comment t; skip_whitespaces t }
           else do {
             (m, t) \<leftarrow> match_char (CHR ''*'') t;
             if m then do { t \<leftarrow> skip_multi_lines_comment t; skip_whitespaces t }
             else skip_whitespaces t
           }
         }
         else Some t
       }
       else Some t
     })"

subsection \<open>Literals\<close>

text \<open>\<open>while (p(peek())) advance();\<close>, and the same loop setting \<open>has_digits\<close>.\<close>

partial_function (option) advance_while :: "(char \<Rightarrow> bool) \<Rightarrow> tokenizer \<Rightarrow> tokenizer option" where
  "advance_while p t = do {
       c \<leftarrow> peek t;
       if p c then do { (_, t) \<leftarrow> advance t; advance_while p t } else Some t
     }"

partial_function (option) advance_digits
  :: "(char \<Rightarrow> bool) \<Rightarrow> bool \<Rightarrow> tokenizer \<Rightarrow> (bool \<times> tokenizer) option" where
  "advance_digits p has_digits t = do {
       c \<leftarrow> peek t;
       if p c then do { (_, t) \<leftarrow> advance t; advance_digits p True t }
       else Some (has_digits, t)
     }"

definition consume_symbol :: "tokenizer \<Rightarrow> (token \<times> tokenizer) option" where
  "consume_symbol t = do {
       t \<leftarrow> advance_while (\<lambda>c. is_alpha_num c \<or> c = CHR ''_'') t;
       lit \<leftarrow> substr (source_code t) (start_position t - 1)
                (current_position t - start_position t + 1);
       Some (build_token_lit (resolve_keyword_token_kind lit) lit t, t)
     }"

text \<open>
  The suffix part of \<open>consume_number\<close>: \<open>Inl\<close> is the early return of an invalid token, \<open>Inr\<close> the
  token kind so far.
\<close>

definition signed_suffix :: "token_kind \<Rightarrow> tokenizer \<Rightarrow> ((token + token_kind) \<times> tokenizer) option" where
  "signed_suffix k t = do {
       (m, t) \<leftarrow> match_char (CHR ''1'') t;
       if m then do {
         (m, t) \<leftarrow> match_char (CHR ''6'') t;
         Some (Inr (if m then TOKEN_INT16 else TOKEN_INT1), t)
       } else do {
       (m, t) \<leftarrow> match_char (CHR ''8'') t;
       if m then Some (Inr TOKEN_INT8, t) else do {
       (m, t) \<leftarrow> match_and (CHR ''3'') (CHR ''2'') t;
       if m then Some (Inr TOKEN_INT32, t) else do {
       (m, t) \<leftarrow> match_and (CHR ''6'') (CHR ''4'') t;
       if m then Some (Inr TOKEN_INT64, t)
       else Some (Inl (build_token_lit TOKEN_INVALID
         ''invalid width for singed integer literal, expect 8, 16, 32 or 64'' t), t)
       }}}
     }"

definition unsigned_suffix :: "token_kind \<Rightarrow> tokenizer \<Rightarrow> ((token + token_kind) \<times> tokenizer) option" where
  "unsigned_suffix k t = do {
       (m, t) \<leftarrow> match_and (CHR ''1'') (CHR ''6'') t;
       if m then Some (Inr TOKEN_UINT16, t) else do {
       (m, t) \<leftarrow> match_char (CHR ''8'') t;
       if m then Some (Inr TOKEN_UINT8, t) else do {
       (m, t) \<leftarrow> match_and (CHR ''3'') (CHR ''2'') t;
       if m then Some (Inr TOKEN_UINT32, t) else do {
       (m, t) \<leftarrow> match_and (CHR ''6'') (CHR ''4'') t;
       if m then Some (Inr TOKEN_UINT64, t)
       else Some (Inl (build_token_lit TOKEN_INVALID
         ''invalid width for unsinged integer literal, expect 8, 16, 32 or 64'' t), t)
       }}}
     }"

definition float_suffix :: "token_kind \<Rightarrow> tokenizer \<Rightarrow> ((token + token_kind) \<times> tokenizer) option" where
  "float_suffix k t = do {
       (m, t) \<leftarrow> match_and (CHR ''3'') (CHR ''2'') t;
       if m then Some (Inr TOKEN_FLOAT32, t) else do {
       (m, t) \<leftarrow> match_and (CHR ''6'') (CHR ''4'') t;
       if m then Some (Inr TOKEN_FLOAT64, t)
       else Some (Inl (build_token_lit TOKEN_INVALID
         ''invalid width for floating point literal, expect 32 or 64'' t), t)
       }
     }"

definition unsigned_or_float_suffix
  :: "token_kind \<Rightarrow> tokenizer \<Rightarrow> ((token + token_kind) \<times> tokenizer) option" where
  "unsigned_or_float_suffix k t = do {
       (m, t) \<leftarrow> match_char (CHR ''u'') t;
       if m then unsigned_suffix k t else do {
       (m, t) \<leftarrow> match_char (CHR ''f'') t;
       if m then float_suffix k t else do {
       c \<leftarrow> peek t;
       if is_alpha c
       then Some (Inl (build_token_lit TOKEN_INVALID
         ''invalid suffix for number literal, expect i, u or f'' t), t)
       else Some (Inr k, t)
       }}
     }"

definition number_suffix :: "token_kind \<Rightarrow> tokenizer \<Rightarrow> ((token + token_kind) \<times> tokenizer) option" where
  "number_suffix k t = do {
       (m, t) \<leftarrow> match_char (CHR ''i'') t;
       (r, t) \<leftarrow> (if m then signed_suffix k t else Some (Inr k, t));
       case r of Inl tok \<Rightarrow> Some (Inl tok, t) | Inr k \<Rightarrow> unsigned_or_float_suffix k t
     }"

definition consume_number :: "tokenizer \<Rightarrow> (token \<times> tokenizer) option" where
  "consume_number t = do {
       t \<leftarrow> advance_while (\<lambda>c. is_digit c \<or> is_underscore c) t;
       c \<leftarrow> peek t;
       d \<leftarrow> peek_next t;
       (k, t) \<leftarrow> (if c = CHR ''.'' \<and> is_digit d then do {
           (_, t) \<leftarrow> advance t;
           t \<leftarrow> advance_while (\<lambda>c. is_digit c \<or> is_underscore c) t;
           Some (TOKEN_FLOAT, t)
         } else Some (TOKEN_INT, t));
       let number_end_position = current_position t;
       (r, t) \<leftarrow> number_suffix k t;
       case r of Inl tok \<Rightarrow> Some (tok, t) | Inr k \<Rightarrow> do {
         lit \<leftarrow> substr (source_code t) (start_position t - 1)
                  (number_end_position - start_position t + 1);
         Some (build_token_lit k (erase_char (CHR ''_'') lit) t, t)
       }
     }"

text \<open>The common shape of the hexadecimal, binary and octal literals.\<close>

definition consume_base_number
  :: "(char \<Rightarrow> bool) \<Rightarrow> (string \<Rightarrow> int) \<Rightarrow> string \<Rightarrow> tokenizer \<Rightarrow> (token \<times> tokenizer) option" where
  "consume_base_number is_base_digit to_decimal too_large t = do {
       (has_digits, t) \<leftarrow> advance_digits (\<lambda>c. is_base_digit c \<or> is_underscore c) False t;
       if \<not> has_digits
       then Some (build_token_lit TOKEN_INVALID ''Missing digits after the integer base prefix'' t, t)
       else do {
         lit \<leftarrow> substr (source_code t) (start_position t + 1)
                  (current_position t - start_position t - 1);
         let decimal_value = to_decimal (erase_char (CHR ''_'') lit);
         Some (if decimal_value = -1 then build_token_lit TOKEN_INVALID too_large t
               else build_token_lit TOKEN_INT (to_string decimal_value) t, t)
       }
     }"

definition consume_hex_number :: "tokenizer \<Rightarrow> (token \<times> tokenizer) option" where
  "consume_hex_number =
     consume_base_number is_hex_digit hex_to_decimal ''Hex integer literal is too large''"

definition consume_binary_number :: "tokenizer \<Rightarrow> (token \<times> tokenizer) option" where
  "consume_binary_number =
     consume_base_number is_binary_digit binary_to_decimal ''binary integer literal is too large''"

definition consume_octal_number :: "tokenizer \<Rightarrow> (token \<times> tokenizer) option" where
  "consume_octal_number =
     consume_base_number is_octal_digit octal_to_decimal ''octal integer literal is too large''"

text \<open>The escapes of one character that \<open>consume_one_character\<close> knows.\<close>

definition simple_escapes :: "(char \<times> char) list" where
  "simple_escapes = [
     (CHR ''a'', CHR 0x07), (CHR ''b'', CHR 0x08), (CHR ''f'', CHR 0x0C), (CHR ''n'', CHR 0x0A),
     (CHR ''r'', CHR 0x0D), (CHR ''t'', CHR 0x09), (CHR ''v'', CHR 0x0B), (CHR ''0'', CHR 0x00),
     (CHR 0x27, CHR 0x27), (CHR 0x5C, CHR 0x5C), (CHR 0x22, CHR 0x22)]"

definition consume_one_character :: "tokenizer \<Rightarrow> (char \<times> tokenizer) option" where
  "consume_one_character t = do {
       (c, t) \<leftarrow> advance t;
       if c \<noteq> CHR 0x5C then Some (c, t) else do {
         escape \<leftarrow> peek t;
         case map_of simple_escapes escape of
           Some c \<Rightarrow> do { (_, t) \<leftarrow> advance t; Some (c, t) }
         | None \<Rightarrow>
             if escape = CHR ''x'' then do {
               (_, t) \<leftarrow> advance t;
               (first_digit, t) \<leftarrow> advance t;
               (second_digit, t) \<leftarrow> advance t;
               if is_digit first_digit \<and> is_digit second_digit
               then Some (char_of_int (hex_to_int first_digit * 16 + hex_to_int second_digit), t)
               else Some (minus_one_char, t)
             }
             else Some (minus_one_char, t)
       }
     }"

text \<open>The loop of \<open>consume_string\<close>: \<open>None\<close> in the result is the early return on \<open>-1\<close>.\<close>

partial_function (option) string_loop
  :: "string \<Rightarrow> tokenizer \<Rightarrow> (string option \<times> tokenizer) option" where
  "string_loop stream t = (if \<not> is_source_available t then Some (Some stream, t) else do {
       c \<leftarrow> peek t;
       if c = CHR 0x22 then Some (Some stream, t) else do {
         (c, t) \<leftarrow> consume_one_character t;
         if c = minus_one_char then Some (None, t) else string_loop (stream @ [c]) t
       }
     })"

definition consume_string :: "tokenizer \<Rightarrow> (token \<times> tokenizer) option" where
  "consume_string t = do {
       (r, t) \<leftarrow> string_loop [] t;
       case r of
         None \<Rightarrow> Some (build_token_lit TOKEN_INVALID ''invalid character'' t, t)
       | Some stream \<Rightarrow>
           if \<not> is_source_available t
           then Some (build_token_lit TOKEN_INVALID ''unterminated double quote string'' t, t)
           else do { (_, t) \<leftarrow> advance t; Some (build_token_lit TOKEN_STRING stream t, t) }
     }"

definition consume_character :: "tokenizer \<Rightarrow> (token \<times> tokenizer) option" where
  "consume_character t = do {
       (c, t) \<leftarrow> consume_one_character t;
       if c = minus_one_char then Some (build_token_lit TOKEN_INVALID ''invalid character'' t, t)
       else if c = CHR 0x27 then Some (build_token_lit TOKEN_INVALID ''empty character literal'' t, t)
       else do {
         d \<leftarrow> peek t;
         if d \<noteq> CHR 0x27
         then Some (build_token_lit TOKEN_INVALID ''unterminated single quote character'' t, t)
         else do { (_, t) \<leftarrow> advance t; Some (build_token_lit TOKEN_CHARACTER [c] t, t) }
       }
     }"

subsection \<open>Scanning\<close>

text \<open>The characters that are a token on their own.\<close>

definition one_character_tokens :: "(char \<times> token_kind) list" where
  "one_character_tokens = [
     (CHR ''('', TOKEN_OPEN_PAREN), (CHR '')'', TOKEN_CLOSE_PAREN),
     (CHR ''['', TOKEN_OPEN_BRACKET), (CHR '']'', TOKEN_CLOSE_BRACKET),
     (CHR ''{'', TOKEN_OPEN_BRACE), (CHR ''}'', TOKEN_CLOSE_BRACE),
     (CHR '','', TOKEN_COMMA), (CHR '';'', TOKEN_SEMICOLON),
     (CHR ''~'', TOKEN_NOT), (CHR ''@'', TOKEN_AT)]"

text \<open>Characters with one possible continuation: (first, second, both, first alone).\<close>

definition two_character_tokens :: "(char \<times> char \<times> token_kind \<times> token_kind) list" where
  "two_character_tokens = [
     (CHR ''.'', CHR ''.'', TOKEN_DOT_DOT, TOKEN_DOT),
     (CHR '':'', CHR '':'', TOKEN_COLON_COLON, TOKEN_COLON),
     (CHR ''='', CHR ''='', TOKEN_EQUAL_EQUAL, TOKEN_EQUAL),
     (CHR ''!'', CHR ''='', TOKEN_BANG_EQUAL, TOKEN_BANG),
     (CHR ''*'', CHR ''='', TOKEN_STAR_EQUAL, TOKEN_STAR),
     (CHR ''/'', CHR ''='', TOKEN_SLASH_EQUAL, TOKEN_SLASH),
     (CHR ''%'', CHR ''='', TOKEN_PARCENT_EQUAL, TOKEN_PERCENT),
     (CHR ''^'', CHR ''='', TOKEN_XOR_EQUAL, TOKEN_XOR)]"

text \<open>\<open>return build_token(k)\<close>.\<close>

definition emit :: "token_kind \<Rightarrow> tokenizer \<Rightarrow> (token \<times> tokenizer) option" where
  "emit k t = Some (build_token k t, t)"

definition scan_operator :: "char \<Rightarrow> tokenizer \<Rightarrow> (token \<times> tokenizer) option" where
  "scan_operator c t =
     (if c = CHR ''+'' then do {
        (m, t) \<leftarrow> match_char (CHR ''='') t;
        if m then emit TOKEN_PLUS_EQUAL t else do {
        (m, t) \<leftarrow> match_char (CHR ''+'') t;
        if m then emit TOKEN_PLUS_PLUS t else emit TOKEN_PLUS t }}
      else if c = CHR ''-'' then do {
        (m, t) \<leftarrow> match_char (CHR ''='') t;
        if m then emit TOKEN_MINUS_EQUAL t else do {
        (m, t) \<leftarrow> match_char (CHR ''-'') t;
        if m then do {
          (m, t) \<leftarrow> match_char (CHR ''-'') t;
          if m then emit TOKEN_UNDEFINED t else emit TOKEN_MINUS_MINUS t }
        else do {
        (m, t) \<leftarrow> match_char (CHR ''>'') t;
        if m then emit TOKEN_RIGHT_ARROW t else emit TOKEN_MINUS t }}}
      else if c = CHR ''>'' then do {
        (m, t) \<leftarrow> match_char (CHR ''='') t;
        if m then emit TOKEN_GREATER_EQUAL t else do {
        (m, t) \<leftarrow> match_two (CHR ''>'') (CHR ''='') t;
        if m then emit TOKEN_RIGHT_SHIFT_EQUAL t else emit TOKEN_GREATER t }}
      else if c = CHR ''<'' then do {
        (m, t) \<leftarrow> match_char (CHR ''='') t;
        if m then emit TOKEN_SMALLER_EQUAL t else do {
        (m, t) \<leftarrow> match_char (CHR ''<'') t;
        if m then do {
          (m, t) \<leftarrow> match_char (CHR ''='') t;
          if m then emit TOKEN_LEFT_SHIFT_EQUAL t else emit TOKEN_LEFT_SHIFT t }
        else emit TOKEN_SMALLER t }}
      else if c = CHR ''|'' then do {
        (m, t) \<leftarrow> match_char (CHR ''='') t;
        if m then emit TOKEN_OR_EQUAL t else do {
        (m, t) \<leftarrow> match_char (CHR ''|'') t;
        if m then emit TOKEN_OR_OR t else emit TOKEN_OR t }}
      else do {
        (m, t) \<leftarrow> match_char (CHR ''='') t;
        if m then emit TOKEN_AND_EQUAL t else do {
        (m, t) \<leftarrow> match_char (CHR ''&'') t;
        if m then emit TOKEN_AND_AND t else emit TOKEN_AND t }})"

definition scan_zero :: "tokenizer \<Rightarrow> (token \<times> tokenizer) option" where
  "scan_zero t = do {
       (m, t) \<leftarrow> match_char (CHR ''x'') t;
       if m then consume_hex_number t else do {
       (m, t) \<leftarrow> match_char (CHR ''b'') t;
       if m then consume_binary_number t else do {
       (m, t) \<leftarrow> match_char (CHR ''o'') t;
       if m then consume_octal_number t else consume_number t }}
     }"

text \<open>The \<open>switch (c)\<close> of \<open>scan_next_token\<close>.\<close>

definition scan_token_from :: "char \<Rightarrow> tokenizer \<Rightarrow> (token \<times> tokenizer) option" where
  "scan_token_from c t =
     (case map_of one_character_tokens c of Some k \<Rightarrow> emit k t
      | None \<Rightarrow>
     (case map_of two_character_tokens c of
        Some (second, both, single) \<Rightarrow> do {
          (m, t) \<leftarrow> match_char second t;
          emit (if m then both else single) t }
      | None \<Rightarrow>
      if contains ''+-><|&'' c then scan_operator c t
      else if is_alpha c \<or> c = CHR ''_'' then consume_symbol t
      else if c = CHR 0x22 then consume_string t
      else if c = CHR 0x27 then consume_character t
      else if c = CHR ''0'' then scan_zero t
      else if is_digit c then consume_number t
      else if c = nul then emit TOKEN_END_OF_FILE t
      else Some (build_token_lit TOKEN_INVALID ''unexpected character'' t, t)))"

text \<open>
  The position fix-up after the first \<open>advance\<close>: at the end of the source it moves the position
  one past it, although \<open>advance\<close> did not.
\<close>

definition start_token :: "tokenizer \<Rightarrow> (char \<times> tokenizer) option" where
  "start_token t = do {
       let t = t\<lparr>start_position := current_position t, tcolumn_start := column_current t\<rparr>;
       (c, t) \<leftarrow> advance t;
       let t = t\<lparr>start_position := start_position t + 1\<rparr>;
       let t = t\<lparr>current_position := start_position t\<rparr>;
       let t = t\<lparr>tcolumn_start := tcolumn_start t + 1\<rparr>;
       let t = t\<lparr>column_current := tcolumn_start t\<rparr>;
       Some (c, t)
     }"

definition scan_next_token :: "tokenizer \<Rightarrow> (token \<times> tokenizer) option" where
  "scan_next_token t = do {
       t \<leftarrow> skip_whitespaces t;
       (c, t) \<leftarrow> start_token t;
       scan_token_from c t
     }"

partial_function (option) scan_tokens_loop
  :: "token list \<Rightarrow> tokenizer \<Rightarrow> (token list \<times> tokenizer) option" where
  "scan_tokens_loop tokens t = (if \<not> is_source_available t then Some (tokens, t) else do {
       (tok, t) \<leftarrow> scan_next_token t;
       scan_tokens_loop (tokens @ [tok]) t
     })"

definition scan_all_tokens :: "tokenizer \<Rightarrow> (token list \<times> tokenizer) option" where
  "scan_all_tokens t = do {
       (tokens, t) \<leftarrow> scan_tokens_loop [] t;
       Some (tokens @ [build_token TOKEN_END_OF_FILE t], t)
     }"

text \<open>The loops evaluate by their equations.\<close>

lemmas loop_simps [code] =
  skip_single_line_comment.simps multi_lines_loop.simps skip_whitespaces.simps
  advance_while.simps advance_digits.simps string_loop.simps scan_tokens_loop.simps

end
