(* ===== verification/Tokenizer_Safety.thy ===== *)
theory Tokenizer_Safety
  imports Tokenizer
begin

text \<open>
  Memory safety and termination of the tokenizer.  \<open>tz_ok\<close> is the invariant of the state (the
  stored length is the length of the source), \<open>tz_in\<close> the precondition of the reading functions
  (the position is within the source), \<open>tz_from t0 t\<close> the frame of one token: from \<open>t0\<close> to \<open>t\<close> only
  the position and the current column moved, by the same amount.
\<close>

subsection \<open>Invariants\<close>

definition tz_ok :: "tokenizer \<Rightarrow> bool" where
  "tz_ok t \<longleftrightarrow> source_code_length t = length (source_code t)"

definition tz_in :: "tokenizer \<Rightarrow> bool" where
  "tz_in t \<longleftrightarrow> tz_ok t \<and> current_position t \<le> length (source_code t)"

definition same_source :: "tokenizer \<Rightarrow> tokenizer \<Rightarrow> bool" where
  "same_source t0 t \<longleftrightarrow> source_code t = source_code t0 \<and> source_file_id t = source_file_id t0
     \<and> source_code_length t = source_code_length t0"

definition tz_from :: "tokenizer \<Rightarrow> tokenizer \<Rightarrow> bool" where
  "tz_from t0 t \<longleftrightarrow> tz_in t \<and> same_source t0 t \<and> start_position t = start_position t0
     \<and> tline_number t = tline_number t0 \<and> tcolumn_start t = tcolumn_start t0
     \<and> current_position t0 \<le> current_position t
     \<and> column_current t - column_current t0
       = int (current_position t) - int (current_position t0)"

definition tz_after :: "tokenizer \<Rightarrow> tokenizer \<Rightarrow> bool" where
  "tz_after t0 t \<longleftrightarrow> tz_in t \<and> same_source t0 t
     \<and> current_position t0 \<le> current_position t \<and> tline_number t0 \<le> tline_number t"

text \<open>The character under the cursor, and the cursor moved over it.\<close>

definition cur :: "tokenizer \<Rightarrow> char" where
  "cur t = (if current_position t < length (source_code t)
            then source_code t ! current_position t else nul)"

definition bump :: "tokenizer \<Rightarrow> tokenizer" where
  "bump t = t\<lparr>current_position := current_position t + 1, column_current := column_current t + 1\<rparr>"

lemmas tz_defs = tz_ok_def tz_in_def same_source_def tz_from_def tz_after_def

lemma tz_from_refl: "tz_in t \<Longrightarrow> tz_from t t"
  by (simp add: tz_defs)

lemma tz_from_trans: "tz_from a b \<Longrightarrow> tz_from b c \<Longrightarrow> tz_from a c"
  by (auto simp: tz_defs)

lemma tz_after_refl: "tz_in t \<Longrightarrow> tz_after t t"
  by (simp add: tz_defs)

lemma tz_after_trans: "tz_after a b \<Longrightarrow> tz_after b c \<Longrightarrow> tz_after a c"
  by (auto simp: tz_defs)

lemma tz_from_after: "tz_from a b \<Longrightarrow> tz_after a b"
  by (auto simp: tz_defs)

lemma tz_from_in: "tz_from a b \<Longrightarrow> tz_in b"
  by (simp add: tz_from_def)

lemma tz_after_in: "tz_after a b \<Longrightarrow> tz_in b"
  by (simp add: tz_after_def)

lemma tz_from_bump: "tz_from t0 t \<Longrightarrow> is_source_available t \<Longrightarrow> tz_from t0 (bump t)"
  by (auto simp: tz_defs bump_def is_source_available_def)

lemma tz_in_bump: "tz_in t \<Longrightarrow> is_source_available t \<Longrightarrow> tz_in (bump t)"
  by (rule tz_from_in [OF tz_from_bump [OF tz_from_refl]])

lemma is_source_available_in:
  "tz_in t \<Longrightarrow> is_source_available t \<longleftrightarrow> current_position t < length (source_code t)"
  by (simp add: tz_defs is_source_available_def)

lemma cur_unavailable: "tz_in t \<Longrightarrow> \<not> is_source_available t \<Longrightarrow> cur t = nul"
  by (simp add: cur_def is_source_available_in)

subsection \<open>The reading functions within the source\<close>

lemma peek_in [simp]: "tz_in t \<Longrightarrow> peek t = Some (cur t)"
  by (auto simp: peek_def char_at_def cur_def tz_in_def)

lemma peek_next_in: "tz_ok t \<Longrightarrow> \<exists>d. peek_next t = Some d"
  by (auto simp: peek_next_def char_at_def tz_ok_def)

lemma advance_in [simp]:
  "tz_in t \<Longrightarrow> advance t = Some (cur t, if is_source_available t then bump t else t)"
  by (auto simp: advance_def cur_def bump_def char_at_def tz_defs is_source_available_def Let_def)

lemma match_char_in [simp]:
  "tz_in t \<Longrightarrow> match_char c t =
     Some (if is_source_available t \<and> cur t = c then (True, bump t) else (False, t))"
  by (auto simp: match_char_def bump_def)

lemma match_two_in:
  assumes "tz_in t" and "c \<noteq> nul" and "d \<noteq> nul"
  shows "match_two c d t = Some (True, bump (bump t)) \<and> current_position t + 1 < length (source_code t)
       \<or> match_two c d t = Some (False, t)"
proof -
  obtain e where e: "peek_next t = Some e"
    using peek_next_in assms(1) by (auto simp: tz_in_def)
  show ?thesis
  proof (cases "c = cur t \<and> d = e")
    case True
    then have "current_position t + 1 < length (source_code t)"
      using e assms by (auto simp: peek_next_def cur_def tz_in_def tz_ok_def split: if_splits)
    then show ?thesis
      using True e assms(1) by (simp add: match_two_def bump_def)
  next
    case False
    then have "\<not> (c = cur t \<and> d = e)" .
    then show ?thesis using e assms(1) by (subst (1 2) match_two_def) auto
  qed
qed

subsection \<open>Rules for the functions of one token\<close>

lemma peek_rule [ensures_rules]: "tz_from t0 t \<Longrightarrow> (\<And>c. Q c) \<Longrightarrow> ensures (peek t) Q"
  by (simp add: tz_from_in)

lemma peek_next_rule [ensures_rules]: "tz_from t0 t \<Longrightarrow> (\<And>c. Q c) \<Longrightarrow> ensures (peek_next t) Q"
  using peek_next_in [of t] by (auto simp: tz_from_def tz_in_def)

lemma advance_rule [ensures_rules]:
  "tz_from t0 t \<Longrightarrow> (\<And>c t'. tz_from t0 t' \<Longrightarrow> Q (c, t')) \<Longrightarrow> ensures (advance t) Q"
  using tz_from_bump by (simp add: tz_from_in)

lemma match_char_rule [ensures_rules]:
  "tz_from t0 t \<Longrightarrow> (\<And>m t'. tz_from t0 t' \<Longrightarrow> Q (m, t')) \<Longrightarrow> ensures (match_char c t) Q"
  using tz_from_bump by (simp add: tz_from_in)

lemma match_and_rule [ensures_rules]:
  "tz_from t0 t \<Longrightarrow> (\<And>m t'. tz_from t0 t' \<Longrightarrow> Q (m, t')) \<Longrightarrow> ensures (match_and c d t) Q"
  unfolding match_and_def by (auto intro!: match_char_rule)

lemma match_two_rule:
  assumes "tz_from t0 t" and "c \<noteq> nul" and "d \<noteq> nul"
    and "\<And>m t'. tz_from t0 t' \<Longrightarrow> Q (m, t')"
  shows "ensures (match_two c d t) Q"
proof -
  have "tz_from t0 (bump (bump t))" if "current_position t + 1 < length (source_code t)"
    using that assms(1) by (auto simp: tz_defs bump_def)
  then show ?thesis
    using match_two_in [OF tz_from_in [OF assms(1)] assms(2,3)] assms(1,4) by auto
qed

subsection \<open>The loops over a class of characters\<close>

text \<open>
  The unread source, and the cursor moved over \<open>n\<close> characters.  A loop over a class that the null
  character is not in moves over the longest prefix in the class.
\<close>

definition rest :: "tokenizer \<Rightarrow> string" where
  "rest t = drop (current_position t) (source_code t)"

definition bump_by :: "nat \<Rightarrow> tokenizer \<Rightarrow> tokenizer" where
  "bump_by n t = t\<lparr>current_position := current_position t + n,
                   column_current := column_current t + int n\<rparr>"

lemma bump_by_0 [simp]: "bump_by 0 t = t"
  by (simp add: bump_by_def)

lemma bump_by_Suc: "bump_by (Suc n) t = bump_by n (bump t)"
  by (simp add: bump_by_def bump_def)

lemma bump_by_bump_by [simp]: "bump_by m (bump_by n t) = bump_by (n + m) t"
  by (simp add: bump_by_def)

lemma bump_as_bump_by: "bump t = bump_by 1 t"
  by (simp add: bump_by_def bump_def)

lemma bump_by_sel [simp]:
  "source_code (bump_by n t) = source_code t" "source_file_id (bump_by n t) = source_file_id t"
  "source_code_length (bump_by n t) = source_code_length t"
  "start_position (bump_by n t) = start_position t"
  "current_position (bump_by n t) = current_position t + n"
  "tline_number (bump_by n t) = tline_number t" "tcolumn_start (bump_by n t) = tcolumn_start t"
  "column_current (bump_by n t) = column_current t + int n"
  by (simp_all add: bump_by_def)

lemma rest_bump_by [simp]: "rest (bump_by n t) = drop n (rest t)"
  by (simp add: rest_def ac_simps)

lemma tz_in_bump_by: "tz_in t \<Longrightarrow> n \<le> length (rest t) \<Longrightarrow> tz_in (bump_by n t)"
  by (auto simp: tz_in_def tz_ok_def rest_def)

lemma tz_from_bump_by: "tz_from t0 t \<Longrightarrow> n \<le> length (rest t) \<Longrightarrow> tz_from t0 (bump_by n t)"
  by (auto simp: tz_defs rest_def)

lemma rest_Nil: "tz_in t \<Longrightarrow> rest t = [] \<Longrightarrow> \<not> is_source_available t \<and> cur t = nul"
  by (auto simp: rest_def is_source_available_in cur_def)

lemma rest_Cons: "tz_in t \<Longrightarrow> rest t = c # cs \<Longrightarrow> is_source_available t \<and> cur t = c"
  by (cases "current_position t < length (source_code t)")
    (simp_all add: rest_def is_source_available_in cur_def nth_via_drop)

lemma rest_bump: "rest t = c # cs \<Longrightarrow> rest (bump t) = cs"
  by (simp add: bump_as_bump_by)

lemma advance_while_eq:
  assumes "\<not> p nul"
  shows "tz_in t \<Longrightarrow> advance_while p t = Some (bump_by (length (takeWhile p (rest t))) t)"
proof (induction "rest t" arbitrary: t)
  case Nil
  then show ?case
    using rest_Nil [of t] assms by (subst advance_while.simps) simp
next
  case (Cons c cs)
  have c: "is_source_available t \<and> cur t = c" by (rule rest_Cons [OF Cons.prems Cons.hyps(2) [symmetric]])
  have cs: "rest (bump t) = cs" by (rule rest_bump [OF Cons.hyps(2) [symmetric]])
  have "tz_in (bump t)" using Cons.prems c by (simp add: tz_in_bump)
  from Cons.hyps(1) [OF cs [symmetric] this] show ?case
    using c cs Cons.prems Cons.hyps(2) [symmetric]
    by (subst advance_while.simps) (simp add: bump_by_Suc)
qed

lemma advance_digits_eq:
  assumes "\<not> p nul"
  shows "tz_in t \<Longrightarrow> advance_digits p has t =
    Some (has \<or> takeWhile p (rest t) \<noteq> [], bump_by (length (takeWhile p (rest t))) t)"
proof (induction "rest t" arbitrary: t has)
  case Nil
  then show ?case
    using rest_Nil [of t] assms by (subst advance_digits.simps) simp
next
  case (Cons c cs)
  have c: "is_source_available t \<and> cur t = c" by (rule rest_Cons [OF Cons.prems Cons.hyps(2) [symmetric]])
  have cs: "rest (bump t) = cs" by (rule rest_bump [OF Cons.hyps(2) [symmetric]])
  have "tz_in (bump t)" using Cons.prems c by (simp add: tz_in_bump)
  from Cons.hyps(1) [OF cs [symmetric] this] show ?case
    using c cs Cons.prems Cons.hyps(2) [symmetric]
    by (subst advance_digits.simps) (simp add: bump_by_Suc)
qed

lemma length_takeWhile_rest: "length (takeWhile p (rest t)) \<le> length (rest t)"
  by (rule length_takeWhile_le)

lemma advance_while_rule [ensures_rules]:
  "tz_from t0 t \<Longrightarrow> \<not> p nul \<Longrightarrow> (\<And>t'. tz_from t0 t' \<Longrightarrow> Q t') \<Longrightarrow> ensures (advance_while p t) Q"
  by (simp add: advance_while_eq tz_from_in tz_from_bump_by length_takeWhile_rest)

lemma advance_digits_rule [ensures_rules]:
  "tz_from t0 t \<Longrightarrow> \<not> p nul \<Longrightarrow> (\<And>b t'. tz_from t0 t' \<Longrightarrow> Q (b, t')) \<Longrightarrow>
   ensures (advance_digits p has t) Q"
  by (simp add: advance_digits_eq tz_from_in tz_from_bump_by length_takeWhile_rest)

subsection \<open>Rules for the consumers of a token\<close>

text \<open>A token is built at the state it is returned with: its span ends at the current column.\<close>

definition tok_at :: "token \<Rightarrow> tokenizer \<Rightarrow> bool" where
  "tok_at tok t \<longleftrightarrow> position tok = build_token_span t"

lemma tok_at_build [simp]: "tok_at (build_token_lit k l t) t" "tok_at (build_token k t) t"
  by (simp_all add: tok_at_def build_token_def build_token_lit_def)

lemma ensures_case_sum [ensures_rules]:
  "(\<And>a. x = Inl a \<Longrightarrow> ensures (f a) Q) \<Longrightarrow> (\<And>b. x = Inr b \<Longrightarrow> ensures (g b) Q) \<Longrightarrow>
   ensures (case x of Inl a \<Rightarrow> f a | Inr b \<Rightarrow> g b) Q"
  by (cases x) simp_all

lemma ensures_case_option [ensures_rules]:
  "(x = None \<Longrightarrow> ensures m Q) \<Longrightarrow> (\<And>a. x = Some a \<Longrightarrow> ensures (f a) Q) \<Longrightarrow>
   ensures (case x of None \<Rightarrow> m | Some a \<Rightarrow> f a) Q"
  by (cases x) simp_all

text \<open>The shape of all the rules: the frame \<open>t0\<close> is the state after the first character.\<close>

definition token_step :: "tokenizer \<Rightarrow> (token \<times> tokenizer) option \<Rightarrow> bool" where
  "token_step t0 m \<longleftrightarrow> ensures m (\<lambda>(tok, t'). tz_from t0 t' \<and> tok_at tok t')"

lemma emit_step: "tz_from t0 t \<Longrightarrow> token_step t0 (emit k t)"
  by (simp add: token_step_def emit_def)

lemma not_nul_class [simp]:
  "\<not> is_digit nul" "\<not> is_alpha nul" "\<not> is_hex_digit nul" "\<not> is_binary_digit nul"
  "\<not> is_octal_digit nul" "\<not> is_alpha_num nul" "\<not> is_underscore nul"
  by (simp_all add: char_class_defs schar_def is_alpha_num_def is_underscore_def)

lemma substr_from:
  "tz_from t0 t \<Longrightarrow> n \<le> current_position t0 \<Longrightarrow> substr (source_code t) n k \<noteq> None"
  by (auto simp: substr_def tz_defs)

lemma substr_rule [ensures_rules]:
  "n \<le> length s \<Longrightarrow> (\<And>l. Q l) \<Longrightarrow> ensures (substr s n k) Q"
  by (simp add: substr_def)

lemma tz_from_start: "tz_from t0 t \<Longrightarrow> start_position t = start_position t0"
  by (simp add: tz_from_def)

lemma tz_from_length: "tz_from t0 t \<Longrightarrow> current_position t0 \<le> length (source_code t)"
  by (auto simp: tz_defs)

lemma tz_from_substr:
  "tz_from t0 t \<Longrightarrow> n \<le> current_position t0 \<Longrightarrow> n \<le> length (source_code t)"
  by (auto dest: tz_from_length)

lemma start_substr:
  "tz_from t0 t \<Longrightarrow> start_position t0 \<le> current_position t0 \<Longrightarrow>
   start_position t - Suc 0 \<le> length (source_code t)"
  using tz_from_length [of t0 t] tz_from_start [of t0 t] by simp

lemma consume_symbol_step:
  "tz_from t0 t \<Longrightarrow> start_position t0 \<le> current_position t0 \<Longrightarrow> token_step t0 (consume_symbol t)"
  unfolding token_step_def consume_symbol_def
  by (auto intro!: ensures_rules simp: start_substr)

text \<open>The suffix functions return a token built where they stop, or a kind.\<close>

definition suffix_step :: "tokenizer \<Rightarrow> ((token + token_kind) \<times> tokenizer) option \<Rightarrow> bool" where
  "suffix_step t0 m \<longleftrightarrow>
     ensures m (\<lambda>(r, t'). tz_from t0 t' \<and> (\<forall>tok. r = Inl tok \<longrightarrow> tok_at tok t'))"

lemma suffix_rule:
  "suffix_step t0 m \<Longrightarrow>
   (\<And>r t'. tz_from t0 t' \<Longrightarrow> (\<And>tok. r = Inl tok \<Longrightarrow> tok_at tok t') \<Longrightarrow> Q (r, t')) \<Longrightarrow>
   ensures m Q"
  unfolding suffix_step_def by (erule ensures_mono) auto

lemma width_suffix_steps:
  assumes "tz_from t0 t"
  shows "suffix_step t0 (signed_suffix k t)" "suffix_step t0 (unsigned_suffix k t)"
    "suffix_step t0 (float_suffix k t)"
  using assms unfolding suffix_step_def signed_suffix_def unsigned_suffix_def float_suffix_def
  by (auto intro!: ensures_rules)

lemmas width_suffix_rules [ensures_rules] = width_suffix_steps [THEN suffix_rule]

lemma number_suffix_rule [ensures_rules]:
  assumes "tz_from t0 t"
    and "\<And>r t'. tz_from t0 t' \<Longrightarrow> (\<And>tok. r = Inl tok \<Longrightarrow> tok_at tok t') \<Longrightarrow> Q (r, t')"
  shows "ensures (number_suffix k t) Q"
proof -
  have "suffix_step t0 (number_suffix k t)"
    using assms(1) unfolding suffix_step_def number_suffix_def unsigned_or_float_suffix_def
    by (auto intro!: ensures_rules)
  then show ?thesis using assms(2) by (rule suffix_rule)
qed

lemma consume_number_step:
  assumes "tz_from t0 t" and "start_position t0 \<le> current_position t0"
  shows "token_step t0 (consume_number t)"
proof -
  have "start_position t' - Suc 0 \<le> length (source_code t')" if "tz_from t0 t'" for t'
    using that assms(2) by (rule start_substr)
  then show ?thesis
    using assms(1) unfolding token_step_def consume_number_def Let_def
    by (auto intro!: ensures_rules)
qed

lemma consume_base_number_step:
  assumes "tz_from t0 t" and "start_position t0 + 1 \<le> current_position t0" and "\<not> p nul"
  shows "token_step t0 (consume_base_number p f msg t)"
proof -
  have "start_position t' + 1 \<le> length (source_code t')" if "tz_from t0 t'" for t'
    using that assms(2) tz_from_length [of t0 t'] tz_from_start [of t0 t'] by simp
  then show ?thesis
    using assms(1,3) unfolding token_step_def consume_base_number_def Let_def
    by (auto intro!: ensures_rules)
qed

lemma base_number_steps:
  assumes "tz_from t0 t" and "start_position t0 + 1 \<le> current_position t0"
  shows "token_step t0 (consume_hex_number t)" "token_step t0 (consume_binary_number t)"
    "token_step t0 (consume_octal_number t)"
  using assms unfolding consume_hex_number_def consume_binary_number_def consume_octal_number_def
  by (auto intro!: consume_base_number_step)

lemma consume_one_character_rule [ensures_rules]:
  assumes "tz_from t0 t" and "is_source_available t"
    and "\<And>c t'. tz_from t0 t' \<Longrightarrow> current_position t < current_position t' \<Longrightarrow> Q (c, t')"
  shows "ensures (consume_one_character t) Q"
proof -
  have "tz_from (bump t) (bump t)"
    by (rule tz_from_refl [OF tz_in_bump [OF tz_from_in [OF assms(1)] assms(2)]])
  moreover have "Q (c, t')" if "tz_from (bump t) t'" for c t'
    using that assms(1,2) tz_from_trans [OF tz_from_bump [OF assms(1,2)] that]
    by (intro assms(3)) (auto simp: tz_from_def bump_def)
  ultimately show ?thesis
    using tz_from_in [OF assms(1)] assms(2) unfolding consume_one_character_def
    by (auto intro!: ensures_rules)
qed

definition left :: "tokenizer \<Rightarrow> nat" where
  "left t = length (source_code t) - current_position t"

text \<open>The string loop keeps the source in bounds and stops: every turn reads a character.\<close>

lemma string_loop_rule [ensures_rules]:
  assumes "tz_from t0 t" and "\<And>r t'. tz_from t0 t' \<Longrightarrow> Q (r, t')"
  shows "ensures (string_loop stream t) Q"
  using assms(1)
proof (induction "left t" arbitrary: stream t rule: less_induct)
  case less
  have tin: "tz_in t" using less.prems by (rule tz_from_in)
  have again: "ensures (string_loop s t') Q"
    if "tz_from t0 t'" "current_position t < current_position t'" "is_source_available t" for s t'
  proof (rule less.hyps [OF _ that(1)])
    show "left t' < left t"
      using that less.prems tin by (auto simp: left_def tz_defs is_source_available_in)
  qed
  show ?case
    using less.prems tin assms(2) again
    by (subst string_loop.simps) (auto intro!: consume_one_character_rule)
qed

lemma consume_string_step:
  "tz_from t0 t \<Longrightarrow> token_step t0 (consume_string t)"
  unfolding token_step_def consume_string_def
  by (auto intro!: ensures_rules)

text \<open>At the end of the source \<open>consume_one_character\<close> reads the null character.\<close>

lemma consume_one_character_end:
  "tz_in t \<Longrightarrow> \<not> is_source_available t \<Longrightarrow> consume_one_character t = Some (nul, t)"
  by (simp add: consume_one_character_def cur_unavailable)

lemma consume_character_step:
  assumes "tz_from t0 t"
  shows "token_step t0 (consume_character t)"
proof (cases "is_source_available t")
  case True
  then show ?thesis
    using assms unfolding token_step_def consume_character_def
    by (auto intro!: ensures_rules)
next
  case False
  then show ?thesis
    using assms unfolding token_step_def consume_character_def
    by (auto simp: consume_one_character_end tz_from_in cur_unavailable)
qed

lemma scan_operator_step:
  assumes "tz_from t0 t"
  shows "token_step t0 (scan_operator c t)"
  using assms unfolding token_step_def scan_operator_def emit_def
  by (auto intro!: ensures_rules match_two_rule)

lemma scan_zero_step:
  assumes "tz_in t" and "start_position t = current_position t"
  shows "token_step t (scan_zero t)"
proof -
  have frame: "tz_from t t" using assms(1) by (rule tz_from_refl)
  have bumped: "token_step t m" if "token_step (bump t) m" "is_source_available t" for m
    using that tz_from_trans [OF tz_from_bump [OF frame that(2)]]
    unfolding token_step_def by (auto elim!: ensures_mono)
  have "token_step (bump t) (consume_hex_number (bump t))
      \<and> token_step (bump t) (consume_binary_number (bump t))
      \<and> token_step (bump t) (consume_octal_number (bump t))"
    if "is_source_available t"
    using assms base_number_steps [OF tz_from_refl [OF tz_in_bump [OF assms(1) that]]]
    by (simp add: bump_def)
  then show ?thesis
    using assms(1) bumped consume_number_step [OF frame] assms(2)
    by (simp add: scan_zero_def)
qed

subsection \<open>Rules for white space and comments\<close>

named_theorems after_rules \<open>rules over the frame of white space\<close>

lemma tz_after_bump: "tz_after t0 t \<Longrightarrow> is_source_available t \<Longrightarrow> tz_after t0 (bump t)"
  by (auto simp: tz_defs bump_def is_source_available_def)

lemma tz_after_line:
  "tz_after t0 t \<Longrightarrow> tz_after t0 (t\<lparr>tline_number := tline_number t + 1\<rparr>)"
  "tz_after t0 t \<Longrightarrow> tz_after t0 (t\<lparr>tline_number := tline_number t + 1, column_current := 0\<rparr>)"
  "tz_after t0 t \<Longrightarrow> tz_after t0 (t\<lparr>column_current := 0\<rparr>)"
  by (auto simp: tz_defs)

lemma peek_after [after_rules]: "tz_after t0 t \<Longrightarrow> (\<And>c. Q c) \<Longrightarrow> ensures (peek t) Q"
  by (simp add: tz_after_in)

lemma peek_next_after [after_rules]:
  "tz_after t0 t \<Longrightarrow> (\<And>c. Q c) \<Longrightarrow> ensures (peek_next t) Q"
  using peek_next_in [of t] by (auto simp: tz_after_def tz_in_def)

lemma advance_after [after_rules]:
  "tz_after t0 t \<Longrightarrow> (\<And>c t'. tz_after t0 t' \<Longrightarrow> Q (c, t')) \<Longrightarrow> ensures (advance t) Q"
  using tz_after_bump by (simp add: tz_after_in)

lemma match_char_after [after_rules]:
  "tz_after t0 t \<Longrightarrow> (\<And>m t'. tz_after t0 t' \<Longrightarrow> Q (m, t')) \<Longrightarrow> ensures (match_char c t) Q"
  using tz_after_bump by (simp add: tz_after_in)

lemma count_newline_after [after_rules]:
  "tz_after t0 t \<Longrightarrow> (\<And>t'. tz_after t0 t' \<Longrightarrow> Q t') \<Longrightarrow> ensures (count_newline t) Q"
  unfolding count_newline_def by (auto intro!: after_rules tz_after_line)

lemma left_after:
  "tz_after (bump t) t' \<Longrightarrow> tz_in t \<Longrightarrow> is_source_available t \<Longrightarrow> left t' < left t"
  by (auto simp: left_def tz_defs is_source_available_def bump_def)

lemma tz_after_bump_self: "tz_in t \<Longrightarrow> is_source_available t \<Longrightarrow> tz_after (bump t) (bump t)"
  by (rule tz_after_refl [OF tz_in_bump])

lemma skip_single_line_comment_after [after_rules]:
  assumes "tz_after t0 t" and "\<And>t'. tz_after t0 t' \<Longrightarrow> Q t'"
  shows "ensures (skip_single_line_comment t) Q"
  using assms(1)
proof (induction "left t" arbitrary: t rule: less_induct)
  case less
  have tin: "tz_in t" using less.prems by (rule tz_after_in)
  show ?case
  proof (cases "is_source_available t \<and> cur t \<noteq> newline")
    case True
    have "ensures (skip_single_line_comment (bump t)) Q"
      using less.prems True tin by (intro less.hyps) (auto simp: left_after tz_after_bump_self tz_after_bump)
    then show ?thesis
      using True tin by (subst skip_single_line_comment.simps) simp
  next
    case False
    then show ?thesis
      using tin less.prems assms(2) by (subst skip_single_line_comment.simps) auto
  qed
qed

lemma multi_lines_loop_after [after_rules]:
  assumes "tz_after t0 t" and "\<And>t'. tz_after t0 t' \<Longrightarrow> Q t'"
  shows "ensures (multi_lines_loop t) Q"
  using assms(1)
proof (induction "left t" arbitrary: t rule: less_induct)
  case less
  have tin: "tz_in t" using less.prems by (rule tz_after_in)
  show ?case
  proof (cases "is_source_available t")
    case True
    have "ensures (count_newline (bump t)) (\<lambda>t'. ensures (multi_lines_loop t') Q)"
    proof (rule count_newline_after [OF tz_after_bump_self [OF tin True]])
      fix t' assume t': "tz_after (bump t) t'"
      show "ensures (multi_lines_loop t') Q"
        using left_after [OF t' tin True] tz_after_trans [OF tz_after_bump [OF less.prems True] t']
        by (rule less.hyps)
    qed
    moreover obtain d where "peek_next t = Some d"
      using peek_next_in tin by (auto simp: tz_in_def)
    ultimately show ?thesis
      using True tin less.prems assms(2) by (subst multi_lines_loop.simps) auto
  next
    case False
    then show ?thesis
      using less.prems assms(2) by (subst multi_lines_loop.simps) auto
  qed
qed

lemma skip_multi_lines_comment_after [after_rules]:
  "tz_after t0 t \<Longrightarrow> (\<And>t'. tz_after t0 t' \<Longrightarrow> Q t') \<Longrightarrow> ensures (skip_multi_lines_comment t) Q"
  unfolding skip_multi_lines_comment_def by (auto intro!: after_rules)

text \<open>Where white space ends: at the end of the source, or at a character that is not white space.\<close>

definition at_token :: "tokenizer \<Rightarrow> bool" where
  "at_token t \<longleftrightarrow> (is_source_available t \<longrightarrow> \<not> contains [CHR '' '', CHR 0x0D, CHR 0x09, newline] (cur t))"

lemma skip_whitespaces_after [after_rules]:
  assumes "tz_after t0 t" and "\<And>t'. tz_after t0 t' \<Longrightarrow> at_token t' \<Longrightarrow> Q t'"
  shows "ensures (skip_whitespaces t) Q"
  using assms(1)
proof (induction "left t" arbitrary: t rule: less_induct)
  case less
  have tin: "tz_in t" using less.prems by (rule tz_after_in)
  show ?case
  proof (cases "is_source_available t")
    case True
    have again: "ensures (skip_whitespaces t') Q" if t': "tz_after (bump t) t'" for t'
      using left_after [OF t' tin True] tz_after_trans [OF tz_after_bump [OF less.prems True] t']
      by (rule less.hyps)
    obtain d where d: "peek_next t = Some d"
      using peek_next_in tin by (auto simp: tz_in_def)
    have here: "tz_after (bump t) (bump t)" by (rule tz_after_bump_self [OF tin True])
    consider "contains [CHR '' '', CHR 0x0D, CHR 0x09] (cur t)" | "cur t = newline"
      | "cur t = CHR ''/''" "d = CHR ''/'' \<or> d = CHR ''*''"
      | "at_token t" "\<not> (cur t = CHR ''/'' \<and> (d = CHR ''/'' \<or> d = CHR ''*''))"
      by (auto simp: at_token_def)
    then show ?thesis
    proof cases
      case 1
      then show ?thesis
        using tin True again [OF here] by (subst skip_whitespaces.simps) auto
    next
      case 2
      let ?t = "t\<lparr>tline_number := tline_number t + 1\<rparr>"
      have "tz_in ?t" "is_source_available ?t"
        using tin True by (simp_all add: tz_in_def tz_ok_def is_source_available_def)
      moreover have "tz_after (bump t) ((bump ?t)\<lparr>column_current := 0\<rparr>)"
        using here by (auto simp: tz_defs bump_def)
      ultimately show ?thesis
        using 2 tin True again by (subst skip_whitespaces.simps) simp
    next
      case 3
      then show ?thesis
        using tin True d here
        by (subst skip_whitespaces.simps)
          (auto intro!: after_rules again simp: tz_after_bump tz_after_in)
    next
      case 4
      then show ?thesis
        using tin True d less.prems assms(2)
        by (subst skip_whitespaces.simps) (auto simp: at_token_def)
    qed
  next
    case False
    then show ?thesis
      using less.prems assms(2) by (subst skip_whitespaces.simps) (auto simp: at_token_def)
  qed
qed

subsection \<open>One token\<close>

text \<open>The state in which \<open>scan_token_from\<close> starts: just past the first character of the token.\<close>

definition token_start :: "tokenizer \<Rightarrow> tokenizer" where
  "token_start t = t\<lparr>start_position := current_position t + 1,
     current_position := current_position t + 1,
     tcolumn_start := column_current t + 1, column_current := column_current t + 1\<rparr>"

lemma start_token_in:
  "tz_in t \<Longrightarrow> start_token t = Some (cur t, token_start t)"
  by (auto simp: start_token_def token_start_def advance_def char_at_def cur_def tz_defs
      is_source_available_def Let_def)

lemma start_token_out:
  "\<not> is_source_available t \<Longrightarrow> start_token t = Some (nul, token_start t)"
  by (simp add: start_token_def token_start_def advance_def is_source_available_def Let_def)

lemma scan_token_from_nul: "scan_token_from nul t = emit TOKEN_END_OF_FILE t"
  by (simp add: scan_token_from_def one_character_tokens_def two_character_tokens_def)

lemma token_step_if:
  "token_step t m \<Longrightarrow> token_step t n \<Longrightarrow> token_step t (if b then m else n)"
  by simp

lemma scan_token_from_step:
  assumes "tz_in t" and "start_position t = current_position t"
  shows "token_step t (scan_token_from c t)"
proof -
  have frame: "tz_from t t" using assms(1) by (rule tz_from_refl)
  note steps = emit_step [OF frame] scan_operator_step [OF frame] scan_zero_step [OF assms]
    consume_symbol_step [OF frame] consume_number_step [OF frame]
    consume_string_step [OF frame] consume_character_step [OF frame]
  have two: "token_step t (do { (m, t) \<leftarrow> match_char s t; emit (if m then a else b) t })" for s a b
    using frame unfolding token_step_def emit_def by (auto intro!: ensures_rules)
  have unknown: "token_step t (Some (build_token_lit k l t, t))" for k l
    using frame by (simp add: token_step_def)
  show ?thesis
  proof (cases "map_of one_character_tokens c")
    case (Some k)
    then show ?thesis using steps by (simp add: scan_token_from_def)
  next
    case one: None
    show ?thesis
    proof (cases "map_of two_character_tokens c")
      case (Some x)
      then show ?thesis
        using one two by (cases x) (simp add: scan_token_from_def)
    next
      case None
      show ?thesis
        unfolding scan_token_from_def one None option.case
        by (intro token_step_if steps unknown) (simp_all add: assms(2))
    qed
  qed
qed

text \<open>
  What a scanned token is: built in the state that follows it, which is on the same source, past the
  token's first character, and not beyond the end unless the token is the end of the file.
\<close>

definition scanned :: "tokenizer \<Rightarrow> token \<Rightarrow> tokenizer \<Rightarrow> bool" where
  "scanned t tok t' \<longleftrightarrow> tz_ok t' \<and> same_source t t' \<and> tok_at tok t'
     \<and> current_position t < start_position t' \<and> start_position t' \<le> current_position t'
     \<and> tline_number t \<le> tline_number t'
     \<and> column_current t' - tcolumn_start t' = int (current_position t') - int (start_position t')
     \<and> (current_position t' \<le> length (source_code t') \<or> kind tok = TOKEN_END_OF_FILE)"

lemma scanned_of_step:
  assumes "tz_in t'" and "is_source_available t'" and "same_source t t'"
    and "current_position t \<le> current_position t'" and "tline_number t \<le> tline_number t'"
  shows "ensures (scan_token_from (cur t') (token_start t')) (\<lambda>(tok, u). scanned t tok u)"
proof -
  have "tz_in (token_start t')"
    using assms(1,2) by (simp add: token_start_def tz_in_def tz_ok_def is_source_available_def)
  then have "token_step (token_start t') (scan_token_from (cur t') (token_start t'))"
    by (rule scan_token_from_step) (simp add: token_start_def)
  then show ?thesis
    unfolding token_step_def
  proof (rule ensures_mono)
    fix r assume "case r of (tok, u) \<Rightarrow> tz_from (token_start t') u \<and> tok_at tok u"
    then show "case r of (tok, u) \<Rightarrow> scanned t tok u"
      using assms(3-5) by (auto simp: scanned_def tz_defs token_start_def)
  qed
qed

lemma scan_next_token_unavailable:
  "\<not> is_source_available t \<Longrightarrow>
   scan_next_token t = Some (build_token TOKEN_END_OF_FILE (token_start t), token_start t)"
  by (simp add: scan_next_token_def skip_whitespaces.simps [of t] start_token_out
      scan_token_from_nul emit_def)

lemma scanned_end:
  "tz_ok t' \<Longrightarrow> same_source t t' \<Longrightarrow> current_position t \<le> current_position t' \<Longrightarrow>
   tline_number t \<le> tline_number t' \<Longrightarrow>
   scanned t (build_token TOKEN_END_OF_FILE (token_start t')) (token_start t')"
  by (auto simp: scanned_def tz_ok_def same_source_def token_start_def build_token_def build_token_lit_def
      tok_at_def)

lemma scan_next_token_scanned:
  assumes "tz_ok t"
  shows "ensures (scan_next_token t) (\<lambda>(tok, t'). scanned t tok t')"
proof (cases "is_source_available t")
  case False
  then show ?thesis
    using assms scanned_end [of t t] by (simp add: scan_next_token_unavailable same_source_def)
next
  case True
  then have tin: "tz_in t" using assms by (simp add: tz_in_def tz_ok_def is_source_available_def)
  have "ensures (start_token u) (\<lambda>r. ensures (case r of (c, v) \<Rightarrow> scan_token_from c v)
      (\<lambda>(tok, t'). scanned t tok t'))"
    if u: "tz_after t u" for u
  proof (cases "is_source_available u")
    case True
    then show ?thesis
      using u scanned_of_step [of u t]
      by (auto simp: start_token_in tz_after_def)
  next
    case False
    then show ?thesis
      using u scanned_end [of u t]
      by (auto simp: start_token_out scan_token_from_nul emit_def tz_after_def tz_in_def)
  qed
  then show ?thesis
    unfolding scan_next_token_def
    using skip_whitespaces_after [OF tz_after_refl [OF tin]] by simp
qed

end
