(* ===== verification/Lexing.thy ===== *)
theory Lexing
  imports Tokenizer_Safety
begin

text \<open>
  What the tokenizer recognises.  The theory first moves from positions to the unread source
  (\<open>rest\<close>), then states the properties of the tokenizer: safety and termination, the spans, and,
  for each class of tokens, the exact text that yields it.
\<close>

subsection \<open>Reading the unread source\<close>

lemma rest_token_start: "rest t = c # cs \<Longrightarrow> rest (token_start t) = cs"
  using rest_bump [of t c cs] by (simp add: rest_def token_start_def bump_def)

lemma tz_in_token_start: "tz_in t \<Longrightarrow> rest t = c # cs \<Longrightarrow> tz_in (token_start t)"
  using rest_Cons [of t c cs]
  by (simp add: tz_in_def tz_ok_def token_start_def is_source_available_def)

lemma token_start_sel [simp]:
  "source_code (token_start t) = source_code t" "source_file_id (token_start t) = source_file_id t"
  "source_code_length (token_start t) = source_code_length t"
  "start_position (token_start t) = current_position t + 1"
  "current_position (token_start t) = current_position t + 1"
  "tline_number (token_start t) = tline_number t"
  "tcolumn_start (token_start t) = column_current t + 1"
  "column_current (token_start t) = column_current t + 1"
  by (simp_all add: token_start_def)

lemma source_at_start:
  "rest t = c # cs \<Longrightarrow> drop (current_position t) (source_code t) = c # cs"
  by (simp add: rest_def)

lemma peek_next_rest:
  "tz_in t \<Longrightarrow> rest t = c # cs \<Longrightarrow> peek_next t = Some (case cs of [] \<Rightarrow> nul | d # _ \<Rightarrow> d)"
proof -
  assume tin: "tz_in t" and r: "rest t = c # cs"
  have len: "length (source_code t) = current_position t + 1 + length cs"
    using arg_cong [OF r, of length] by (simp add: rest_def)
  have "source_code t ! (current_position t + 1) = d" if "cs = d # ds" for d ds
    using arg_cong [OF r, of "\<lambda>xs. xs ! 1"] that len by (simp add: rest_def)
  then show ?thesis
    using tin len by (auto simp: peek_next_def char_at_def tz_in_def tz_ok_def split: list.split)
qed

lemma peek_next_rest_Nil: "tz_in t \<Longrightarrow> rest t = [] \<Longrightarrow> peek_next t = Some nul"
  by (auto simp: peek_next_def tz_in_def tz_ok_def rest_def)

lemma cur_rest: "tz_in t \<Longrightarrow> cur t = (case rest t of [] \<Rightarrow> nul | c # _ \<Rightarrow> c)"
  using rest_Nil [of t] rest_Cons [of t] by (cases "rest t") auto

lemma available_rest: "tz_in t \<Longrightarrow> is_source_available t \<longleftrightarrow> rest t \<noteq> []"
  by (auto simp: is_source_available_in rest_def)

lemma match_char_rest:
  assumes "tz_in t"
  shows "match_char c t = Some (case rest t of [] \<Rightarrow> (False, t)
           | d # _ \<Rightarrow> if c = d then (True, bump t) else (False, t))"
  using assms by (cases "rest t") (auto simp: available_rest cur_rest)

lemma advance_rest:
  assumes "tz_in t"
  shows "advance t = Some (case rest t of [] \<Rightarrow> (nul, t) | d # _ \<Rightarrow> (d, bump t))"
  using assms by (cases "rest t") (auto simp: available_rest cur_rest)

lemma rest_bump_tl [simp]: "rest (bump t) = tl (rest t)"
  by (simp add: bump_as_bump_by drop_Suc)

lemma tz_in_bump_rest [simp]: "tz_in t \<Longrightarrow> rest t \<noteq> [] \<Longrightarrow> tz_in (bump t)"
  by (simp add: tz_in_bump available_rest)

lemma bump_bump_by: "bump u = bump_by 1 u" "bump (bump_by n u) = bump_by (Suc n) u"
  by (simp_all add: bump_as_bump_by)

lemma match_two_rest:
  assumes "tz_in t" and "c \<noteq> nul" and "d \<noteq> nul"
  shows "match_two c d t = Some (if take 2 (rest t) = [c, d] then (True, bump (bump t)) else (False, t))"
proof (cases "rest t")
  case Nil
  then show ?thesis
    using assms peek_next_rest_Nil [OF assms(1)] by (simp add: match_two_def cur_rest)
next
  case (Cons e es)
  then show ?thesis
    using assms peek_next_rest [OF assms(1) Cons]
    by (cases es) (auto simp: match_two_def cur_rest bump_def)
qed

text \<open>A text that does not start with white space or a comment is scanned from its first character.\<close>

definition starts_token :: "string \<Rightarrow> bool" where
  "starts_token s = (case s of [] \<Rightarrow> False
     | c # cs \<Rightarrow> \<not> contains [CHR '' '', CHR 0x0D, CHR 0x09, newline] c
         \<and> \<not> (c = CHR ''/'' \<and> (case cs of [] \<Rightarrow> False | d # _ \<Rightarrow> d = CHR ''/'' \<or> d = CHR ''*'')))"

lemma starts_token_Cons:
  "starts_token s \<Longrightarrow> \<exists>c cs. s = c # cs"
  by (cases s) (simp_all add: starts_token_def)

lemma skip_whitespaces_id:
  assumes "tz_in t" and "starts_token (rest t)"
  shows "skip_whitespaces t = Some t"
proof -
  obtain c cs where r: "rest t = c # cs" using starts_token_Cons [OF assms(2)] by blast
  show ?thesis
    using assms(1) assms(2) r rest_Cons [OF assms(1) r] peek_next_rest [OF assms(1) r]
    by (subst skip_whitespaces.simps) (auto simp: starts_token_def split: list.splits)
qed

lemma scan_next_token_rest:
  assumes "tz_in t" and "rest t = c # cs" and "starts_token (c # cs)"
  shows "scan_next_token t = scan_token_from c (token_start t)"
  using assms rest_Cons [OF assms(1,2)]
  by (simp add: scan_next_token_def skip_whitespaces_id start_token_in)

text \<open>The text of the token from its first character: \<open>source_code.substr(start_position - 1, n)\<close>.\<close>

lemma substr_token:
  assumes "rest t = c # cs" and "start_position u = current_position t + 1"
    and "source_code u = source_code t" and "n = length w" and "c # cs = w @ s"
  shows "substr (source_code u) (start_position u - Suc 0) n = Some w"
  using assms
  by (cases "current_position t \<le> length (source_code t)") (auto simp: substr_def rest_def)

subsection \<open>Dispatch on the first character\<close>

definition is_ident_start :: "char \<Rightarrow> bool" where
  "is_ident_start c \<longleftrightarrow> is_alpha c \<or> c = CHR ''_''"

definition is_ident_char :: "char \<Rightarrow> bool" where
  "is_ident_char c \<longleftrightarrow> is_alpha_num c \<or> c = CHR ''_''"

text \<open>The characters of the tables and of the operators are in no class of \<open>scan_token_from\<close>.\<close>

definition punctuation :: string where
  "punctuation = map fst one_character_tokens @ map fst two_character_tokens @ ''+-><|&'' @
     [CHR '' '', CHR 0x0D, CHR 0x09, newline, CHR ''/'']"

lemma punctuation_classes:
  "list_all (\<lambda>c. \<not> is_ident_start c \<and> \<not> is_digit c \<and> \<not> contains [CHR 0x22, CHR 0x27] c) punctuation"
  by (simp add: punctuation_def one_character_tokens_def two_character_tokens_def is_ident_start_def
      char_class_defs schar_def)

lemma not_punctuation:
  assumes "is_ident_start c \<or> is_digit c \<or> contains [CHR 0x22, CHR 0x27] c"
  shows "map_of one_character_tokens c = None" "map_of two_character_tokens c = None"
    "\<not> contains ''+-><|&'' c" "starts_token (c # cs)"
proof -
  have "c \<notin> set punctuation"
    using assms punctuation_classes by (auto simp: list_all_iff)
  then show "map_of one_character_tokens c = None" "map_of two_character_tokens c = None"
    "\<not> contains ''+-><|&'' c" "starts_token (c # cs)"
    unfolding punctuation_def starts_token_def
    by (auto simp: map_of_eq_None_iff contains_def)
qed

lemma scan_token_from_symbol:
  "is_ident_start c \<Longrightarrow> scan_token_from c t = consume_symbol t"
  unfolding scan_token_from_def using not_punctuation [of c]
  by (simp add: is_ident_start_def del: contains_simps)

lemma digit_not_alpha: "is_digit c \<Longrightarrow> \<not> is_alpha c"
  by (auto simp: char_class_defs schar_def split: if_splits)

lemma scan_token_from_digit:
  assumes "is_digit c"
  shows "scan_token_from c t = (if c = CHR ''0'' then scan_zero t else consume_number t)"
proof -
  have "c \<noteq> CHR ''_''" "c \<noteq> CHR 0x22" "c \<noteq> CHR 0x27"
    using assms by (auto simp: is_digit_def schar_def)
  then show ?thesis
    unfolding scan_token_from_def using assms not_punctuation [of c] digit_not_alpha [OF assms]
    by (simp del: contains_simps)
qed

lemma takeWhile_run:
  "\<forall>d \<in> set cs. p d \<Longrightarrow> s = [] \<or> \<not> p (hd s) \<Longrightarrow> takeWhile p (cs @ s) = cs"
  by (cases s) (auto simp: takeWhile_append2)

lemma not_nul_ident [simp]: "\<not> is_ident_char nul"
  by (simp add: is_ident_char_def)

lemma consume_symbol_run:
  assumes "tz_in t" and "rest t = (c # cs) @ s" and "\<forall>d \<in> set cs. is_ident_char d"
    and "s = [] \<or> \<not> is_ident_char (hd s)"
  shows "consume_symbol (token_start t) =
    (let t' = bump_by (length cs) (token_start t)
     in Some (build_token_lit (resolve_keyword_token_kind (c # cs)) (c # cs) t', t'))"
proof -
  let ?u = "token_start t"
  have r: "rest ?u = cs @ s" using rest_token_start [of t c "cs @ s"] assms(2) by simp
  have tin: "tz_in ?u" using tz_in_token_start [of t c "cs @ s"] assms(1,2) by simp
  have "takeWhile is_ident_char (rest ?u) = cs"
    unfolding r by (rule takeWhile_run [OF assms(3,4)])
  then have "advance_while is_ident_char ?u = Some (bump_by (length cs) ?u)"
    using advance_while_eq [of is_ident_char ?u] tin by simp
  moreover have "(\<lambda>c. is_alpha_num c \<or> c = CHR ''_'') = is_ident_char"
    by (simp add: fun_eq_iff is_ident_char_def)
  moreover have "substr (source_code (bump_by (length cs) ?u)) (start_position (bump_by (length cs) ?u) - Suc 0)
      (length (c # cs)) = Some (c # cs)"
    by (rule substr_token [of t c "cs @ s" _ _ _ s]) (use assms(2) in \<open>simp_all add: token_start_def\<close>)
  ultimately show ?thesis
    by (simp add: consume_symbol_def Let_def)
qed

subsection \<open>Keywords\<close>

text \<open>The reference: the first keyword whose printed form in \<open>token_kind_literal\<close> is the text.\<close>

definition keyword_kinds :: "token_kind list" where
  "keyword_kinds = [TOKEN_LOAD, TOKEN_IMPORT, TOKEN_VAR, TOKEN_CONST, TOKEN_ENUM, TOKEN_TYPE,
     TOKEN_STRUCT, TOKEN_FUN, TOKEN_OPERATOR, TOKEN_RETURN, TOKEN_IF, TOKEN_ELSE, TOKEN_FOR,
     TOKEN_WHILE, TOKEN_SWITCH, TOKEN_CAST, TOKEN_DEFER, TOKEN_BREAK, TOKEN_CONTINUE,
     TOKEN_TYPE_SIZE, TOKEN_TYPE_ALLIGN, TOKEN_VALUE_SIZE, TOKEN_TRUE, TOKEN_FALSE, TOKEN_NULL,
     TOKEN_UNDEFINED, TOKEN_VARARGS]"

definition keyword_kind :: "string \<Rightarrow> token_kind" where
  "keyword_kind s = (case find (\<lambda>k. map_of token_kind_literal k = Some s) keyword_kinds of
     Some k \<Rightarrow> k | None \<Rightarrow> TOKEN_IDENTIFIER)"

definition keyword_texts :: "string list" where
  "keyword_texts = [''load'', ''import'', ''var'', ''const'', ''enum'', ''type'', ''struct'', ''fun'',
     ''operator'', ''return'', ''if'', ''else'', ''for'', ''while'', ''switch'', ''cast'', ''defer'',
     ''break'', ''continue'', ''type_size'', ''type_allign'', ''value_size'', ''true'', ''false'',
     ''null'', ''undefined'', ''varargs'']"

lemma keyword_literals: "map (map_of token_kind_literal) keyword_kinds = map Some keyword_texts"
  by (simp add: keyword_texts_def keyword_kinds_def token_kind_literal_def)

lemma find_literal:
  "map f ks = map Some ts \<Longrightarrow> find (\<lambda>k. f k = Some s) ks = map_of (zip ts ks) s"
  by (induction ks arbitrary: ts) (auto split: list.splits)

lemma keyword_kind_map:
  "keyword_kind s = (case map_of (zip keyword_texts keyword_kinds) s of
     Some k \<Rightarrow> k | None \<Rightarrow> TOKEN_IDENTIFIER)"
  unfolding keyword_kind_def find_literal [OF keyword_literals] by (rule refl)

lemma strlen_id: "nul \<notin> set s \<Longrightarrow> strlen s = length s"
  by (subst strlen_def, subst takeWhile_eq_all_conv [THEN iffD2]) auto

lemma str_equals_id: "length s = n \<Longrightarrow> length w = n \<Longrightarrow> str_equals n w s \<longleftrightarrow> s = w"
  by (auto simp: str_equals_def)

lemma resolve_keyword_in:
  "list_all (\<lambda>s. resolve_keyword_token_kind s = keyword_kind s) keyword_texts"
  unfolding keyword_kind_map
  by (simp add: resolve_keyword_token_kind_def strlen_def str_equals_def keyword_texts_def
      keyword_kinds_def)

lemma resolve_keyword_out:
  assumes "nul \<notin> set s" and "s \<notin> set keyword_texts"
  shows "resolve_keyword_token_kind s = TOKEN_IDENTIFIER"
  using assms(2) unfolding resolve_keyword_token_kind_def strlen_id [OF assms(1)] keyword_texts_def
  by (simp add: Let_def str_equals_id)

lemma keyword_kind_other:
  "s \<notin> set keyword_texts \<Longrightarrow> keyword_kind s = TOKEN_IDENTIFIER"
  unfolding keyword_kind_map
  by (simp add: map_of_zip_is_None keyword_texts_def keyword_kinds_def)

lemma resolve_keyword_is_keyword_kind:
  "nul \<notin> set s \<Longrightarrow> resolve_keyword_token_kind s = keyword_kind s"
  using resolve_keyword_in resolve_keyword_out [of s] keyword_kind_other [of s]
  by (cases "s \<in> set keyword_texts") (auto simp: list_all_iff)

lemma ident_no_nul: "\<forall>d \<in> set cs. is_ident_char d \<Longrightarrow> is_ident_start c \<Longrightarrow> nul \<notin> set (c # cs)"
  by (auto simp: is_ident_start_def)

subsection \<open>Safety, progress and termination\<close>

text \<open>
  C1: From every consistent state \<open>scan_next_token\<close> is defined: no read is out of the bounds of the
  source, no \<open>substr\<close> or \<open>stol\<close> exception escapes and no loop runs forever.  It returns a token and a
  consistent state on the same source that is at least one character further and on the same or a
  later line; only the end-of-file token leaves the position beyond the source.
\<close>

theorem scan_next_token_safe:
  assumes "source_code_length t = length (source_code t)"
  shows "\<exists>tok t'. scan_next_token t = Some (tok, t')
    \<and> source_code t' = source_code t \<and> source_code_length t' = source_code_length t
    \<and> source_file_id t' = source_file_id t
    \<and> current_position t < current_position t' \<and> tline_number t \<le> tline_number t'
    \<and> (current_position t' \<le> length (source_code t') \<or> kind tok = TOKEN_END_OF_FILE)"
  using scan_next_token_scanned [of t] assms
  by (auto simp: ensures_iff scanned_def tz_ok_def same_source_def)

theorem scan_next_token_safe_witness:
  "\<exists>tok t'. scan_next_token (new_tokenizer 7 ''0x'') = Some (tok, t') \<and> 0 < current_position t'"
  using scan_next_token_safe [of "new_tokenizer 7 ''0x''"] by (auto simp: new_tokenizer_def)

text \<open>The tokens of a run are well placed: in file \<open>fid\<close>, with growing lines and sensible columns.\<close>

definition placed :: "int \<Rightarrow> token \<Rightarrow> bool" where
  "placed fid tok \<longleftrightarrow> file_id (position tok) = fid
     \<and> column_start (position tok) \<le> column_end (position tok)"

definition run_inv :: "int \<Rightarrow> string \<Rightarrow> token list \<Rightarrow> tokenizer \<Rightarrow> bool" where
  "run_inv fid source toks t \<longleftrightarrow> tz_ok t \<and> source_code t = source \<and> source_file_id t = fid
     \<and> list_all (placed fid) toks \<and> sorted (map (\<lambda>tok. line_number (position tok)) toks)
     \<and> (\<forall>tok \<in> set toks. line_number (position tok) \<le> tline_number t)
     \<and> length toks \<le> current_position t \<and> tcolumn_start t \<le> column_current t"

lemma run_inv_step:
  assumes "run_inv fid source toks t" and "scanned t tok t'"
  shows "run_inv fid source (toks @ [tok]) t'"
proof -
  have "position tok = build_token_span t'" "source_code t' = source" "source_file_id t' = fid"
    "current_position t < current_position t'" "tline_number t \<le> tline_number t'"
    "tcolumn_start t' \<le> column_current t'" "tz_ok t'"
    using assms by (auto simp: run_inv_def scanned_def tok_at_def same_source_def)
  then show ?thesis
    using assms(1) by (auto simp: run_inv_def placed_def build_token_span_def sorted_append)
qed

lemma scan_tokens_loop_run:
  assumes "run_inv fid source toks t"
    and "\<And>toks' t'. run_inv fid source toks' t' \<Longrightarrow> length toks \<le> length toks' \<Longrightarrow>
      (length toks' \<le> length toks + left t) \<Longrightarrow> Q (toks', t')"
  shows "ensures (scan_tokens_loop toks t) Q"
  using assms
proof (induction "left t" arbitrary: toks t rule: less_induct)
  case less
  show ?case
  proof (cases "is_source_available t")
    case True
    have ok: "tz_ok t" using less.prems(1) by (simp add: run_inv_def)
    have "ensures (scan_tokens_loop (toks @ [tok]) t') Q" if sc: "scanned t tok t'" for tok t'
    proof (rule less.hyps [OF _ run_inv_step [OF less.prems(1) sc]])
      show l: "left t' < left t"
        using sc ok True
        by (auto simp: scanned_def left_def tz_ok_def same_source_def is_source_available_def)
      show "Q (toks', t'')"
        if "run_inv fid source toks' t''" "length (toks @ [tok]) \<le> length toks'"
          "length toks' \<le> length (toks @ [tok]) + left t'" for toks' t''
        using that l by (intro less.prems(2)) auto
    qed
    then show ?thesis
      using scan_next_token_scanned [OF ok] True
      by (subst scan_tokens_loop.simps) (auto elim!: ensures_mono)
  next
    case False
    then show ?thesis
      using less.prems by (subst scan_tokens_loop.simps) simp
  qed
qed

lemma run_inv_new: "run_inv fid source [] (new_tokenizer fid source)"
  by (simp add: run_inv_def new_tokenizer_def tz_ok_def)

text \<open>
  C2: \<open>scan_all_tokens\<close> terminates on every source text.  It returns at most one token per character
  and a final end-of-file token; every token carries the file id and columns in order, and the line
  numbers never decrease.
\<close>

theorem scan_all_tokens_total:
  "\<exists>toks t'. scan_all_tokens (new_tokenizer fid source) = Some (toks, t')
    \<and> toks \<noteq> [] \<and> kind (last toks) = TOKEN_END_OF_FILE \<and> length toks \<le> length source + 1
    \<and> list_all (\<lambda>tok. file_id (position tok) = fid
         \<and> column_start (position tok) \<le> column_end (position tok)) toks
    \<and> sorted (map (\<lambda>tok. line_number (position tok)) toks)"
proof -
  have "ensures (scan_tokens_loop [] (new_tokenizer fid source))
      (\<lambda>(toks, t'). run_inv fid source toks t' \<and> length toks \<le> length source)"
    by (rule scan_tokens_loop_run [OF run_inv_new]) (simp add: left_def new_tokenizer_def)
  then obtain toks t' where run: "scan_tokens_loop [] (new_tokenizer fid source) = Some (toks, t')"
    "run_inv fid source toks t'" "length toks \<le> length source"
    by (auto simp: ensures_iff)
  let ?toks = "toks @ [build_token TOKEN_END_OF_FILE t']"
  have "scan_all_tokens (new_tokenizer fid source) = Some (?toks, t')"
    using run(1) by (simp add: scan_all_tokens_def)
  moreover have "kind (last ?toks) = TOKEN_END_OF_FILE"
    by (simp add: build_token_def build_token_lit_def)
  moreover have "list_all (\<lambda>tok. file_id (position tok) = fid
      \<and> column_start (position tok) \<le> column_end (position tok)) ?toks"
    using run(2) by (simp add: run_inv_def placed_def list_all_iff build_token_def
        build_token_lit_def build_token_span_def)
  moreover have "sorted (map (\<lambda>tok. line_number (position tok)) ?toks)"
    using run(2) by (auto simp: run_inv_def sorted_append build_token_def
        build_token_lit_def build_token_span_def)
  ultimately show ?thesis
    using run(3) by (intro exI [of _ ?toks] exI [of _ t']) simp
qed

subsection \<open>Identifiers and keywords\<close>

text \<open>
  C3: An identifier text (a letter or underscore, then letters, digits and underscores) that no
  further identifier character follows is one token: its literal is the text, its kind the keyword
  that prints as the text in \<open>token_kind_literal\<close>, or else \<open>TOKEN_IDENTIFIER\<close>; the scanner stops
  right after it, so the longest identifier is taken.
\<close>

theorem scan_identifier:
  assumes "tz_in t" and "rest t = (c # cs) @ s"
    and "is_alpha c \<or> c = CHR ''_''"
    and "\<forall>d \<in> set cs. is_alpha_num d \<or> d = CHR ''_''"
    and "s = [] \<or> \<not> (is_alpha_num (hd s) \<or> hd s = CHR ''_'')"
  shows "\<exists>tok t'. scan_next_token t = Some (tok, t') \<and> literal tok = c # cs
    \<and> kind tok = keyword_kind (c # cs) \<and> rest t' = s \<and> tline_number t' = tline_number t
    \<and> position tok = \<lparr>file_id = source_file_id t, line_number = tline_number t,
         column_start = column_current t + 1, column_end = column_current t + 1 + int (length cs)\<rparr>"
proof -
  have c: "is_ident_start c" and cs: "\<forall>d \<in> set cs. is_ident_char d"
    and s: "s = [] \<or> \<not> is_ident_char (hd s)"
    using assms(3-5) by (simp_all add: is_ident_start_def is_ident_char_def)
  have r: "rest t = c # (cs @ s)" using assms(2) by simp
  have "starts_token (c # (cs @ s))" using not_punctuation c by blast
  then have "scan_next_token t = consume_symbol (token_start t)"
    using scan_next_token_rest [OF assms(1) r] by (simp add: scan_token_from_symbol [OF c])
  also note consume_symbol_run [OF assms(1,2) cs s]
  finally show ?thesis
    using rest_token_start [OF r] resolve_keyword_is_keyword_kind [OF ident_no_nul [OF cs c]]
    by (simp add: build_token_lit_def build_token_span_def Let_def)
qed

theorem scan_identifier_witness:
  "\<exists>tok t'. scan_next_token (new_tokenizer 1 ''while(x)'') = Some (tok, t')
    \<and> kind tok = TOKEN_WHILE \<and> rest t' = ''(x)''"
proof -
  have "keyword_kind ''while'' = TOKEN_WHILE"
    by (simp add: keyword_kind_map keyword_texts_def keyword_kinds_def)
  then show ?thesis
    using scan_identifier [of "new_tokenizer 1 ''while(x)''" "CHR ''w''" "''hile''" "''(x)''"]
    by (force simp: tz_in_def tz_ok_def new_tokenizer_def rest_def is_alpha_num_def
        char_class_defs schar_def)
qed

end
