(* ===== verification/Lexing_Operators.thy ===== *)
theory Lexing_Operators
  imports Lexing
begin

text \<open>
  The operators and the punctuation: every kind that \<open>token_kind_literal\<close> prints as an operator is
  scanned back from its printed form (except \<open>>>\<close>, which the parser puts together).
\<close>

subsection \<open>What the switch yields\<close>

text \<open>A text after which no operator of the language continues.\<close>

definition op_stop :: "string \<Rightarrow> bool" where
  "op_stop s \<longleftrightarrow> (case s of [] \<Rightarrow> True | c # _ \<Rightarrow> \<not> contains ''.:=+->|<&/*'' c)"

text \<open>The switch yields kind \<open>k\<close> for the first character \<open>c\<close> followed by \<open>cs\<close>.\<close>

definition yields :: "token_kind \<Rightarrow> char \<Rightarrow> string \<Rightarrow> bool" where
  "yields k c cs \<longleftrightarrow> (\<forall>u s. tz_in u \<longrightarrow> rest u = cs @ s \<longrightarrow> op_stop s \<longrightarrow>
     scan_token_from c u = emit k (bump_by (length cs) u))"

lemma op_stop_cases:
  assumes "op_stop s"
  obtains "s = []" | d ds where "s = d # ds" "\<not> contains ''.:=+->|<&/*'' d"
  using assms by (auto simp: op_stop_def split: list.splits simp del: contains_simps)

lemma yields_one: "map_of one_character_tokens c = Some k \<Longrightarrow> yields k c []"
  by (simp add: yields_def scan_token_from_def)

lemma yields_two:
  assumes "map_of one_character_tokens c = None" and "map_of two_character_tokens c = Some (d, both, single)"
  shows "yields both c [d]" and "contains ''.:=+->|<&/*'' d \<Longrightarrow> yields single c []"
  using assms
  by (auto simp: yields_def scan_token_from_def match_char_rest bump_bump_by simp del: contains_simps match_char_in
      elim!: op_stop_cases)

lemma yields_operator:
  assumes "contains ''+-><|&'' c"
    and "\<And>u s. tz_in u \<Longrightarrow> rest u = cs @ s \<Longrightarrow> op_stop s \<Longrightarrow>
      scan_operator c u = emit k (bump_by (length cs) u)"
  shows "yields k c cs"
proof -
  have "map_of one_character_tokens c = None" "map_of two_character_tokens c = None"
    using assms(1) by (auto simp: one_character_tokens_def two_character_tokens_def)
  then show ?thesis using assms by (simp add: yields_def scan_token_from_def del: contains_simps)
qed

definition scanned_operators :: "(token_kind \<times> char \<times> string) list" where
  "scanned_operators = [
     (TOKEN_PLUS_EQUAL, CHR ''+'', ''=''), (TOKEN_PLUS_PLUS, CHR ''+'', ''+''), (TOKEN_PLUS, CHR ''+'', ''''),
     (TOKEN_MINUS_EQUAL, CHR ''-'', ''=''), (TOKEN_MINUS_MINUS, CHR ''-'', ''-''),
     (TOKEN_RIGHT_ARROW, CHR ''-'', ''>''), (TOKEN_MINUS, CHR ''-'', ''''),
     (TOKEN_GREATER_EQUAL, CHR ''>'', ''=''), (TOKEN_RIGHT_SHIFT_EQUAL, CHR ''>'', ''>=''),
     (TOKEN_GREATER, CHR ''>'', ''''),
     (TOKEN_SMALLER_EQUAL, CHR ''<'', ''=''), (TOKEN_LEFT_SHIFT_EQUAL, CHR ''<'', ''<=''),
     (TOKEN_LEFT_SHIFT, CHR ''<'', ''<''), (TOKEN_SMALLER, CHR ''<'', ''''),
     (TOKEN_OR_EQUAL, CHR ''|'', ''=''), (TOKEN_OR_OR, CHR ''|'', ''|''), (TOKEN_OR, CHR ''|'', ''''),
     (TOKEN_AND_EQUAL, CHR ''&'', ''=''), (TOKEN_AND_AND, CHR ''&'', ''&''), (TOKEN_AND, CHR ''&'', '''')]"

lemma scan_operator_yields: "list_all (\<lambda>(k, c, cs). yields k c cs) scanned_operators"
  unfolding scanned_operators_def
  by (simp only: list.pred_inject prod.case simp_thms, intro conjI; rule yields_operator;
      auto simp: scan_operator_def match_char_rest match_two_rest bump_bump_by tz_in_bump_by
        simp del: match_char_in elim!: op_stop_cases)

subsection \<open>The printed operators\<close>

text \<open>The kinds whose printed form is an operator or punctuation, \<open>TOKEN_RIGHT_SHIFT\<close> aside.\<close>

definition operator_kinds :: "token_kind list" where
  "operator_kinds = [
     TOKEN_OPEN_PAREN, TOKEN_CLOSE_PAREN, TOKEN_OPEN_BRACKET, TOKEN_CLOSE_BRACKET,
     TOKEN_OPEN_BRACE, TOKEN_CLOSE_BRACE, TOKEN_COMMA, TOKEN_SEMICOLON, TOKEN_NOT, TOKEN_AT,
     TOKEN_DOT, TOKEN_DOT_DOT, TOKEN_COLON, TOKEN_COLON_COLON, TOKEN_EQUAL, TOKEN_EQUAL_EQUAL,
     TOKEN_BANG, TOKEN_BANG_EQUAL, TOKEN_STAR, TOKEN_STAR_EQUAL, TOKEN_SLASH, TOKEN_SLASH_EQUAL,
     TOKEN_PERCENT, TOKEN_PARCENT_EQUAL, TOKEN_XOR,
     TOKEN_PLUS_EQUAL, TOKEN_PLUS_PLUS, TOKEN_PLUS, TOKEN_MINUS_EQUAL, TOKEN_MINUS_MINUS,
     TOKEN_RIGHT_ARROW, TOKEN_MINUS, TOKEN_GREATER_EQUAL, TOKEN_RIGHT_SHIFT_EQUAL, TOKEN_GREATER,
     TOKEN_SMALLER_EQUAL, TOKEN_LEFT_SHIFT_EQUAL, TOKEN_LEFT_SHIFT, TOKEN_SMALLER,
     TOKEN_OR_OR, TOKEN_OR, TOKEN_AND_AND, TOKEN_AND]"

definition operator_texts :: "string list" where
  "operator_texts = [
     ''('', '')'', ''['', '']'', ''{'', ''}'', '','', '';'', ''~'', ''@'',
     ''.'', ''..'', '':'', ''::'', ''='', ''=='', ''!'', ''!='', ''*'', ''*='', ''/'', ''/='',
     ''%'', ''%='', ''^'', ''+='', ''++'', ''+'', ''-='', ''--'', ''->'', ''-'', ''>='', ''>>='', ''>'',
     ''<='', ''<<='', ''<<'', ''<'', ''||'', ''|'', ''&&'', ''&'']"

lemma operator_literals: "map (map_of token_kind_literal) operator_kinds = map Some operator_texts"
  by (simp add: operator_kinds_def operator_texts_def token_kind_literal_def)

lemma one_char_yields:
  "list_all (\<lambda>(c, k). yields k c []) one_character_tokens"
  unfolding one_character_tokens_def
  by (simp add: yields_one one_character_tokens_def)

lemma two_char_yields:
  "list_all (\<lambda>(c, d, both, single). yields both c [d] \<and> yields single c []) two_character_tokens"
  unfolding two_character_tokens_def list_all_iff
  by (auto intro!: yields_two simp: one_character_tokens_def two_character_tokens_def)

lemma operators_yield:
  "list_all (\<lambda>(k, w). yields k (hd w) (tl w)) (zip operator_kinds operator_texts)"
  using one_char_yields two_char_yields scan_operator_yields
  unfolding one_character_tokens_def two_character_tokens_def scanned_operators_def
    operator_kinds_def operator_texts_def
  by simp

lemma operator_text_yields:
  assumes "contains operator_kinds k" and "map_of token_kind_literal k = Some w"
  shows "yields k (hd w) (tl w) \<and> (k, w) \<in> set (zip operator_kinds operator_texts)"
proof -
  obtain i where i: "i < length operator_kinds" "operator_kinds ! i = k"
    using assms(1) by (auto simp: contains_def in_set_conv_nth)
  have len: "length operator_texts = length operator_kinds"
    using arg_cong [OF operator_literals, of length] by simp
  have "operator_texts ! i = w"
    using arg_cong [OF operator_literals, of "\<lambda>xs. xs ! i"] i len assms(2) by simp
  then have "(k, w) \<in> set (zip operator_kinds operator_texts)"
    using i len by (auto simp: in_set_zip)
  then show ?thesis using operators_yield by (auto simp: list_all_iff)
qed

text \<open>No operator text followed by a stop opens white space or a comment.\<close>

lemma operator_starts:
  assumes "w \<in> set operator_texts" and "op_stop s"
  shows "w \<noteq> [] \<and> starts_token (w @ s)"
proof -
  have "list_all (\<lambda>w. w \<noteq> [] \<and> \<not> contains [CHR '' '', CHR 0x0D, CHR 0x09, newline] (hd w)
      \<and> (hd w = CHR ''/'' \<longrightarrow> w = ''/'' \<or> w = ''/='')) operator_texts"
    by (simp add: operator_texts_def)
  then have "w \<noteq> []" "\<not> contains [CHR '' '', CHR 0x0D, CHR 0x09, newline] (hd w)"
    "hd w = CHR ''/'' \<longrightarrow> w = ''/'' \<or> w = ''/=''"
    using assms(1) by (simp_all add: list_all_iff del: contains_simps)
  then show ?thesis
    using assms(2)
    by (cases w) (auto simp: starts_token_def op_stop_def split: list.splits)
qed

text \<open>
  C4: Operators and punctuation round-trip through \<open>token_kind_literal\<close>: for every such kind but
  \<open>TOKEN_RIGHT_SHIFT\<close>, scanning the printed form, where no operator character follows, returns that
  kind with an empty literal and stops right after it.
\<close>

theorem scan_operator_roundtrip:
  assumes "contains operator_kinds k" and "map_of token_kind_literal k = Some w"
    and "tz_in t" and "rest t = w @ s" and "s = [] \<or> hd s \<notin> set ''.:=+->|<&/*''"
  shows "\<exists>tok t'. scan_next_token t = Some (tok, t') \<and> kind tok = k \<and> literal tok = ''''
    \<and> rest t' = s
    \<and> column_end (position tok) - column_start (position tok) = int (length w) - 1"
proof -
  have stop: "op_stop s"
    using assms(5) by (cases s) (auto simp: op_stop_def)
  note y = operator_text_yields [OF assms(1,2)]
  have "w \<in> set operator_texts" using y by (auto dest: set_zip_rightD)
  then have w: "w \<noteq> []" "starts_token (w @ s)" using operator_starts stop by blast+
  then obtain c cs where wc: "w = c # cs" by (cases w) auto
  have r: "rest t = c # (cs @ s)" using assms(4) wc by simp
  have "scan_next_token t = scan_token_from c (token_start t)"
    using scan_next_token_rest [OF assms(3) r] w(2) wc by simp
  also have "\<dots> = emit k (bump_by (length cs) (token_start t))"
    using y wc stop tz_in_token_start [OF assms(3) r] rest_token_start [OF r]
    by (simp add: yields_def)
  finally show ?thesis
    using rest_token_start [OF r] wc
    by (simp add: emit_def build_token_def build_token_lit_def build_token_span_def)
qed

theorem scan_operator_roundtrip_witness:
  "\<exists>tok t'. scan_next_token (new_tokenizer 1 ''->x'') = Some (tok, t') \<and> kind tok = TOKEN_RIGHT_ARROW
    \<and> rest t' = ''x''"
proof -
  have "contains operator_kinds TOKEN_RIGHT_ARROW"
    "map_of token_kind_literal TOKEN_RIGHT_ARROW = Some ''->''"
    by (simp_all add: operator_kinds_def token_kind_literal_def)
  from scan_operator_roundtrip [OF this, of "new_tokenizer 1 ''->x''" "''x''"] show ?thesis
    by (force simp: tz_in_def tz_ok_def new_tokenizer_def rest_def)
qed

end
