(* ===== verification/Lexing_Literals.thy ===== *)
theory Lexing_Literals
  imports Lexing
begin

text \<open>
  Number, string and character literals: which texts the tokenizer accepts, and the value it puts
  in the token.
\<close>

subsection \<open>The text a function has consumed\<close>

definition consumed :: "tokenizer \<Rightarrow> string \<Rightarrow> tokenizer \<Rightarrow> bool" where
  "consumed t0 w t \<longleftrightarrow> tz_in t0 \<and> take (length w) (rest t0) = w \<and> t = bump_by (length w) t0"

lemma consumed_Nil [simp]: "consumed t [] t \<longleftrightarrow> tz_in t"
  by (simp add: consumed_def)

lemma consumed_bump_by: "consumed t0 w t \<Longrightarrow> t = bump_by (length w) t0"
  by (simp add: consumed_def)

lemma consumed_in: "consumed t0 w t \<Longrightarrow> tz_in t"
  unfolding consumed_def by (metis length_take min.cobounded1 tz_in_bump_by)

lemma consumed_rest: "consumed t0 w t \<Longrightarrow> rest t0 = w @ rest t"
  by (simp add: consumed_def) (metis append_take_drop_id)

lemma consumedI: "tz_in t0 \<Longrightarrow> rest t0 = w @ s \<Longrightarrow> consumed t0 w (bump_by (length w) t0)"
  by (simp add: consumed_def)

lemma consumed_trans:
  assumes "consumed t0 v t1" and "consumed t1 w t2"
  shows "consumed t0 (v @ w) t2"
proof -
  have "tz_in t0" using assms(1) by (simp add: consumed_def)
  moreover have "rest t0 = (v @ w) @ rest t2"
    using consumed_rest [OF assms(1)] consumed_rest [OF assms(2)] by simp
  ultimately have "consumed t0 (v @ w) (bump_by (length (v @ w)) t0)" by (rule consumedI)
  moreover have "t2 = bump_by (length (v @ w)) t0"
    using consumed_bump_by [OF assms(2)] unfolding consumed_bump_by [OF assms(1)] by simp
  ultimately show ?thesis by simp
qed

lemma consumed_bump: "tz_in t \<Longrightarrow> rest t = c # s \<Longrightarrow> consumed t [c] (bump t)"
  by (simp add: consumed_def) (simp add: bump_as_bump_by)

lemma consumed_snoc:
  "consumed t0 w t \<Longrightarrow> rest t = c # s \<Longrightarrow> consumed t0 (w @ [c]) (bump t)"
  by (rule consumed_trans [OF _ consumed_bump [OF consumed_in]])

subsection \<open>Number suffixes\<close>

text \<open>
  The texts that the suffix functions accept after their letter, with the kind.  Next to the
  documented widths there are the texts of a partial match that is not undone: \<open>i364\<close>, \<open>u18\<close>,
  \<open>u132\<close>, \<open>u1364\<close>, \<open>u364\<close>, \<open>f364\<close>.
\<close>

definition signed_widths :: "(string \<times> token_kind) list" where
  "signed_widths = [(''1'', TOKEN_INT1), (''16'', TOKEN_INT16), (''8'', TOKEN_INT8),
     (''32'', TOKEN_INT32), (''64'', TOKEN_INT64), (''364'', TOKEN_INT64)]"

definition unsigned_widths :: "(string \<times> token_kind) list" where
  "unsigned_widths = [(''16'', TOKEN_UINT16), (''8'', TOKEN_UINT8), (''18'', TOKEN_UINT8),
     (''32'', TOKEN_UINT32), (''132'', TOKEN_UINT32), (''64'', TOKEN_UINT64),
     (''364'', TOKEN_UINT64), (''1364'', TOKEN_UINT64)]"

definition float_widths :: "(string \<times> token_kind) list" where
  "float_widths = [(''32'', TOKEN_FLOAT32), (''64'', TOKEN_FLOAT64), (''364'', TOKEN_FLOAT64)]"

definition prefixed :: "char \<Rightarrow> (string \<times> token_kind) list \<Rightarrow> (string \<times> token_kind) list" where
  "prefixed c = map (\<lambda>(w, k). (c # w, k))"

definition second_suffixes :: "(string \<times> token_kind) list" where
  "second_suffixes = prefixed (CHR ''u'') unsigned_widths @ prefixed (CHR ''f'') float_widths"

text \<open>A signed suffix may be followed by an unsigned or a floating one, which then decides.\<close>

definition accepted_suffixes :: "token_kind \<Rightarrow> (string \<times> token_kind) list" where
  "accepted_suffixes k = concat (map
     (\<lambda>(u, k1). map (\<lambda>(v, k2). (u @ v, k2)) (('''', k1) # second_suffixes))
     (('''', k) # prefixed (CHR ''i'') signed_widths))"

definition suffix_sound
  :: "tokenizer \<Rightarrow> (string \<times> token_kind) list \<Rightarrow> ((token + token_kind) \<times> tokenizer) option \<Rightarrow> bool" where
  "suffix_sound t0 texts m \<longleftrightarrow> ensures m (\<lambda>(r, t'). \<forall>k. r = Inr k \<longrightarrow>
     (\<exists>w. (w, k) \<in> set texts \<and> consumed t0 w t'))"

lemma width_suffix_sound:
  assumes "tz_in t"
  shows "suffix_sound t signed_widths (signed_suffix k t)"
    and "suffix_sound t unsigned_widths (unsigned_suffix k t)"
    and "suffix_sound t float_widths (float_suffix k t)"
  using assms
  by (auto simp: suffix_sound_def signed_suffix_def unsigned_suffix_def float_suffix_def match_and_def
      match_char_rest bump_bump_by consumed_def tz_in_bump_by
      ex_disj_distrib conj_disj_distribR signed_widths_def unsigned_widths_def float_widths_def
      simp del: match_char_in split: list.split)

lemma suffix_sound_after:
  assumes "suffix_sound t1 texts m" and "consumed t0 v t1"
    and "\<And>w k. (w, k) \<in> set texts \<Longrightarrow> (v @ w, k) \<in> set texts'"
  shows "suffix_sound t0 texts' m"
  using assms(1) unfolding suffix_sound_def
  by (rule ensures_mono) (fastforce dest: consumed_trans [OF assms(2)] assms(3))

lemma prefixed_iff: "(w, k) \<in> set (prefixed c texts) \<longleftrightarrow> (\<exists>v. w = c # v \<and> (v, k) \<in> set texts)"
  by (auto simp: prefixed_def)

lemma accepted_suffixes_iff:
  "(w, k') \<in> set (accepted_suffixes k) \<longleftrightarrow>
     (\<exists>u v k1. w = u @ v \<and> (u = '''' \<and> k1 = k \<or> (u, k1) \<in> set (prefixed (CHR ''i'') signed_widths))
        \<and> (v = '''' \<and> k' = k1 \<or> (v, k') \<in> set second_suffixes))"
  (is "?L = ?R")
proof
  assume ?L
  then show ?R unfolding accepted_suffixes_def by (auto simp: image_iff; fastforce)
next
  assume ?R
  then show ?L
    unfolding accepted_suffixes_def
    by (elim exE conjE disjE) (force simp: image_iff)+
qed

lemma second_suffix_sound:
  assumes "tz_in t"
  shows "suffix_sound t (('''', k) # second_suffixes) (unsigned_or_float_suffix k t)"
proof -
  have u: "suffix_sound t (('''', k) # second_suffixes) (unsigned_suffix k (bump t))"
    if "rest t = CHR ''u'' # s" for s
    using suffix_sound_after [OF width_suffix_sound(2) consumed_bump [OF assms that]]
    using assms that by (auto simp: second_suffixes_def prefixed_iff)
  have f: "suffix_sound t (('''', k) # second_suffixes) (float_suffix k (bump t))"
    if "rest t = CHR ''f'' # s" for s
    using suffix_sound_after [OF width_suffix_sound(3) consumed_bump [OF assms that]]
    using assms that by (auto simp: second_suffixes_def prefixed_iff)
  have none: "suffix_sound t (('''', k) # second_suffixes) (Some (Inr k, t))"
    "suffix_sound t (('''', k) # second_suffixes) (Some (Inl tok, t))" for tok
    using assms by (auto simp: suffix_sound_def intro!: exI [of _ "''''"])
  show ?thesis
    using assms u f none unfolding unsigned_or_float_suffix_def
    by (auto simp: match_char_rest simp del: match_char_in split: list.split)
qed

lemma number_suffix_sound:
  assumes "tz_in t"
  shows "suffix_sound t (accepted_suffixes k) (number_suffix k t)"
proof -
  have second: "suffix_sound t (accepted_suffixes k) (unsigned_or_float_suffix k1 t')"
    if "consumed t u t'" "u = '''' \<and> k1 = k \<or> (u, k1) \<in> set (prefixed (CHR ''i'') signed_widths)"
    for u k1 t'
    by (rule suffix_sound_after [OF second_suffix_sound [OF consumed_in [OF that(1)]] that(1)])
      (use that(2) in \<open>auto simp: accepted_suffixes_iff\<close>)
  show ?thesis
  proof (cases "\<exists>s. rest t = CHR ''i'' # s")
    case True
    then obtain s where s: "rest t = CHR ''i'' # s" ..
    have c: "consumed t [CHR ''i''] (bump t)" by (rule consumed_bump [OF assms s])
    have "suffix_sound (bump t) signed_widths (signed_suffix k (bump t))"
      by (rule width_suffix_sound(1) [OF consumed_in [OF c]])
    then have "ensures (signed_suffix k (bump t)) (\<lambda>r. suffix_sound t (accepted_suffixes k)
        (case r of (Inl tok, t) \<Rightarrow> Some (Inl tok, t) | (Inr k, t) \<Rightarrow> unsigned_or_float_suffix k t))"
      unfolding suffix_sound_def [of "bump t"]
    proof (rule ensures_mono)
      fix r :: "(token + token_kind) \<times> tokenizer"
      assume r: "case r of (r, t') \<Rightarrow> \<forall>k. r = Inr k \<longrightarrow>
        (\<exists>w. (w, k) \<in> set signed_widths \<and> consumed (bump t) w t')"
      show "suffix_sound t (accepted_suffixes k)
        (case r of (Inl tok, t) \<Rightarrow> Some (Inl tok, t) | (Inr k, t) \<Rightarrow> unsigned_or_float_suffix k t)"
      proof (cases "fst r")
        case (Inl tok)
        then show ?thesis by (cases r) (simp add: suffix_sound_def)
      next
        case (Inr k1)
        then obtain w where "(w, k1) \<in> set signed_widths" "consumed (bump t) w (snd r)"
          using r by (cases r) auto
        then have "suffix_sound t (accepted_suffixes k) (unsigned_or_float_suffix k1 (snd r))"
          using consumed_trans [OF c] by (intro second [of "CHR ''i'' # w"]) (auto simp: prefixed_iff)
        then show ?thesis using Inr by (cases r) simp
      qed
    qed
    then show ?thesis
      using assms s unfolding number_suffix_def
      by (simp add: match_char_rest suffix_sound_def del: match_char_in)
  next
    case False
    then have "match_char (CHR ''i'') t = Some (False, t)"
      using assms by (auto simp: match_char_rest simp del: match_char_in split: list.split)
    then show ?thesis
      using second [of "''''" t k] assms unfolding number_suffix_def by simp
  qed
qed

text \<open>Conversely, a width text that no digit follows is taken whole.\<close>

definition no_digit :: "string \<Rightarrow> bool" where
  "no_digit s \<longleftrightarrow> (case s of [] \<Rightarrow> True | d # _ \<Rightarrow> \<not> is_digit d)"

lemma no_digitE:
  assumes "no_digit s"
  obtains "s = []" | d ds where "s = d # ds" "d \<noteq> CHR ''1''" "d \<noteq> CHR ''2''" "d \<noteq> CHR ''3''"
    "d \<noteq> CHR ''4''" "d \<noteq> CHR ''6''" "d \<noteq> CHR ''8''"
proof -
  have "list_all is_digit ''123468''" by (simp add: is_digit_def schar_def)
  then show thesis
    using assms that by (cases s) (auto simp: no_digit_def)
qed

lemmas width_complete_simps = match_and_def match_char_rest bump_bump_by tz_in_bump_by

lemma width_suffix_complete:
  assumes "tz_in t" and "rest t = w @ s" and "no_digit s"
  shows "(w, k') \<in> set signed_widths \<Longrightarrow> signed_suffix k t = Some (Inr k', bump_by (length w) t)"
    and "(w, k') \<in> set unsigned_widths \<Longrightarrow> unsigned_suffix k t = Some (Inr k', bump_by (length w) t)"
    and "(w, k') \<in> set float_widths \<Longrightarrow> float_suffix k t = Some (Inr k', bump_by (length w) t)"
proof -
  note [simp del] = match_char_in
  show "signed_suffix k t = Some (Inr k', bump_by (length w) t)" if "(w, k') \<in> set signed_widths"
    using assms(3) that assms(1,2) unfolding signed_widths_def
    by (elim no_digitE) (auto simp: signed_suffix_def width_complete_simps)
  show "unsigned_suffix k t = Some (Inr k', bump_by (length w) t)" if "(w, k') \<in> set unsigned_widths"
    using assms(3) that assms(1,2) unfolding unsigned_widths_def
    by (elim no_digitE) (auto simp: unsigned_suffix_def width_complete_simps)
  show "float_suffix k t = Some (Inr k', bump_by (length w) t)" if "(w, k') \<in> set float_widths"
    using assms(3) that assms(1,2) unfolding float_widths_def
    by (elim no_digitE) (auto simp: float_suffix_def width_complete_simps)
qed

text \<open>What may follow a number: no letter, digit, underscore or point.\<close>

definition number_stop :: "string \<Rightarrow> bool" where
  "number_stop s \<longleftrightarrow> s = [] \<or> \<not> (is_alpha_num (hd s) \<or> is_underscore (hd s) \<or> hd s = CHR ''.'')"

lemma number_stop_Cons:
  "number_stop (d # s) \<longleftrightarrow> \<not> is_alpha d \<and> \<not> is_digit d \<and> d \<noteq> CHR ''_'' \<and> d \<noteq> CHR ''.''"
  by (simp add: number_stop_def is_alpha_num_def is_underscore_def)

lemma number_stop_no_digit: "number_stop s \<Longrightarrow> no_digit s"
  by (cases s) (simp_all add: no_digit_def number_stop_Cons)

lemma letters_alpha [simp]: "is_alpha (CHR ''i'')" "is_alpha (CHR ''u'')" "is_alpha (CHR ''f'')"
  by (simp_all add: is_alpha_def schar_def)

lemma letters_not_digit [simp]:
  "\<not> is_digit (CHR ''i'')" "\<not> is_digit (CHR ''u'')" "\<not> is_digit (CHR ''f'')"
  by (simp_all add: is_digit_def schar_def)

lemma second_suffix_complete:
  assumes "tz_in t" and "rest t = w @ s" and "number_stop s"
    and "w = '''' \<and> k' = k \<or> (w, k') \<in> set second_suffixes"
  shows "unsigned_or_float_suffix k t = Some (Inr k', bump_by (length w) t)"
proof -
  have nodigit: "no_digit s" using assms(3) by (rule number_stop_no_digit)
  consider "w = ''''" "k' = k" | v where "w = CHR ''u'' # v" "(v, k') \<in> set unsigned_widths"
    | v where "w = CHR ''f'' # v" "(v, k') \<in> set float_widths"
    using assms(4) by (auto simp: second_suffixes_def prefixed_iff)
  then show ?thesis
  proof cases
    case 1
    then show ?thesis
      using assms(1-3) unfolding unsigned_or_float_suffix_def
      by (cases s) (auto simp: match_char_rest cur_rest number_stop_Cons simp del: match_char_in)
  next
    case 2
    then show ?thesis
      using assms(1,2) width_suffix_complete(2) [of "bump t" v s k' k] nodigit
      unfolding unsigned_or_float_suffix_def
      by (simp add: match_char_rest bump_by_Suc del: match_char_in)
  next
    case 3
    then show ?thesis
      using assms(1,2) width_suffix_complete(3) [of "bump t" v s k' k] nodigit
      unfolding unsigned_or_float_suffix_def
      by (simp add: match_char_rest bump_by_Suc del: match_char_in)
  qed
qed

lemma second_suffix_no_digit:
  "v = '''' \<and> k' = k1 \<or> (v, k') \<in> set second_suffixes \<Longrightarrow> number_stop s \<Longrightarrow>
   no_digit (v @ s) \<and> (\<forall>r. v @ s \<noteq> CHR ''i'' # r)"
  using number_stop_no_digit [of s]
  by (cases s) (auto simp: second_suffixes_def prefixed_iff no_digit_def number_stop_Cons)

lemma number_suffix_complete:
  assumes "tz_in t" and "rest t = w @ s" and "number_stop s"
    and "(w, k') \<in> set (accepted_suffixes k)"
  shows "number_suffix k t = Some (Inr k', bump_by (length w) t)"
proof -
  obtain u v k1 where w: "w = u @ v"
    and u: "u = '''' \<and> k1 = k \<or> (u, k1) \<in> set (prefixed (CHR ''i'') signed_widths)"
    and v: "v = '''' \<and> k' = k1 \<or> (v, k') \<in> set second_suffixes"
    using assms(4) by (auto simp: accepted_suffixes_iff)
  note follow = second_suffix_no_digit [OF v assms(3)]
  have second: "unsigned_or_float_suffix k1 (bump_by (length u) t) = Some (Inr k', bump_by (length w) t)"
    using assms(1,2) w tz_in_bump_by [of t "length u"]
      second_suffix_complete [OF _ _ assms(3) v, of "bump_by (length u) t"] by simp
  show ?thesis
  proof (cases "u = ''''")
    case True
    then have "(u, k1) \<notin> set (prefixed (CHR ''i'') signed_widths)" by (simp add: prefixed_iff)
    then show ?thesis
      using True u w assms(1,2) follow second unfolding number_suffix_def
      by (auto simp: match_char_rest simp del: match_char_in split: list.split)
  next
    case False
    then obtain x where x: "u = CHR ''i'' # x" "(x, k1) \<in> set signed_widths"
      using u by (auto simp: prefixed_iff)
    then have "signed_suffix k (bump t) = Some (Inr k1, bump_by (length x) (bump t))"
      using assms(1,2) w follow by (intro width_suffix_complete(1) [of _ _ "v @ s"]) auto
    then show ?thesis
      using x(1) w assms(1,2) second unfolding number_suffix_def
      by (simp add: match_char_rest bump_by_Suc del: match_char_in)
  qed
qed

text \<open>
  C5: The suffixes of a number are exactly the texts of \<open>accepted_suffixes\<close>: on a text \<open>w\<close> that no
  letter, digit, underscore or point follows, \<open>consume_number\<close>'s suffix part ends the number with kind
  \<open>k'\<close> right after \<open>w\<close> iff \<open>w\<close> is in the list with kind \<open>k'\<close>.  (The list shows that \<open>u18\<close>, \<open>i364\<close> or
  \<open>i8u16\<close> are accepted besides the documented widths.)
\<close>

theorem number_suffix_exact:
  assumes "tz_in t" and "rest t = w @ s"
    and "s = [] \<or> \<not> (is_alpha_num (hd s) \<or> is_underscore (hd s) \<or> hd s = CHR ''.'')"
  shows "number_suffix k t = Some (Inr k', bump_by (length w) t)
    \<longleftrightarrow> (w, k') \<in> set (accepted_suffixes k)"
proof
  assume "number_suffix k t = Some (Inr k', bump_by (length w) t)"
  then obtain v where v: "(v, k') \<in> set (accepted_suffixes k)" "consumed t v (bump_by (length w) t)"
    using number_suffix_sound [OF assms(1), of k] by (auto simp: suffix_sound_def)
  have "length v = length w"
    using arg_cong [OF consumed_bump_by [OF v(2)], of current_position] by simp
  then have "v = w" using v(2) assms(2) by (simp add: consumed_def)
  then show "(w, k') \<in> set (accepted_suffixes k)" using v(1) by simp
next
  assume "(w, k') \<in> set (accepted_suffixes k)"
  then show "number_suffix k t = Some (Inr k', bump_by (length w) t)"
    using assms by (intro number_suffix_complete [of _ _ s]) (simp_all add: number_stop_def)
qed

theorem number_suffix_exact_witness:
  "number_suffix TOKEN_INT (new_tokenizer 1 ''u18;'')
     = Some (Inr TOKEN_UINT8, bump_by 3 (new_tokenizer 1 ''u18;''))"
  using number_suffix_exact [of "new_tokenizer 1 ''u18;''" "''u18''" "'';''" TOKEN_INT TOKEN_UINT8]
  by (simp add: new_tokenizer_def tz_in_def tz_ok_def rest_def is_alpha_num_def is_underscore_def
      is_alpha_def is_digit_def schar_def accepted_suffixes_def second_suffixes_def prefixed_def
      unsigned_widths_def)

subsection \<open>Decimal numbers\<close>

definition digit_run :: "string \<Rightarrow> bool" where
  "digit_run ds \<longleftrightarrow> ds \<noteq> [] \<and> is_digit (hd ds) \<and> list_all (\<lambda>c. is_digit c \<or> is_underscore c) ds"

definition fraction :: "string \<Rightarrow> bool" where
  "fraction f \<longleftrightarrow> f = '''' \<or> (\<exists>ds. f = CHR ''.'' # ds \<and> digit_run ds)"

definition number_kind_of :: "string \<Rightarrow> token_kind" where
  "number_kind_of f = (if f = '''' then TOKEN_INT else TOKEN_FLOAT)"

text \<open>A suffix followed by a stop continues neither the digits nor the fraction of a number.\<close>

definition ends_digits :: "string \<Rightarrow> bool" where
  "ends_digits s \<longleftrightarrow> (case s of [] \<Rightarrow> True
     | d # _ \<Rightarrow> \<not> is_digit d \<and> \<not> is_underscore d)"

lemma accepted_suffix_head:
  assumes "(w, k') \<in> set (accepted_suffixes k)" and "number_stop s"
  shows "ends_digits (w @ s)" and "w @ s \<noteq> CHR ''.'' # r"
    and "contains ''xbo'' c \<Longrightarrow> w @ s \<noteq> c # r"
proof -
  have "w = '''' \<or> (\<exists>v. w = CHR ''i'' # v) \<or> (\<exists>v. w = CHR ''u'' # v) \<or> (\<exists>v. w = CHR ''f'' # v)"
    using assms(1) by (auto simp: accepted_suffixes_iff second_suffixes_def prefixed_iff)
  moreover have "list_all is_alpha ''xbo''" by (simp add: is_alpha_def schar_def)
  ultimately show "ends_digits (w @ s)" "w @ s \<noteq> CHR ''.'' # r"
    "contains ''xbo'' c \<Longrightarrow> w @ s \<noteq> c # r"
    using assms(2)
    by (cases s; auto simp: ends_digits_def number_stop_Cons is_underscore_def)+
qed

lemma advance_while_digits:
  assumes "tz_in t" and "rest t = ds @ s" and "list_all (\<lambda>c. is_digit c \<or> is_underscore c) ds"
    and "ends_digits s"
  shows "advance_while (\<lambda>c. is_digit c \<or> is_underscore c) t = Some (bump_by (length ds) t)"
proof -
  have "takeWhile (\<lambda>c. is_digit c \<or> is_underscore c) (ds @ s) = ds"
    using assms(3,4)
    by (intro takeWhile_run) (auto simp: list_all_iff ends_digits_def split: list.splits)
  then show ?thesis
    using advance_while_eq [of "\<lambda>c. is_digit c \<or> is_underscore c" t] assms(1,2) by simp
qed

lemma consume_number_run:
  assumes "tz_in t" and "rest t = (c # cs) @ f @ w @ s" and "digit_run (c # cs)" and "fraction f"
    and "(w, k') \<in> set (accepted_suffixes (number_kind_of f))" and "number_stop s"
  shows "consume_number (token_start t) =
    (let t' = bump_by (length (cs @ f @ w)) (token_start t)
     in Some (build_token_lit k' (erase_char (CHR ''_'') ((c # cs) @ f)) t', t'))"
proof -
  let ?p = "\<lambda>c. is_digit c \<or> is_underscore c"
  let ?u = "token_start t"
  have r: "rest ?u = cs @ f @ w @ s" using rest_token_start [of t c] assms(2) by simp
  have tin: "tz_in ?u" using tz_in_token_start [of t c] assms(1,2) by simp
  note head = accepted_suffix_head [OF assms(5,6)]
  have "ends_digits (f @ w @ s)"
    using head(1) assms(4) by (auto simp: fraction_def ends_digits_def is_digit_def schar_def is_underscore_def)
  then have digits: "advance_while ?p ?u = Some (bump_by (length cs) ?u)"
    using tin r assms(3) by (intro advance_while_digits) (auto simp: digit_run_def)
  let ?v = "bump_by (length cs) ?u"
  have v: "tz_in ?v" "rest ?v = f @ w @ s" using tin r tz_in_bump_by [of ?u "length cs"] by simp_all
  have frac: "do {
      c \<leftarrow> peek ?v;
      d \<leftarrow> peek_next ?v;
      r \<leftarrow> (if c = CHR ''.'' \<and> is_digit d then do {
           (_, t) \<leftarrow> advance ?v;
           t \<leftarrow> advance_while ?p t;
           Some (TOKEN_FLOAT, t)
         } else Some (TOKEN_INT, ?v));
      K r } = K (number_kind_of f, bump_by (length f) ?v)" for K
  proof (cases "f = ''''")
    case True
    obtain d where "peek_next ?v = Some d" using peek_next_in v(1) by (auto simp: tz_in_def)
    moreover have "cur ?v \<noteq> CHR ''.''"
      using v True head(2) by (auto simp: cur_rest split: list.split)
    ultimately show ?thesis using True v(1) by (simp add: number_kind_of_def)
  next
    case False
    then obtain d ds where f: "f = CHR ''.'' # d # ds" "digit_run (d # ds)"
      using assms(4) by (auto simp: fraction_def digit_run_def neq_Nil_conv)
    have d: "is_digit d" using f(2) by (simp add: digit_run_def)
    have rv: "rest ?v = CHR ''.'' # (d # ds @ w @ s)" using v(2) f(1) by simp
    have "advance_while ?p (bump ?v) = Some (bump_by (length (d # ds)) (bump ?v))"
      using v(1) rv f(2) head(1)
      by (intro advance_while_digits [of _ _ "w @ s"]) (auto simp: digit_run_def simp del: bump_by_sel)
    then show ?thesis
      using v(1) rv peek_next_rest [OF v(1) rv] f(1) d rest_Cons [OF v(1) rv]
      by (simp add: number_kind_of_def bump_by_Suc del: bump_by_bump_by)
  qed
  let ?x = "bump_by (length f) ?v"
  have x: "tz_in ?x" "rest ?x = w @ s" using v r tz_in_bump_by [of ?v "length f"] by simp_all
  have suffix: "number_suffix (number_kind_of f) ?x = Some (Inr k', bump_by (length w) ?x)"
    by (rule number_suffix_complete [OF x(1,2) assms(6,5)])
  have "substr (source_code ?u) (start_position ?u - Suc 0) (length ((c # cs) @ f)) = Some ((c # cs) @ f)"
    by (rule substr_token [of t c "cs @ f @ w @ s" ?u _ _ "w @ s"]) (use assms(2) in simp_all)
  then have sub: "substr (source_code t) (start_position ?u - Suc 0) (length ((c # cs) @ f))
      = Some ((c # cs) @ f)" by simp
  show ?thesis
    unfolding consume_number_def digits Option.bind.simps frac
    using suffix sub by (simp add: Let_def ac_simps)
qed

lemma scan_zero_decimal:
  assumes "tz_in u" and "\<And>c r. contains ''xbo'' c \<Longrightarrow> rest u \<noteq> c # r"
  shows "scan_zero u = consume_number u"
  using assms unfolding scan_zero_def
  by (auto simp: match_char_rest simp del: match_char_in split: list.split)

text \<open>
  C6: A decimal number (digits with underscores, an optional fraction, an accepted suffix) that
  nothing continues is one token: its kind is the one of the suffix, its literal is the digits and
  the fraction without the underscores, and the scanner stops right after the suffix.
\<close>

theorem scan_number:
  assumes "tz_in t" and "rest t = ds @ f @ w @ s" and "digit_run ds" and "fraction f"
    and "(w, k') \<in> set (accepted_suffixes (number_kind_of f))"
    and "s = [] \<or> \<not> (is_alpha_num (hd s) \<or> is_underscore (hd s) \<or> hd s = CHR ''.'')"
  shows "\<exists>tok t'. scan_next_token t = Some (tok, t') \<and> kind tok = k'
    \<and> literal tok = erase_char (CHR ''_'') (ds @ f) \<and> rest t' = s"
proof -
  obtain c cs where ds: "ds = c # cs" using assms(3) by (cases ds) (simp_all add: digit_run_def)
  have c: "is_digit c" using assms(3) ds by (simp add: digit_run_def)
  have stop: "number_stop s" using assms(6) by (simp add: number_stop_def)
  have r: "rest t = c # (cs @ f @ w @ s)" using assms(2) ds by simp
  note start = tz_in_token_start [OF assms(1) r] rest_token_start [OF r]
  have "\<not> contains ''xbo'' d" if "is_digit d \<or> is_underscore d \<or> d = CHR ''.''" for d
    using that by (auto simp: is_digit_def is_underscore_def schar_def)
  then have "rest (token_start t) \<noteq> d # x" if "contains ''xbo'' d" for d x
    using that start(2) assms(3,4) ds accepted_suffix_head(3) [OF assms(5) stop that]
    by (cases cs; cases f) (auto simp: digit_run_def fraction_def simp del: contains_simps)
  then have "scan_zero (token_start t) = consume_number (token_start t)"
    by (intro scan_zero_decimal start)
  then have "scan_next_token t = consume_number (token_start t)"
    using scan_next_token_rest [OF assms(1) r] not_punctuation(4) c
    by (simp add: scan_token_from_digit [OF c])
  also have "\<dots> = (let t' = bump_by (length (cs @ f @ w)) (token_start t)
     in Some (build_token_lit k' (erase_char (CHR ''_'') ((c # cs) @ f)) t', t'))"
    using assms ds stop by (intro consume_number_run [of _ _ _ _ _ s]) simp_all
  finally show ?thesis
    using start ds by (simp add: Let_def build_token_lit_def)
qed

theorem scan_number_witness:
  "\<exists>tok t'. scan_next_token (new_tokenizer 1 ''1_0.5f32)'') = Some (tok, t')
     \<and> kind tok = TOKEN_FLOAT32 \<and> literal tok = ''10.5'' \<and> rest t' = '')''"
  using scan_number [of "new_tokenizer 1 ''1_0.5f32)''" "''1_0''" "''.5''" "''f32''" "'')''" TOKEN_FLOAT32]
  by (force simp: new_tokenizer_def tz_in_def tz_ok_def rest_def is_alpha_num_def is_underscore_def
      is_alpha_def is_digit_def schar_def accepted_suffixes_def second_suffixes_def prefixed_def
      float_widths_def number_kind_of_def fraction_def digit_run_def erase_char_def)

subsection \<open>Hexadecimal, binary and octal numbers\<close>

lemma bump_sel:
  "start_position (bump t) = start_position t" "current_position (bump t) = current_position t + 1"
  by (simp_all add: bump_def)

text \<open>The letter after the zero, the digits and the base.\<close>

definition base_literals :: "(char \<times> (char \<Rightarrow> bool) \<times> int) list" where
  "base_literals = [(CHR ''x'', is_hex_digit, 16), (CHR ''b'', is_binary_digit, 2),
     (CHR ''o'', is_octal_digit, 8)]"

lemma consume_base_number_run:
  assumes "tz_in u" and "rest u = ds @ s" and "start_position u + 1 = current_position u"
    and "ds \<noteq> []" and "list_all (\<lambda>c. p c \<or> is_underscore c) ds" and "\<not> p nul"
    and "s = [] \<or> \<not> (p (hd s) \<or> is_underscore (hd s))"
  shows "consume_base_number p f msg u =
    (let t' = bump_by (length ds) u; v = f (erase_char (CHR ''_'') ds)
     in Some (if v = -1 then build_token_lit TOKEN_INVALID msg t'
              else build_token_lit TOKEN_INT (to_string v) t', t'))"
proof -
  let ?p = "\<lambda>c. p c \<or> is_underscore c"
  have "takeWhile ?p (rest u) = ds"
    unfolding assms(2) using assms(5,7) by (intro takeWhile_run) (simp_all add: list_all_iff)
  then have "advance_digits ?p False u = Some (True, bump_by (length ds) u)"
    using advance_digits_eq [of ?p u False] assms(1,4,6) by simp
  moreover have "substr (source_code u) (start_position u + 1) (length ds) = Some ds"
    using assms(1-3) by (auto simp: substr_def rest_def tz_in_def)
  moreover have "current_position (bump_by (length ds) u) - start_position (bump_by (length ds) u) - 1
      = length ds"
    using assms(3) by simp
  ultimately show ?thesis
    unfolding consume_base_number_def by (simp add: Let_def)
qed

lemma scan_zero_base:
  assumes "tz_in u" and "rest u = c # r" and "(c, p, b) \<in> set base_literals"
  shows "\<exists>msg. scan_zero u =
    consume_base_number p (\<lambda>s. case stol b s of Some v \<Rightarrow> v | None \<Rightarrow> -1) msg (bump u)"
  using assms
  by (auto simp: base_literals_def scan_zero_def match_char_rest consume_hex_number_def
      consume_binary_number_def consume_octal_number_def hex_to_decimal_def [abs_def]
      binary_to_decimal_def [abs_def] octal_to_decimal_def [abs_def] simp del: match_char_in)

text \<open>
  C7: A literal of base 16, 2 or 8 is one token.  Its literal is the decimal form of the value of its
  digits (underscores ignored), if there is a digit and the value is below \<open>2^63\<close>; otherwise the
  token is invalid.  The scanner stops after the longest run of digits of the base.
\<close>

theorem scan_base_number:
  assumes "tz_in t" and "rest t = CHR ''0'' # c # ds @ s" and "(c, p, b) \<in> set base_literals"
    and "ds \<noteq> []" and "list_all (\<lambda>c. p c \<or> is_underscore c) ds"
    and "s = [] \<or> \<not> (p (hd s) \<or> is_underscore (hd s))"
  shows "\<exists>tok t'. scan_next_token t = Some (tok, t') \<and> rest t' = s
    \<and> (let digits = erase_char (CHR ''_'') ds; v = digits_value b digits
       in if digits \<noteq> [] \<and> v < 2 ^ 63 then kind tok = TOKEN_INT \<and> literal tok = to_string v
          else kind tok = TOKEN_INVALID)"
proof -
  let ?u = "token_start t"
  have zero: "is_digit (CHR ''0'')" by (simp add: is_digit_def schar_def)
  note start = tz_in_token_start [OF assms(1,2)] rest_token_start [OF assms(2)]
  obtain msg where z: "scan_zero ?u =
      consume_base_number p (\<lambda>s. case stol b s of Some v \<Rightarrow> v | None \<Rightarrow> -1) msg (bump ?u)"
    using scan_zero_base [OF start assms(3)] by blast
  have base: "\<not> p nul" "0 \<le> b" using assms(3) by (auto simp: base_literals_def)
  have "scan_next_token t = scan_zero ?u"
    using scan_next_token_rest [OF assms(1,2)] not_punctuation(4) zero
    by (simp add: scan_token_from_digit [OF zero])
  also have "\<dots> = (let t' = bump_by (length ds) (bump ?u);
        v = (case stol b (erase_char (CHR ''_'') ds) of Some v \<Rightarrow> v | None \<Rightarrow> -1)
     in Some (if v = -1 then build_token_lit TOKEN_INVALID msg t'
              else build_token_lit TOKEN_INT (to_string v) t', t'))"
    unfolding z using start assms(4-6) base(1)
    by (intro consume_base_number_run) (simp_all add: bump_sel)
  finally show ?thesis
    using start digits_value_nonneg [OF base(2), of "erase_char (CHR ''_'') ds"]
    by (auto simp: Let_def build_token_lit_def stol_def)
qed

lemma char_of_50_53: "char_of (50::nat) = CHR ''2''" "char_of (53::nat) = CHR ''5''"
proof -
  have "char_of (of_char (CHR ''2'') :: nat) = CHR ''2''" "char_of (of_char (CHR ''5'') :: nat) = CHR ''5''"
    by (rule char_of_char)+
  then show "char_of (50::nat) = CHR ''2''" "char_of (53::nat) = CHR ''5''" by simp_all
qed

theorem scan_base_number_witness:
  "\<exists>tok t'. scan_next_token (new_tokenizer 1 ''0xF_f;'') = Some (tok, t') \<and> literal tok = ''255''"
proof -
  have "digits_value 16 ''Ff'' = 255"
    by (simp add: digits_value_def digit_value_def schar_def)
  moreover have "to_string 255 = ''255''"
    using char_of_50_53 by (simp add: to_string_def decimal_digits.simps digit_char_def)
  moreover have "tz_in (new_tokenizer 1 ''0xF_f;'')" "rest (new_tokenizer 1 ''0xF_f;'') = ''0xF_f;''"
    by (simp_all add: tz_in_def tz_ok_def rest_def new_tokenizer_def)
  ultimately show ?thesis
    using scan_base_number [of "new_tokenizer 1 ''0xF_f;''" "CHR ''x''" "''F_f''" "'';''" is_hex_digit 16]
    by (fastforce simp: base_literals_def is_hex_digit_def is_digit_def is_underscore_def schar_def
        erase_char_def Let_def)
qed

subsection \<open>Strings and characters\<close>

text \<open>
  The ways to write a character in a literal: itself, a one-character escape, or \<open>\x\<close> with two
  decimal digits (read as hexadecimal).
\<close>

definition written_as :: "char \<Rightarrow> string \<Rightarrow> bool" where
  "written_as c e \<longleftrightarrow> (e = [c] \<and> c \<noteq> CHR 0x22 \<and> c \<noteq> CHR 0x5C)
     \<or> (\<exists>x. e = [CHR 0x5C, x] \<and> map_of simple_escapes x = Some c)
     \<or> (\<exists>d1 d2. e = [CHR 0x5C, CHR ''x'', d1, d2] \<and> is_digit d1 \<and> is_digit d2
          \<and> c = char_of_int (16 * (schar d1 - 48) + (schar d2 - 48)))"

lemma hex_to_int_digit: "is_digit d \<Longrightarrow> hex_to_int d = schar d - 48"
  by (simp add: hex_to_int_def is_digit_def schar_def)

lemma written_as_nonempty: "written_as c e \<Longrightarrow> e \<noteq> [] \<and> hd e \<noteq> CHR 0x22"
  by (auto simp: written_as_def)

lemma consume_one_character_run:
  assumes "tz_in t" and "rest t = e @ s" and "written_as c e"
  shows "consume_one_character t = Some (c, bump_by (length e) t)"
proof -
  have x: "map_of simple_escapes (CHR ''x'') = None"
    by (simp add: simple_escapes_def)
  show ?thesis
    using assms unfolding written_as_def consume_one_character_def
    by (auto simp: advance_rest cur_rest bump_by_Suc bump_as_bump_by [symmetric] hex_to_int_digit x
        ac_simps simp del: advance_in)
qed

lemma string_loop_run:
  assumes "list_all2 written_as w es" and "minus_one_char \<notin> set w"
  shows "tz_in t \<Longrightarrow> rest t = concat es @ CHR 0x22 # s \<Longrightarrow>
    string_loop stream t = Some (Some (stream @ w), bump_by (length (concat es)) t)"
  using assms
proof (induction arbitrary: stream t rule: list_all2_induct)
  case Nil
  then show ?case
    by (subst string_loop.simps) (simp add: cur_rest available_rest)
next
  case (Cons c w e es)
  have e: "rest t = e @ (concat es @ CHR 0x22 # s)" using Cons.prems by simp
  obtain d ds where ed: "e = d # ds" "d \<noteq> CHR 0x22"
    using written_as_nonempty [OF Cons.hyps(1)] by (cases e) auto
  let ?t = "bump_by (length e) t"
  have "string_loop (stream @ [c]) ?t = Some (Some ((stream @ [c]) @ w), bump_by (length (concat es)) ?t)"
    using Cons.prems e by (intro Cons.IH) (simp_all add: tz_in_bump_by)
  moreover have "c \<noteq> minus_one_char" using Cons.prems(3) by auto
  ultimately show ?case
    using Cons.prems consume_one_character_run [OF Cons.prems(1) e Cons.hyps(1)] ed
    by (subst string_loop.simps) (simp add: cur_rest available_rest)
qed

text \<open>
  C8: String literals round-trip: a double-quoted text whose pieces write the characters of \<open>w\<close>
  (plainly or escaped) is one \<open>TOKEN_STRING\<close> whose literal is exactly \<open>w\<close>, provided \<open>w\<close> has no byte
  \<open>0xFF\<close>, which the code uses as its error value.
\<close>

theorem scan_string_roundtrip:
  assumes "tz_in t" and "rest t = CHR 0x22 # concat es @ CHR 0x22 # s"
    and "list_all2 written_as w es" and "minus_one_char \<notin> set w"
  shows "\<exists>tok t'. scan_next_token t = Some (tok, t') \<and> kind tok = TOKEN_STRING
    \<and> literal tok = w \<and> rest t' = s"
proof -
  let ?u = "token_start t"
  note start = tz_in_token_start [OF assms(1,2)] rest_token_start [OF assms(2)]
  have quote: "contains [CHR 0x22, CHR 0x27] (CHR 0x22)" by simp
  have "scan_token_from (CHR 0x22) ?u = consume_string ?u"
    unfolding scan_token_from_def using not_punctuation(1-3) [of "CHR 0x22"] quote
    by (simp add: is_alpha_def schar_def del: contains_simps)
  then have "scan_next_token t = consume_string ?u"
    using scan_next_token_rest [OF assms(1,2)] not_punctuation(4) quote by simp
  moreover have "string_loop [] ?u = Some (Some w, bump_by (length (concat es)) ?u)"
    using string_loop_run [OF assms(3,4) start, of "[]"] by simp
  moreover have v: "tz_in (bump_by (length (concat es)) ?u)"
    "rest (bump_by (length (concat es)) ?u) = CHR 0x22 # s"
    using start by (simp_all add: tz_in_bump_by)
  moreover note rest_Cons [OF v]
  ultimately show ?thesis
    by (simp add: consume_string_def build_token_lit_def)
qed

theorem scan_string_roundtrip_witness:
  "\<exists>tok t'. scan_next_token (new_tokenizer 1 [CHR 0x22, CHR ''a'', CHR 0x5C, CHR ''n'', CHR 0x22])
       = Some (tok, t') \<and> literal tok = [CHR ''a'', newline]"
  using scan_string_roundtrip
    [of "new_tokenizer 1 [CHR 0x22, CHR ''a'', CHR 0x5C, CHR ''n'', CHR 0x22]"
        "[''a'', [CHR 0x5C, CHR ''n'']]" "''''" "[CHR ''a'', newline]"]
  by (force simp: new_tokenizer_def tz_in_def tz_ok_def rest_def written_as_def simple_escapes_def)

end
