(* ===== verification/Lexing_Comments.thy ===== *)
theory Lexing_Comments
  imports Lexing
begin

text \<open>
  White space and comments: the line and the column the tokenizer keeps, against the reference
  \<open>text_position\<close>, which counts the newlines of the text passed over.
\<close>

subsection \<open>The reference position\<close>

definition step_position :: "int \<times> int \<Rightarrow> char \<Rightarrow> int \<times> int" where
  "step_position p c = (if c = newline then (fst p + 1, 0) else (fst p, snd p + 1))"

definition text_position :: "int \<times> int \<Rightarrow> string \<Rightarrow> int \<times> int" where
  "text_position p s = foldl step_position p s"

definition tz_position :: "tokenizer \<Rightarrow> int \<times> int" where
  "tz_position t = (tline_number t, column_current t)"

lemma text_position_simps [simp]:
  "text_position p [] = p"
  "text_position p (c # s) = text_position (step_position p c) s"
  "text_position p (s @ r) = text_position (text_position p s) r"
  by (simp_all add: text_position_def)

lemma text_position_line:
  "fst (text_position p s) = fst p + int (length (filter (\<lambda>c. c = newline) s))"
  by (induction s arbitrary: p) (auto simp: step_position_def)

lemma tz_position_bump:
  "c \<noteq> newline \<Longrightarrow> tz_position (bump t) = step_position (tz_position t) c"
  by (simp add: tz_position_def step_position_def bump_def)

subsection \<open>Blanks and line comments\<close>

definition blank_piece :: "string \<Rightarrow> bool" where
  "blank_piece p \<longleftrightarrow> (\<exists>c. p = [c] \<and> contains [CHR '' '', CHR 0x0D, CHR 0x09, newline] c)
     \<or> (\<exists>b. p = ''//'' @ b @ [newline] \<and> newline \<notin> set b)"

lemma skip_single_line_comment_run:
  "tz_in t \<Longrightarrow> rest t = b @ newline # s \<Longrightarrow> newline \<notin> set b \<Longrightarrow>
   \<exists>t'. skip_single_line_comment t = Some t' \<and> tz_in t' \<and> rest t' = newline # s
     \<and> tz_position t' = text_position (tz_position t) b"
proof (induction b arbitrary: t)
  case Nil
  then show ?case
    by (subst skip_single_line_comment.simps) (simp add: cur_rest)
next
  case (Cons c b)
  have c: "c \<noteq> newline" using Cons.prems(3) by auto
  have "\<exists>t'. skip_single_line_comment (bump t) = Some t' \<and> tz_in t' \<and> rest t' = newline # s
      \<and> tz_position t' = text_position (tz_position (bump t)) b"
    using Cons.prems by (intro Cons.IH) simp_all
  moreover have "skip_single_line_comment t = skip_single_line_comment (bump t)"
    using Cons.prems c by (subst skip_single_line_comment.simps) (simp add: cur_rest available_rest)
  ultimately show ?case using tz_position_bump [OF c] by simp
qed

lemma skip_newline:
  assumes "tz_in t" and "rest t = newline # s"
  shows "\<exists>t'. skip_whitespaces t = skip_whitespaces t' \<and> tz_in t' \<and> rest t' = s
    \<and> tz_position t' = step_position (tz_position t) newline"
proof -
  let ?u = "t\<lparr>tline_number := tline_number t + 1\<rparr>"
  let ?t' = "(bump ?u)\<lparr>column_current := 0\<rparr>"
  have u: "tz_in ?u" "is_source_available ?u"
    using assms rest_Cons [OF assms] by (simp_all add: tz_in_def tz_ok_def is_source_available_def)
  have "skip_whitespaces t = skip_whitespaces ?t'"
    using assms(1) rest_Cons [OF assms] u by (subst skip_whitespaces.simps) simp
  moreover have "tz_in ?t'" "rest ?t' = s" "tz_position ?t' = step_position (tz_position t) newline"
    using assms rest_bump [OF assms(2)] tz_in_bump [OF assms(1)] rest_Cons [OF assms]
    by (simp_all add: tz_in_def tz_ok_def rest_def bump_def tz_position_def step_position_def)
  ultimately show ?thesis by blast
qed

lemma skip_blank_piece:
  assumes "tz_in t" and "rest t = p @ s" and "blank_piece p"
  shows "\<exists>t'. skip_whitespaces t = skip_whitespaces t' \<and> tz_in t' \<and> rest t' = s
    \<and> tz_position t' = text_position (tz_position t) p"
proof -
  consider c where "p = [c]" "contains [CHR '' '', CHR 0x0D, CHR 0x09] c" | "p = [newline]"
    | b where "p = ''//'' @ b @ [newline]" "newline \<notin> set b"
    using assms(3) by (auto simp: blank_piece_def)
  then show ?thesis
  proof cases
    case 1
    then have "c \<noteq> newline" by auto
    moreover have "skip_whitespaces t = skip_whitespaces (bump t)"
      using assms(1,2) 1 by (subst skip_whitespaces.simps) (auto simp: cur_rest available_rest)
    ultimately show ?thesis
      using assms(1,2) 1 tz_position_bump [of c t] by (intro exI [of _ "bump t"]) simp
  next
    case 2
    then show ?thesis using skip_newline [OF assms(1)] assms(2) by simp
  next
    case 3
    have r: "rest t = CHR ''/'' # CHR ''/'' # b @ newline # s" using assms(2) 3(1) by simp
    let ?u = "bump (bump t)"
    have u: "tz_in ?u" "rest ?u = b @ newline # s" using assms(1) r by simp_all
    from skip_single_line_comment_run [OF u 3(2)] obtain v
      where v: "skip_single_line_comment ?u = Some v" "tz_in v" "rest v = newline # s"
        "tz_position v = text_position (tz_position ?u) b" by blast
    have "skip_whitespaces t = skip_whitespaces v"
      using assms(1) r v(1) peek_next_rest [OF assms(1) r]
      by (subst skip_whitespaces.simps) (simp add: cur_rest available_rest)
    moreover have "tz_position ?u = text_position (tz_position t) ''//''"
      using tz_position_bump [of "CHR ''/''"] by simp
    ultimately show ?thesis
      using skip_newline [OF v(2,3)] v(4) 3(1) by auto
  qed
qed

text \<open>
  C9: Blanks, newlines and line comments before a token are skipped entirely, and the line and the
  column follow the text exactly: they are those of \<open>text_position\<close>, which adds a line for every
  newline and restarts the column there.
\<close>

theorem skip_whitespaces_position:
  assumes "tz_in t" and "rest t = concat ps @ s" and "list_all blank_piece ps"
    and "s = [] \<or> starts_token s"
  shows "\<exists>t'. skip_whitespaces t = Some t' \<and> rest t' = s
    \<and> (tline_number t', column_current t')
        = text_position (tline_number t, column_current t) (concat ps)"
proof -
  have "\<exists>t'. skip_whitespaces t = Some t' \<and> rest t' = s
    \<and> tz_position t' = text_position (tz_position t) (concat ps)"
    using assms(1-3)
  proof (induction ps arbitrary: t)
    case Nil
    have "skip_whitespaces t = Some t"
    proof (cases "s = []")
      case True
      then show ?thesis using Nil by (subst skip_whitespaces.simps) (simp add: available_rest)
    next
      case False
      then show ?thesis using Nil assms(4) by (intro skip_whitespaces_id) simp_all
    qed
    then show ?case using Nil by simp
  next
    case (Cons p ps)
    then obtain u where "skip_whitespaces t = skip_whitespaces u" "tz_in u" "rest u = concat ps @ s"
      "tz_position u = text_position (tz_position t) p"
      using skip_blank_piece [of t p "concat ps @ s"] by auto
    then show ?case using Cons.IH [of u] Cons.prems(3) by auto
  qed
  then show ?thesis by (simp add: tz_position_def)
qed

theorem skip_whitespaces_position_witness:
  "\<exists>t'. skip_whitespaces (new_tokenizer 1 (''  // a'' @ [newline] @ '' x'')) = Some t'
     \<and> rest t' = ''x'' \<and> tline_number t' = 2 \<and> column_current t' = 1"
proof -
  let ?ps = "['' '', '' '', ''// a'' @ [newline], '' '']"
  have "blank_piece (''//'' @ '' a'' @ [newline])"
    unfolding blank_piece_def by (intro disjI2 exI [of _ "'' a''"]) simp
  then have "list_all blank_piece ?ps" by (simp add: blank_piece_def)
  then show ?thesis
    using skip_whitespaces_position [of "new_tokenizer 1 (''  // a'' @ [newline] @ '' x'')" ?ps "''x''"]
    by (force simp: new_tokenizer_def tz_in_def tz_ok_def rest_def starts_token_def step_position_def)
qed

subsection \<open>Block comments\<close>

text \<open>\<open>body\<close> followed by \<open>*/\<close> does not close earlier.\<close>

fun unclosed :: "string \<Rightarrow> bool" where
  "unclosed [] = True"
| "unclosed [c] = True"
| "unclosed (c # d # s) = (\<not> (c = CHR ''*'' \<and> d = CHR ''/'') \<and> unclosed (d # s))"

definition closes_at_end :: "string \<Rightarrow> bool" where
  "closes_at_end body \<longleftrightarrow> unclosed (body @ ''*'')"

definition newlines :: "string \<Rightarrow> int" where
  "newlines s = int (length (filter (\<lambda>c. c = newline) s))"

lemma newlines_simps [simp]:
  "newlines [] = 0" "newlines (c # s) = (if c = newline then 1 else 0) + newlines s"
  by (simp_all add: newlines_def)

definition starts_line :: "string \<Rightarrow> int" where
  "starts_line s = (case s of [] \<Rightarrow> 0 | c # _ \<Rightarrow> if c = newline then 1 else 0)"

lemma tline_bump [simp]: "tline_number (bump t) = tline_number t"
  by (simp add: bump_def)

lemma count_newline_run:
  assumes "tz_in t"
  shows "\<exists>t'. count_newline t = Some t' \<and> tz_in t' \<and> rest t' = rest t
    \<and> tline_number t' = tline_number t + starts_line (rest t)"
  using assms
  by (auto simp: count_newline_def cur_rest starts_line_def rest_def tz_in_def tz_ok_def
      split: list.split)

lemma multi_lines_loop_run:
  "tz_in t \<Longrightarrow> rest t = body @ ''*/'' @ s \<Longrightarrow> unclosed (body @ ''*'') \<Longrightarrow>
   \<exists>t'. multi_lines_loop t = Some t' \<and> tz_in t' \<and> rest t' = ''*/'' @ s
     \<and> tline_number t' = tline_number t + newlines (tl body)"
proof (induction body arbitrary: t)
  case Nil
  have r: "rest t = CHR ''*'' # (CHR ''/'' # s)" using Nil by simp
  show ?case
    using Nil peek_next_rest [OF Nil.prems(1) r]
    by (subst multi_lines_loop.simps) (simp add: cur_rest)
next
  case (Cons c body)
  let ?r = "body @ ''*/'' @ s"
  have r: "rest t = c # ?r" using Cons.prems by simp
  note avail = rest_Cons [OF Cons.prems(1) r]
  obtain d where d: "peek_next t = Some d" "\<not> (c = CHR ''*'' \<and> d = CHR ''/'')"
    using peek_next_rest [OF Cons.prems(1) r] Cons.prems(3) by (cases body) auto
  have "tz_in (bump t)" using Cons.prems(1) r by simp
  from count_newline_run [OF this] obtain u where u: "count_newline (bump t) = Some u" "tz_in u"
    "rest u = ?r" "tline_number u = tline_number t + starts_line ?r"
    using r by auto
  have "unclosed (body @ ''*'')" using Cons.prems(3) by (cases body) auto
  from Cons.IH [OF u(2,3) this] obtain t' where t': "multi_lines_loop u = Some t'" "tz_in t'"
    "rest t' = ''*/'' @ s" "tline_number t' = tline_number u + newlines (tl body)" by blast
  have "multi_lines_loop t = multi_lines_loop u"
    using Cons.prems(1) avail d u(1) by (subst multi_lines_loop.simps) auto
  moreover have "starts_line ?r + newlines (tl body) = newlines body"
    by (cases body) (simp_all add: starts_line_def)
  ultimately show ?case using t' u(4) by simp
qed

text \<open>
  C10: A block comment is skipped up to its first closing mark (it does not nest), but the line is
  not the one of the text: a newline that directly follows the opening mark is not counted, and a
  newline that directly follows the closing mark is counted here although \<open>skip_whitespaces\<close>, which
  continues at that newline, counts it again.
\<close>

theorem skip_multi_lines_comment_lines:
  assumes "tz_in t" and "rest t = body @ ''*/'' @ s" and "closes_at_end body"
  shows "\<exists>t'. skip_multi_lines_comment t = Some t' \<and> rest t' = s
    \<and> tline_number t' = fst (text_position (tline_number t, column_current t) (body @ ''*/''))
        - starts_line body + starts_line s"
proof -
  from multi_lines_loop_run [OF assms(1,2)] assms(3) obtain u where
    u: "multi_lines_loop t = Some u" "tz_in u" "rest u = ''*/'' @ s"
      "tline_number u = tline_number t + newlines (tl body)"
    by (auto simp: closes_at_end_def)
  let ?v = "bump (bump u)"
  have v: "tz_in ?v" "rest ?v = s" "advance u = Some (CHR ''*'', bump u)"
    "advance (bump u) = Some (CHR ''/'', ?v)" "tline_number ?v = tline_number u"
    using u(2,3) by (simp_all add: advance_rest del: advance_in)
  from count_newline_run [OF v(1)] obtain w where
    w: "count_newline ?v = Some w" "rest w = s" "tline_number w = tline_number u + starts_line s"
    using v(2,5) by auto
  have "skip_multi_lines_comment t = Some w"
    using u(1) v(3,4) w(1) by (simp add: skip_multi_lines_comment_def del: advance_in)
  moreover have "starts_line body + newlines (tl body) = newlines body"
    by (cases body) (simp_all add: starts_line_def)
  ultimately show ?thesis
    using w(2,3) u(4) by (simp add: text_position_line newlines_def step_position_def)
qed

theorem skip_multi_lines_comment_lines_witness:
  "\<exists>t'. skip_multi_lines_comment (new_tokenizer 1 ('' a */'' @ [newline] @ ''x'')) = Some t'
     \<and> rest t' = newline # ''x'' \<and> tline_number t' = 2"
proof -
  let ?t = "new_tokenizer 1 ('' a */'' @ [newline] @ ''x'')"
  have "tz_in ?t" "rest ?t = '' a '' @ ''*/'' @ newline # ''x''" "tline_number ?t = 1"
    by (simp_all add: new_tokenizer_def tz_in_def tz_ok_def rest_def)
  moreover have "closes_at_end '' a ''" by (simp add: closes_at_end_def)
  ultimately show ?thesis
    using skip_multi_lines_comment_lines [of ?t "'' a ''" "newline # ''x''"]
    by (simp add: starts_line_def step_position_def)
qed

end
