(* ===== verification/Types.thy ===== *)
theory Types
  imports Tokens
begin

text \<open>
  \<open>include/amun_type.hpp\<close>, \<open>src/amun_type.cpp\<close> and \<open>include/amun_primitives.hpp\<close>: the types of the
  language, their equality, literals and casts.  A \<open>Shared<Type>\<close> is a value of the datatype \<open>ty\<close>:
  \<open>type_kind\<close> with its \<open>static_pointer_cast\<close> is the constructor.  A \<open>StructType\<close> object may refer to
  itself; every function here reads only its name, so the constructor \<open>StructType\<close> carries the name
  and the object is the entry of that name in the table of structures (theory \<open>Ast\<close>).  The
  \<open>StaticArrayType\<close> inside a \<open>StaticVectorType\<close> is given by its element type and size.
\<close>

subsection \<open>Number kinds and their tables\<close>

datatype number_kind = INTEGER_1 | INTEGER_8 | INTEGER_16 | INTEGER_32 | INTEGER_64
  | U_INTEGER_8 | U_INTEGER_16 | U_INTEGER_32 | U_INTEGER_64 | FLOAT_32 | FLOAT_64

definition number_kind_width :: "(number_kind \<times> int) list" where
  "number_kind_width = [
     (INTEGER_1, 1), (INTEGER_8, 8), (INTEGER_16, 16), (INTEGER_32, 32), (INTEGER_64, 64),
     (U_INTEGER_8, 8), (U_INTEGER_16, 16), (U_INTEGER_32, 32), (U_INTEGER_64, 64),
     (FLOAT_32, 32), (FLOAT_64, 64)]"

definition number_kind_token_kind :: "(number_kind \<times> token_kind) list" where
  "number_kind_token_kind = [
     (INTEGER_1, TOKEN_INT1), (INTEGER_8, TOKEN_INT8), (INTEGER_16, TOKEN_INT16),
     (INTEGER_32, TOKEN_INT32), (INTEGER_64, TOKEN_INT64),
     (U_INTEGER_8, TOKEN_UINT8), (U_INTEGER_16, TOKEN_UINT16), (U_INTEGER_32, TOKEN_UINT32),
     (U_INTEGER_64, TOKEN_UINT64), (FLOAT_32, TOKEN_FLOAT32), (FLOAT_64, TOKEN_FLOAT64)]"

text \<open>\<open>std::numeric_limits\<close>, as the unbounded integers they denote.\<close>

definition integers_kind_max_value :: "(number_kind \<times> int) list" where
  "integers_kind_max_value = [
     (INTEGER_1, 1), (INTEGER_8, 127), (INTEGER_16, 32767), (INTEGER_32, 2147483647),
     (INTEGER_64, 9223372036854775807), (U_INTEGER_8, 255), (U_INTEGER_16, 65535),
     (U_INTEGER_32, 4294967295), (U_INTEGER_64, 18446744073709551615)]"

definition integers_kind_min_value :: "(number_kind \<times> int) list" where
  "integers_kind_min_value = [
     (INTEGER_1, 0), (INTEGER_8, -128), (INTEGER_16, -32768), (INTEGER_32, -2147483648),
     (INTEGER_64, -9223372036854775808), (U_INTEGER_8, 0), (U_INTEGER_16, 0),
     (U_INTEGER_32, 0), (U_INTEGER_64, 0)]"

subsection \<open>Types\<close>

datatype ty =
    NumberType number_kind
  | PointerType ty
  | FunctionType (function_name: token) (function_parameters: "ty list") (function_return: ty)
      (implicit_parameters_count: int) (has_varargs: bool) (varargs_type: "ty option")
      (is_intrinsic: bool) (is_generic: bool) (generic_names: "string list")
  | StaticArrayType ty nat
  | StaticVectorType ty nat
  | StructType string
  | TupleType string "ty list"
  | EnumType token "(string \<times> int) list" ty
  | EnumElementType string ty
  | GenericParameterType string
  | GenericStructType string "ty list"
  | NoneType
  | VoidType
  | NullType

definition get_number_kind_literal :: "number_kind \<Rightarrow> string" where
  "get_number_kind_literal k = (case k of
     INTEGER_1 \<Rightarrow> ''Int1'' | INTEGER_8 \<Rightarrow> ''Int8'' | INTEGER_16 \<Rightarrow> ''Int16''
   | INTEGER_32 \<Rightarrow> ''Int32'' | INTEGER_64 \<Rightarrow> ''Int64'' | U_INTEGER_8 \<Rightarrow> ''UInt8''
   | U_INTEGER_16 \<Rightarrow> ''UInt16'' | U_INTEGER_32 \<Rightarrow> ''UInt32'' | U_INTEGER_64 \<Rightarrow> ''UInt64''
   | FLOAT_32 \<Rightarrow> ''Float32'' | FLOAT_64 \<Rightarrow> ''Float64'')"

text \<open>A separator after every element but the last, as the loops with a running index write it.\<close>

fun join :: "string \<Rightarrow> string list \<Rightarrow> string" where
  "join sep [] = ''''"
| "join sep [s] = s"
| "join sep (s # ss) = s @ sep @ join sep ss"

fun get_type_literal :: "ty \<Rightarrow> string" where
  "get_type_literal (NumberType k) = get_number_kind_literal k"
| "get_type_literal (StaticArrayType e n) = ''['' @ to_string (int n) @ '']'' @ get_type_literal e"
| "get_type_literal (StaticVectorType e n) =
     ''@vec'' @ ''['' @ to_string (int n) @ '']'' @ get_type_literal e"
| "get_type_literal (PointerType b) = ''*'' @ get_type_literal b"
| "get_type_literal (FunctionType _ ps r _ _ _ _ _ _) =
     ''('' @ concat (map (\<lambda>p. '' '' @ get_type_literal p @ '' '') ps) @ '')'' @ '' -> ''
       @ get_type_literal r"
| "get_type_literal (StructType name) = name"
| "get_type_literal (TupleType _ fs) = ''('' @ join '', '' (map get_type_literal fs) @ '')''"
| "get_type_literal (EnumType name _ _) = literal name"
| "get_type_literal (EnumElementType name _) = name"
| "get_type_literal (GenericStructType name ps) =
     name @ ''<'' @ join '','' (map get_type_literal ps) @ ''>''"
| "get_type_literal (GenericParameterType name) = name"
| "get_type_literal NoneType = ''none''"
| "get_type_literal VoidType = ''void''"
| "get_type_literal NullType = ''null''"

text \<open>
  \<open>is_types_equals\<close>; \<open>is_functions_types_equals\<close> is its case for two functions, and the loop over
  the parameters is \<open>types_list_equals\<close>.  Enumerations and generic parameters fall through to the
  comparison of the kinds.
\<close>

fun is_types_equals :: "ty \<Rightarrow> ty \<Rightarrow> bool"
  and types_list_equals :: "ty list \<Rightarrow> ty list \<Rightarrow> bool" where
  "is_types_equals (NumberType k) b = (case b of NumberType k' \<Rightarrow> k = k' | _ \<Rightarrow> False)"
| "is_types_equals (PointerType a) b = (case b of PointerType a' \<Rightarrow> is_types_equals a a' | _ \<Rightarrow> False)"
| "is_types_equals (StaticArrayType a n) b =
     (case b of StaticArrayType a' n' \<Rightarrow> n = n' \<and> is_types_equals a a' | _ \<Rightarrow> False)"
| "is_types_equals (StaticVectorType a n) b =
     (case b of StaticVectorType a' n' \<Rightarrow> n = n' \<and> is_types_equals a a' | _ \<Rightarrow> False)"
| "is_types_equals (FunctionType _ ps r _ _ _ _ _ _) b =
     (case b of FunctionType _ ps' r' _ _ _ _ _ _ \<Rightarrow>
        types_list_equals ps ps' \<and> is_types_equals r r' | _ \<Rightarrow> False)"
| "is_types_equals (StructType n) b = (case b of StructType n' \<Rightarrow> n = n' | _ \<Rightarrow> False)"
| "is_types_equals (TupleType n fs) b = (case b of TupleType n' fs' \<Rightarrow>
     get_type_literal (TupleType n fs) = get_type_literal (TupleType n' fs') | _ \<Rightarrow> False)"
| "is_types_equals (EnumElementType n e) b = (case b of EnumElementType n' _ \<Rightarrow> n = n' | _ \<Rightarrow> False)"
| "is_types_equals (GenericStructType n ps) b =
     (case b of GenericStructType n' ps' \<Rightarrow> n = n' \<and> types_list_equals ps ps' | _ \<Rightarrow> False)"
| "is_types_equals (EnumType n vs e) b = (case b of EnumType _ _ _ \<Rightarrow> True | _ \<Rightarrow> False)"
| "is_types_equals (GenericParameterType n) b = (case b of GenericParameterType _ \<Rightarrow> True | _ \<Rightarrow> False)"
| "is_types_equals NoneType b = (case b of NoneType \<Rightarrow> True | _ \<Rightarrow> False)"
| "is_types_equals VoidType b = (case b of VoidType \<Rightarrow> True | _ \<Rightarrow> False)"
| "is_types_equals NullType b = (case b of NullType \<Rightarrow> True | _ \<Rightarrow> False)"
| "types_list_equals [] ys = (ys = [])"
| "types_list_equals (x # xs) ys =
     (case ys of [] \<Rightarrow> False | y # ys' \<Rightarrow> is_types_equals x y \<and> types_list_equals xs ys')"

subsection \<open>Primitive types\<close>

definition i1_type :: ty where "i1_type = NumberType INTEGER_1"
definition i8_type :: ty where "i8_type = NumberType INTEGER_8"
definition i6_type :: ty where "i6_type = NumberType INTEGER_16"
definition i32_type :: ty where "i32_type = NumberType INTEGER_32"
definition i64_type :: ty where "i64_type = NumberType INTEGER_64"
definition u8_type :: ty where "u8_type = NumberType U_INTEGER_8"
definition u16_type :: ty where "u16_type = NumberType U_INTEGER_16"
definition u32_type :: ty where "u32_type = NumberType U_INTEGER_32"
definition u64_type :: ty where "u64_type = NumberType U_INTEGER_64"
definition i8_ptr_type :: ty where "i8_ptr_type = PointerType i8_type"
definition i32_ptr_type :: ty where "i32_ptr_type = PointerType i32_type"
definition f32_type :: ty where "f32_type = NumberType FLOAT_32"
definition f64_type :: ty where "f64_type = NumberType FLOAT_64"
definition void_type :: ty where "void_type = VoidType"
definition null_type :: ty where "null_type = NullType"
definition none_type :: ty where "none_type = NoneType"
definition none_ptr_type :: ty where "none_ptr_type = PointerType none_type"

lemmas primitive_types =
  i1_type_def i8_type_def i6_type_def i32_type_def i64_type_def u8_type_def u16_type_def
  u32_type_def u64_type_def i8_ptr_type_def i32_ptr_type_def f32_type_def f64_type_def
  void_type_def null_type_def none_type_def none_ptr_type_def

subsection \<open>Predicates\<close>

definition is_number_type :: "ty \<Rightarrow> bool" where
  "is_number_type t = (case t of NumberType _ \<Rightarrow> True | _ \<Rightarrow> False)"

definition is_integer_type :: "ty \<Rightarrow> bool" where
  "is_integer_type t = (case t of NumberType k \<Rightarrow> k \<noteq> FLOAT_32 \<and> k \<noteq> FLOAT_64 | _ \<Rightarrow> False)"

definition is_signed_integer_type :: "ty \<Rightarrow> bool" where
  "is_signed_integer_type t = (case t of NumberType k \<Rightarrow>
     contains [INTEGER_1, INTEGER_8, INTEGER_16, INTEGER_32, INTEGER_64] k | _ \<Rightarrow> False)"

definition is_unsigned_integer_type :: "ty \<Rightarrow> bool" where
  "is_unsigned_integer_type t = (case t of NumberType k \<Rightarrow>
     contains [U_INTEGER_8, U_INTEGER_16, U_INTEGER_32, U_INTEGER_64] k | _ \<Rightarrow> False)"

definition is_integer1_type :: "ty \<Rightarrow> bool" where
  "is_integer1_type t = (case t of NumberType k \<Rightarrow> k = INTEGER_1 | _ \<Rightarrow> False)"

definition is_integer32_type :: "ty \<Rightarrow> bool" where
  "is_integer32_type t = (case t of NumberType k \<Rightarrow> k = INTEGER_32 | _ \<Rightarrow> False)"

definition is_integer64_type :: "ty \<Rightarrow> bool" where
  "is_integer64_type t = (case t of NumberType k \<Rightarrow> k = INTEGER_64 | _ \<Rightarrow> False)"

definition is_enum_type :: "ty \<Rightarrow> bool" where
  "is_enum_type t = (case t of EnumType _ _ _ \<Rightarrow> True | _ \<Rightarrow> False)"

definition is_enum_element_type :: "ty \<Rightarrow> bool" where
  "is_enum_element_type t = (case t of EnumElementType _ _ \<Rightarrow> True | _ \<Rightarrow> False)"

definition is_struct_type :: "ty \<Rightarrow> bool" where
  "is_struct_type t = (case t of StructType _ \<Rightarrow> True | _ \<Rightarrow> False)"

definition is_generic_struct_type :: "ty \<Rightarrow> bool" where
  "is_generic_struct_type t = (case t of GenericStructType _ _ \<Rightarrow> True | _ \<Rightarrow> False)"

definition is_tuple_type :: "ty \<Rightarrow> bool" where
  "is_tuple_type t = (case t of TupleType _ _ \<Rightarrow> True | _ \<Rightarrow> False)"

definition is_boolean_type :: "ty \<Rightarrow> bool" where
  "is_boolean_type t = (case t of NumberType k \<Rightarrow> k = INTEGER_1 | _ \<Rightarrow> False)"

definition is_function_type :: "ty \<Rightarrow> bool" where
  "is_function_type t = (case t of FunctionType _ _ _ _ _ _ _ _ _ \<Rightarrow> True | _ \<Rightarrow> False)"

definition is_pointer_type :: "ty \<Rightarrow> bool" where
  "is_pointer_type t = (case t of PointerType _ \<Rightarrow> True | _ \<Rightarrow> False)"

definition is_function_pointer_type :: "ty \<Rightarrow> bool" where
  "is_function_pointer_type t = (case t of PointerType b \<Rightarrow> is_function_type b | _ \<Rightarrow> False)"

definition is_array_type :: "ty \<Rightarrow> bool" where
  "is_array_type t = (case t of StaticArrayType _ _ \<Rightarrow> True | _ \<Rightarrow> False)"

definition is_vector_type :: "ty \<Rightarrow> bool" where
  "is_vector_type t = (case t of StaticVectorType _ _ \<Rightarrow> True | _ \<Rightarrow> False)"

definition is_void_type :: "ty \<Rightarrow> bool" where
  "is_void_type t = (case t of VoidType \<Rightarrow> True | _ \<Rightarrow> False)"

definition is_null_type :: "ty \<Rightarrow> bool" where
  "is_null_type t = (case t of NullType \<Rightarrow> True | _ \<Rightarrow> False)"

text \<open>Also true of an array of none and of a pointer to none.\<close>

definition is_none_type :: "ty \<Rightarrow> bool" where
  "is_none_type t = (case t of StaticArrayType e _ \<Rightarrow> e = NoneType | PointerType b \<Rightarrow> b = NoneType
     | _ \<Rightarrow> t = NoneType)"

definition is_pointer_of_type :: "ty \<Rightarrow> ty \<Rightarrow> bool" where
  "is_pointer_of_type t base_type = (case t of PointerType b \<Rightarrow> is_types_equals b base_type | _ \<Rightarrow> False)"

definition is_array_of_type :: "ty \<Rightarrow> ty \<Rightarrow> bool" where
  "is_array_of_type t base_type = (case t of StaticArrayType e _ \<Rightarrow> is_types_equals e base_type | _ \<Rightarrow> False)"

subsection \<open>Casts\<close>

text \<open>The kinds nothing is cast from or to.\<close>

definition uncastable_kind :: "ty \<Rightarrow> bool" where
  "uncastable_kind t \<longleftrightarrow> (case t of VoidType \<Rightarrow> True | NoneType \<Rightarrow> True | EnumType _ _ _ \<Rightarrow> True
     | EnumElementType _ _ \<Rightarrow> True | FunctionType _ _ _ _ _ _ _ _ _ \<Rightarrow> True | _ \<Rightarrow> False)"

text \<open>An array casts to a pointer to its element type.\<close>

definition array_to_pointer :: "ty \<Rightarrow> ty \<Rightarrow> bool" where
  "array_to_pointer from_type to_type = (case from_type of
     StaticArrayType e _ \<Rightarrow> (case to_type of PointerType b \<Rightarrow> is_types_equals e b | _ \<Rightarrow> False)
   | _ \<Rightarrow> False)"

definition can_types_casted :: "ty \<Rightarrow> ty \<Rightarrow> bool" where
  "can_types_casted from_type to_type =
     (if uncastable_kind from_type then False
      else if uncastable_kind to_type then False
      else if is_number_type from_type \<and> is_number_type to_type then True
      else if is_pointer_of_type from_type void_type \<or> is_pointer_of_type to_type void_type then True
      else array_to_pointer from_type to_type)"

subsection \<open>Type equality is an equivalence, and casts respect it\<close>

lemma types_list_equals_all2 [simp]: "types_list_equals xs ys = list_all2 is_types_equals xs ys"
  by (induction xs arbitrary: ys) (auto split: list.split)

declare types_list_equals.simps [simp del]

lemma types_equal_refl: "is_types_equals a a"
  by (induction a) (auto intro: list_all2_refl simp: list.rel_refl_strong)

lemma list_all2_sym_on:
  "\<forall>x \<in> set xs. \<forall>y. P x y \<longrightarrow> P y x \<Longrightarrow> list_all2 P xs ys \<Longrightarrow> list_all2 P ys xs"
  by (induction xs arbitrary: ys) (auto simp: list_all2_Cons1)

lemma list_all2_trans_on:
  "\<forall>x \<in> set xs. \<forall>y z. P x y \<longrightarrow> P y z \<longrightarrow> P x z \<Longrightarrow> list_all2 P xs ys \<Longrightarrow> list_all2 P ys zs \<Longrightarrow>
   list_all2 P xs zs"
  by (induction xs arbitrary: ys zs) (auto simp: list_all2_Cons1)

lemma types_equal_sym: "is_types_equals a b \<Longrightarrow> is_types_equals b a"
proof (induction a arbitrary: b)
  case (FunctionType x1 x2 x3 x4 x5 x6 x7 x8 x9)
  then show ?case by (cases b) (auto intro: list_all2_sym_on [of x2])
next
  case (GenericStructType x1 x2)
  then show ?case by (cases b) (auto intro: list_all2_sym_on [of x2])
qed (auto split: ty.splits)

lemma types_equal_trans: "is_types_equals a b \<Longrightarrow> is_types_equals b c \<Longrightarrow> is_types_equals a c"
proof (induction a arbitrary: b c)
  case (FunctionType x1 x2 x3 x4 x5 x6 x7 x8 x9)
  then show ?case by (auto split: ty.splits intro: list_all2_trans_on [of x2])
next
  case (GenericStructType x1 x2)
  then show ?case by (auto split: ty.splits intro: list_all2_trans_on [of x2])
qed (auto split: ty.splits)

text \<open>
  C11: \<open>is_types_equals\<close> is an equivalence relation on types.
\<close>

theorem types_equal_equivalence: "equivp is_types_equals"
proof (rule equivpI)
  show "reflp is_types_equals" by (rule reflpI) (rule types_equal_refl)
  show "symp is_types_equals" by (rule sympI) (erule types_equal_sym)
  show "transp is_types_equals" by (rule transpI) (erule types_equal_trans)
qed

text \<open>
  The types whose equality looks at the names: neither an enumeration nor a generic parameter is
  reached by the comparison.
\<close>

fun compared_by_name :: "ty \<Rightarrow> bool" where
  "compared_by_name (EnumType _ _ _) = False"
| "compared_by_name (GenericParameterType _) = False"
| "compared_by_name (PointerType b) = compared_by_name b"
| "compared_by_name (StaticArrayType e _) = compared_by_name e"
| "compared_by_name (StaticVectorType e _) = compared_by_name e"
| "compared_by_name (FunctionType _ ps r _ _ _ _ _ _) = (list_all compared_by_name ps \<and> compared_by_name r)"
| "compared_by_name (GenericStructType _ ps) = list_all compared_by_name ps"
| "compared_by_name _ = True"

lemma literals_of_equal_lists:
  "\<forall>x \<in> set xs. \<forall>y. compared_by_name x \<longrightarrow> is_types_equals x y \<longrightarrow> get_type_literal x = get_type_literal y \<Longrightarrow>
   list_all compared_by_name xs \<Longrightarrow> list_all2 is_types_equals xs ys \<Longrightarrow>
   map get_type_literal xs = map get_type_literal ys"
  by (induction xs arbitrary: ys) (auto simp: list_all2_Cons1)

lemma function_literal:
  "get_type_literal (FunctionType n ps r i v vt intr g gs) =
     ''('' @ concat (map (\<lambda>s. '' '' @ s @ '' '') (map get_type_literal ps)) @ '')'' @ '' -> ''
       @ get_type_literal r"
  by (simp add: comp_def)

text \<open>
  Equal types have the same literal, which is what messages print and what tuples and generic
  instances are compared and named by, whenever no enumeration and no generic parameter is compared.
\<close>

theorem equal_types_same_literal:
  assumes "compared_by_name a" and "is_types_equals a b"
  shows "get_type_literal a = get_type_literal b"
  using assms
proof (induction a arbitrary: b)
  case (FunctionType n ps r i v vt intr g gs)
  then obtain n' ps' r' i' v' vt' intr' g' gs'
    where b: "b = FunctionType n' ps' r' i' v' vt' intr' g' gs'" by (cases b) auto
  have "map get_type_literal ps = map get_type_literal ps'"
    using FunctionType b by (intro literals_of_equal_lists) auto
  then show ?case
    using FunctionType b by (simp only: function_literal) auto
next
  case (GenericStructType n ps)
  then obtain n' ps' where b: "b = GenericStructType n' ps'" by (cases b) auto
  have "map get_type_literal ps = map get_type_literal ps'"
    using GenericStructType b by (intro literals_of_equal_lists) auto
  then show ?case using GenericStructType b by simp
qed (auto split: ty.splits)

theorem equal_types_same_literal_witness:
  "get_type_literal (PointerType (TupleType ''a'' [i8_type]))
     = get_type_literal (PointerType (TupleType ''b'' [i8_type]))"
  by (rule equal_types_same_literal) simp_all

lemma kind_of_equal:
  assumes "is_types_equals a b"
  shows "uncastable_kind a = uncastable_kind b" and "is_number_type a = is_number_type b"
  using assms by (cases a; auto simp: uncastable_kind_def is_number_type_def split: ty.splits)+

lemma pointer_of_equal:
  assumes "is_types_equals a b"
  shows "is_pointer_of_type a t = is_pointer_of_type b t"
proof -
  have "is_types_equals x t = is_types_equals y t" if "is_types_equals x y" for x y
    using that types_equal_sym types_equal_trans by blast
  then show ?thesis using assms by (cases a) (auto simp: is_pointer_of_type_def split: ty.splits)
qed

text \<open>
  Whether a cast is allowed depends on the types only up to equality.
\<close>

theorem cast_respects_equality:
  assumes "is_types_equals a a'" and "is_types_equals b b'"
  shows "can_types_casted a b = can_types_casted a' b'"
proof -
  have cong: "is_types_equals x y = is_types_equals x' y'" if "is_types_equals x x'" "is_types_equals y y'"
    for x x' y y'
    using that types_equal_sym types_equal_trans by blast
  have "array_to_pointer a b = array_to_pointer a' b'"
  proof (cases "\<exists>e n p. a = StaticArrayType e n \<and> b = PointerType p")
    case True
    then obtain e n p where ab: "a = StaticArrayType e n" "b = PointerType p" by blast
    obtain e' where e': "a' = StaticArrayType e' n" "is_types_equals e e'"
      using assms(1) ab(1) by (cases a') auto
    obtain p' where p': "b' = PointerType p'" "is_types_equals p p'"
      using assms(2) ab(2) by (cases b') auto
    show ?thesis using cong [OF e'(2) p'(2)] ab e'(1) p'(1) by (simp add: array_to_pointer_def)
  next
    case False
    have "\<exists>e. a = StaticArrayType e n" if "a' = StaticArrayType e' n" for e' n
      using assms(1) that by (cases a) auto
    moreover have "\<exists>p. b = PointerType p" if "b' = PointerType p'" for p'
      using assms(2) that by (cases b) auto
    ultimately have "\<not> (\<exists>e n p. a' = StaticArrayType e n \<and> b' = PointerType p)"
      using False by metis
    then show ?thesis using False by (auto simp: array_to_pointer_def split: ty.split)
  qed
  then show ?thesis
    unfolding can_types_casted_def
    using kind_of_equal [OF assms(1)] kind_of_equal [OF assms(2)]
      pointer_of_equal [OF assms(1)] pointer_of_equal [OF assms(2)] by simp
qed

theorem cast_respects_equality_witness:
  "can_types_casted (StaticArrayType (TupleType ''a'' []) 3) (PointerType (TupleType ''b'' []))
     = can_types_casted (StaticArrayType (TupleType ''c'' []) 3) (PointerType (TupleType ''d'' []))"
  by (rule cast_respects_equality) simp_all

end
