(* ===== verification/Name_Mangle.thy ===== *)
theory Name_Mangle
  imports Types
begin

text \<open>
  \<open>src/amun_name_mangle.cpp\<close>: the names of overloaded operator functions and of tuples.  The
  mangling of the types made of numbers, pointers and arrays is uniquely decodable, so two operator
  functions over such types have the same name only if they are the same overload.
\<close>

subsection \<open>Mangling\<close>

definition number_type_managler :: "(number_kind \<times> string) list" where
  "number_type_managler = [
     (INTEGER_1, ''i1''), (INTEGER_8, ''i8''), (INTEGER_16, ''i16''), (INTEGER_32, ''i32''),
     (INTEGER_64, ''i64''), (U_INTEGER_8, ''u8''), (U_INTEGER_16, ''u16''),
     (U_INTEGER_32, ''u32''), (U_INTEGER_64, ''u64''), (FLOAT_32, ''f32''), (FLOAT_64, ''f64'')]"

text \<open>\<open>operator[]\<close> of a map of strings: the empty string for a missing key.\<close>

definition lookup_string :: "('k \<times> string) list \<Rightarrow> 'k \<Rightarrow> string" where
  "lookup_string m k = (case map_of m k of Some s \<Rightarrow> s | None \<Rightarrow> '''')"

fun mangle_type :: "ty \<Rightarrow> string" where
  "mangle_type (NumberType k) = lookup_string number_type_managler k"
| "mangle_type (PointerType b) = ''p'' @ mangle_type b"
| "mangle_type (StaticArrayType e n) = ''_a'' @ to_string (int n) @ mangle_type e"
| "mangle_type (EnumElementType name _) = name"
| "mangle_type (StructType name) = name"
| "mangle_type (TupleType _ types) = ''_tuple_'' @ concat (map mangle_type types)"
| "mangle_type _ = ''''"

definition mangle_types :: "ty list \<Rightarrow> string" where
  "mangle_types ts = concat (map mangle_type ts)"

definition mangle_tuple_type :: "ty list \<Rightarrow> string" where
  "mangle_tuple_type types = ''_tuple_'' @ mangle_types types"

definition mangle_operator_function :: "token_kind \<Rightarrow> ty list \<Rightarrow> string" where
  "mangle_operator_function k parameters =
     (let operator_literal = lookup_string overloading_operator_literal k
      in ''_operator_'' @ operator_literal @ mangle_types parameters)"

lemma mangle_tuple: "mangle_type (TupleType n types) = mangle_tuple_type types"
  by (simp add: mangle_tuple_type_def mangle_types_def)

subsection \<open>Unique decoding\<close>

text \<open>The types whose mangled form does not depend on names the program chooses.\<close>

fun plain_type :: "ty \<Rightarrow> bool" where
  "plain_type (NumberType _) = True"
| "plain_type (PointerType b) = plain_type b"
| "plain_type (StaticArrayType e _) = plain_type e"
| "plain_type _ = False"

definition decimal_char :: "char \<Rightarrow> bool" where
  "decimal_char c \<longleftrightarrow> 48 \<le> schar c \<and> schar c \<le> 57"

definition no_decimal :: "string \<Rightarrow> bool" where
  "no_decimal s \<longleftrightarrow> (case s of [] \<Rightarrow> True | c # _ \<Rightarrow> \<not> decimal_char c)"

lemma no_decimal_simps [simp]:
  "no_decimal []" "no_decimal (c # s) = (\<not> decimal_char c)"
  by (simp_all add: no_decimal_def)

lemma letters_not_decimal [simp]:
  "\<not> decimal_char (CHR ''p'')" "\<not> decimal_char (CHR ''i'')" "\<not> decimal_char (CHR ''u'')"
  "\<not> decimal_char (CHR ''f'')" "\<not> decimal_char (CHR ''_'')"
  by (simp_all add: decimal_char_def schar_def)

lemma digits_decimal [simp]:
  "decimal_char (CHR ''1'')" "decimal_char (CHR ''2'')" "decimal_char (CHR ''3'')"
  "decimal_char (CHR ''4'')" "decimal_char (CHR ''6'')" "decimal_char (CHR ''8'')"
  by (simp_all add: decimal_char_def schar_def)

lemma mangle_plain_start:
  "plain_type t \<Longrightarrow> mangle_type t \<noteq> [] \<and> no_decimal (mangle_type t @ s)"
proof (cases t)
  case (NumberType k)
  then show ?thesis by (cases k) (simp_all add: lookup_string_def number_type_managler_def)
qed simp_all

text \<open>Decimal numerals followed by something else are read back.\<close>

lemma decimal_digits_append:
  assumes "0 \<le> m" and "0 \<le> n" and "decimal_digits m @ s = decimal_digits n @ r"
    and "no_decimal s" and "no_decimal r"
  shows "m = n \<and> s = r"
proof -
  have all: "\<forall>c \<in> set (decimal_digits k). decimal_char c" if "0 \<le> k" for k
    using decimal_digits_are_digits [OF that] by (simp add: decimal_char_def)
  have tw: "takeWhile decimal_char (decimal_digits k @ x) = decimal_digits k"
    if "0 \<le> k" "no_decimal x" for k x
    using all [OF that(1)] that(2) by (cases x) (simp_all add: takeWhile_append)
  have "decimal_digits m = decimal_digits n"
    using tw [OF assms(1,4)] tw [OF assms(2,5)] assms(3) by metis
  then show ?thesis using assms(1-3) by (simp add: decimal_digits_inject)
qed

lemma number_mangle_inject:
  assumes "lookup_string number_type_managler k @ s = lookup_string number_type_managler k' @ r"
    and "no_decimal s" and "no_decimal r"
  shows "k = k' \<and> s = r"
  using assms
  by (cases k; cases k'; cases s; cases r) (auto simp: lookup_string_def number_type_managler_def)

lemma number_mangle_letter:
  "\<exists>c w. lookup_string number_type_managler k = c # w \<and> contains ''iuf'' c"
  by (cases k) (simp_all add: lookup_string_def number_type_managler_def)

lemma mangle_plain_decode:
  "plain_type a \<Longrightarrow> plain_type b \<Longrightarrow> no_decimal s \<Longrightarrow> no_decimal r \<Longrightarrow>
   mangle_type a @ s = mangle_type b @ r \<Longrightarrow> a = b \<and> s = r"
proof (induction a arbitrary: b)
  case (NumberType k)
  then show ?case
    using number_mangle_letter [of k] number_mangle_inject [of k s] by (cases b) auto
next
  case (PointerType a)
  show ?case
  proof (cases b)
    case (NumberType k)
    then show ?thesis using PointerType.prems number_mangle_letter [of k] by auto
  qed (use PointerType in auto)
next
  case (StaticArrayType a n)
  show ?case
  proof (cases b)
    case (NumberType k)
    then show ?thesis using StaticArrayType.prems number_mangle_letter [of k] by auto
  next
    case (StaticArrayType a' n')
    have "decimal_digits (int n) @ (mangle_type a @ s) = decimal_digits (int n') @ (mangle_type a' @ r)"
      using StaticArrayType.prems StaticArrayType by (simp add: to_string_def)
    then have "int n = int n' \<and> mangle_type a @ s = mangle_type a' @ r"
      using StaticArrayType.prems StaticArrayType mangle_plain_start
      by (intro decimal_digits_append) auto
    then show ?thesis
      using StaticArrayType.IH [of a'] StaticArrayType.prems StaticArrayType by simp
  qed (use StaticArrayType.prems in simp_all)
qed simp_all

lemma mangle_types_decode:
  "list_all plain_type xs \<Longrightarrow> list_all plain_type ys \<Longrightarrow> mangle_types xs = mangle_types ys \<Longrightarrow> xs = ys"
proof (induction xs arbitrary: ys)
  case Nil
  then show ?case using mangle_plain_start [of _ "''''"] by (cases ys) (auto simp: mangle_types_def)
next
  case (Cons a xs)
  have nd: "no_decimal (mangle_types ts)" if "list_all plain_type ts" for ts
    using that mangle_plain_start by (cases ts) (auto simp: mangle_types_def)
  obtain b ys' where bs: "ys = b # ys'"
    using Cons.prems mangle_plain_start [of a "''''"] by (cases ys) (auto simp: mangle_types_def)
  have "mangle_type a @ mangle_types xs = mangle_type b @ mangle_types ys'"
    using Cons.prems(3) bs by (simp add: mangle_types_def)
  then have "a = b \<and> mangle_types xs = mangle_types ys'"
    using Cons.prems bs nd by (intro mangle_plain_decode) auto
  then show ?case using Cons.IH [of ys'] Cons.prems bs by auto
qed

subsection \<open>Operator functions\<close>

text \<open>No operator literal continues another one the way a mangled type can start.\<close>

definition mangled_start :: "string \<Rightarrow> bool" where
  "mangled_start s \<longleftrightarrow> (case s of [] \<Rightarrow> True
     | c # s' \<Rightarrow> contains ''iufp'' c \<or>
         (c = CHR ''_'' \<and> (case s' of d # e # _ \<Rightarrow> d = CHR ''a'' \<and> decimal_char e | _ \<Rightarrow> False)))"

definition operator_literals :: "string list" where
  "operator_literals = map snd overloading_operator_literal"

definition continues_apart :: "string \<Rightarrow> string \<Rightarrow> bool" where
  "continues_apart v w \<longleftrightarrow> (take (length v) w = v \<longrightarrow> v = w \<or>
     (case drop (length v) w of c # d # e # _ \<Rightarrow>
        c = CHR ''_'' \<and> (d \<noteq> CHR ''a'' \<or> \<not> decimal_char e) | _ \<Rightarrow> False))"

lemma decimal_char_n [simp]: "\<not> decimal_char (CHR ''n'')"
  by (simp add: decimal_char_def schar_def)

lemma operator_literals_apart:
  "list_all (\<lambda>v. list_all (continues_apart v) operator_literals) operator_literals"
  by (simp add: operator_literals_def overloading_operator_literal_def continues_apart_def)

lemma operator_literal_prefix:
  assumes "v \<in> set operator_literals" and "w \<in> set operator_literals" and "w = v @ us"
    and "mangled_start (us @ r)"
  shows "us = []"
proof (rule ccontr)
  assume "us \<noteq> []"
  moreover have "continues_apart v w" using assms(1,2) operator_literals_apart by (simp add: list_all_iff)
  ultimately obtain c d e x where "us = c # d # e # x" "c = CHR ''_''" "d \<noteq> CHR ''a'' \<or> \<not> decimal_char e"
    using assms(3) by (auto simp: continues_apart_def split: list.splits)
  then show False using assms(4) by (auto simp: mangled_start_def)
qed

lemma mangle_plain_mangled_start: "plain_type t \<Longrightarrow> mangled_start (mangle_type t @ s)"
proof (cases t)
  case (NumberType k)
  then show ?thesis using number_mangle_letter [of k] by (auto simp: mangled_start_def)
next
  case (StaticArrayType e n)
  obtain c cs where "decimal_digits (int n) = c # cs" "decimal_char c"
    using decimal_digits_are_digits [of "int n"] decimal_digits_nonempty [of "int n"]
    by (cases "decimal_digits (int n)") (auto simp: decimal_char_def)
  then show ?thesis using StaticArrayType by (simp add: to_string_def mangled_start_def)
qed (simp_all add: mangled_start_def)

lemma mangle_types_mangled_start: "list_all plain_type ts \<Longrightarrow> mangled_start (mangle_types ts)"
  using mangle_plain_mangled_start
  by (cases ts) (auto simp: mangle_types_def mangled_start_def [of "[]"])

lemma operator_literal_decode:
  assumes "v \<in> set operator_literals" and "w \<in> set operator_literals" and "v @ s = w @ r"
    and "mangled_start s" and "mangled_start r"
  shows "v = w \<and> s = r"
proof -
  obtain us where "v = w @ us \<and> us @ s = r \<or> v @ us = w \<and> s = us @ r"
    using assms(3) by (auto simp: append_eq_append_conv2)
  then show ?thesis
  proof
    assume c: "v = w @ us \<and> us @ s = r"
    then have "us = []" using operator_literal_prefix [OF assms(2,1)] assms(5) by blast
    then show ?thesis using c by simp
  next
    assume c: "v @ us = w \<and> s = us @ r"
    then have "us = []" using operator_literal_prefix [OF assms(1,2)] assms(4) by blast
    then show ?thesis using c by simp
  qed
qed

lemma operator_literal_inject:
  "distinct operator_literals"
  by (simp add: operator_literals_def overloading_operator_literal_def)

text \<open>
  C12: Operator overloads get different names: if the mangled names of two operator functions over
  numbers, pointers and arrays are equal, then so are the operators and the parameter types.
\<close>

theorem mangle_operator_function_inject:
  assumes "is_supported_overloading_operator k" and "is_supported_overloading_operator k'"
    and "list_all plain_type ps" and "list_all plain_type ps'"
    and "mangle_operator_function k ps = mangle_operator_function k' ps'"
  shows "k = k' \<and> ps = ps'"
proof -
  obtain v w where v: "(k, v) \<in> set overloading_operator_literal" "map_of overloading_operator_literal k = Some v"
    and w: "(k', w) \<in> set overloading_operator_literal" "map_of overloading_operator_literal k' = Some w"
    using assms(1,2) by (auto simp: is_supported_overloading_operator_def dest: map_of_SomeD)
  have in_set: "v \<in> set operator_literals" "w \<in> set operator_literals"
    using v(1) w(1) by (force simp: operator_literals_def)+
  have "v @ mangle_types ps = w @ mangle_types ps'"
    using assms(5) v(2) w(2) by (simp add: mangle_operator_function_def lookup_string_def)
  then have eq: "v = w \<and> mangle_types ps = mangle_types ps'"
    using in_set mangle_types_mangled_start assms(3,4) by (intro operator_literal_decode)
  have "inj_on snd (set overloading_operator_literal)"
    using operator_literal_inject by (simp add: operator_literals_def distinct_map)
  from inj_onD [OF this _ v(1) w(1)] have "k = k'" using eq by simp
  then show ?thesis using eq mangle_types_decode [OF assms(3,4)] by simp
qed

theorem mangle_operator_function_inject_witness:
  "mangle_operator_function TOKEN_PLUS [i8_type, PointerType i8_type]
     \<noteq> mangle_operator_function TOKEN_PLUS_PLUS [i8_type, PointerType i8_type]"
  using mangle_operator_function_inject
    [of TOKEN_PLUS TOKEN_PLUS_PLUS "[i8_type, PointerType i8_type]" "[i8_type, PointerType i8_type]"]
  by (auto simp: is_supported_overloading_operator_def overloading_operator_literal_def primitive_types)

end
