(* ===== verification/Scoped_Tables.thy ===== *)
theory Scoped_Tables
  imports Types
begin

text \<open>
  The symbol tables: \<open>include/amun_scoped_map.hpp\<close>, \<open>include/amun_scoped_list.hpp\<close> and
  \<open>src/amun_alias_table.cpp\<close>.  The interfaces the rest of the compiler relies on are the locales
  \<open>symbol_table\<close> (what a lookup returns after a definition) and \<open>scoped_table\<close> (what opening and
  closing a scope keeps), interpreted on the models of \<open>AliasTable\<close> and \<open>ScopedMap\<close>.

  A vector of scopes is a list whose last element is the innermost scope; an \<open>unordered_map\<close> is a
  map; a null pointer result is \<open>None\<close>.  \<open>back()\<close> and \<open>pop_back()\<close> of an empty vector are undefined
  behaviour: those operations are partial (outer \<open>None\<close>).
\<close>

subsection \<open>Interfaces\<close>

text \<open>A table: well-formedness, lookup and definition of a new name.\<close>

locale symbol_table =
  fixes wf :: "'s \<Rightarrow> bool"
    and find_symbol :: "'s \<Rightarrow> 'k \<Rightarrow> 'v option"
    and fresh :: "'s \<Rightarrow> 'k \<Rightarrow> bool"
    and add_symbol :: "'k \<Rightarrow> 'v \<Rightarrow> 's \<Rightarrow> 's"
  assumes wf_add: "wf s \<Longrightarrow> wf (add_symbol k v s)"
    and find_add: "wf s \<Longrightarrow> fresh s k \<Longrightarrow> find_symbol (add_symbol k v s) k = Some v"
    and find_add_other: "wf s \<Longrightarrow> k' \<noteq> k \<Longrightarrow> find_symbol (add_symbol k v s) k' = find_symbol s k'"
    and fresh_add_other: "wf s \<Longrightarrow> k' \<noteq> k \<Longrightarrow> fresh (add_symbol k v s) k' = fresh s k'"
begin

definition add_all :: "('k \<times> 'v) list \<Rightarrow> 's \<Rightarrow> 's" where
  "add_all kvs s = fold (\<lambda>(k, v). add_symbol k v) kvs s"

lemma wf_add_all: "wf s \<Longrightarrow> wf (add_all kvs s)"
  unfolding add_all_def by (induction kvs arbitrary: s) (auto simp: wf_add)

lemma find_add_all_other:
  "wf s \<Longrightarrow> k \<notin> fst ` set kvs \<Longrightarrow> find_symbol (add_all kvs s) k = find_symbol s k"
  unfolding add_all_def by (induction kvs arbitrary: s) (auto simp: wf_add find_add_other)

text \<open>Fresh, distinct names are all found afterwards, with the values they were given.\<close>

lemma find_add_all:
  "wf s \<Longrightarrow> distinct (map fst kvs) \<Longrightarrow> \<forall>kv \<in> set kvs. fresh s (fst kv) \<Longrightarrow> (k, v) \<in> set kvs \<Longrightarrow>
   find_symbol (add_all kvs s) k = Some v"
proof (induction kvs arbitrary: s)
  case (Cons kv kvs)
  obtain k' v' where kv: "kv = (k', v')" by (cases kv)
  show ?case
  proof (cases "k = k'")
    case True
    then have "v = v'" "k \<notin> fst ` set kvs"
      using Cons.prems kv by (auto simp: image_iff)
    then show ?thesis
      using Cons.prems kv True find_add_all_other [of "add_symbol k v s" k kvs]
      by (auto simp: add_all_def wf_add find_add)
  next
    case False
    have "\<forall>kv \<in> set kvs. fst kv \<noteq> k'" using Cons.prems(2) kv by force
    then have "\<forall>kv \<in> set kvs. fresh (add_symbol k' v' s) (fst kv)"
      using Cons.prems(1,3) by (auto simp: fresh_add_other)
    then have "find_symbol (add_all kvs (add_symbol k' v' s)) k = Some v"
      using False Cons.prems kv by (intro Cons.IH) (auto simp: wf_add)
    then show ?thesis using kv by (simp add: add_all_def)
  qed
qed simp

end

text \<open>A table with scopes: a new scope hides nothing, and closing it undoes what was added in it.\<close>

locale scoped_table = symbol_table wf find_symbol fresh add_symbol
  for wf :: "'s \<Rightarrow> bool" and find_symbol :: "'s \<Rightarrow> 'k \<Rightarrow> 'v option"
    and fresh :: "'s \<Rightarrow> 'k \<Rightarrow> bool" and add_symbol :: "'k \<Rightarrow> 'v \<Rightarrow> 's \<Rightarrow> 's" +
  fixes push :: "'s \<Rightarrow> 's" and pop :: "'s \<Rightarrow> 's option"
  assumes wf_push: "wf s \<Longrightarrow> wf (push s)"
    and find_push: "wf s \<Longrightarrow> find_symbol (push s) k = find_symbol s k"
    and fresh_push: "wf s \<Longrightarrow> fresh (push s) k"
    and pop_push: "pop (push s) = Some s"
    and pop_add: "wf s \<Longrightarrow> pop (add_symbol k v (push s)) = Some s"
    and pop_add_cong: "wf s \<Longrightarrow> pop s \<noteq> None \<Longrightarrow> pop (add_symbol k v s) = pop s"
begin

lemma pop_add_all: "wf s \<Longrightarrow> pop (add_all kvs (push s)) = Some s"
proof -
  assume "wf s"
  have "wf t \<Longrightarrow> pop t = Some s \<Longrightarrow> pop (add_all kvs t) = Some s" for t
    unfolding add_all_def
    by (induction kvs arbitrary: t) (auto simp: wf_add pop_add_cong)
  then show ?thesis using \<open>wf s\<close> wf_push pop_push by blast
qed

text \<open>Inside the new scope every added name is found, even one that an outer scope defines.\<close>

lemma scope_shadows:
  "wf s \<Longrightarrow> distinct (map fst kvs) \<Longrightarrow> (k, v) \<in> set kvs \<Longrightarrow>
   find_symbol (add_all kvs (push s)) k = Some v"
  by (rule find_add_all) (auto simp: wf_push fresh_push)

lemma scope_keeps:
  "wf s \<Longrightarrow> k \<notin> fst ` set kvs \<Longrightarrow> find_symbol (add_all kvs (push s)) k = find_symbol s k"
  by (simp add: find_add_all_other wf_push find_push)

end

subsection \<open>\<open>ScopedMap\<close>\<close>

record ('k, 'v) scoped_map =
  linked_scoped :: "('k \<rightharpoonup> 'v) list"

definition push_new_scope :: "('k, 'v) scoped_map \<Rightarrow> ('k, 'v) scoped_map" where
  "push_new_scope m = m\<lparr>linked_scoped := linked_scoped m @ [Map.empty]\<rparr>"

definition pop_current_scope :: "('k, 'v) scoped_map \<Rightarrow> ('k, 'v) scoped_map option" where
  "pop_current_scope m = (if linked_scoped m = [] then None
     else Some (m\<lparr>linked_scoped := butlast (linked_scoped m)\<rparr>))"

definition scoped_size :: "('k, 'v) scoped_map \<Rightarrow> nat" where
  "scoped_size m = length (linked_scoped m)"

definition define_symbol
  :: "'k \<Rightarrow> 'v \<Rightarrow> ('k, 'v) scoped_map \<Rightarrow> (bool \<times> ('k, 'v) scoped_map) option" where
  "define_symbol k v m = (if linked_scoped m = [] then None
     else if last (linked_scoped m) k \<noteq> None then Some (False, m)
     else Some (True, m\<lparr>linked_scoped :=
       (linked_scoped m)[length (linked_scoped m) - 1 := (last (linked_scoped m))(k \<mapsto> v)]\<rparr>))"

text \<open>The loops \<open>for (int i = size() - 1; i >= 0; i--)\<close>: \<open>n\<close> is \<open>i + 1\<close>.\<close>

primrec lookup_from :: "('k \<rightharpoonup> 'v) list \<Rightarrow> 'k \<Rightarrow> nat \<Rightarrow> ('v \<times> nat) option" where
  "lookup_from ms k 0 = None"
| "lookup_from ms k (Suc i) = (case (ms ! i) k of Some v \<Rightarrow> Some (v, i) | None \<Rightarrow> lookup_from ms k i)"

definition is_defined :: "('k, 'v) scoped_map \<Rightarrow> 'k \<Rightarrow> bool" where
  "is_defined m k = (lookup_from (linked_scoped m) k (length (linked_scoped m)) \<noteq> None)"

definition lookup :: "('k, 'v) scoped_map \<Rightarrow> 'k \<Rightarrow> 'v option" where
  "lookup m k = map_option fst (lookup_from (linked_scoped m) k (length (linked_scoped m)))"

definition lookup_with_level :: "('k, 'v) scoped_map \<Rightarrow> 'k \<Rightarrow> 'v option \<times> int" where
  "lookup_with_level m k =
     (case lookup_from (linked_scoped m) k (length (linked_scoped m)) of
        Some (v, i) \<Rightarrow> (Some v, int i) | None \<Rightarrow> (None, -1))"

definition lookup_on_current :: "('k, 'v) scoped_map \<Rightarrow> 'k \<Rightarrow> 'v option option" where
  "lookup_on_current m k = (if linked_scoped m = [] then None else Some (last (linked_scoped m) k))"

text \<open>\<open>update\<close> has no \<open>break\<close>: it assigns the key in every scope that has it.\<close>

primrec update_from :: "'k \<Rightarrow> 'v \<Rightarrow> nat \<Rightarrow> ('k \<rightharpoonup> 'v) list \<Rightarrow> ('k \<rightharpoonup> 'v) list" where
  "update_from k v 0 ms = ms"
| "update_from k v (Suc i) ms =
     update_from k v i (if (ms ! i) k \<noteq> None then ms[i := (ms ! i)(k \<mapsto> v)] else ms)"

definition update_symbol :: "'k \<Rightarrow> 'v \<Rightarrow> ('k, 'v) scoped_map \<Rightarrow> ('k, 'v) scoped_map" where
  "update_symbol k v m =
     m\<lparr>linked_scoped := update_from k v (length (linked_scoped m)) (linked_scoped m)\<rparr>"

subsection \<open>\<open>ScopedList\<close>\<close>

record 'a scoped_list =
  linked_scopes :: "'a list list"

definition list_push_front :: "'a \<Rightarrow> 'a scoped_list \<Rightarrow> 'a scoped_list option" where
  "list_push_front x l = (if linked_scopes l = [] then None
     else Some (l\<lparr>linked_scopes := butlast (linked_scopes l) @ [x # last (linked_scopes l)]\<rparr>))"

definition list_push_back :: "'a \<Rightarrow> 'a scoped_list \<Rightarrow> 'a scoped_list option" where
  "list_push_back x l = (if linked_scopes l = [] then None
     else Some (l\<lparr>linked_scopes := butlast (linked_scopes l) @ [last (linked_scopes l) @ [x]]\<rparr>))"

definition get_scope_elements :: "'a scoped_list \<Rightarrow> 'a list option" where
  "get_scope_elements l = (if linked_scopes l = [] then None else Some (last (linked_scopes l)))"

definition get_scope_elements_at :: "nat \<Rightarrow> 'a scoped_list \<Rightarrow> 'a list option" where
  "get_scope_elements_at i l =
     (if i < length (linked_scopes l) then Some (linked_scopes l ! i) else None)"

definition list_push_new_scope :: "'a scoped_list \<Rightarrow> 'a scoped_list" where
  "list_push_new_scope l = l\<lparr>linked_scopes := linked_scopes l @ [[]]\<rparr>"

definition list_pop_current_scope :: "'a scoped_list \<Rightarrow> 'a scoped_list option" where
  "list_pop_current_scope l = (if linked_scopes l = [] then None
     else Some (l\<lparr>linked_scopes := butlast (linked_scopes l)\<rparr>))"

subsection \<open>\<open>AliasTable\<close>\<close>

record alias_table =
  type_alias_table :: "string \<rightharpoonup> ty option"

definition config_type_alias_table :: "alias_table" where
  "config_type_alias_table = \<lparr>type_alias_table = map_of (map (\<lambda>(a, t). (a, Some t)) [
     (''int1'', i1_type), (''int8'', i8_type), (''int16'', i6_type), (''int32'', i32_type),
     (''int64'', i64_type), (''char'', i8_type), (''uchar'', u8_type), (''uint8'', u8_type),
     (''uint16'', u16_type), (''uint32'', u32_type), (''uint64'', u64_type),
     (''float32'', f32_type), (''float64'', f64_type), (''void'', void_type)])\<rparr>"

definition define_alias :: "string \<Rightarrow> ty \<Rightarrow> alias_table \<Rightarrow> alias_table" where
  "define_alias alias t a = a\<lparr>type_alias_table := (type_alias_table a)(alias \<mapsto> Some t)\<rparr>"

text \<open>\<open>operator[]\<close> inserts a null pointer for an alias that is not defined.\<close>

definition resolve_alias :: "string \<Rightarrow> alias_table \<Rightarrow> ty option \<times> alias_table" where
  "resolve_alias alias a = (case type_alias_table a alias of
     Some t \<Rightarrow> (t, a)
   | None \<Rightarrow> (None, a\<lparr>type_alias_table := (type_alias_table a)(alias \<mapsto> None)\<rparr>))"

definition contains_alias :: "alias_table \<Rightarrow> string \<Rightarrow> bool" where
  "contains_alias a alias \<longleftrightarrow> type_alias_table a alias \<noteq> None"

subsection \<open>The tables satisfy the interfaces\<close>

lemma lookup_from_cong:
  "\<forall>i < n. ms ! i = ms' ! i \<Longrightarrow> lookup_from ms k n = lookup_from ms' k n"
  by (induction n) (simp_all split: option.split)

lemma lookup_from_snoc [simp]:
  "lookup_from (ms @ [m]) k (length ms) = lookup_from ms k (length ms)"
  by (rule lookup_from_cong) (simp add: nth_append)

lemma lookup_snoc:
  "linked_scoped s = ms @ [m] \<Longrightarrow>
   lookup s k = (case m k of Some v \<Rightarrow> Some v | None \<Rightarrow> map_option fst (lookup_from ms k (length ms)))"
  by (simp add: lookup_def split: option.split)

definition scoped_wf :: "('k, 'v) scoped_map \<Rightarrow> bool" where
  "scoped_wf m \<longleftrightarrow> linked_scoped m \<noteq> []"

definition scoped_fresh :: "('k, 'v) scoped_map \<Rightarrow> 'k \<Rightarrow> bool" where
  "scoped_fresh m k \<longleftrightarrow> lookup_on_current m k = Some None"

text \<open>\<open>define\<close> as a state transformer, its result ignored.\<close>

definition define_ignore :: "'k \<Rightarrow> 'v \<Rightarrow> ('k, 'v) scoped_map \<Rightarrow> ('k, 'v) scoped_map" where
  "define_ignore k v m = (case define_symbol k v m of Some (_, m') \<Rightarrow> m' | None \<Rightarrow> m)"

lemma define_ignore_snoc:
  assumes "linked_scoped s = ms @ [m]"
  shows "linked_scoped (define_ignore k v s) = ms @ [if m k = None then m(k \<mapsto> v) else m]"
    and "scoped_map.more (define_ignore k v s) = scoped_map.more s"
  using assms by (auto simp: define_ignore_def define_symbol_def)

lemma scoped_wf_snoc:
  assumes "scoped_wf s"
  obtains ms m where "linked_scoped s = ms @ [m]"
  using assms by (auto simp: scoped_wf_def intro: that [of "butlast (linked_scoped s)" "last (linked_scoped s)"])

lemma scoped_fresh_snoc: "linked_scoped s = ms @ [m] \<Longrightarrow> scoped_fresh s k \<longleftrightarrow> m k = None"
  by (simp add: scoped_fresh_def lookup_on_current_def)

lemma pop_snoc: "linked_scoped s = ms @ [m] \<Longrightarrow> pop_current_scope s = Some (s\<lparr>linked_scoped := ms\<rparr>)"
  by (simp add: pop_current_scope_def)

interpretation scoped: scoped_table scoped_wf lookup scoped_fresh define_ignore
  push_new_scope pop_current_scope
proof
  fix s :: "('k, 'v) scoped_map" and k k' v
  assume wf: "scoped_wf s"
  then obtain ms m where s: "linked_scoped s = ms @ [m]" by (rule scoped_wf_snoc)
  note d = define_ignore_snoc [OF s]
  show "scoped_wf (define_ignore k v s)" by (simp add: scoped_wf_def d)
  show "lookup (define_ignore k v s) k = Some v" if "scoped_fresh s k"
    using that by (simp add: lookup_snoc [OF d(1)] scoped_fresh_snoc [OF s])
  show "lookup (define_ignore k v s) k' = lookup s k'" if "k' \<noteq> k"
    using that by (simp add: lookup_snoc [OF d(1)] lookup_snoc [OF s])
  show "scoped_fresh (define_ignore k v s) k' = scoped_fresh s k'" if "k' \<noteq> k"
    using that by (simp add: scoped_fresh_snoc [OF d(1)] scoped_fresh_snoc [OF s])
  show "scoped_wf (push_new_scope s)" by (simp add: scoped_wf_def push_new_scope_def)
  have p: "linked_scoped (push_new_scope s) = linked_scoped s @ [Map.empty]"
    by (simp add: push_new_scope_def)
  show "lookup (push_new_scope s) k = lookup s k"
    by (simp add: lookup_snoc [OF p]) (simp add: lookup_def)
  show "scoped_fresh (push_new_scope s) k" by (simp add: scoped_fresh_snoc [OF p])
  show "pop_current_scope (define_ignore k v (push_new_scope s)) = Some s"
    using define_ignore_snoc [OF p, of k v] by (simp add: pop_snoc push_new_scope_def define_ignore_def define_symbol_def)
  show "pop_current_scope (define_ignore k v s) = pop_current_scope s"
    using d by (simp add: pop_snoc [OF s] pop_snoc [OF d(1)])
next
  fix s :: "('k, 'v) scoped_map"
  show "pop_current_scope (push_new_scope s) = Some s"
    by (simp add: pop_current_scope_def push_new_scope_def)
qed

interpretation aliases: symbol_table "\<lambda>_. True" "\<lambda>a k. fst (resolve_alias k a)" "\<lambda>_ _. True" define_alias
  by unfold_locales (auto simp: resolve_alias_def define_alias_def split: option.split)

subsection \<open>Properties\<close>

text \<open>
  C13: Scopes nest: after opening a scope, defining any number of distinct names in it and closing
  it, a \<open>ScopedMap\<close> is exactly what it was; while the scope is open each of these names is found
  with its value, even when an outer scope defines it, and every other name is found as before.
\<close>

theorem scope_discipline:
  assumes "linked_scoped m \<noteq> []" and "distinct (map fst kvs)"
  shows "let inner = fold (\<lambda>(k, v) s. define_ignore k v s) kvs (push_new_scope m) in
     pop_current_scope inner = Some m
     \<and> (\<forall>(k, v) \<in> set kvs. lookup inner k = Some v)
     \<and> (\<forall>k. k \<notin> fst ` set kvs \<longrightarrow> lookup inner k = lookup m k)"
  using assms scoped.pop_add_all [of m kvs] scoped.scope_shadows [of m kvs] scoped.scope_keeps [of m _ kvs]
  by (auto simp: scoped.add_all_def scoped_wf_def Let_def)

theorem scope_discipline_witness:
  "lookup (define_ignore (2::nat) True (push_new_scope \<lparr>linked_scoped = [[2 \<mapsto> False, 3 \<mapsto> True]]\<rparr>)) 2
     = Some True"
  using scope_discipline [of "\<lparr>linked_scoped = [[2 \<mapsto> False, 3 \<mapsto> True]]\<rparr>" "[(2::nat, True)]"]
  by (simp add: Let_def)

lemma lookup_from_spec:
  "lookup_from ms k n = Some (v, i) \<longleftrightarrow>
     i < n \<and> (ms ! i) k = Some v \<and> (\<forall>j. i < j \<longrightarrow> j < n \<longrightarrow> (ms ! j) k = None)"
proof (induction n)
  case (Suc n)
  show ?case
    using Suc by (auto simp: less_Suc_eq split: option.split)
qed simp

text \<open>
  \<open>lookup_with_level\<close> returns the value and the index of the innermost scope that defines the
  key, \<open>lookup\<close> the same value, and \<open>is_defined\<close> tells whether there is one.
\<close>

theorem lookup_with_level_innermost:
  "(lookup_with_level m k = (Some v, int i) \<longleftrightarrow>
      i < length (linked_scoped m) \<and> (linked_scoped m ! i) k = Some v
      \<and> (\<forall>j. i < j \<longrightarrow> j < length (linked_scoped m) \<longrightarrow> (linked_scoped m ! j) k = None))
   \<and> fst (lookup_with_level m k) = lookup m k
   \<and> (is_defined m k \<longleftrightarrow> lookup m k \<noteq> None)"
  using lookup_from_spec [of "linked_scoped m" k "length (linked_scoped m)" v i]
  by (auto simp: lookup_with_level_def lookup_def is_defined_def split: option.splits)

theorem lookup_with_level_innermost_witness:
  "lookup_with_level \<lparr>linked_scoped = [[2 \<mapsto> False], [2 \<mapsto> True]]\<rparr> (2::nat) = (Some True, int 1)"
  using lookup_with_level_innermost [of "\<lparr>linked_scoped = [[2 \<mapsto> False], [2 \<mapsto> True]]\<rparr>" "2::nat" True 1]
  by auto

lemma update_from_length [simp]: "length (update_from k v n ms) = length ms"
  by (induction n arbitrary: ms) auto

lemma update_from_nth:
  "n \<le> length ms \<Longrightarrow> j < length ms \<Longrightarrow>
   update_from k v n ms ! j = (if j < n \<and> (ms ! j) k \<noteq> None then (ms ! j)(k \<mapsto> v) else ms ! j)"
  by (induction n arbitrary: ms) (auto simp: nth_list_update less_Suc_eq)

text \<open>
  C14: \<open>update\<close> assigns the key in every scope that defines it, not only in the innermost one, so the
  outer bindings of a shadowed name change too; it defines nothing new and touches no other key.
\<close>

theorem update_all_scopes:
  "length (linked_scoped (update_symbol k v m)) = length (linked_scoped m)
   \<and> (\<forall>j < length (linked_scoped m).
        linked_scoped (update_symbol k v m) ! j =
          (if (linked_scoped m ! j) k \<noteq> None then (linked_scoped m ! j)(k \<mapsto> v) else linked_scoped m ! j))"
  by (simp add: update_symbol_def update_from_nth)

theorem update_all_scopes_witness:
  "linked_scoped (update_symbol (2::nat) True \<lparr>linked_scoped = [[2 \<mapsto> False], [2 \<mapsto> False]]\<rparr>) ! 0 = [2 \<mapsto> True]"
  using update_all_scopes [of 2 True "\<lparr>linked_scoped = [[2 \<mapsto> False], [2::nat \<mapsto> False]]\<rparr>"]
  by auto

end
