(* ===== verification/Support.thy ===== *)
theory Support
  imports Tokens
begin

text \<open>
  The services around the front end: \<open>amun_basic\<close>, \<open>amun_source_manager\<close>, \<open>amun_diagnostics\<close>,
  \<open>amun_compiler_options\<close> and the line reader of \<open>amun_files\<close>.  What is printed is returned as a
  string; \<open>exit(EXIT_FAILURE)\<close> is the left side of a sum, with the message printed before.
\<close>

subsection \<open>\<open>amun_basic\<close>\<close>

text \<open>
  \<open>str_to_int\<close> on a null-terminated string without inner nulls.  The loop accepts every character
  from \<open>0\<close> upwards, not only digits; the \<open>int64\<close> accumulator is an unbounded integer here (beyond
  \<open>2^63 - 1\<close> the C++ code has undefined behaviour).
\<close>

fun str_to_int_loop :: "int \<Rightarrow> string \<Rightarrow> int" where
  "str_to_int_loop value [] = value"
| "str_to_int_loop value (c # p) =
     (if schar c \<ge> schar (CHR ''0'')
      then str_to_int_loop (value * 10 + (schar c - schar (CHR ''0''))) p else value)"

definition str_to_int :: "string \<Rightarrow> int" where
  "str_to_int p = (case p of
     c # p' \<Rightarrow> if c = CHR ''-'' then - str_to_int_loop 0 p' else str_to_int_loop 0 p
   | [] \<Rightarrow> 0)"

text \<open>\<open>std::string::find(part, pos)\<close>; \<open>npos\<close> is \<open>None\<close>.\<close>

definition string_find :: "string \<Rightarrow> string \<Rightarrow> nat \<Rightarrow> nat option" where
  "string_find s part pos = (if length s < pos then None else
     find (\<lambda>i. take (length part) (drop i s) = part) [pos ..< Suc (length s)])"

text \<open>The subtraction is on \<open>size_t\<close> and wraps.\<close>

definition is_ends_with :: "string \<Rightarrow> string \<Rightarrow> bool" where
  "is_ends_with str part =
     (string_find str part (nat ((int (length str) - int (length part)) mod 2 ^ 64)) \<noteq> None)"

definition is_contains :: "'a list \<Rightarrow> 'a \<Rightarrow> bool" where
  "is_contains vec x = (find (\<lambda>y. y = x) vec \<noteq> None)"

fun find_position :: "'a list \<Rightarrow> 'a \<Rightarrow> nat" where
  "find_position [] x = 0"
| "find_position (y # ys) x = (if y = x then 0 else Suc (find_position ys x))"

definition index_of :: "'a list \<Rightarrow> 'a \<Rightarrow> int" where
  "index_of vec x = (let it = find_position vec x
                     in if it = length vec then -1 else int it)"

definition append_vectors :: "'a list \<Rightarrow> 'a list \<Rightarrow> 'a list" where
  "append_vectors vec extra = fold (\<lambda>x v. v @ [x]) extra vec"

subsection \<open>\<open>SourceManager\<close>\<close>

record source_manager =
  files_map :: "int \<rightharpoonup> string"
  files_set :: "string list"
  last_source_file_id :: int

definition new_source_manager :: source_manager where
  "new_source_manager = \<lparr>files_map = Map.empty, files_set = [], last_source_file_id = -1\<rparr>"

definition register_source_path :: "string \<Rightarrow> source_manager \<Rightarrow> int \<times> source_manager" where
  "register_source_path path m = (let i = last_source_file_id m + 1 in
     (i, m\<lparr>last_source_file_id := i, files_map := (files_map m)(i \<mapsto> path),
           files_set := List.insert path (files_set m)\<rparr>))"

text \<open>\<open>operator[]\<close>: the empty path, which is also inserted, for an unknown id.\<close>

definition resolve_source_path :: "int \<Rightarrow> source_manager \<Rightarrow> string \<times> source_manager" where
  "resolve_source_path source_id m = (case files_map m source_id of
     Some p \<Rightarrow> (p, m)
   | None \<Rightarrow> ('''', m\<lparr>files_map := (files_map m)(source_id \<mapsto> '''')\<rparr>))"

definition is_path_registered :: "string \<Rightarrow> source_manager \<Rightarrow> bool" where
  "is_path_registered path m = contains (files_set m) path"

subsection \<open>\<open>DiagnosticEngine\<close>\<close>

datatype diagnostic_level = WARNING_LEVEL | ERROR_LEVEL

record diagnostic =
  location :: token_span
  message :: string
  diag_level :: diagnostic_level

definition diagnostic_level_literal :: "diagnostic_level \<Rightarrow> string" where
  "diagnostic_level_literal l = (case l of WARNING_LEVEL \<Rightarrow> ''WARNING'' | ERROR_LEVEL \<Rightarrow> ''ERROR'')"

record diagnostic_engine =
  diagnostics :: "diagnostic_level \<Rightarrow> diagnostic list"

definition new_diagnostic_engine :: diagnostic_engine where
  "new_diagnostic_engine = \<lparr>diagnostics = (\<lambda>_. [])\<rparr>"

definition report_at :: "diagnostic_level \<Rightarrow> token_span \<Rightarrow> string \<Rightarrow> diagnostic_engine \<Rightarrow> diagnostic_engine" where
  "report_at l loc msg e = e\<lparr>diagnostics := (diagnostics e)(l :=
     diagnostics e l @ [\<lparr>location = loc, message = msg, diag_level = l\<rparr>])\<rparr>"

definition report_error :: "token_span \<Rightarrow> string \<Rightarrow> diagnostic_engine \<Rightarrow> diagnostic_engine" where
  "report_error = report_at ERROR_LEVEL"

definition report_warning :: "token_span \<Rightarrow> string \<Rightarrow> diagnostic_engine \<Rightarrow> diagnostic_engine" where
  "report_warning = report_at WARNING_LEVEL"

definition level_count :: "diagnostic_level \<Rightarrow> diagnostic_engine \<Rightarrow> int" where
  "level_count l e = int (length (diagnostics e l))"

text \<open>\<open>std::getline\<close> over the content of a file: no extra line after a final newline.\<close>

fun get_lines :: "string \<Rightarrow> string \<Rightarrow> string list" where
  "get_lines line [] = (if line = '''' then [] else [line])"
| "get_lines line (c # s) = (if c = CHR 0x0A then line # get_lines '''' s else get_lines (line @ [c]) s)"

definition read_file_line :: "(string \<Rightarrow> string) \<Rightarrow> string \<Rightarrow> int \<Rightarrow> string" where
  "read_file_line content path n =
     (let ls = get_lines '''' (content path)
      in if 1 \<le> n \<and> n \<le> int (length ls) then ls ! (nat n - 1) else '''')"

definition report_diagnostic
  :: "(string \<Rightarrow> string) \<Rightarrow> diagnostic \<Rightarrow> source_manager \<Rightarrow> string \<times> source_manager" where
  "report_diagnostic content d m =
     (let loc = location d;
          (file_name, m) = resolve_source_path (file_id loc) m;
          n = line_number loc;
          source_line = read_file_line content file_name n;
          line_number_header = to_string n @ '' | '';
          header_size = int (length line_number_header)
      in (diagnostic_level_literal (diag_level d) @ '' in '' @ file_name @ '':'' @ to_string n
            @ '':'' @ to_string (column_start loc) @ [CHR 0x0A]
          @ line_number_header @ source_line @ [CHR 0x0A]
          @ replicate (nat ((column_start loc + header_size) mod 2 ^ 64)) (CHR ''~'')
          @ ''^ '' @ message d @ [CHR 0x0A] @ [CHR 0x0A], m))"

definition report_diagnostics
  :: "(string \<Rightarrow> string) \<Rightarrow> diagnostic_level \<Rightarrow> diagnostic_engine \<Rightarrow> source_manager
      \<Rightarrow> string \<times> source_manager" where
  "report_diagnostics content l e m =
     fold (\<lambda>d (out, m). case report_diagnostic content d m of (s, m') \<Rightarrow> (out @ s, m'))
       (diagnostics e l) ('''', m)"

subsection \<open>\<open>CompilerOptions\<close>\<close>

record compiler_options =
  output_file_name :: string
  should_report_warns :: bool
  convert_warns_to_errors :: bool
  use_cpu_features :: bool
  linker_extra_flags :: "string list"

definition default_options :: compiler_options where
  "default_options = \<lparr>output_file_name = ''output'', should_report_warns = False,
     convert_warns_to_errors = False, use_cpu_features = True, linker_extra_flags = []\<rparr>"

text \<open>The left side is the text printed before \<open>exit(EXIT_FAILURE)\<close>.\<close>

definition check_passed_twice_option :: "bool list \<Rightarrow> nat \<Rightarrow> string \<Rightarrow> string option" where
  "check_passed_twice_option received_options i arg =
     (if received_options ! i then Some (''ERROR: Flag `'' @ arg @ ''` is passed twice'' @ [CHR 0x0A]) else None)"

text \<open>The loop over \<open>argv[i], ..., argv[argc - 1]\<close>.\<close>

fun parse_options_loop
  :: "string \<Rightarrow> bool list \<Rightarrow> string list \<Rightarrow> compiler_options \<Rightarrow> string + compiler_options" where
  "parse_options_loop program received [] options = Inr options"
| "parse_options_loop program received (arg # args) options =
     (if arg = ''-o'' then
        (case check_passed_twice_option received 0 arg of Some err \<Rightarrow> Inl err | None \<Rightarrow>
         (case args of
            [] \<Rightarrow> Inl (''Flag `'' @ arg @ ''` expect executable name after it, but found no thing'' @ [CHR 0x0A])
          | name # args' \<Rightarrow>
              parse_options_loop program (received[0 := True]) args' (options\<lparr>output_file_name := name\<rparr>)))
      else if arg = ''-w'' then
        (case check_passed_twice_option received 1 arg of Some err \<Rightarrow> Inl err | None \<Rightarrow>
           parse_options_loop program (received[1 := True]) args (options\<lparr>should_report_warns := True\<rparr>))
      else if arg = ''-werr'' then
        (case check_passed_twice_option received 2 arg of Some err \<Rightarrow> Inl err | None \<Rightarrow>
           parse_options_loop program (received[2 := True]) args
             (options\<lparr>convert_warns_to_errors := True, should_report_warns := True\<rparr>))
      else if arg = ''-l'' then
        (case check_passed_twice_option received 3 arg of Some err \<Rightarrow> Inl err | None \<Rightarrow>
           Inr (options\<lparr>linker_extra_flags := linker_extra_flags options @ args\<rparr>))
      else Inl (''ERROR: Unkown compiler flag with name `'' @ arg @ ''`'' @ [CHR 0x0A]
        @ ''Please run `'' @ program @ '' help` to see all available options'' @ [CHR 0x0A]))"

definition parse_compiler_options :: "string list \<Rightarrow> compiler_options \<Rightarrow> string + compiler_options" where
  "parse_compiler_options argv options =
     parse_options_loop (hd argv) (replicate 4 False) (drop 3 argv) options"

subsection \<open>Properties\<close>

lemma str_to_int_loop_digits:
  "\<forall>c \<in> set s. 48 \<le> schar c \<and> schar c \<le> 57 \<Longrightarrow>
   str_to_int_loop v s = foldl (\<lambda>v c. v * 10 + digit_value c) v s"
  by (induction s arbitrary: v) (simp_all add: digit_value_def Let_def, simp_all add: schar_low)

lemma str_to_int_loop_decimal: "0 \<le> n \<Longrightarrow> str_to_int_loop 0 (decimal_digits n) = n"
  using str_to_int_loop_digits [OF decimal_digits_are_digits, of n 0]
    digits_value_decimal_digits [of n]
  by (simp add: digits_value_def)

lemma str_to_int_natural:
  assumes "0 \<le> n"
  shows "str_to_int (to_string n) = n"
proof -
  obtain c s where d: "decimal_digits n = c # s" "48 \<le> schar c"
    using decimal_digits_are_digits [OF assms] decimal_digits_nonempty [of n]
    by (cases "decimal_digits n") auto
  then have "c \<noteq> CHR ''-''" by (auto simp: schar_def)
  then show ?thesis
    using assms d(1) str_to_int_loop_decimal [of n] by (simp add: str_to_int_def to_string_def)
qed

text \<open>
  \<open>str_to_int\<close> reads back every integer that \<open>std::to_string\<close> writes, within the range in which
  its \<open>int64\<close> accumulator does not overflow.
\<close>

theorem str_to_int_to_string:
  assumes "- (2 ^ 63) < i" and "i < 2 ^ 63"
  shows "str_to_int (to_string i) = i"
proof (cases "i < 0")
  case True
  then show ?thesis
    using str_to_int_loop_decimal [of "- i"] by (simp add: str_to_int_def to_string_def)
qed (simp add: str_to_int_natural)

theorem str_to_int_to_string_witness: "str_to_int (to_string (-120)) = -120"
  by (rule str_to_int_to_string) simp_all

lemma find_upt: "find P [m ..< Suc n] \<noteq> None \<longleftrightarrow> (\<exists>i. m \<le> i \<and> i \<le> n \<and> P i)"
  unfolding find_None_iff by (auto simp del: upt_Suc simp: less_Suc_eq_le)

text \<open>
  \<open>is_ends_with\<close> decides whether the second string is a suffix of the first; the wrap-around of
  the subtraction of the sizes, when the suffix is the longer one, is harmless.
\<close>

theorem is_ends_with_suffix:
  assumes "length str < 2 ^ 63" and "length part < 2 ^ 63"
  shows "is_ends_with str part \<longleftrightarrow> (\<exists>prefix. str = prefix @ part)"
proof (cases "length part \<le> length str")
  case True
  let ?d = "length str - length part"
  have wrap: "nat ((int (length str) - int (length part)) mod 2 ^ 64) = ?d"
    using True assms(1) by (simp add: nat_diff_distrib flip: of_nat_diff)
  have "is_ends_with str part \<longleftrightarrow> (\<exists>i. ?d \<le> i \<and> i \<le> length str \<and> take (length part) (drop i str) = part)"
    unfolding is_ends_with_def wrap string_find_def find_upt [symmetric] by simp
  also have "\<dots> \<longleftrightarrow> drop ?d str = part"
  proof
    assume "\<exists>i. ?d \<le> i \<and> i \<le> length str \<and> take (length part) (drop i str) = part"
    then obtain i where i: "?d \<le> i" "i \<le> length str" "take (length part) (drop i str) = part" by blast
    have "length part \<le> length str - i" using arg_cong [OF i(3), of length] by simp
    then have "i = ?d" using i(1,2) True by simp
    then show "drop ?d str = part" using i(3) True by simp
  next
    assume "drop ?d str = part"
    then show "\<exists>i. ?d \<le> i \<and> i \<le> length str \<and> take (length part) (drop i str) = part"
      by (intro exI [of _ ?d]) auto
  qed
  also have "\<dots> \<longleftrightarrow> (\<exists>prefix. str = prefix @ part)"
    by (metis append_eq_conv_conj append_take_drop_id length_append diff_add_inverse2)
  finally show ?thesis .
next
  case False
  have "(int (length str) - int (length part)) mod 2 ^ 64
      = int (length str) - int (length part) + 2 ^ 64"
    using False assms(2) by (subst mod_add_self2 [symmetric], intro mod_pos_pos_trivial) auto
  then have "length str < nat ((int (length str) - int (length part)) mod 2 ^ 64)"
    using assms by simp
  then have "\<not> is_ends_with str part" by (simp add: is_ends_with_def string_find_def)
  then show ?thesis using False by auto
qed

theorem is_ends_with_suffix_witness: "is_ends_with ''a.amun'' ''.amun'' \<and> \<not> is_ends_with ''un'' ''.amun''"
  using is_ends_with_suffix [of "''a.amun''" "''.amun''"] is_ends_with_suffix [of "''un''" "''.amun''"]
  by (auto simp: Cons_eq_append_conv)

text \<open>The command line that asks for given options.\<close>

definition render_options :: "compiler_options \<Rightarrow> string list" where
  "render_options opts = [''-o'', output_file_name opts]
     @ (if convert_warns_to_errors opts then [''-werr''] else if should_report_warns opts then [''-w''] else [])
     @ (if linker_extra_flags opts = [] then [] else ''-l'' # linker_extra_flags opts)"

text \<open>
  C15: Every configuration the command line can express is parsed back from its command line: the
  output name, the two warning switches and the linker flags, whatever they are.
\<close>

theorem parse_compiler_options_roundtrip:
  assumes "use_cpu_features opts" and "convert_warns_to_errors opts \<longrightarrow> should_report_warns opts"
  shows "parse_compiler_options ([program, command, source] @ render_options opts) default_options = Inr opts"
  using assms
  by (cases opts) (auto simp: parse_compiler_options_def render_options_def default_options_def
      check_passed_twice_option_def numeral_eq_Suc)

theorem parse_compiler_options_roundtrip_witness:
  "parse_compiler_options [''amun'', ''compile'', ''a.amun'', ''-o'', ''a'', ''-l'', ''-lm''] default_options
     = Inr (default_options\<lparr>output_file_name := ''a'', linker_extra_flags := [''-lm'']\<rparr>)"
  using parse_compiler_options_roundtrip
    [of "default_options\<lparr>output_file_name := ''a'', linker_extra_flags := [''-lm'']\<rparr>" "''amun''" "''compile''" "''a.amun''"]
  by (simp add: default_options_def render_options_def)

end
