(* ===== verification/Ast.thy ===== *)
theory Ast
  imports Types
begin

text \<open>
  \<open>include/amun_ast.hpp\<close>: the syntax tree the parser builds, one constructor per class with the
  members in declaration order, the node type tags, \<open>get_type_node\<close>, \<open>is_constant\<close> and the
  constructors that compute members.  \<open>Shared<Expression>\<close> that may be null (an absent initialiser,
  step, value or default) is an option.
\<close>

subsection \<open>Type nodes\<close>

text \<open>
  The type member of an expression may be a null pointer (a \<open>DotExpression\<close> starts with one) and
  then also be the element type of the array type that \<open>ArrayExpression\<close> builds; \<open>type_node\<close> is a
  possibly null pointer to a type, or an array or vector type over such a pointer.
\<close>

datatype type_node = NullNode | TypeNode ty | ArrayNode type_node nat | VectorNode type_node nat

definition array_node :: "type_node \<Rightarrow> nat \<Rightarrow> type_node" where
  "array_node t n = (case t of TypeNode e \<Rightarrow> TypeNode (StaticArrayType e n) | _ \<Rightarrow> ArrayNode t n)"

text \<open>\<open>StaticVectorType(static_pointer_cast<StaticArrayType>(t))\<close>.\<close>

definition vector_node :: "type_node \<Rightarrow> type_node" where
  "vector_node t = (case t of
     TypeNode (StaticArrayType e n) \<Rightarrow> TypeNode (StaticVectorType e n)
   | ArrayNode e n \<Rightarrow> VectorNode e n
   | _ \<Rightarrow> NullNode)"

subsection \<open>Nodes\<close>

record parameter =
  parameter_name :: token
  parameter_type :: ty

record struct_type =
  struct_name :: string
  fields_names :: "string list"
  fields_types :: "ty list"
  generic_parameters :: "string list"
  generic_parameters_types :: "ty list"
  struct_is_packed :: bool
  struct_is_generic :: bool
  struct_is_extern :: bool

record enum_type =
  enum_type_name :: token
  enum_type_values :: "(string \<times> int) list"
  enum_type_element :: ty

record function_prototype =
  prototype_name :: token
  prototype_parameters :: "parameter list"
  prototype_return_type :: ty
  prototype_is_external :: bool
  prototype_has_varargs :: bool
  prototype_varargs_type :: "ty option"
  prototype_is_generic :: bool
  prototype_generic_parameters :: "string list"

datatype expression =
    IfExpression "token list" "expression list" "expression list" type_node
  | SwitchExpression token expression "expression list" "expression list" "expression option"
      type_node token_kind
  | TupleExpression token "expression list" type_node
  | AssignExpression expression token expression type_node
  | BinaryExpression expression token expression type_node
  | BitwiseExpression expression token expression type_node
  | ComparisonExpression expression token expression type_node
  | LogicalExpression expression token expression type_node
  | PrefixUnaryExpression token expression type_node
  | PostfixUnaryExpression token expression type_node
  | CallExpression token expression "expression list" type_node "ty list"
  | InitializeExpression token type_node "expression list"
  | LambdaExpression token "parameter list" "string list" "ty list" ty "statement list" type_node
  | DotExpression int bool token expression token type_node
  | CastExpression token type_node expression
  | TypeSizeExpression ty
  | TypeAlignExpression ty
  | ValueSizeExpression expression
  | IndexExpression token expression expression type_node
  | EnumAccessExpression token token int type_node
  | ArrayExpression token "expression list" type_node bool
  | VectorExpression expression
  | StringExpression token type_node
  | LiteralExpression token type_node bool
  | NumberExpression token type_node
  | CharacterExpression token type_node
  | BooleanExpression token type_node
  | NullExpression token type_node ty
  | UndefinedExpression token type_node
  | InfinityExpression type_node
and statement =
    BlockStatement "statement list"
  | FieldDeclaration token ty "expression option" bool bool
  | DestructuringDeclaraion "token list" "ty list" expression token bool
  | ConstDeclaration token expression
  | FunctionPrototype function_prototype
  | IntrinsicPrototype token string "parameter list" ty bool "ty option"
  | FunctionDeclaration function_prototype statement
  | OperatorFunctionDeclaraion token function_prototype statement
  | StructDeclaration string
  | EnumDeclaration token enum_type
  | IfStatement "conditional_block list" bool
  | ForRangeStatement token string expression expression "expression option" statement
  | ForEachStatement token string string expression statement
  | ForeverStatement token statement
  | WhileStatement token expression statement
  | SwitchStatement token expression "switch_case list" token_kind bool bool
  | ReturnStatement token "expression option" bool
  | DeferStatement expression
  | BreakStatement token bool int
  | ContinueStatement token bool int
  | ExpressionStatement expression
and conditional_block = ConditionalBlock token expression statement
and switch_case = SwitchCase token "expression list" statement

subsection \<open>Node types\<close>

datatype (plugins only: code) ast_node_type =
    AST_NODE
  | AST_BLOCK | AST_FIELD_DECLARAION | AST_DESTRUCTURING_DECLARAION | AST_PROTOTYPE | AST_INTRINSIC
  | AST_FUNCTION | AST_OPERATOR_FUNCTION | AST_STRUCT | AST_ENUM | AST_IF_STATEMENT
  | AST_SWITCH_STATEMENT | AST_FOR_RANGE | AST_FOR_EACH | AST_FOR_EVER | AST_WHILE | AST_RETURN
  | AST_DEFER | AST_BREAK | AST_CONTINUE | AST_EXPRESSION_STATEMENT
  | AST_IF_EXPRESSION | AST_SWITCH_EXPRESSION | AST_TUPLE | AST_ASSIGN | AST_BINARY | AST_BITWISE
  | AST_COMPARISON | AST_LOGICAL | AST_PREFIX_UNARY | AST_POSTFIX_UNARY | AST_CALL | AST_INIT
  | AST_LAMBDA | AST_DOT | AST_CAST | AST_TYPE_SIZE | AST_VALUE_SIZE | AST_INDEX | AST_ENUM_ELEMENT
  | AST_ARRAY | AST_VECTOR | AST_STRING | AST_LITERAL | AST_NUMBER | AST_CHARACTER | AST_BOOL
  | AST_NULL | AST_UNDEFINED | AST_INFINITY

definition get_ast_node_type :: "expression \<Rightarrow> ast_node_type" where
  "get_ast_node_type e = (case e of
     IfExpression _ _ _ _ \<Rightarrow> AST_IF_EXPRESSION
   | SwitchExpression _ _ _ _ _ _ _ \<Rightarrow> AST_SWITCH_EXPRESSION
   | TupleExpression _ _ _ \<Rightarrow> AST_TUPLE
   | AssignExpression _ _ _ _ \<Rightarrow> AST_ASSIGN
   | BinaryExpression _ _ _ _ \<Rightarrow> AST_BINARY
   | BitwiseExpression _ _ _ _ \<Rightarrow> AST_BITWISE
   | ComparisonExpression _ _ _ _ \<Rightarrow> AST_COMPARISON
   | LogicalExpression _ _ _ _ \<Rightarrow> AST_LOGICAL
   | PrefixUnaryExpression _ _ _ \<Rightarrow> AST_PREFIX_UNARY
   | PostfixUnaryExpression _ _ _ \<Rightarrow> AST_POSTFIX_UNARY
   | CallExpression _ _ _ _ _ \<Rightarrow> AST_CALL
   | InitializeExpression _ _ _ \<Rightarrow> AST_INIT
   | LambdaExpression _ _ _ _ _ _ _ \<Rightarrow> AST_LAMBDA
   | DotExpression _ _ _ _ _ _ \<Rightarrow> AST_DOT
   | CastExpression _ _ _ \<Rightarrow> AST_CAST
   | TypeSizeExpression _ \<Rightarrow> AST_TYPE_SIZE
   | TypeAlignExpression _ \<Rightarrow> AST_TYPE_SIZE
   | ValueSizeExpression _ \<Rightarrow> AST_VALUE_SIZE
   | IndexExpression _ _ _ _ \<Rightarrow> AST_INDEX
   | EnumAccessExpression _ _ _ _ \<Rightarrow> AST_ENUM_ELEMENT
   | ArrayExpression _ _ _ _ \<Rightarrow> AST_ARRAY
   | VectorExpression _ \<Rightarrow> AST_VECTOR
   | StringExpression _ _ \<Rightarrow> AST_STRING
   | LiteralExpression _ _ _ \<Rightarrow> AST_LITERAL
   | NumberExpression _ _ \<Rightarrow> AST_NUMBER
   | CharacterExpression _ _ \<Rightarrow> AST_CHARACTER
   | BooleanExpression _ _ \<Rightarrow> AST_BOOL
   | NullExpression _ _ _ \<Rightarrow> AST_NULL
   | UndefinedExpression _ _ \<Rightarrow> AST_UNDEFINED
   | InfinityExpression _ \<Rightarrow> AST_INFINITY)"

definition get_statement_node_type :: "statement \<Rightarrow> ast_node_type" where
  "get_statement_node_type s = (case s of
     BlockStatement _ \<Rightarrow> AST_BLOCK
   | FieldDeclaration _ _ _ _ _ \<Rightarrow> AST_FIELD_DECLARAION
   | DestructuringDeclaraion _ _ _ _ _ \<Rightarrow> AST_DESTRUCTURING_DECLARAION
   | ConstDeclaration _ _ \<Rightarrow> AST_FIELD_DECLARAION
   | FunctionPrototype _ \<Rightarrow> AST_PROTOTYPE
   | IntrinsicPrototype _ _ _ _ _ _ \<Rightarrow> AST_INTRINSIC
   | FunctionDeclaration _ _ \<Rightarrow> AST_FUNCTION
   | OperatorFunctionDeclaraion _ _ _ \<Rightarrow> AST_OPERATOR_FUNCTION
   | StructDeclaration _ \<Rightarrow> AST_STRUCT
   | EnumDeclaration _ _ \<Rightarrow> AST_ENUM
   | IfStatement _ _ \<Rightarrow> AST_IF_STATEMENT
   | ForRangeStatement _ _ _ _ _ _ \<Rightarrow> AST_FOR_RANGE
   | ForEachStatement _ _ _ _ _ \<Rightarrow> AST_FOR_RANGE
   | ForeverStatement _ _ \<Rightarrow> AST_FOR_EVER
   | WhileStatement _ _ _ \<Rightarrow> AST_WHILE
   | SwitchStatement _ _ _ _ _ _ \<Rightarrow> AST_SWITCH_STATEMENT
   | ReturnStatement _ _ _ \<Rightarrow> AST_RETURN
   | DeferStatement _ \<Rightarrow> AST_DEFER
   | BreakStatement _ _ _ \<Rightarrow> AST_BREAK
   | ContinueStatement _ _ _ \<Rightarrow> AST_CONTINUE
   | ExpressionStatement _ \<Rightarrow> AST_EXPRESSION_STATEMENT)"

subsection \<open>The virtual operations of an expression\<close>

primrec get_type_node :: "expression \<Rightarrow> type_node" where
  "get_type_node (IfExpression _ _ _ t) = t"
| "get_type_node (SwitchExpression _ _ _ _ _ t _) = t"
| "get_type_node (TupleExpression _ _ t) = t"
| "get_type_node (AssignExpression _ _ _ t) = t"
| "get_type_node (BinaryExpression _ _ _ t) = t"
| "get_type_node (BitwiseExpression _ _ _ t) = t"
| "get_type_node (ComparisonExpression _ _ _ t) = t"
| "get_type_node (LogicalExpression _ _ _ t) = t"
| "get_type_node (PrefixUnaryExpression _ _ t) = t"
| "get_type_node (PostfixUnaryExpression _ _ t) = t"
| "get_type_node (CallExpression _ _ _ t _) = t"
| "get_type_node (InitializeExpression _ t _) = t"
| "get_type_node (LambdaExpression _ _ _ _ _ _ t) = t"
| "get_type_node (DotExpression _ _ _ _ _ t) = t"
| "get_type_node (CastExpression _ t _) = t"
| "get_type_node (TypeSizeExpression _) = TypeNode i64_type"
| "get_type_node (TypeAlignExpression _) = TypeNode i64_type"
| "get_type_node (ValueSizeExpression _) = TypeNode i64_type"
| "get_type_node (IndexExpression _ _ _ t) = t"
| "get_type_node (EnumAccessExpression _ _ _ t) = t"
| "get_type_node (ArrayExpression _ _ t _) = t"
| "get_type_node (VectorExpression a) = vector_node (get_type_node a)"
| "get_type_node (StringExpression _ t) = t"
| "get_type_node (LiteralExpression _ t _) = t"
| "get_type_node (NumberExpression _ t) = t"
| "get_type_node (CharacterExpression _ t) = t"
| "get_type_node (BooleanExpression _ t) = t"
| "get_type_node (NullExpression _ t _) = t"
| "get_type_node (UndefinedExpression _ t) = t"
| "get_type_node (InfinityExpression t) = t"

primrec set_type_node :: "expression \<Rightarrow> type_node \<Rightarrow> expression" where
  "set_type_node (IfExpression ts cs vs _) t = IfExpression ts cs vs t"
| "set_type_node (SwitchExpression k a cs vs d _ opk) t = SwitchExpression k a cs vs d t opk"
| "set_type_node (TupleExpression p vs _) t = TupleExpression p vs t"
| "set_type_node (AssignExpression l k r _) t = AssignExpression l k r t"
| "set_type_node (BinaryExpression l k r _) t = BinaryExpression l k r t"
| "set_type_node (BitwiseExpression l k r _) t = BitwiseExpression l k r t"
| "set_type_node (ComparisonExpression l k r _) t = ComparisonExpression l k r t"
| "set_type_node (LogicalExpression l k r _) t = LogicalExpression l k r t"
| "set_type_node (PrefixUnaryExpression k r _) t = PrefixUnaryExpression k r t"
| "set_type_node (PostfixUnaryExpression k r _) t = PostfixUnaryExpression k r t"
| "set_type_node (CallExpression p c args _ gs) t = CallExpression p c args t gs"
| "set_type_node (InitializeExpression p _ args) t = InitializeExpression p t args"
| "set_type_node (LambdaExpression p ps ns ts r b _) t = LambdaExpression p ps ns ts r b t"
| "set_type_node (DotExpression i c d e f _) t = DotExpression i c d e f t"
| "set_type_node (CastExpression p _ v) t = CastExpression p t v"
| "set_type_node (TypeSizeExpression s) t = TypeSizeExpression s"
| "set_type_node (TypeAlignExpression s) t = TypeAlignExpression s"
| "set_type_node (ValueSizeExpression v) t = ValueSizeExpression v"
| "set_type_node (IndexExpression p v i _) t = IndexExpression p v i t"
| "set_type_node (EnumAccessExpression n e i _) t = EnumAccessExpression n e i t"
| "set_type_node (ArrayExpression p vs _ c) t = ArrayExpression p vs t c"
| "set_type_node (VectorExpression a) t = VectorExpression (set_type_node a t)"
| "set_type_node (StringExpression v _) t = StringExpression v t"
| "set_type_node (LiteralExpression n _ c) t = LiteralExpression n t c"
| "set_type_node (NumberExpression v _) t = NumberExpression v t"
| "set_type_node (CharacterExpression v _) t = CharacterExpression v t"
| "set_type_node (BooleanExpression v _) t = BooleanExpression v t"
| "set_type_node (NullExpression v _ b) t = NullExpression v t b"
| "set_type_node (UndefinedExpression k _) t = UndefinedExpression k t"
| "set_type_node (InfinityExpression _) t = InfinityExpression t"

fun is_constant :: "expression \<Rightarrow> bool" where
  "is_constant (IfExpression _ cs vs _) = (list_all is_constant cs \<and> list_all is_constant vs)"
| "is_constant (SwitchExpression _ a cs vs _ _ _) =
     (is_constant a \<and> list_all is_constant cs \<and> list_all is_constant vs)"
| "is_constant (AssignExpression _ _ _ _) = False"
| "is_constant (BinaryExpression l _ r _) = (is_constant l \<and> is_constant r)"
| "is_constant (BitwiseExpression l _ r _) = (is_constant l \<and> is_constant r)"
| "is_constant (ComparisonExpression l _ r _) = (is_constant l \<and> is_constant r)"
| "is_constant (LogicalExpression l _ r _) = (is_constant l \<and> is_constant r)"
| "is_constant (PrefixUnaryExpression _ r _) = is_constant r"
| "is_constant (PostfixUnaryExpression _ r _) = is_constant r"
| "is_constant (CallExpression _ _ _ _ _) = False"
| "is_constant (InitializeExpression _ _ args) = list_all is_constant args"
| "is_constant (DotExpression _ c _ _ _ _) = c"
| "is_constant (CastExpression _ _ v) = is_constant v"
| "is_constant (IndexExpression _ _ i _) = is_constant i"
| "is_constant (ArrayExpression _ _ _ c) = c"
| "is_constant (VectorExpression a) = is_constant a"
| "is_constant (LiteralExpression _ _ c) = c"
| "is_constant _ = True"

subsection \<open>Constructors that compute members\<close>

text \<open>
  \<open>FieldDeclaration\<close> computes \<open>has_explicit_type\<close>; the other constructors below compute the type
  of the new node from its operands (\<open>null\<close> for \<open>DotExpression\<close>, whose type has no initialiser).
  \<open>switch_cases_values[0]\<close> is read by \<open>hd\<close>: the parser builds a \<open>SwitchExpression\<close> only
  from a value list it has checked.  The function type inside a \<open>LambdaExpression\<close> is built from the
  token parameter after it was moved into the member: its text is the moved-from string, which is
  empty.
\<close>

definition mk_field_declaration ::
  "token \<Rightarrow> ty \<Rightarrow> expression option \<Rightarrow> bool \<Rightarrow> statement" where
  "mk_field_declaration name t v global = FieldDeclaration name t v global (t \<noteq> NoneType)"

definition mk_if_expression :: "token list \<Rightarrow> expression list \<Rightarrow> expression list \<Rightarrow> expression" where
  "mk_if_expression ts cs vs = IfExpression ts cs vs (TypeNode none_type)"

definition mk_switch_expression ::
  "token \<Rightarrow> expression \<Rightarrow> expression list \<Rightarrow> expression list \<Rightarrow> expression option \<Rightarrow> token_kind
    \<Rightarrow> expression" where
  "mk_switch_expression k a cs vs d opk =
     SwitchExpression k a cs vs d (get_type_node (hd vs)) opk"

definition mk_tuple :: "token \<Rightarrow> expression list \<Rightarrow> expression" where
  "mk_tuple p vs = TupleExpression p vs (TypeNode none_type)"

definition mk_assign :: "expression \<Rightarrow> token \<Rightarrow> expression \<Rightarrow> expression" where
  "mk_assign l t r = AssignExpression l t r (get_type_node r)"

definition mk_binary :: "expression \<Rightarrow> token \<Rightarrow> expression \<Rightarrow> expression" where
  "mk_binary l t r = BinaryExpression l t r (get_type_node r)"

definition mk_bitwise :: "expression \<Rightarrow> token \<Rightarrow> expression \<Rightarrow> expression" where
  "mk_bitwise l t r = BitwiseExpression l t r (get_type_node r)"

definition mk_comparison :: "expression \<Rightarrow> token \<Rightarrow> expression \<Rightarrow> expression" where
  "mk_comparison l t r = ComparisonExpression l t r (TypeNode i1_type)"

definition mk_logical :: "expression \<Rightarrow> token \<Rightarrow> expression \<Rightarrow> expression" where
  "mk_logical l t r = LogicalExpression l t r (TypeNode i1_type)"

definition mk_prefix_unary :: "token \<Rightarrow> expression \<Rightarrow> expression" where
  "mk_prefix_unary t r = PrefixUnaryExpression t r (get_type_node r)"

definition mk_postfix_unary :: "token \<Rightarrow> expression \<Rightarrow> expression" where
  "mk_postfix_unary t r = PostfixUnaryExpression t r (get_type_node r)"

definition mk_call :: "token \<Rightarrow> expression \<Rightarrow> expression list \<Rightarrow> ty list \<Rightarrow> expression" where
  "mk_call p c args gs = CallExpression p c args (get_type_node c) gs"

definition mk_lambda :: "token \<Rightarrow> parameter list \<Rightarrow> ty \<Rightarrow> statement list \<Rightarrow> expression" where
  "mk_lambda p ps r b = LambdaExpression p ps [] [] r b
     (TypeNode (PointerType (FunctionType (p\<lparr>literal := ''''\<rparr>) [] r 0 False None False False [])))"

definition mk_dot :: "token \<Rightarrow> expression \<Rightarrow> token \<Rightarrow> expression" where
  "mk_dot d c f = DotExpression 0 False d c f NullNode"

definition mk_index :: "token \<Rightarrow> expression \<Rightarrow> expression \<Rightarrow> expression" where
  "mk_index p v i = IndexExpression p v i (TypeNode NoneType)"

definition mk_array :: "token \<Rightarrow> expression list \<Rightarrow> expression" where
  "mk_array p vs = ArrayExpression p vs
     (array_node (if vs = [] then TypeNode none_type else get_type_node (hd vs)) (length vs))
     (list_all is_constant vs)"

definition mk_string :: "token \<Rightarrow> expression" where
  "mk_string v = StringExpression v (TypeNode i8_ptr_type)"

definition mk_literal :: "token \<Rightarrow> expression" where
  "mk_literal n = LiteralExpression n (TypeNode none_type) False"

definition mk_number :: "token \<Rightarrow> ty \<Rightarrow> expression" where
  "mk_number v t = NumberExpression v (TypeNode t)"

definition mk_character :: "token \<Rightarrow> expression" where
  "mk_character v = CharacterExpression v (TypeNode i8_type)"

definition mk_boolean :: "token \<Rightarrow> expression" where
  "mk_boolean v = BooleanExpression v (TypeNode i1_type)"

definition mk_null :: "token \<Rightarrow> expression" where
  "mk_null v = NullExpression v (TypeNode null_type) i32_ptr_type"

definition mk_undefined :: "token \<Rightarrow> expression" where
  "mk_undefined k = UndefinedExpression k (TypeNode none_type)"

text \<open>\<open>LiteralExpression::set_constant\<close>.\<close>

definition set_constant :: "expression \<Rightarrow> bool \<Rightarrow> expression" where
  "set_constant e c = (case e of LiteralExpression n t _ \<Rightarrow> LiteralExpression n t c | _ \<Rightarrow> e)"

subsection \<open>Laws of the virtual operations\<close>

lemma set_type_node_node_type [simp]: "get_ast_node_type (set_type_node e t) = get_ast_node_type e"
  by (cases e) (simp_all add: get_ast_node_type_def)

lemma set_type_node_is_constant [simp]: "is_constant (set_type_node e t) = is_constant e"
  by (induction e rule: is_constant.induct) simp_all

end
