(* ===== verification/Parser_State.thy ===== *)
theory Parser_State
  imports Ast Scoped_Tables Support Name_Mangle Tokenizer
begin

text \<open>
  The state of the parser (\<open>include/amun_parser.hpp\<close>, \<open>include/amun_context.hpp\<close>), the outcomes of a
  parsing function and the token operations of \<open>src/amun_parser.cpp\<close> (\<open>advanced_token\<close> to
  \<open>is_source_available\<close>).

  A member function is a \<open>'a parse\<close>: from a parser state to an \<open>outcome\<close>.  \<open>Ok\<close> returns a value and the
  new state; \<open>Stop\<close> is \<open>throw "Stop"\<close>, with the state at the throw; \<open>Crash\<close> is an exception no handler
  of the compiler catches, an assertion, or undefined behaviour.  Recursion and loops run on fuel;
  that the fuel suffices is a theorem (theory \<open>Parser_Totality\<close>).
\<close>

subsection \<open>Casts to a node or type class\<close>

text \<open>
  \<open>std::dynamic_pointer_cast\<close> of an expression, and \<open>std::static_pointer_cast\<close> of a type after the test
  of its kind: the members the callers read, or \<open>None\<close> for another class.
\<close>

definition as_number :: "expression \<Rightarrow> (token \<times> type_node) option" where
  "as_number e = (case e of NumberExpression tok t \<Rightarrow> Some (tok, t) | _ \<Rightarrow> None)"

definition as_literal :: "expression \<Rightarrow> token option" where
  "as_literal e = (case e of LiteralExpression name _ _ \<Rightarrow> Some name | _ \<Rightarrow> None)"

definition as_prefix_unary :: "expression \<Rightarrow> (token \<times> expression) option" where
  "as_prefix_unary e = (case e of PrefixUnaryExpression op right _ \<Rightarrow> Some (op, right) | _ \<Rightarrow> None)"

text \<open>The right operand of a comparison.\<close>

definition as_comparison :: "expression \<Rightarrow> expression option" where
  "as_comparison e = (case e of ComparisonExpression _ _ right _ \<Rightarrow> Some right | _ \<Rightarrow> None)"

definition as_struct_type :: "ty \<Rightarrow> string option" where
  "as_struct_type t = (case t of StructType name \<Rightarrow> Some name | _ \<Rightarrow> None)"

definition as_static_array_type :: "ty \<Rightarrow> (ty \<times> nat) option" where
  "as_static_array_type t = (case t of StaticArrayType e n \<Rightarrow> Some (e, n) | _ \<Rightarrow> None)"

definition as_number_type :: "ty \<Rightarrow> number_kind option" where
  "as_number_type t = (case t of NumberType k \<Rightarrow> Some k | _ \<Rightarrow> None)"

subsection \<open>\<open>Context\<close>\<close>

datatype function_kind = NORMAL_FUNCTION | PREFIX_FUNCTION | INFIX_FUNCTION | POSTFIX_FUNCTION

record compile_context =
  ctx_options :: compiler_options
  ctx_diagnostics :: diagnostic_engine
  ctx_source_manager :: source_manager
  ctx_type_alias_table :: alias_table
  ctx_functions :: "string \<rightharpoonup> function_kind"
  ctx_structures :: "string \<rightharpoonup> struct_type"
  ctx_enumerations :: "string \<rightharpoonup> enum_type"
  ctx_constants_table_map :: "(string, expression) scoped_map"

definition new_context :: "compiler_options \<Rightarrow> compile_context" where
  "new_context opts = \<lparr>ctx_options = opts, ctx_diagnostics = new_diagnostic_engine,
     ctx_source_manager = new_source_manager, ctx_type_alias_table = config_type_alias_table,
     ctx_functions = Map.empty, ctx_structures = Map.empty, ctx_enumerations = Map.empty,
     ctx_constants_table_map = push_new_scope \<lparr>linked_scoped = []\<rparr>\<rparr>"

subsection \<open>\<open>Parser\<close>\<close>

datatype ast_node_scope = GLOBAL_SCOPE | FUNCTION_SCOPE | CONDITION_SCOPE

text \<open>The head of \<open>loop_levels_stack\<close> is the top of the stack.\<close>

record parser =
  file_parent_path :: string
  pcontext :: compile_context
  ptokenizer :: tokenizer
  previous_token :: "token option"
  current_token :: "token option"
  next_token :: "token option"
  generic_parameters_names :: "string list"
  current_ast_scope :: ast_node_scope
  loop_levels_stack :: "int list"
  current_struct_name :: string
  current_struct_unknown_fields :: int

text \<open>
  \<open>std::filesystem::path::parent_path\<close> on POSIX paths: the text before the last separators, the root
  itself for a file in the root.
\<close>

definition find_parent_path :: "string \<Rightarrow> string" where
  "find_parent_path path =
     (let directory = rev (dropWhile (\<lambda>c. c \<noteq> CHR ''/'') (rev path));
          parent = rev (dropWhile (\<lambda>c. c = CHR ''/'') (rev directory))
      in if directory = [] then '''' else if parent = [] then ''/'' else parent)"

definition new_parser :: "compile_context \<Rightarrow> tokenizer \<Rightarrow> parser" where
  "new_parser ctx tz =
     (let (file_path, manager) = resolve_source_path (get_source_file_id tz) (ctx_source_manager ctx);
          parent = find_parent_path file_path
      in \<lparr>file_parent_path =
            (if parent \<noteq> [] \<and> last parent \<noteq> CHR ''/'' then parent @ ''/'' else parent),
          pcontext = ctx\<lparr>ctx_source_manager := manager\<rparr>, ptokenizer = tz,
          previous_token = None, current_token = None, next_token = None,
          generic_parameters_names = [], current_ast_scope = GLOBAL_SCOPE,
          loop_levels_stack = [], current_struct_name = '''', current_struct_unknown_fields = 0\<rparr>)"

subsection \<open>Outcomes\<close>

datatype crash =
    BadOptionalAccess \<comment> \<open>\<open>std::optional::value\<close> of an empty optional\<close>
  | EmptyStack \<comment> \<open>\<open>top\<close> or \<open>pop\<close> of an empty stack, or \<open>back\<close> of an empty vector\<close>
  | NullPointer \<comment> \<open>a null pointer is used\<close>
  | NullLiteral \<comment> \<open>\<open>std::string\<close> built from a null \<open>const char*\<close>\<close>
  | StoiOutOfRange \<comment> \<open>\<open>std::out_of_range\<close> or \<open>std::invalid_argument\<close> of \<open>std::stoi\<close>\<close>
  | AssertFailed
  | TokenizerUndefined

datatype 'a outcome = Ok 'a parser | Stop parser | Crash crash | OutOfFuel

type_synonym 'a parse = "parser \<Rightarrow> 'a outcome"

definition return_p :: "'a \<Rightarrow> 'a parse" where
  "return_p x s = Ok x s"

definition bind :: "'a parse \<Rightarrow> ('a \<Rightarrow> 'b parse) \<Rightarrow> 'b parse" where
  "bind m f s = (case m s of Ok x s' \<Rightarrow> f x s' | Stop s' \<Rightarrow> Stop s' | Crash c \<Rightarrow> Crash c
     | OutOfFuel \<Rightarrow> OutOfFuel)"

definition and_then :: "unit parse \<Rightarrow> 'b parse \<Rightarrow> 'b parse" where
  "and_then m n = bind m (\<lambda>_. n)"

definition crash :: "crash \<Rightarrow> 'a parse" where
  "crash c s = Crash c"

definition read :: "(parser \<Rightarrow> 'a) \<Rightarrow> 'a parse" where
  "read f s = Ok (f s) s"

definition modify :: "(parser \<Rightarrow> parser) \<Rightarrow> unit parse" where
  "modify f s = Ok () (f s)"

definition update_context :: "(compile_context \<Rightarrow> compile_context) \<Rightarrow> unit parse" where
  "update_context f = modify (\<lambda>s. s\<lparr>pcontext := f (pcontext s)\<rparr>)"

definition value_of :: "'a option \<Rightarrow> 'a parse" where
  "value_of v = (case v of Some x \<Rightarrow> return_p x | None \<Rightarrow> crash BadOptionalAccess)"

text \<open>\<open>report_error(position, message); throw "Stop";\<close>\<close>

definition stop_error :: "token_span \<Rightarrow> string \<Rightarrow> 'a parse" where
  "stop_error loc msg s = Stop (s\<lparr>pcontext := (pcontext s)
     \<lparr>ctx_diagnostics := report_error loc msg (ctx_diagnostics (pcontext s))\<rparr>\<rparr>)"

text \<open>
  A loop with its accumulator: the body returns \<open>Inl\<close> for the next turn and \<open>Inr\<close> to leave the loop.
\<close>

primrec loop :: "nat \<Rightarrow> ('a \<Rightarrow> ('a + 'b) parse) \<Rightarrow> 'a \<Rightarrow> 'b parse" where
  "loop 0 body a = (\<lambda>s. OutOfFuel)"
| "loop (Suc n) body a = bind (body a) (\<lambda>r. case r of Inl a' \<Rightarrow> loop n body a' | Inr b \<Rightarrow> return_p b)"

subsection \<open>Token operations\<close>

definition peek_previous :: "token parse" where
  "peek_previous s = value_of (previous_token s) s"

definition peek_current :: "token parse" where
  "peek_current s = value_of (current_token s) s"

definition peek_next_token :: "token parse" where
  "peek_next_token s = value_of (next_token s) s"

definition is_previous_kind :: "token_kind \<Rightarrow> bool parse" where
  "is_previous_kind k = bind peek_previous (\<lambda>t. return_p (kind t = k))"

definition is_current_kind :: "token_kind \<Rightarrow> bool parse" where
  "is_current_kind k = bind peek_current (\<lambda>t. return_p (kind t = k))"

definition is_next_kind :: "token_kind \<Rightarrow> bool parse" where
  "is_next_kind k = bind peek_next_token (\<lambda>t. return_p (kind t = k))"

definition is_source_available_p :: "bool parse" where
  "is_source_available_p = bind peek_current (\<lambda>t. return_p (kind t \<noteq> TOKEN_END_OF_FILE))"

definition advanced_token :: "unit parse" where
  "advanced_token s = (case scan_next_token (ptokenizer s) of
     None \<Rightarrow> Crash TokenizerUndefined
   | Some (scanned_token, t) \<Rightarrow>
       (let s = s\<lparr>ptokenizer := t\<rparr>
        in if kind scanned_token = TOKEN_INVALID
           then stop_error (position scanned_token) (literal scanned_token) s
           else Ok () (s\<lparr>previous_token := current_token s, current_token := next_token s,
                         next_token := Some scanned_token\<rparr>)))"

definition peek_and_advance_token :: "token parse" where
  "peek_and_advance_token =
     bind peek_current (\<lambda>current. and_then advanced_token (return_p current))"

definition consume_kind :: "token_kind \<Rightarrow> string \<Rightarrow> token parse" where
  "consume_kind k msg = bind (is_current_kind k) (\<lambda>matches.
     if matches then and_then advanced_token peek_previous
     else bind peek_current (\<lambda>t. stop_error (position t) msg))"

definition assert_kind :: "token_kind \<Rightarrow> string \<Rightarrow> unit parse" where
  "assert_kind k msg = bind (is_current_kind k) (\<lambda>matches.
     if matches then advanced_token
     else bind peek_current (\<lambda>t.
       if k = TOKEN_SEMICOLON then bind peek_previous (\<lambda>p. stop_error (position p) msg)
       else stop_error (position t) msg))"

definition is_right_shift_operator :: "token \<Rightarrow> token \<Rightarrow> bool" where
  "is_right_shift_operator first second =
     (if kind first = TOKEN_GREATER \<and> kind second = TOKEN_GREATER
      then line_number (position first) = line_number (position second)
         \<and> column_end (position first) + 1 = column_start (position second)
      else False)"

text \<open>\<open>if (is_current_kind(k)) m else n\<close>.\<close>

definition if_current :: "token_kind \<Rightarrow> 'a parse \<Rightarrow> 'a parse \<Rightarrow> 'a parse" where
  "if_current k m n = bind (is_current_kind k) (\<lambda>matches. if matches then m else n)"

subsection \<open>Errors and checks\<close>

definition check_unnecessary_semicolon_warning :: "unit parse" where
  "check_unnecessary_semicolon_warning = if_current TOKEN_SEMICOLON
     (bind peek_and_advance_token (\<lambda>semicolon.
      bind (read (\<lambda>s. should_report_warns (ctx_options (pcontext s)))) (\<lambda>warns.
      if warns then update_context (\<lambda>c. c\<lparr>ctx_diagnostics :=
          report_warning (position semicolon) ''remove unnecessary semicolon'' (ctx_diagnostics c)\<rparr>)
      else return_p ())))
     (return_p ())"

text \<open>\<open>printf("%s", p)\<close> with a null pointer prints \<open>(null)\<close>.\<close>

definition printf_literal :: "token_kind \<Rightarrow> string" where
  "printf_literal k = (case map_of token_kind_literal k of Some l \<Rightarrow> l | None \<Rightarrow> ''(null)'')"

text \<open>The loop over \<open>two_tokens_operators\<close>; the end of the list is the final error.\<close>

primrec two_tokens_error :: "two_tokens_operator list \<Rightarrow> token_span \<Rightarrow> string \<Rightarrow> 'a parse" where
  "two_tokens_error [] loc token_literal =
     stop_error loc (''expected expression, found `'' @ token_literal @ ''`'')"
| "two_tokens_error (two # ops) loc token_literal =
     bind (is_previous_kind (first_op two)) (\<lambda>first.
     bind (if first then is_current_kind (second_op two) else return_p False) (\<lambda>both.
     if both then stop_error loc (''unexpected `'' @ printf_literal (second_op two)
         @ ''`, do you means `'' @ printf_literal (both_op two) @ ''`?'')
     else two_tokens_error ops loc token_literal))"

definition unexpected_token_error :: "'a parse" where
  "unexpected_token_error = bind peek_current (\<lambda>t.
     case map_of token_kind_literal (kind t) of
       None \<Rightarrow> crash NullLiteral
     | Some token_literal \<Rightarrow>
         if_current TOKEN_UNDEFINED
           (stop_error (position t)
              ''`---` used only in variable declaraion to represent an undefined value'')
           (two_tokens_error two_tokens_operators (position t) token_literal))"

definition get_number_kind :: "token_kind \<Rightarrow> number_kind parse" where
  "get_number_kind k =
     (if k = TOKEN_INT then return_p INTEGER_64
      else if k = TOKEN_INT1 then return_p INTEGER_1
      else if k = TOKEN_INT8 then return_p INTEGER_8
      else if k = TOKEN_INT16 then return_p INTEGER_16
      else if k = TOKEN_INT32 then return_p INTEGER_32
      else if k = TOKEN_INT64 then return_p INTEGER_64
      else if k = TOKEN_UINT8 then return_p U_INTEGER_8
      else if k = TOKEN_UINT16 then return_p U_INTEGER_16
      else if k = TOKEN_UINT32 then return_p U_INTEGER_32
      else if k = TOKEN_UINT64 then return_p U_INTEGER_64
      else if k = TOKEN_FLOAT then return_p FLOAT_64
      else if k = TOKEN_FLOAT32 then return_p FLOAT_32
      else if k = TOKEN_FLOAT64 then return_p FLOAT_64
      else bind peek_current (\<lambda>t. stop_error (position t) ''Token kind is not a number''))"

definition is_function_declaration_kind :: "string \<Rightarrow> function_kind \<Rightarrow> bool parse" where
  "is_function_declaration_kind fun_name k =
     read (\<lambda>s. ctx_functions (pcontext s) fun_name = Some k)"

definition is_valid_intrinsic_name :: "string \<Rightarrow> bool" where
  "is_valid_intrinsic_name name =
     (if name = [] then False else if contains name (CHR '' '') then False else True)"

definition check_function_kind_paramters_count ::
  "function_kind \<Rightarrow> nat \<Rightarrow> token_span \<Rightarrow> unit parse" where
  "check_function_kind_paramters_count k count span =
     (if k = PREFIX_FUNCTION \<and> count \<noteq> 1
      then stop_error span ''Prefix function must have exactly one parameter''
      else if k = INFIX_FUNCTION \<and> count \<noteq> 2
      then stop_error span ''Infix function must have exactly Two parameter''
      else if k = POSTFIX_FUNCTION \<and> count \<noteq> 1
      then stop_error span ''Postfix function must have exactly one parameter''
      else return_p ())"

definition check_compiletime_constants_expression :: "expression \<Rightarrow> token_span \<Rightarrow> unit parse" where
  "check_compiletime_constants_expression e loc =
     (if get_ast_node_type e \<in> {AST_CHARACTER, AST_STRING, AST_NUMBER, AST_BOOL} then return_p ()
      else case as_prefix_unary e of
        Some (operator_token, right) \<Rightarrow>
          if get_ast_node_type right = AST_NUMBER \<and> kind operator_token = TOKEN_MINUS
          then return_p () else stop_error loc ''Value must be a compile time constants''
      | None \<Rightarrow> stop_error loc ''Value must be a compile time constants'')"

end
