(* ===== verification/Parser_Types.thy ===== *)
theory Parser_Types
  imports Parser_State
begin

text \<open>
  \<open>src/amun_parser_types.cpp\<close>, the type directive of \<open>src/amun_parser_directives.cpp\<close> and the numeric
  conversions of the C library the parser calls.

  The parsing functions are mutually recursive.  Each is a definition here that takes the record
  \<open>procs\<close> of the functions it reaches again after a token was consumed; theory \<open>Parser\<close> ties the knot.
\<close>

subsection \<open>The functions that recursion goes through\<close>

record procs =
  p_fuel :: nat
  p_expression :: "expression parse"
  p_infix_call :: "expression parse"
  p_prefix :: "expression parse"
  p_statement :: "statement parse"
  p_type :: "ty parse"
  p_type_with_prefix :: "ty parse"

subsection \<open>Comma separated lists\<close>

text \<open>
  \<open>while ([is_source_available() &&] !is_current_kind(k)) { item; if (is_current_kind(COMMA))
  advanced_token(); [else break;] }\<close>: the two optional parts are the flags \<open>check_end\<close> and \<open>strict\<close>.
\<close>

definition list_ends :: "bool \<Rightarrow> token_kind \<Rightarrow> bool parse" where
  "list_ends check_end k = bind is_source_available_p (\<lambda>available.
     if check_end \<and> \<not> available then return_p True else is_current_kind k)"

definition comma_list :: "nat \<Rightarrow> bool \<Rightarrow> bool \<Rightarrow> token_kind \<Rightarrow> 'a parse \<Rightarrow> 'a list parse" where
  "comma_list fuel check_end strict k item = loop fuel (\<lambda>xs.
     bind (list_ends check_end k) (\<lambda>ends.
     if ends then return_p (Inr xs)
     else bind item (\<lambda>x.
       if_current TOKEN_COMMA
         (and_then advanced_token (return_p (Inl (xs @ [x]))))
         (return_p (if strict then Inr (xs @ [x]) else Inl (xs @ [x])))))) []"

subsection \<open>\<open>std::stoi\<close> and \<open>std::atoi\<close>\<close>

definition is_space :: "char \<Rightarrow> bool" where
  "is_space c = contains [CHR '' '', CHR 0x09, CHR 0x0A, CHR 0x0B, CHR 0x0C, CHR 0x0D] c"

text \<open>The value \<open>strtol\<close> reads in base ten, before any range check; \<open>None\<close> without a digit.\<close>

definition strtol_digits :: "string \<Rightarrow> int option" where
  "strtol_digits s = (let ds = takeWhile is_digit s in if ds = [] then None else Some (digits_value 10 ds))"

definition strtol :: "string \<Rightarrow> int option" where
  "strtol s = (case dropWhile is_space s of
     [] \<Rightarrow> None
   | c # cs \<Rightarrow> if c = CHR ''-'' then map_option uminus (strtol_digits cs)
              else if c = CHR ''+'' then strtol_digits cs
              else strtol_digits (c # cs))"

text \<open>The 32-bit \<open>int\<close> a wider value is truncated to.\<close>

definition int32_of :: "int \<Rightarrow> int" where
  "int32_of v = (v + 2 ^ 31) mod 2 ^ 32 - 2 ^ 31"

text \<open>\<open>atoi\<close> of the GNU C library: \<open>(int) strtol(s, NULL, 10)\<close>, which clamps to \<open>long\<close>.\<close>

definition atoi :: "string \<Rightarrow> int" where
  "atoi s = (case strtol s of None \<Rightarrow> 0 | Some v \<Rightarrow> int32_of (max (- (2 ^ 63)) (min (2 ^ 63 - 1) v)))"

definition stoi :: "string \<Rightarrow> int parse" where
  "stoi s = (case strtol s of
     None \<Rightarrow> crash StoiOutOfRange
   | Some v \<Rightarrow> if - (2 ^ 31) \<le> v \<and> v < 2 ^ 31 then return_p v else crash StoiOutOfRange)"

subsection \<open>Types\<close>

definition primitive_types :: "(string \<times> ty) list" where
  "primitive_types = [
     (''int1'', i1_type), (''bool'', i1_type), (''char'', i8_type), (''uchar'', u8_type),
     (''int8'', i8_type), (''int16'', i6_type), (''int32'', i32_type), (''int64'', i64_type),
     (''uint8'', u8_type), (''uint16'', u16_type), (''uint32'', u32_type), (''uint64'', u64_type),
     (''float32'', f32_type), (''float64'', f64_type), (''void'', void_type)]"

definition parse_list_of_types :: "procs \<Rightarrow> ty list parse" where
  "parse_list_of_types P =
     and_then (assert_kind TOKEN_OPEN_PAREN ''Expect `(` before types'')
     (bind (comma_list (p_fuel P) True True TOKEN_CLOSE_PAREN (p_type P)) (\<lambda>types.
      and_then (assert_kind TOKEN_CLOSE_PAREN ''Expect `)` after types'')
      (return_p types)))"

definition parse_pointer_to_type :: "procs \<Rightarrow> ty parse" where
  "parse_pointer_to_type P =
     and_then (assert_kind TOKEN_STAR ''Pointer type must be started with *'')
     (bind (p_type_with_prefix P) (\<lambda>t. return_p (PointerType t)))"

text \<open>\<open>std::make_shared<FunctionType>(paren, parameters_types, return_type)\<close>: the other members have defaults.\<close>

definition parse_function_ptr_type :: "procs \<Rightarrow> ty parse" where
  "parse_function_ptr_type P =
     and_then (assert_kind TOKEN_FUN ''Expect `fun` keyword at the start of function ptr'')
     (bind peek_current (\<lambda>paren.
      bind (parse_list_of_types P) (\<lambda>parameters_types.
      bind (p_type P) (\<lambda>return_type.
      return_p (PointerType
        (FunctionType paren parameters_types return_type 0 False None False False []))))))"

definition parse_tuple_type :: "procs \<Rightarrow> ty parse" where
  "parse_tuple_type P =
     bind peek_current (\<lambda>paren.
     bind (parse_list_of_types P) (\<lambda>field_types.
     if length field_types < 2
     then stop_error (position paren) ''Tuple type must has at least 2 types''
     else return_p (TupleType (mangle_tuple_type field_types) field_types)))"

text \<open>\<open>is_integer_type(size->get_type_node())\<close>: the type of a number is never null.\<close>

definition is_integer_node :: "type_node \<Rightarrow> bool" where
  "is_integer_node t = (case t of TypeNode t \<Rightarrow> is_integer_type t | _ \<Rightarrow> False)"

definition parse_fixed_size_array_type :: "procs \<Rightarrow> ty parse" where
  "parse_fixed_size_array_type P =
     bind (consume_kind TOKEN_OPEN_BRACKET ''Expect [ for fixed size array type'') (\<lambda>bracket.
     if_current TOKEN_CLOSE_BRACKET
       (bind peek_current (\<lambda>t.
        stop_error (position t) ''Fixed array type must have implicit size [n]''))
       (bind (p_expression P) (\<lambda>size_expression.
        case as_number size_expression of
          Some (size_token, size_type) \<Rightarrow>
            if \<not> is_integer_node size_type
            then stop_error (position bracket) ''Array size must be an integer constants''
            else
              (let number_value = atoi (literal size_token) in
               and_then (assert_kind TOKEN_CLOSE_BRACKET ''Expect ] after array size.'')
               (bind (p_type P) (\<lambda>element_type.
                if is_void_type element_type
                then bind peek_previous (\<lambda>void_token. stop_error (position void_token)
                       (''Can't declare array with incomplete type 'void'' @ [CHR 0x27]))
                else if is_types_equals element_type none_type
                then bind peek_previous (\<lambda>type_token. stop_error (position type_token)
                       ''Can't declare array with incomplete type'')
                else return_p (StaticArrayType element_type (nat (number_value mod 2 ^ 64))))))
        | None \<Rightarrow> stop_error (position bracket) ''Array size must be an integer constants'')))"

definition parse_generic_arguments_if_exists :: "procs \<Rightarrow> ty list parse" where
  "parse_generic_arguments_if_exists P = if_current TOKEN_SMALLER
     (and_then advanced_token
     (bind (comma_list (p_fuel P) False True TOKEN_GREATER (p_type P)) (\<lambda>generic_arguments.
      and_then (assert_kind TOKEN_GREATER ''Expect > after generic arguments types'')
      (return_p generic_arguments))))
     (return_p [])"

text \<open>
  Looks a structure type up by name; every \<open>StructType\<close> the parser builds names an entry of
  \<open>context->structures\<close> (see \<open>Ast\<close>), so the default for a missing name is never used.
\<close>

definition structure_of :: "string \<Rightarrow> (struct_type \<Rightarrow> 'a) \<Rightarrow> 'a \<Rightarrow> 'a parse" where
  "structure_of name f d = read (\<lambda>s. case ctx_structures (pcontext s) name of Some st \<Rightarrow> f st | None \<Rightarrow> d)"

definition parse_identifier_type :: "ty parse" where
  "parse_identifier_type =
     bind (consume_kind TOKEN_IDENTIFIER ''Expect identifier as type'') (\<lambda>symbol_token.
     let type_literal = literal symbol_token in
     bind (read (\<lambda>s. s)) (\<lambda>s.
     case map_of primitive_types type_literal of Some t \<Rightarrow> return_p t | None \<Rightarrow>
     if ctx_structures (pcontext s) type_literal \<noteq> None then return_p (StructType type_literal)
     else (case ctx_enumerations (pcontext s) type_literal of
       Some enum_ty \<Rightarrow> return_p (EnumElementType type_literal (enum_type_element enum_ty))
     | None \<Rightarrow>
       if type_literal = current_struct_name s then
         and_then (modify (\<lambda>s. s\<lparr>current_struct_unknown_fields := current_struct_unknown_fields s + 1\<rparr>))
         (return_p none_type)
       else if contains (generic_parameters_names s) type_literal
       then return_p (GenericParameterType type_literal)
       else if contains_alias (ctx_type_alias_table (pcontext s)) type_literal then
         (case fst (resolve_alias type_literal (ctx_type_alias_table (pcontext s))) of
            Some t \<Rightarrow> return_p t | None \<Rightarrow> crash NullPointer)
       else bind peek_current (\<lambda>t. stop_error (position t)
         (''Cannot find type `'' @ type_literal @ ''` in this scope'')))))"

definition parse_primary_type :: "ty parse" where
  "parse_primary_type = if_current TOKEN_IDENTIFIER parse_identifier_type
     (if_current TOKEN_VARARGS
       (bind peek_current (\<lambda>t.
        stop_error (position t) ''Varargs not supported as function pointer parameter''))
       (bind peek_current (\<lambda>t. stop_error (position t) ''Expected type name'')))"

definition parse_generic_struct_type :: "procs \<Rightarrow> ty parse" where
  "parse_generic_struct_type P =
     bind parse_primary_type (\<lambda>primary_type.
     if_current TOKEN_SMALLER
       (case as_struct_type primary_type of
          Some name \<Rightarrow>
            bind peek_current (\<lambda>smaller_token.
            bind (structure_of name struct_is_generic False) (\<lambda>is_generic.
            if \<not> is_generic then stop_error (position smaller_token)
              ''Non generic struct type don't accept any types parameters''
            else
              bind (parse_generic_arguments_if_exists P) (\<lambda>parameters.
              bind (structure_of name (\<lambda>st. length (generic_parameters st)) 0) (\<lambda>expected.
              if expected \<noteq> length parameters
              then stop_error (position smaller_token)
                (''Invalid number of generic parameters expect '' @ to_string (int expected)
                 @ '' but got '' @ to_string (int (length parameters)))
              else return_p (GenericStructType name parameters)))))
        | None \<Rightarrow> bind peek_previous (\<lambda>t.
            stop_error (position t) ''Only structures can accept generic parameters''))
       (case as_struct_type primary_type of
          Some name \<Rightarrow>
            bind (structure_of name struct_is_generic False) (\<lambda>is_generic.
            if is_generic then bind peek_previous (\<lambda>struct_name. stop_error (position struct_name)
              (''Generic struct type must be used with parameters types '' @ literal struct_name @ ''<..>''))
            else return_p primary_type)
        | None \<Rightarrow> return_p primary_type))"

definition parse_type_with_postfix :: "procs \<Rightarrow> ty parse" where
  "parse_type_with_postfix P =
     bind (parse_generic_struct_type P) (\<lambda>t.
     if_current TOKEN_STAR
       (bind peek_previous (\<lambda>p. stop_error (position p)
         (''In pointer type `*` must be before the type like *'' @ get_type_literal t)))
       (return_p t))"

definition parse_type_with_prefix :: "procs \<Rightarrow> ty parse" where
  "parse_type_with_prefix P =
     if_current TOKEN_FUN (parse_function_ptr_type P)
     (if_current TOKEN_STAR (parse_pointer_to_type P)
     (if_current TOKEN_OPEN_PAREN (parse_tuple_type P)
     (if_current TOKEN_OPEN_BRACKET (parse_fixed_size_array_type P)
     (parse_type_with_postfix P))))"

definition pares_types_directive :: "procs \<Rightarrow> ty parse" where
  "pares_types_directive P =
     bind (consume_kind TOKEN_AT ''Expect `@` before directive name'') (\<lambda>hash_token.
     let unknown = stop_error (position hash_token) ''Expect identifier as directive name'' in
     if_current TOKEN_IDENTIFIER
       (bind peek_current (\<lambda>directive.
        if literal directive = ''vec'' then
          and_then advanced_token
          (bind (p_type P) (\<lambda>t. case as_static_array_type t of
             Some (e, n) \<Rightarrow> return_p (StaticVectorType e n)
           | None \<Rightarrow> stop_error (position hash_token) ''Expect array type after @vec''))
        else unknown))
       unknown)"

definition parse_type :: "procs \<Rightarrow> ty parse" where
  "parse_type P = if_current TOKEN_AT (pares_types_directive P) (parse_type_with_prefix P)"

end
