(* ===== verification/Parser_Expressions.thy ===== *)
theory Parser_Expressions
  imports Parser_Types
begin

text \<open>
  The expression half of \<open>src/amun_parser.cpp\<close>, from \<open>parse_expression\<close> down to
  \<open>parse_value_size_expression\<close>, and the expression directives of \<open>src/amun_parser_directives.cpp\<close>.
  A call that happens before any token was consumed is a direct call of the definition; a call after
  that goes through \<open>procs\<close> (\<open>p_expression\<close> is also \<open>parse_assignment_expression\<close>, to which
  \<open>parse_expression\<close> is a plain call).
\<close>

subsection \<open>Shared shapes\<close>

text \<open>
  \<open>auto e = operand(); while (is_current_kind(op) || ...) { token = peek_and_advance_token(); right =
  operand(); e = mk(e, token, right); }\<close>.
\<close>

definition left_assoc ::
  "nat \<Rightarrow> token_kind list \<Rightarrow> (expression \<Rightarrow> token \<Rightarrow> expression \<Rightarrow> expression) \<Rightarrow> expression parse
    \<Rightarrow> expression parse" where
  "left_assoc fuel ops mk operand =
     bind operand (\<lambda>e. loop fuel (\<lambda>e.
       bind peek_current (\<lambda>t.
       if contains ops (kind t)
       then bind peek_and_advance_token (\<lambda>operator_token.
            bind operand (\<lambda>right. return_p (Inl (mk e operator_token right))))
       else return_p (Inr e))) e)"

definition parse_parameter :: "procs \<Rightarrow> parameter parse" where
  "parse_parameter P =
     bind (consume_kind TOKEN_IDENTIFIER ''Expect identifier as parameter name.'') (\<lambda>name.
     bind (p_type P) (\<lambda>t. return_p \<lparr>parameter_name = name, parameter_type = t\<rparr>))"

text \<open>The statements up to a closing brace.\<close>

definition statement_list :: "procs \<Rightarrow> bool \<Rightarrow> statement list parse" where
  "statement_list P check_end = loop (p_fuel P) (\<lambda>statements.
     bind (list_ends check_end TOKEN_CLOSE_BRACE) (\<lambda>ends.
     if ends then return_p (Inr statements)
     else bind (p_statement P) (\<lambda>s. return_p (Inl (statements @ [s]))))) []"

text \<open>A body of a void function that does not end with a return gets one.\<close>

definition implicit_return :: "ty \<Rightarrow> token \<Rightarrow> statement list \<Rightarrow> statement list" where
  "implicit_return return_type close_brace body =
     (if is_void_type return_type
         \<and> (body = [] \<or> get_statement_node_type (last body) \<noteq> AST_RETURN)
      then body @ [ReturnStatement close_brace None False] else body)"

text \<open>\<open>loop_levels_stack.push(0)\<close> and \<open>loop_levels_stack.pop()\<close> around a body.\<close>

definition in_new_body :: "'a parse \<Rightarrow> 'a parse" where
  "in_new_body m =
     and_then (modify (\<lambda>s. s\<lparr>loop_levels_stack := 0 # loop_levels_stack s\<rparr>))
     (bind m (\<lambda>x.
      bind (read loop_levels_stack) (\<lambda>levels.
      if levels = [] then crash EmptyStack
      else and_then (modify (\<lambda>s. s\<lparr>loop_levels_stack := tl levels\<rparr>)) (return_p x))))"

subsection \<open>Lambdas\<close>

definition lambda_signature :: "procs \<Rightarrow> (parameter list \<times> ty) parse" where
  "lambda_signature P = if_current TOKEN_OPEN_PAREN
     (and_then advanced_token
     (bind (comma_list (p_fuel P) False True TOKEN_CLOSE_PAREN (parse_parameter P)) (\<lambda>parameters.
      and_then (assert_kind TOKEN_CLOSE_PAREN ''Expect ) after lambda parameters'')
      (if_current TOKEN_RIGHT_ARROW
        (and_then advanced_token (return_p (parameters, void_type)))
        (bind (p_type P) (\<lambda>return_type.
         and_then (assert_kind TOKEN_RIGHT_ARROW ''Expect -> after lambda return type'')
         (return_p (parameters, return_type))))))))
     (return_p ([], void_type))"

definition parse_lambda_expression :: "procs \<Rightarrow> expression parse" where
  "parse_lambda_expression P =
     bind (consume_kind TOKEN_OPEN_BRACE ''Expect { at the start of lambda expression'') (\<lambda>open_paren.
     bind (lambda_signature P) (\<lambda>(parameters, return_type).
     bind (in_new_body (statement_list P False)) (\<lambda>body.
     bind (consume_kind TOKEN_CLOSE_BRACE ''Expect } at the end of lambda expression'') (\<lambda>close_brace.
     return_p (mk_lambda open_paren parameters return_type
       (implicit_return return_type close_brace body))))))"

subsection \<open>Literals, conditions, switches\<close>

definition parse_number_expression :: "expression parse" where
  "parse_number_expression =
     bind peek_and_advance_token (\<lambda>number_token.
     bind (get_number_kind (kind number_token)) (\<lambda>k.
     return_p (mk_number number_token (NumberType k))))"

definition parse_literal_expression :: "expression parse" where
  "parse_literal_expression = bind peek_and_advance_token (\<lambda>t. return_p (mk_literal t))"

text \<open>\<open>(condition) { value }\<close> and \<open>{ value }\<close>.\<close>

definition braced_value :: "procs \<Rightarrow> string \<Rightarrow> string \<Rightarrow> expression parse" where
  "braced_value P open_message close_message =
     and_then (assert_kind TOKEN_OPEN_BRACE open_message)
     (bind (p_expression P) (\<lambda>v.
      and_then (assert_kind TOKEN_CLOSE_BRACE close_message) (return_p v)))"

definition if_condition :: "procs \<Rightarrow> expression parse" where
  "if_condition P =
     and_then (assert_kind TOKEN_OPEN_PAREN ''Expect ( before if condition'')
     (bind (p_expression P) (\<lambda>c.
      and_then (assert_kind TOKEN_CLOSE_PAREN ''Expect ) after if condition'') (return_p c)))"

definition parse_if_expression :: "procs \<Rightarrow> expression parse" where
  "parse_if_expression P =
     bind peek_and_advance_token (\<lambda>if_token.
     bind (if_condition P) (\<lambda>condition.
     bind (braced_value P ''Expect { at the start of if expression value''
        ''Expect } at the end of if expression value'') (\<lambda>first_value.
     loop (p_fuel P) (\<lambda>(tokens, conditions, values, has_else_branch).
       if_current TOKEN_ELSE
         (bind peek_and_advance_token (\<lambda>else_token.
          if_current TOKEN_IF
            (and_then advanced_token
            (bind (if_condition P) (\<lambda>c.
             bind (braced_value P ''Expect { at the start of `else if` expression value''
               ''Expect } at the end of `else if` expression value'') (\<lambda>v.
             return_p (Inl (tokens @ [else_token], conditions @ [c], values @ [v], has_else_branch))))))
            (bind peek_current (\<lambda>t.
             if has_else_branch then stop_error (position t)
               ''else branch is declared twice in the same if expression''
             else
               (let true_token = \<lparr>kind = TOKEN_TRUE, position = position t, literal = ''''\<rparr> in
                bind (braced_value P ''Expect { at the start of `else` expression value''
                  ''Expect } at the end of `else` expression value'') (\<lambda>v.
                return_p (Inl (tokens @ [else_token], conditions @ [mk_boolean true_token],
                  values @ [v], True))))))))
         (return_p (Inr (mk_if_expression tokens conditions values))))
       ([if_token], [condition], [first_value], False))))"

definition parse_switch_operator :: "token_kind parse" where
  "parse_switch_operator = if_current TOKEN_COMMA
     (and_then advanced_token
     (bind peek_and_advance_token (\<lambda>op_token.
      if \<not> contains comparisons_operators (kind op_token)
      then stop_error (position op_token) ''Switch operator must be a comparions operators only''
      else return_p (kind op_token))))
     (return_p TOKEN_EQUAL_EQUAL)"

text \<open>The \<open>do\<close> loop over the values of one case; \<open>value_count\<close> is \<open>values.size()\<close>.\<close>

definition switch_case_values ::
  "procs \<Rightarrow> token \<Rightarrow> nat \<Rightarrow> expression list \<Rightarrow> expression list parse" where
  "switch_case_values P keyword value_count = loop (p_fuel P) (\<lambda>cases.
     and_then (if_current TOKEN_COMMA
         (if length cases > value_count then advanced_token
          else bind peek_current (\<lambda>t. stop_error (position t)
            ''In Switch expression can't use `,` with no value before it''))
         (return_p ()))
     (bind (p_expression P) (\<lambda>case_expression.
      if get_ast_node_type case_expression = AST_NUMBER
         \<or> get_ast_node_type case_expression = AST_ENUM_ELEMENT
      then if_current TOKEN_COMMA (return_p (Inl (cases @ [case_expression])))
             (return_p (Inr (cases @ [case_expression])))
      else stop_error (position keyword)
        ''Switch expression case must be integer or enum element'')))"

text \<open>
  One turn of the loop over the branches.  \<open>has_default_branch\<close> is set only where it already holds, so
  it stays false.
\<close>

definition switch_expression_branch ::
  "procs \<Rightarrow> token \<Rightarrow> expression list \<times> expression list \<times> expression option \<times> bool
    \<Rightarrow> ((expression list \<times> expression list \<times> expression option \<times> bool)
        + (expression list \<times> expression list \<times> expression option)) parse" where
  "switch_expression_branch P keyword = (\<lambda>(cases, values, default_value, has_default_branch).
     bind (list_ends True TOKEN_CLOSE_BRACE) (\<lambda>ends.
     if ends then return_p (Inr (cases, values, default_value))
     else if_current TOKEN_ELSE
       (if has_default_branch then stop_error (position keyword)
          ''Switch expression can't has more than one default branch''
        else
          and_then (assert_kind TOKEN_ELSE ''Expect else keyword in switch default branch'')
          (and_then (assert_kind TOKEN_RIGHT_ARROW
             ''Expect -> after else keyword in switch default branch'')
          (bind (p_expression P) (\<lambda>d.
           and_then check_unnecessary_semicolon_warning
           (return_p (Inl (cases, values, Some d, has_default_branch)))))))
       (bind (switch_case_values P keyword (length values) cases) (\<lambda>cases.
        let case_values_count = length cases - length values in
        and_then (assert_kind TOKEN_RIGHT_ARROW ''Expect -> after branch value'')
        (bind (p_expression P) (\<lambda>right_value_expression.
         and_then check_unnecessary_semicolon_warning
         (return_p (Inl (cases, values @ replicate case_values_count right_value_expression,
           default_value, has_default_branch)))))))))"

definition parse_switch_expression :: "procs \<Rightarrow> expression parse" where
  "parse_switch_expression P =
     bind (consume_kind TOKEN_SWITCH ''Expect switch keyword.'') (\<lambda>keyword.
     and_then (assert_kind TOKEN_OPEN_PAREN ''Expect ( before swich argument'')
     (bind (p_expression P) (\<lambda>argument.
      bind parse_switch_operator (\<lambda>op.
      and_then (assert_kind TOKEN_CLOSE_PAREN ''Expect ) after swich argument'')
      (and_then (assert_kind TOKEN_OPEN_BRACE ''Expect { after switch value'')
      (bind (loop (p_fuel P) (switch_expression_branch P keyword) ([], [], None, False))
        (\<lambda>(cases, values, default_value).
       if cases = [] then stop_error (position keyword)
         ''Switch expression must has at last one case and default case''
       else
         and_then (assert_kind TOKEN_CLOSE_BRACE ''Expect } after switch Statement last branch'')
         (if values = [] then crash NullPointer
          else return_p (mk_switch_expression keyword argument cases values default_value op)))))))))"

subsection \<open>Groups, arrays, casts and sizes\<close>

definition parse_group_or_tuple_expression :: "procs \<Rightarrow> expression parse" where
  "parse_group_or_tuple_expression P =
     and_then (assert_kind TOKEN_OPEN_PAREN ''Expect ( at the start of group or tuple expression'')
     (bind (p_expression P) (\<lambda>e.
      if_current TOKEN_COMMA
        (bind peek_and_advance_token (\<lambda>t.
         bind (comma_list (p_fuel P) False False TOKEN_CLOSE_PAREN (p_expression P)) (\<lambda>values.
         and_then (assert_kind TOKEN_CLOSE_PAREN ''Expect ) at the end of tuple values expression'')
         (return_p (mk_tuple t (e # values))))))
        (and_then (assert_kind TOKEN_CLOSE_PAREN ''Expect ) at the end of group expression'')
         (return_p e))))"

definition parse_array_expression :: "procs \<Rightarrow> expression parse" where
  "parse_array_expression P =
     bind peek_and_advance_token (\<lambda>bracket.
     bind (comma_list (p_fuel P) True False TOKEN_CLOSE_BRACKET (p_expression P)) (\<lambda>values.
     and_then (assert_kind TOKEN_CLOSE_BRACKET ''Expect ] at the end of array values'')
     (return_p (mk_array bracket values))))"

definition parse_cast_expression :: "procs \<Rightarrow> expression parse" where
  "parse_cast_expression P =
     bind (consume_kind TOKEN_CAST ''Expect cast keyword'') (\<lambda>cast_keyword.
     and_then (assert_kind TOKEN_OPEN_PAREN ''Expect `(` after cast keyword'')
     (bind (p_type P) (\<lambda>target_type.
      if_current TOKEN_COMMA
        (and_then advanced_token
        (bind (p_expression P) (\<lambda>e.
         and_then (assert_kind TOKEN_CLOSE_PAREN ''Expect `)` after cast type'')
         (return_p (CastExpression cast_keyword (TypeNode target_type) e)))))
        (and_then (assert_kind TOKEN_CLOSE_PAREN ''Expect `)` after cast type'')
        (bind (p_expression P) (\<lambda>e.
         return_p (CastExpression cast_keyword (TypeNode target_type) e)))))))"

definition parse_type_size_expression :: "procs \<Rightarrow> expression parse" where
  "parse_type_size_expression P =
     and_then (assert_kind TOKEN_TYPE_SIZE ''Expect type_size keyword'')
     (and_then (assert_kind TOKEN_OPEN_PAREN ''Expect `(` after type_size keyword'')
     (bind (p_type P) (\<lambda>t.
      and_then (assert_kind TOKEN_CLOSE_PAREN ''Expect `)` after type_size type'')
      (return_p (TypeSizeExpression t)))))"

definition parse_type_allign_expression :: "procs \<Rightarrow> expression parse" where
  "parse_type_allign_expression P =
     and_then (assert_kind TOKEN_TYPE_ALLIGN ''Expect type_size keyword'')
     (and_then (assert_kind TOKEN_OPEN_PAREN ''Expect `(` after type_size keyword'')
     (bind (p_type P) (\<lambda>t.
      and_then (assert_kind TOKEN_CLOSE_PAREN ''Expect `)` after type_size type'')
      (return_p (TypeAlignExpression t)))))"

definition parse_value_size_expression :: "procs \<Rightarrow> expression parse" where
  "parse_value_size_expression P =
     and_then (assert_kind TOKEN_VALUE_SIZE ''Expect value_size keyword'')
     (and_then (assert_kind TOKEN_OPEN_PAREN ''Expect `(` after value_size keyword'')
     (bind (p_expression P) (\<lambda>v.
      and_then (assert_kind TOKEN_CLOSE_PAREN ''Expect `)` after value_size type'')
      (return_p (ValueSizeExpression v)))))"

subsection \<open>Expression directives\<close>

text \<open>
  \<open>std::to_string\<close> of the largest finite \<open>float\<close> and \<open>double\<close>, \<open>2^128 - 2^104\<close> and \<open>2^1024 - 2^971\<close>,
  and of the lowest ones; \<open>to_string\<close> prints six decimals.
\<close>

definition max_literal :: "number_kind \<Rightarrow> string" where
  "max_literal k =
     (if is_integer_type (NumberType k)
      then to_string (case map_of integers_kind_max_value k of Some v \<Rightarrow> v | None \<Rightarrow> 0)
      else if k = FLOAT_32 then to_string (2 ^ 128 - 2 ^ 104) @ ''.000000''
      else to_string (2 ^ 1024 - 2 ^ 971) @ ''.000000'')"

definition min_literal :: "number_kind \<Rightarrow> string" where
  "min_literal k =
     (if is_integer_type (NumberType k)
      then to_string (case map_of integers_kind_min_value k of Some v \<Rightarrow> v | None \<Rightarrow> 0)
      else if k = FLOAT_32 then to_string (- (2 ^ 128 - 2 ^ 104)) @ ''.000000''
      else to_string (- (2 ^ 1024 - 2 ^ 971)) @ ''.000000'')"

text \<open>The common shape of \<open>@max_value(T)\<close> and \<open>@min_value(T)\<close>.\<close>

definition limit_value_directive ::
  "procs \<Rightarrow> token_span \<Rightarrow> string \<Rightarrow> (number_kind \<Rightarrow> string) \<Rightarrow> expression parse" where
  "limit_value_directive P loc name limit_literal =
     and_then (assert_kind TOKEN_OPEN_PAREN (''Expect `(` after @'' @ name))
     (bind (p_type P) (\<lambda>t.
      and_then (assert_kind TOKEN_CLOSE_PAREN (''Expect `)` after @'' @ name @ '' type''))
      (case as_number_type t of
         Some k \<Rightarrow> return_p (mk_number
           \<lparr>kind = (case map_of number_kind_token_kind k of Some tk \<Rightarrow> tk | None \<Rightarrow> TOKEN_LOAD),
             position = loc, literal = limit_literal k\<rparr> t)
       | None \<Rightarrow> stop_error loc (''@'' @ name @ '' expect only number types''))))"

definition parse_expressions_directive :: "procs \<Rightarrow> expression parse" where
  "parse_expressions_directive P =
     bind (consume_kind TOKEN_AT ''Expect `@` before directive name'') (\<lambda>hash_token.
     bind (consume_kind TOKEN_IDENTIFIER ''Expect symbol as directive name'') (\<lambda>directive.
     let directive_name = literal directive; loc = position directive in
     if directive_name = ''line'' then
       return_p (mk_number
         \<lparr>kind = TOKEN_INT64, position = loc, literal = to_string (line_number loc)\<rparr> i64_type)
     else if directive_name = ''column'' then
       return_p (mk_number
         \<lparr>kind = TOKEN_INT64, position = loc, literal = to_string (column_start loc)\<rparr> i64_type)
     else if directive_name = ''filepath'' then
       bind (read (\<lambda>s. resolve_source_path (file_id loc) (ctx_source_manager (pcontext s)))) (\<lambda>(path, m).
       and_then (update_context (\<lambda>c. c\<lparr>ctx_source_manager := m\<rparr>))
       (return_p (mk_string \<lparr>kind = TOKEN_STRING, position = loc, literal = path\<rparr>)))
     else if directive_name = ''vec'' then
       bind (p_expression P) (\<lambda>e.
       if get_ast_node_type e \<noteq> AST_ARRAY then stop_error loc ''Expect Array expression after @vec''
       else return_p (VectorExpression e))
     else if directive_name = ''max_value'' then limit_value_directive P loc directive_name max_literal
     else if directive_name = ''min_value'' then limit_value_directive P loc directive_name min_literal
     else if directive_name = ''infinity32'' then return_p (InfinityExpression (TypeNode f32_type))
     else if directive_name = ''infinity'' \<or> directive_name = ''infinity64''
     then return_p (InfinityExpression (TypeNode f64_type))
     else stop_error loc (''No expression directive with name '' @ directive_name)))"

subsection \<open>Primary expressions\<close>

definition number_token_kinds :: "token_kind list" where
  "number_token_kinds = [
     TOKEN_INT, TOKEN_INT1, TOKEN_INT8, TOKEN_INT16, TOKEN_INT32, TOKEN_INT64, TOKEN_UINT8,
     TOKEN_UINT16, TOKEN_UINT32, TOKEN_UINT64, TOKEN_FLOAT, TOKEN_FLOAT32, TOKEN_FLOAT64]"

text \<open>\<open>advanced_token(); return make_shared<...>(peek_previous());\<close>\<close>

definition token_expression :: "(token \<Rightarrow> expression) \<Rightarrow> expression parse" where
  "token_expression mk = and_then advanced_token (bind peek_previous (\<lambda>t. return_p (mk t)))"

text \<open>A constant is replaced by its value.\<close>

definition parse_identifier_expression :: "expression parse" where
  "parse_identifier_expression =
     bind peek_current (\<lambda>name.
     bind (read (\<lambda>s. ctx_constants_table_map (pcontext s))) (\<lambda>constants.
     if is_defined constants (literal name) then
       and_then advanced_token
       (case lookup constants (literal name) of Some e \<Rightarrow> return_p e | None \<Rightarrow> crash NullPointer)
     else parse_literal_expression))"

definition parse_primary_expression :: "procs \<Rightarrow> expression parse" where
  "parse_primary_expression P =
     bind peek_current (\<lambda>t.
     let k = kind t in
     if contains number_token_kinds k then parse_number_expression
     else if k = TOKEN_CHARACTER then token_expression mk_character
     else if k = TOKEN_STRING then token_expression mk_string
     else if k = TOKEN_TRUE \<or> k = TOKEN_FALSE then token_expression mk_boolean
     else if k = TOKEN_NULL then token_expression mk_null
     else if k = TOKEN_IDENTIFIER then parse_identifier_expression
     else if k = TOKEN_OPEN_PAREN then parse_group_or_tuple_expression P
     else if k = TOKEN_OPEN_BRACKET then parse_array_expression P
     else if k = TOKEN_OPEN_BRACE then parse_lambda_expression P
     else if k = TOKEN_IF then parse_if_expression P
     else if k = TOKEN_SWITCH then parse_switch_expression P
     else if k = TOKEN_CAST then parse_cast_expression P
     else if k = TOKEN_TYPE_SIZE then parse_type_size_expression P
     else if k = TOKEN_TYPE_ALLIGN then parse_type_allign_expression P
     else if k = TOKEN_VALUE_SIZE then parse_value_size_expression P
     else if k = TOKEN_AT then parse_expressions_directive P
     else unexpected_token_error)"

subsection \<open>Calls, accesses and initializers\<close>

text \<open>A lambda after the arguments is one more argument.\<close>

definition with_lambda_argument :: "procs \<Rightarrow> expression list \<Rightarrow> expression list parse" where
  "with_lambda_argument P arguments = if_current TOKEN_OPEN_BRACE
     (bind (parse_lambda_expression P) (\<lambda>l. return_p (arguments @ [l])))
     (return_p arguments)"

definition parse_function_call_with_lambda_argument :: "procs \<Rightarrow> expression parse" where
  "parse_function_call_with_lambda_argument P =
     bind peek_current (\<lambda>symbol_token.
     bind peek_next_token (\<lambda>following.
     bind (is_function_declaration_kind (literal symbol_token) NORMAL_FUNCTION) (\<lambda>is_function.
     if kind symbol_token = TOKEN_IDENTIFIER \<and> kind following = TOKEN_OPEN_BRACE \<and> is_function
     then bind parse_literal_expression (\<lambda>name.
          bind (parse_lambda_expression P) (\<lambda>l.
          return_p (mk_call symbol_token name [l] [])))
     else parse_primary_expression P)))"

text \<open>The arguments of an initializer, in parentheses or as a lambda or both.\<close>

definition initializer_arguments :: "procs \<Rightarrow> expression list parse" where
  "initializer_arguments P =
     bind (if_current TOKEN_OPEN_PAREN
       (and_then advanced_token
       (bind (comma_list (p_fuel P) False True TOKEN_CLOSE_PAREN (p_expression P)) (\<lambda>arguments.
        and_then (assert_kind TOKEN_CLOSE_PAREN ''Expect ) at the end of initializer'')
        (return_p arguments))))
       (return_p [])) (with_lambda_argument P)"

definition parse_initializer_expression :: "procs \<Rightarrow> expression parse" where
  "parse_initializer_expression P =
     bind peek_current (\<lambda>t.
     bind peek_next_token (\<lambda>following.
     bind (read (\<lambda>s. ctx_type_alias_table (pcontext s))) (\<lambda>aliases.
     if kind t = TOKEN_IDENTIFIER \<and> contains_alias aliases (literal t) then
       (case fst (resolve_alias (literal t) aliases) of
          None \<Rightarrow> crash NullPointer
        | Some resolved_type \<Rightarrow>
            if (is_struct_type resolved_type \<or> is_generic_struct_type resolved_type)
               \<and> contains [TOKEN_OPEN_PAREN, TOKEN_OPEN_BRACE, TOKEN_SMALLER] (kind following)
            then bind (parse_type P) (\<lambda>ty.
                 bind peek_current (\<lambda>token_after.
                 bind (initializer_arguments P) (\<lambda>arguments.
                 return_p (InitializeExpression token_after (TypeNode ty) arguments))))
            else parse_function_call_with_lambda_argument P)
     else parse_function_call_with_lambda_argument P)))"

definition parse_postfix_call_expression :: "procs \<Rightarrow> expression parse" where
  "parse_postfix_call_expression P =
     bind (parse_initializer_expression P) (\<lambda>e.
     bind peek_current (\<lambda>t.
     bind (is_function_declaration_kind (literal t) POSTFIX_FUNCTION) (\<lambda>is_postfix.
     if kind t = TOKEN_IDENTIFIER \<and> is_postfix
     then bind parse_literal_expression (\<lambda>name.
          bind (parse_generic_arguments_if_exists P) (\<lambda>generic_arguments.
          return_p (mk_call t name [e] generic_arguments)))
     else return_p e)))"

definition parse_enumeration_attribute_expression :: "procs \<Rightarrow> expression parse" where
  "parse_enumeration_attribute_expression P =
     bind (parse_postfix_call_expression P) (\<lambda>e.
     if_current TOKEN_DOT
       (case as_literal e of
          Some name \<Rightarrow>
            bind (read (\<lambda>s. ctx_enumerations (pcontext s) (literal name))) (\<lambda>enum.
            case enum of
              None \<Rightarrow> return_p e
            | Some enum_ty \<Rightarrow>
                and_then advanced_token
                (bind (consume_kind TOKEN_IDENTIFIER ''Expect attribute name for enum'') (\<lambda>attribute.
                 if literal attribute = ''count''
                 then return_p (mk_number \<lparr>kind = TOKEN_INT, position = position attribute,
                        literal = to_string (int (length (enum_type_values enum_ty)))\<rparr> i64_type)
                 else stop_error (position attribute)
                   ''Un supported attribute for enumeration type'')))
        | None \<Rightarrow> return_p e)
       (return_p e))"

definition dot_access :: "expression \<Rightarrow> expression parse" where
  "dot_access e =
     bind peek_and_advance_token (\<lambda>dot_token.
     if_current TOKEN_IDENTIFIER
       (bind (consume_kind TOKEN_IDENTIFIER ''Expect literal as field name'') (\<lambda>field_name.
        return_p (mk_dot dot_token e field_name)))
       (if_current TOKEN_INT
         (bind (consume_kind TOKEN_INT ''Expect literal as field name'') (\<lambda>field_name.
          return_p (DotExpression (int32_of (str_to_int (literal field_name))) False
            dot_token e field_name NullNode)))
         (stop_error (position dot_token)
    ''DotExpression `.` must followed by symnol or integer for struct or tuple access'')))"

text \<open>The arguments of a call after its opening parenthesis.\<close>

definition call_arguments :: "procs \<Rightarrow> string \<Rightarrow> expression list parse" where
  "call_arguments P close_message =
     bind (comma_list (p_fuel P) False False TOKEN_CLOSE_PAREN (p_expression P)) (\<lambda>arguments.
     and_then (assert_kind TOKEN_CLOSE_PAREN close_message)
     (with_lambda_argument P arguments))"

definition generic_call :: "procs \<Rightarrow> expression \<Rightarrow> expression parse" where
  "generic_call P e =
     bind peek_current (\<lambda>smaller.
     bind (parse_generic_arguments_if_exists P) (\<lambda>generic_arguments.
     and_then (assert_kind TOKEN_OPEN_PAREN ''Expect ( after in the end of function call'')
     (bind (call_arguments P ''Expect ) after in the end of function call'') (\<lambda>arguments.
      return_p (mk_call smaller e arguments generic_arguments)))))"

definition plain_call :: "procs \<Rightarrow> expression \<Rightarrow> expression parse" where
  "plain_call P e =
     bind peek_and_advance_token (\<lambda>paren.
     bind (call_arguments P ''Expect ) after in the end of call expression'') (\<lambda>arguments.
     return_p (mk_call paren e arguments [])))"

definition index_access :: "procs \<Rightarrow> expression \<Rightarrow> expression parse" where
  "index_access P e =
     bind peek_and_advance_token (\<lambda>bracket.
     bind (p_expression P) (\<lambda>i.
     and_then (assert_kind TOKEN_CLOSE_BRACKET ''Expect ] after index value'')
     (return_p (mk_index bracket e i))))"

text \<open>
  One turn of the loop: a literal before \<open><\<close> that names no function leaves the loop, and the
  comparison is parsed by a caller.
\<close>

definition call_or_access_step :: "procs \<Rightarrow> expression \<Rightarrow> (expression + expression) parse" where
  "call_or_access_step P e =
     if_current TOKEN_DOT (bind (dot_access e) (\<lambda>e. return_p (Inl e)))
     (if_current TOKEN_SMALLER
       (case as_literal e of
          Some name \<Rightarrow>
            bind (read (\<lambda>s. ctx_functions (pcontext s) (literal name))) (\<lambda>f.
            if f = None then return_p (Inr e)
            else bind (generic_call P e) (\<lambda>e. return_p (Inl e)))
        | None \<Rightarrow> return_p (Inr e))
     (if_current TOKEN_OPEN_PAREN (bind (plain_call P e) (\<lambda>e. return_p (Inl e)))
     (if_current TOKEN_OPEN_BRACKET (bind (index_access P e) (\<lambda>e. return_p (Inl e)))
     (return_p (Inr e)))))"

definition parse_call_or_access_expression :: "procs \<Rightarrow> expression parse" where
  "parse_call_or_access_expression P =
     bind (parse_enumeration_attribute_expression P) (loop (p_fuel P) (call_or_access_step P))"

definition parse_postfix_increment_or_decrement :: "procs \<Rightarrow> expression parse" where
  "parse_postfix_increment_or_decrement P =
     bind (parse_call_or_access_expression P) (\<lambda>e.
     bind peek_current (\<lambda>t.
     if kind t = TOKEN_PLUS_PLUS \<or> kind t = TOKEN_MINUS_MINUS
     then bind peek_and_advance_token (\<lambda>operator_token. return_p (mk_postfix_unary operator_token e))
     else return_p e))"

subsection \<open>Prefix operators and the levels of binary operators\<close>

definition parse_prefix_call_expression :: "procs \<Rightarrow> expression parse" where
  "parse_prefix_call_expression P =
     bind peek_current (\<lambda>t.
     bind (is_function_declaration_kind (literal t) PREFIX_FUNCTION) (\<lambda>is_prefix.
     if kind t = TOKEN_IDENTIFIER \<and> is_prefix
     then bind parse_literal_expression (\<lambda>name.
          bind (parse_generic_arguments_if_exists P) (\<lambda>generic_arguments.
          bind (p_prefix P) (\<lambda>argument.
          return_p (mk_call t name [argument] generic_arguments))))
     else parse_postfix_increment_or_decrement P))"

definition parse_prefix_expression :: "procs \<Rightarrow> expression parse" where
  "parse_prefix_expression P =
     bind peek_current (\<lambda>t.
     if is_unary_operator_token t \<or> kind t = TOKEN_PLUS_PLUS \<or> kind t = TOKEN_MINUS_MINUS
     then bind peek_and_advance_token (\<lambda>operator_token.
          bind (p_prefix P) (\<lambda>right. return_p (mk_prefix_unary operator_token right)))
     else parse_prefix_call_expression P)"

text \<open>The generic arguments of an infix call are parsed and dropped.\<close>

definition parse_infix_call_expression :: "procs \<Rightarrow> expression parse" where
  "parse_infix_call_expression P =
     bind (parse_prefix_expression P) (\<lambda>e.
     bind peek_current (\<lambda>t.
     bind (is_function_declaration_kind (literal t) INFIX_FUNCTION) (\<lambda>is_infix.
     if kind t = TOKEN_IDENTIFIER \<and> is_infix
     then bind parse_literal_expression (\<lambda>function_name.
          bind (parse_generic_arguments_if_exists P) (\<lambda>generic_arguments.
          bind (p_infix_call P) (\<lambda>right.
          return_p (mk_call t function_name [e, right] []))))
     else return_p e)))"

definition parse_enum_access_expression :: "procs \<Rightarrow> expression parse" where
  "parse_enum_access_expression P =
     bind (parse_infix_call_expression P) (\<lambda>e.
     if_current TOKEN_COLON_COLON
       (bind peek_and_advance_token (\<lambda>colons_token.
        case as_literal e of
          Some enum_name \<Rightarrow>
            bind (read (\<lambda>s. ctx_enumerations (pcontext s) (literal enum_name))) (\<lambda>enum.
            case enum of
              None \<Rightarrow> stop_error (position enum_name)
                (''Can't find enum declaration with name '' @ literal enum_name)
            | Some enum_ty \<Rightarrow>
                bind (consume_kind TOKEN_IDENTIFIER ''Expect identifier as enum field name'') (\<lambda>elem.
                case map_of (enum_type_values enum_ty) (literal elem) of
                  None \<Rightarrow> stop_error (position elem)
                    (''Can't find element with name '' @ literal elem @ '' in enum '' @ literal enum_name)
                | Some i \<Rightarrow> return_p (EnumAccessExpression enum_name elem i
                    (TypeNode (EnumElementType (literal enum_name) (enum_type_element enum_ty))))))
        | None \<Rightarrow> stop_error (position colons_token) ''Expect identifier as Enum name''))
       (return_p e))"

definition parse_factor_expression :: "procs \<Rightarrow> expression parse" where
  "parse_factor_expression P =
     left_assoc (p_fuel P) [TOKEN_STAR, TOKEN_SLASH, TOKEN_PERCENT] mk_binary
       (parse_enum_access_expression P)"

definition parse_term_expression :: "procs \<Rightarrow> expression parse" where
  "parse_term_expression P =
     left_assoc (p_fuel P) [TOKEN_PLUS, TOKEN_MINUS] mk_binary (parse_factor_expression P)"

definition shift_step :: "procs \<Rightarrow> expression \<Rightarrow> (expression + expression) parse" where
  "shift_step P e =
     if_current TOKEN_LEFT_SHIFT
       (bind peek_and_advance_token (\<lambda>operator_token.
        bind (parse_term_expression P) (\<lambda>right. return_p (Inl (mk_bitwise e operator_token right)))))
       (bind peek_current (\<lambda>first.
        bind peek_next_token (\<lambda>second.
        if is_right_shift_operator first second then
          and_then advanced_token
          (bind peek_and_advance_token (\<lambda>operator_token.
           bind (parse_term_expression P) (\<lambda>right.
           return_p (Inl (mk_bitwise e (operator_token\<lparr>kind := TOKEN_RIGHT_SHIFT\<rparr>) right)))))
        else return_p (Inr e))))"

definition parse_bitwise_shift_expression :: "procs \<Rightarrow> expression parse" where
  "parse_bitwise_shift_expression P =
     bind (parse_term_expression P) (loop (p_fuel P) (shift_step P))"

text \<open>\<open>a < b < c\<close> becomes \<open>(a < b) && (b < c)\<close>.\<close>

definition chain_comparison :: "expression \<Rightarrow> token \<Rightarrow> expression \<Rightarrow> expression" where
  "chain_comparison e op right = (case as_comparison e of
     Some new_left \<Rightarrow>
       mk_logical e \<lparr>kind = TOKEN_AND_AND, position = position op, literal = ''''\<rparr>
         (mk_comparison new_left op right)
   | None \<Rightarrow> mk_comparison e op right)"

definition parse_comparison_expression :: "procs \<Rightarrow> expression parse" where
  "parse_comparison_expression P =
     left_assoc (p_fuel P)
       [TOKEN_GREATER, TOKEN_GREATER_EQUAL, TOKEN_SMALLER, TOKEN_SMALLER_EQUAL] chain_comparison
       (parse_bitwise_shift_expression P)"

definition parse_equality_expression :: "procs \<Rightarrow> expression parse" where
  "parse_equality_expression P =
     left_assoc (p_fuel P) [TOKEN_EQUAL_EQUAL, TOKEN_BANG_EQUAL] mk_comparison
       (parse_comparison_expression P)"

definition parse_bitwise_or_expression :: "procs \<Rightarrow> expression parse" where
  "parse_bitwise_or_expression P =
     left_assoc (p_fuel P) [TOKEN_OR] mk_bitwise (parse_equality_expression P)"

definition parse_bitwise_xor_expression :: "procs \<Rightarrow> expression parse" where
  "parse_bitwise_xor_expression P =
     left_assoc (p_fuel P) [TOKEN_XOR] mk_bitwise (parse_bitwise_or_expression P)"

definition parse_bitwise_and_expression :: "procs \<Rightarrow> expression parse" where
  "parse_bitwise_and_expression P =
     left_assoc (p_fuel P) [TOKEN_AND] mk_bitwise (parse_bitwise_xor_expression P)"

definition parse_logical_and_expression :: "procs \<Rightarrow> expression parse" where
  "parse_logical_and_expression P =
     left_assoc (p_fuel P) [TOKEN_AND_AND] mk_logical (parse_bitwise_and_expression P)"

definition parse_logical_or_expression :: "procs \<Rightarrow> expression parse" where
  "parse_logical_or_expression P =
     left_assoc (p_fuel P) [TOKEN_OR_OR] mk_logical (parse_logical_and_expression P)"

text \<open>A compound assignment is an assignment of the operation; both nodes carry the plain operator.\<close>

definition assignment_of :: "expression \<Rightarrow> token \<Rightarrow> expression \<Rightarrow> expression" where
  "assignment_of e assignments_token rhs =
     (case map_of assignments_binary_operators (kind assignments_token) of
        Some op_kind \<Rightarrow>
          (let t = assignments_token\<lparr>kind := op_kind\<rparr> in mk_assign e t (mk_binary e t rhs))
      | None \<Rightarrow>
     (case map_of assignments_bitwise_operators (kind assignments_token) of
        Some op_kind \<Rightarrow>
          (let t = assignments_token\<lparr>kind := op_kind\<rparr> in mk_assign e t (mk_bitwise e t rhs))
      | None \<Rightarrow> mk_assign e assignments_token rhs))"

definition parse_assignment_expression :: "procs \<Rightarrow> expression parse" where
  "parse_assignment_expression P =
     bind (parse_logical_or_expression P) (\<lambda>e.
     bind peek_current (\<lambda>t.
     if is_assignments_operator_token t
     then bind peek_and_advance_token (\<lambda>assignments_token.
          bind (p_expression P) (\<lambda>rhs. return_p (assignment_of e assignments_token rhs)))
     else return_p e))"

definition parse_expression :: "procs \<Rightarrow> expression parse" where
  "parse_expression P = parse_assignment_expression P"

end
