(* ===== verification/Parser_Statements.thy ===== *)
theory Parser_Statements
  imports Parser_Expressions
begin

text \<open>
  The statement half of \<open>src/amun_parser.cpp\<close> (\<open>parse_statement\<close> and the functions it dispatches to), the
  statement directive of \<open>src/amun_parser_directives.cpp\<close>, and the knot of the mutual recursion.
\<close>

subsection \<open>Scopes and loop levels\<close>

text \<open>
  \<open>auto parent = current_ast_scope; current_ast_scope = scope; ...; current_ast_scope = parent;\<close>.  The
  scope is not restored when the body throws.
\<close>

definition in_scope :: "ast_node_scope \<Rightarrow> 'a parse \<Rightarrow> 'a parse" where
  "in_scope scope m =
     bind (read current_ast_scope) (\<lambda>parent_node_scope.
     and_then (modify (\<lambda>s. s\<lparr>current_ast_scope := scope\<rparr>))
     (bind m (\<lambda>x.
      and_then (modify (\<lambda>s. s\<lparr>current_ast_scope := parent_node_scope\<rparr>))
      (return_p x))))"

text \<open>\<open>loop_levels_stack.top()\<close> and its update by \<open>+= d\<close>.\<close>

definition loop_levels_top :: "int parse" where
  "loop_levels_top = bind (read loop_levels_stack) (\<lambda>levels.
     case levels of [] \<Rightarrow> crash EmptyStack | n # _ \<Rightarrow> return_p n)"

definition change_loop_levels :: "int \<Rightarrow> unit parse" where
  "change_loop_levels d = bind loop_levels_top (\<lambda>n.
     modify (\<lambda>s. s\<lparr>loop_levels_stack := (n + d) # tl (loop_levels_stack s)\<rparr>))"

text \<open>\<open>loop_levels_stack.top() += 1; auto body = parse_statement(); loop_levels_stack.top() -= 1;\<close>\<close>

definition loop_body :: "procs \<Rightarrow> statement parse" where
  "loop_body P =
     and_then (change_loop_levels 1)
     (bind (p_statement P) (\<lambda>body.
      and_then (change_loop_levels (-1)) (return_p body)))"

subsection \<open>Declarations inside a function\<close>

definition parse_compiletime_constants_declaraion :: "procs \<Rightarrow> statement parse" where
  "parse_compiletime_constants_declaraion P =
     and_then (bind peek_and_advance_token (\<lambda>const_token. return_p ()))
     (bind (consume_kind TOKEN_IDENTIFIER ''Expect const declaraion name'') (\<lambda>name.
      and_then (assert_kind TOKEN_EQUAL ''Expect = after const variable name'')
      (bind (p_expression P) (\<lambda>e.
       and_then (check_compiletime_constants_expression e (position name))
       (and_then (assert_kind TOKEN_SEMICOLON ''Expect ; after const declaraion'')
       (bind (read (\<lambda>s. define_symbol (literal name) e (ctx_constants_table_map (pcontext s)))) (\<lambda>r.
        case r of
          None \<Rightarrow> crash EmptyStack
        | Some (_, constants) \<Rightarrow>
            and_then (update_context (\<lambda>c. c\<lparr>ctx_constants_table_map := constants\<rparr>))
            (return_p (ConstDeclaration name e)))))))))"

definition field_initializer :: "procs \<Rightarrow> expression option parse" where
  "field_initializer P = if_current TOKEN_EQUAL
     (and_then (assert_kind TOKEN_EQUAL ''Expect `=` after field declaraion name.'')
       (if_current TOKEN_UNDEFINED
         (bind peek_and_advance_token (\<lambda>keyword. return_p (Some (mk_undefined keyword))))
         (bind (p_expression P) (\<lambda>e. return_p (Some e)))))
     (return_p None)"

definition parse_field_declaration :: "procs \<Rightarrow> bool \<Rightarrow> statement parse" where
  "parse_field_declaration P is_global =
     and_then (assert_kind TOKEN_VAR ''Expect var keyword.'')
     (bind (consume_kind TOKEN_IDENTIFIER ''Expect identifier as variable name.'') (\<lambda>name.
      if_current TOKEN_COLON
        (and_then advanced_token
        (bind (p_type P) (\<lambda>t.
         bind (field_initializer P) (\<lambda>initalizer.
         and_then (assert_kind TOKEN_SEMICOLON ''Expect semicolon `;` after field declaration'')
         (return_p (mk_field_declaration name t initalizer is_global))))))
        (and_then (assert_kind TOKEN_EQUAL ''Expect `=` or `:` after field declaraion name.'')
        (bind (p_expression P) (\<lambda>init_value.
         and_then (assert_kind TOKEN_SEMICOLON ''Expect semicolon `;` after field declaration'')
         (return_p (mk_field_declaration name none_type (Some init_value) is_global)))))))"

definition destructured_name :: "procs \<Rightarrow> (token \<times> ty) parse" where
  "destructured_name P =
     bind (consume_kind TOKEN_IDENTIFIER ''Expect identifier as variable name.'') (\<lambda>name.
     if_current TOKEN_COLON
       (and_then advanced_token (bind (p_type P) (\<lambda>t. return_p (name, t))))
       (return_p (name, none_type)))"

definition parse_destructuring_field_declaration :: "procs \<Rightarrow> bool \<Rightarrow> statement parse" where
  "parse_destructuring_field_declaration P is_global =
     and_then (assert_kind TOKEN_VAR ''Expect var keyword.'')
     (and_then (assert_kind TOKEN_OPEN_PAREN ''Expect ( after var keyword.'')
     (bind (comma_list (p_fuel P) False True TOKEN_CLOSE_PAREN (destructured_name P)) (\<lambda>names.
      and_then (assert_kind TOKEN_CLOSE_PAREN ''Expect ) after var keyword.'')
      (bind (consume_kind TOKEN_EQUAL ''Expect = after var keyword.'') (\<lambda>equal_token.
       bind (p_expression P) (\<lambda>v.
       and_then (assert_kind TOKEN_SEMICOLON ''Expect semicolon `;` after field declaration'')
       (return_p (DestructuringDeclaraion (map fst names) (map snd names) v equal_token is_global))))))))"

subsection \<open>Simple statements\<close>

definition parse_block_statement :: "procs \<Rightarrow> statement list parse" where
  "parse_block_statement P =
     and_then (bind (consume_kind TOKEN_OPEN_BRACE ''Expect { on the start of block.'') (\<lambda>_. return_p ()))
     (bind (statement_list P True) (\<lambda>statements.
      and_then (bind (consume_kind TOKEN_CLOSE_BRACE ''Expect } on the end of block.'') (\<lambda>_. return_p ()))
      (return_p statements)))"

definition parse_return_statement :: "procs \<Rightarrow> statement parse" where
  "parse_return_statement P =
     bind (consume_kind TOKEN_RETURN ''Expect return keyword.'') (\<lambda>keyword.
     if_current TOKEN_SEMICOLON
       (and_then (assert_kind TOKEN_SEMICOLON ''Expect semicolon `;` after return keyword'')
         (return_p (ReturnStatement keyword None False)))
       (bind (p_expression P) (\<lambda>v.
        and_then (assert_kind TOKEN_SEMICOLON ''Expect semicolon `;` after return statement'')
        (return_p (ReturnStatement keyword (Some v) True)))))"

definition parse_defer_statement :: "procs \<Rightarrow> statement parse" where
  "parse_defer_statement P =
     bind (consume_kind TOKEN_DEFER ''Expect Defer keyword.'') (\<lambda>defer_token.
     bind (p_expression P) (\<lambda>e.
     if get_ast_node_type e = AST_CALL then
       and_then (assert_kind TOKEN_SEMICOLON ''Expect semicolon `;` after defer call statement'')
       (return_p (DeferStatement e))
     else stop_error (position defer_token) ''defer keyword expect call expression''))"

text \<open>
  The count after \<open>break\<close> or \<open>continue\<close>, with the messages of the two functions: not a number, a
  floating literal, below one, above the number of loops.
\<close>

definition checked_times ::
  "procs \<Rightarrow> token \<Rightarrow> string \<Rightarrow> string \<Rightarrow> string \<Rightarrow> string \<Rightarrow> int parse" where
  "checked_times P keyword not_number is_float too_small too_big =
     bind (p_expression P) (\<lambda>times.
     case as_number times of
       Some (number_value, _) \<Rightarrow>
         if is_float_number_token number_value then stop_error (position keyword) is_float
         else
           bind (stoi (literal number_value)) (\<lambda>times_int.
           if times_int < 1 then stop_error (position keyword) too_small
           else
             bind loop_levels_top (\<lambda>levels.
             if times_int > levels
             then stop_error (position keyword) (too_big @ to_string levels)
             else return_p times_int))
     | None \<Rightarrow> stop_error (position keyword) not_number)"

text \<open>\<open>break\<close> and \<open>continue\<close> need a loop of the same function or lambda around them.\<close>

definition require_loop :: "token \<Rightarrow> string \<Rightarrow> unit parse" where
  "require_loop keyword msg =
     bind (read current_ast_scope) (\<lambda>scope.
     if scope \<noteq> CONDITION_SCOPE then stop_error (position keyword) msg
     else bind loop_levels_top (\<lambda>levels.
          if levels = 0 then stop_error (position keyword) msg else return_p ()))"

definition parse_break_statement :: "procs \<Rightarrow> statement parse" where
  "parse_break_statement P =
     bind (consume_kind TOKEN_BREAK ''Expect break keyword.'') (\<lambda>break_token.
     and_then (require_loop break_token ''break keyword can only be used inside at last one while loop'')
     (if_current TOKEN_SEMICOLON
       (and_then (assert_kind TOKEN_SEMICOLON ''Expect semicolon `;` after break call statement'')
         (return_p (BreakStatement break_token False 1)))
       (bind (checked_times P break_token ''break keyword times must be a number''
          ''expect break keyword times to be integer but found floating pointer value''
          ''expect break times must be positive value and at last 1''
          (''break times can't be bigger than the number of loops you '' @
           ''have, expect less than or equals '')) (\<lambda>times_int.
        and_then (assert_kind TOKEN_SEMICOLON ''Expect semicolon `;` after brea statement'')
        (return_p (BreakStatement break_token True times_int))))))"

definition parse_continue_statement :: "procs \<Rightarrow> statement parse" where
  "parse_continue_statement P =
     bind (consume_kind TOKEN_CONTINUE ''Expect continue keyword.'') (\<lambda>continue_token.
     and_then (require_loop continue_token
       ''continue keyword can only be used inside at last one while loop'')
     (if_current TOKEN_SEMICOLON
       (and_then (assert_kind TOKEN_SEMICOLON ''Expect semicolon `;` after defer call statement'')
         (return_p (ContinueStatement continue_token False 1)))
       (bind (checked_times P continue_token ''continue keyword times must be a number''
          ''expect continue times to be integer but found floating pointer value''
          ''expect continue times must be positive value and at last 1''
          (''continue times can't be bigger than the number of loops you '' @
           ''have, expect less than or equals '')) (\<lambda>times_int.
        and_then (assert_kind TOKEN_SEMICOLON ''Expect semicolon `;` after brea statement'')
        (return_p (ContinueStatement continue_token True times_int))))))"

definition parse_expression_statement :: "procs \<Rightarrow> statement parse" where
  "parse_expression_statement P =
     bind (parse_expression P) (\<lambda>e.
     and_then (assert_kind TOKEN_SEMICOLON ''Expect semicolon `;` after field declaration'')
     (return_p (ExpressionStatement e)))"

subsection \<open>Conditions and loops\<close>

text \<open>One turn of the loop over the \<open>else\<close> branches; an \<open>else if\<close> takes its condition without parentheses.\<close>

definition else_branch ::
  "procs \<Rightarrow> conditional_block list \<times> bool
    \<Rightarrow> ((conditional_block list \<times> bool) + statement) parse" where
  "else_branch P = (\<lambda>(conditional_blocks, has_else_branch).
     if_current TOKEN_ELSE
       (bind (consume_kind TOKEN_ELSE ''Expect else keyword.'') (\<lambda>else_token.
        if_current TOKEN_IF
          (and_then advanced_token
          (bind (p_expression P) (\<lambda>elif_condition.
           bind (p_statement P) (\<lambda>elif_block.
           return_p (Inl (conditional_blocks @ [ConditionalBlock else_token elif_condition elif_block],
             has_else_branch))))))
          (if has_else_branch
           then stop_error (position else_token) ''You already declared else branch''
           else
             (let true_expression = mk_boolean (else_token\<lparr>kind := TOKEN_TRUE\<rparr>) in
              bind (p_statement P) (\<lambda>else_block.
              return_p (Inl (conditional_blocks @ [ConditionalBlock else_token true_expression else_block],
                True)))))))
       (return_p (Inr (IfStatement conditional_blocks has_else_branch))))"

definition parse_if_statement :: "procs \<Rightarrow> statement parse" where
  "parse_if_statement P = in_scope CONDITION_SCOPE
     (bind (consume_kind TOKEN_IF ''Expect If keyword.'') (\<lambda>if_token.
      and_then (assert_kind TOKEN_OPEN_PAREN ''Expect ( before if condition'')
      (bind (p_expression P) (\<lambda>condition.
       and_then (assert_kind TOKEN_CLOSE_PAREN ''Expect ) after if condition'')
       (bind (p_statement P) (\<lambda>then_block.
        loop (p_fuel P) (else_branch P) ([ConditionalBlock if_token condition then_block], False)))))))"

text \<open>
  The names and the collection of a \<open>for\<close>: \<open>(element_name, index_name, has_custom_index_name, expr)\<close>.
\<close>

definition for_header :: "procs \<Rightarrow> token \<Rightarrow> (string \<times> string \<times> bool \<times> expression) parse" where
  "for_header P keyword =
     bind (p_expression P) (\<lambda>expr.
     bind peek_current (\<lambda>t.
     if kind t = TOKEN_COLON \<or> kind t = TOKEN_COMMA then
       if get_ast_node_type expr \<noteq> AST_LITERAL
       then stop_error (position keyword) ''Optional named variable must be identifier''
       else
         bind peek_previous (\<lambda>name.
         bind (if_current TOKEN_COMMA
           (and_then advanced_token
           (bind (consume_kind TOKEN_IDENTIFIER ''Expect element name'') (\<lambda>elem.
            return_p (literal elem, literal name, True))))
           (return_p (literal name, ''it_index'', False))) (\<lambda>(element_name, index_name, custom).
         and_then (assert_kind TOKEN_COLON ''Expect `:` after element name in foreach'')
         (bind (p_expression P) (\<lambda>expr.
          return_p (element_name, index_name, custom, expr)))))
     else return_p (''it'', ''it_index'', False, expr)))"

definition parse_for_statement :: "procs \<Rightarrow> statement parse" where
  "parse_for_statement P = in_scope CONDITION_SCOPE
     (bind (consume_kind TOKEN_FOR ''Expect for keyword.'') (\<lambda>keyword.
      if_current TOKEN_OPEN_BRACE
        (bind (loop_body P) (\<lambda>body. return_p (ForeverStatement keyword body)))
        (and_then (assert_kind TOKEN_OPEN_PAREN ''Expect ( before for names and collection'')
        (bind (for_header P keyword) (\<lambda>(element_name, index_name, has_custom_index_name, expr).
         if_current TOKEN_DOT_DOT
           (if has_custom_index_name
            then stop_error (position keyword) ''for range has no index name to override''
            else
              and_then advanced_token
              (bind (p_expression P) (\<lambda>range_end.
               bind (if_current TOKEN_COLON
                   (and_then advanced_token (bind (p_expression P) (\<lambda>step. return_p (Some step))))
                   (return_p None)) (\<lambda>step.
               and_then (assert_kind TOKEN_CLOSE_PAREN ''Expect ) after for names and collection'')
               (bind (loop_body P) (\<lambda>body.
                return_p (ForRangeStatement keyword element_name expr range_end step body)))))))
           (and_then (assert_kind TOKEN_CLOSE_PAREN ''Expect ) after for names and collection'')
           (bind (loop_body P) (\<lambda>body.
            return_p (ForEachStatement keyword element_name index_name expr body)))))))))"

definition parse_while_statement :: "procs \<Rightarrow> statement parse" where
  "parse_while_statement P = in_scope CONDITION_SCOPE
     (bind (consume_kind TOKEN_WHILE ''Expect while keyword.'') (\<lambda>keyword.
      and_then (assert_kind TOKEN_OPEN_PAREN ''Expect ( before while condition'')
      (bind (p_expression P) (\<lambda>condition.
       and_then (assert_kind TOKEN_CLOSE_PAREN ''Expect ) after while condition'')
       (bind (loop_body P) (\<lambda>body.
        return_p (WhileStatement keyword condition body)))))))"

subsection \<open>Switch statements\<close>

text \<open>The inner loop checks the comma without leaving at its absence: \<open>V1 V2 ->\<close> is accepted.\<close>

definition switch_branch ::
  "procs \<Rightarrow> token \<Rightarrow> expression \<Rightarrow> switch_case list \<times> switch_case option
    \<Rightarrow> ((switch_case list \<times> switch_case option) + (switch_case list \<times> switch_case option)) parse" where
  "switch_branch P keyword argument = (\<lambda>(switch_cases, default_branch).
     bind (list_ends True TOKEN_CLOSE_BRACE) (\<lambda>ends.
     if ends then return_p (Inr (switch_cases, default_branch))
     else if_current TOKEN_ELSE
       (if default_branch \<noteq> None then stop_error (position keyword)
          ''Switch statementscan't has more than one default branch''
        else
          bind (consume_kind TOKEN_ELSE ''Expect else keyword in switch default branch'') (\<lambda>else_keyword.
          and_then (bind (consume_kind TOKEN_RIGHT_ARROW
             ''Expect -> after else keyword in switch default branch'') (\<lambda>_. return_p ()))
          (bind (p_statement P) (\<lambda>default_body.
           return_p (Inl (switch_cases, Some (SwitchCase else_keyword [argument] default_body)))))))
       (bind (comma_list (p_fuel P) True False TOKEN_RIGHT_ARROW (p_expression P)) (\<lambda>values.
        bind (consume_kind TOKEN_RIGHT_ARROW ''Expect -> after branch value'') (\<lambda>right_arrow.
        bind (p_statement P) (\<lambda>branch.
        return_p (Inl (switch_cases @ [SwitchCase right_arrow values branch], default_branch))))))))"

definition parse_switch_statement :: "procs \<Rightarrow> statement parse" where
  "parse_switch_statement P =
     bind (consume_kind TOKEN_SWITCH ''Expect `switch` keyword.'') (\<lambda>keyword.
     and_then (assert_kind TOKEN_OPEN_PAREN ''Expect ( before switch argument'')
     (bind (p_expression P) (\<lambda>argument.
      bind parse_switch_operator (\<lambda>op.
      and_then (assert_kind TOKEN_CLOSE_PAREN ''Expect ) after switch argument'')
      (and_then (assert_kind TOKEN_OPEN_BRACE ''Expect { after switch value'')
      (bind (loop (p_fuel P) (switch_branch P keyword argument) ([], None))
        (\<lambda>(switch_cases, default_branch).
       and_then (assert_kind TOKEN_CLOSE_BRACE ''Expect } after switch Statement last branch'')
       (return_p (SwitchStatement keyword argument
         (switch_cases @ (case default_branch of None \<Rightarrow> [] | Some b \<Rightarrow> [b])) op
         (default_branch \<noteq> None) False)))))))))"

text \<open>\<open>switch_node->should_perform_complete_check = true\<close>, of a switch statement only.\<close>

definition require_complete_check :: "statement \<Rightarrow> statement option" where
  "require_complete_check s = (case s of
     SwitchStatement keyword argument cases op has_default _ \<Rightarrow>
       Some (SwitchStatement keyword argument cases op has_default True)
   | _ \<Rightarrow> None)"

definition parse_statements_directive :: "procs \<Rightarrow> statement parse" where
  "parse_statements_directive P =
     and_then (bind (consume_kind TOKEN_AT ''Expect `@` before directive name'') (\<lambda>_. return_p ()))
     (bind (consume_kind TOKEN_IDENTIFIER ''Expect symbol as directive name'') (\<lambda>directive.
      if literal directive = ''complete'' then
        bind (p_statement P) (\<lambda>s.
        case require_complete_check s of
          Some switch_node \<Rightarrow> return_p switch_node
        | None \<Rightarrow> stop_error (position directive) ''@complete expect switch statement'')
      else stop_error (position directive)
        (''No statement directive with name '' @ literal directive)))"

definition parse_statement :: "procs \<Rightarrow> statement parse" where
  "parse_statement P =
     bind peek_current (\<lambda>t.
     let k = kind t in
     if k = TOKEN_VAR then
       bind (is_next_kind TOKEN_OPEN_PAREN) (\<lambda>destructuring.
       if destructuring then parse_destructuring_field_declaration P False
       else parse_field_declaration P False)
     else if k = TOKEN_CONST then parse_compiletime_constants_declaraion P
     else if k = TOKEN_IF then parse_if_statement P
     else if k = TOKEN_FOR then parse_for_statement P
     else if k = TOKEN_WHILE then parse_while_statement P
     else if k = TOKEN_SWITCH then parse_switch_statement P
     else if k = TOKEN_RETURN then parse_return_statement P
     else if k = TOKEN_DEFER then parse_defer_statement P
     else if k = TOKEN_BREAK then parse_break_statement P
     else if k = TOKEN_CONTINUE then parse_continue_statement P
     else if k = TOKEN_OPEN_BRACE
     then bind (parse_block_statement P) (\<lambda>ss. return_p (BlockStatement ss))
     else if k = TOKEN_AT then parse_statements_directive P
     else parse_expression_statement P)"

subsection \<open>The knot\<close>

text \<open>
  The functions with \<open>n\<close> levels of recursion through \<open>procs\<close>, and loops of at most \<open>n\<close> turns.  Every such
  call and every turn but the last consumes a token, so the number of tokens left is enough.
\<close>

definition procs_step :: "nat \<Rightarrow> procs \<Rightarrow> procs" where
  "procs_step n P = \<lparr>p_fuel = n, p_expression = parse_expression P,
     p_infix_call = parse_infix_call_expression P, p_prefix = parse_prefix_expression P,
     p_statement = parse_statement P, p_type = parse_type P,
     p_type_with_prefix = parse_type_with_prefix P\<rparr>"

primrec procs_at :: "nat \<Rightarrow> procs" where
  "procs_at 0 = \<lparr>p_fuel = 0, p_expression = (\<lambda>s. OutOfFuel), p_infix_call = (\<lambda>s. OutOfFuel),
     p_prefix = (\<lambda>s. OutOfFuel), p_statement = (\<lambda>s. OutOfFuel), p_type = (\<lambda>s. OutOfFuel),
     p_type_with_prefix = (\<lambda>s. OutOfFuel)\<rparr>"
| "procs_at (Suc n) = procs_step (Suc n) (procs_at n)"

end
