(* ===== verification/Parser_Declarations.thy ===== *)
theory Parser_Declarations
  imports Parser_Statements
begin

text \<open>
  The top level of \<open>src/amun_parser.cpp\<close>: functions, operators, structures, enumerations, type aliases,
  the declaration directive, \<open>import\<close> and \<open>load\<close>, and \<open>parse_compilation_unit\<close>, which catches the
  \<open>throw "Stop"\<close> of all of them.  The files are a parameter, the record \<open>file_system\<close>.
\<close>

subsection \<open>Prototypes\<close>

definition check_generic_parameter_name :: "token \<Rightarrow> unit parse" where
  "check_generic_parameter_name name =
     (let lit = literal name; loc = position name in
      bind (read (\<lambda>s. s)) (\<lambda>s.
      if map_of primitive_types lit \<noteq> None
      then stop_error loc (''primitives type can't be used as generic parameter name '' @ lit)
      else if ctx_structures (pcontext s) lit \<noteq> None
      then stop_error loc (''Struct name can't be used as generic parameter name '' @ lit)
      else if ctx_enumerations (pcontext s) lit \<noteq> None
      then stop_error loc (''Enum name can't be used as generic parameter name '' @ lit)
      else if contains_alias (ctx_type_alias_table (pcontext s)) lit
      then stop_error loc (''You can't use alias as generic parameter name '' @ lit)
      else if contains (generic_parameters_names s) lit
      then stop_error loc (''You already declared generic parameter with name '' @ lit)
      else modify (\<lambda>s. s\<lparr>generic_parameters_names := lit # generic_parameters_names s\<rparr>)))"

text \<open>\<open><T, U>\<close> after the name of a function or structure.\<close>

definition generic_parameter_list :: "procs \<Rightarrow> string list parse" where
  "generic_parameter_list P =
     and_then advanced_token
     (bind (comma_list (p_fuel P) True True TOKEN_GREATER
        (bind (consume_kind TOKEN_IDENTIFIER ''Expect parameter name'') (\<lambda>name.
         and_then (check_generic_parameter_name name) (return_p (literal name))))) (\<lambda>names.
      and_then (assert_kind TOKEN_GREATER ''Expect > after struct type parameters'')
      (return_p names)))"

text \<open>
  The parameters of a prototype; \<open>strict\<close> is the \<open>break\<close> at a missing comma, which the intrinsic
  prototype does not have.
\<close>

definition prototype_parameter_step ::
  "procs \<Rightarrow> bool \<Rightarrow> parameter list \<times> bool \<times> ty option
    \<Rightarrow> ((parameter list \<times> bool \<times> ty option) + (parameter list \<times> bool \<times> ty option)) parse" where
  "prototype_parameter_step P strict = (\<lambda>(parameters, has_varargs, varargs_type).
     bind (list_ends True TOKEN_CLOSE_PAREN) (\<lambda>ends.
     if ends then return_p (Inr (parameters, has_varargs, varargs_type))
     else if has_varargs then bind peek_previous (\<lambda>t.
       stop_error (position t) ''Varargs must be the last parameter in the function'')
     else if_current TOKEN_VARARGS
       (and_then advanced_token
       (bind peek_current (\<lambda>t.
        if kind t = TOKEN_IDENTIFIER \<and> literal t = ''Any''
        then and_then advanced_token (return_p (Inl (parameters, True, varargs_type)))
        else bind (p_type P) (\<lambda>ty. return_p (Inl (parameters, True, Some ty))))))
       (bind (parse_parameter P) (\<lambda>p.
        if_current TOKEN_COMMA
          (and_then advanced_token (return_p (Inl (parameters @ [p], has_varargs, varargs_type))))
          (return_p (if strict then Inr (parameters @ [p], has_varargs, varargs_type)
                     else Inl (parameters @ [p], has_varargs, varargs_type)))))))"

definition parse_prototype_parameters ::
  "procs \<Rightarrow> bool \<Rightarrow> (parameter list \<times> bool \<times> ty option) parse" where
  "parse_prototype_parameters P strict = if_current TOKEN_OPEN_PAREN
     (and_then advanced_token
     (bind (loop (p_fuel P) (prototype_parameter_step P strict) ([], False, None)) (\<lambda>r.
      and_then (assert_kind TOKEN_CLOSE_PAREN ''Expect ) after function parameters.'')
      (return_p r))))
     (return_p ([], False, None))"

text \<open>A prototype without a return type returns \<open>void\<close>.\<close>

definition prototype_return :: "procs \<Rightarrow> ty parse" where
  "prototype_return P = bind peek_current (\<lambda>t.
     if kind t = TOKEN_SEMICOLON \<or> kind t = TOKEN_OPEN_BRACE then return_p void_type else p_type P)"

definition register_function :: "string \<Rightarrow> function_kind \<Rightarrow> unit parse" where
  "register_function name k =
     update_context (\<lambda>c. c\<lparr>ctx_functions := (ctx_functions c)(name \<mapsto> k)\<rparr>)"

definition parse_intrinsic_prototype :: "procs \<Rightarrow> statement parse" where
  "parse_intrinsic_prototype P =
     bind (consume_kind TOKEN_IDENTIFIER ''Expect intrinsic keyword'') (\<lambda>intrinsic_keyword.
     bind (if_current TOKEN_OPEN_PAREN
       (and_then advanced_token
       (bind (consume_kind TOKEN_STRING ''Expect intrinsic native name.'') (\<lambda>intrinsic_token.
        if \<not> is_valid_intrinsic_name (literal intrinsic_token)
        then stop_error (position intrinsic_token) ''Intrinsic name can't have space or be empty''
        else and_then (assert_kind TOKEN_CLOSE_PAREN ''Expect ) after native intrinsic name.'')
          (return_p (literal intrinsic_token)))))
       (return_p '''')) (\<lambda>native_name.
     and_then (assert_kind TOKEN_FUN ''Expect function keyword.'')
     (bind (consume_kind TOKEN_IDENTIFIER ''Expect identifier as function name.'') (\<lambda>name.
      if_current TOKEN_SMALLER
        (stop_error (position name) ''intrinsic function can't has generic parameter'')
        (let intrinsic_name = (if native_name = [] then literal name else native_name) in
         bind (parse_prototype_parameters P False) (\<lambda>(parameters, has_varargs, varargs_type).
         and_then (register_function (literal name) NORMAL_FUNCTION)
         (bind (prototype_return P) (\<lambda>return_type.
          if is_array_type return_type
          then stop_error (position name)
            (''Function cannot return array type '' @ get_type_literal return_type)
          else
            and_then (assert_kind TOKEN_SEMICOLON ''Expect ; after external function declaration'')
            (return_p (IntrinsicPrototype name intrinsic_name parameters return_type has_varargs
               varargs_type))))))))))"

definition check_main_prototype :: "token \<Rightarrow> function_kind \<Rightarrow> bool \<Rightarrow> ty \<Rightarrow> unit parse" where
  "check_main_prototype name k is_external return_type =
     (if literal name = ''main'' then
        (if k \<noteq> NORMAL_FUNCTION
         then stop_error (position name) ''main can't be prefix, infix or postfix function''
         else if is_external then stop_error (position name) ''main can't be external function''
         else if \<not> (is_void_type return_type \<or> is_integer32_type return_type
                     \<or> is_integer64_type return_type)
         then stop_error (position name)
           ''main has invalid return type expect void, int32 or int64''
         else return_p ())
      else return_p ())"

definition parse_function_prototype ::
  "procs \<Rightarrow> function_kind \<Rightarrow> bool \<Rightarrow> function_prototype parse" where
  "parse_function_prototype P k is_external =
     and_then (if is_external then assert_kind TOKEN_IDENTIFIER ''Expect external keyword''
               else return_p ())
     (and_then (assert_kind TOKEN_FUN ''Expect function keyword.'')
     (bind (consume_kind TOKEN_IDENTIFIER ''Expect identifier as function name.'') (\<lambda>name.
      bind (is_current_kind TOKEN_SMALLER) (\<lambda>is_generic_function.
      if is_external \<and> is_generic_function
      then stop_error (position name) ''external function can't has generic parameter''
      else
        bind (if is_generic_function then generic_parameter_list P else return_p []) (\<lambda>generics.
        bind (parse_prototype_parameters P True) (\<lambda>(parameters, has_varargs, varargs_type).
        and_then (check_function_kind_paramters_count k (length parameters) (position name))
        (and_then (register_function (literal name) k)
        (bind (prototype_return P) (\<lambda>return_type.
         and_then (if is_external
             then assert_kind TOKEN_SEMICOLON ''Expect ; after external function declaration''
             else return_p ())
         (and_then (check_main_prototype name k is_external return_type)
         (return_p \<lparr>prototype_name = name, prototype_parameters = parameters,
            prototype_return_type = return_type, prototype_is_external = is_external,
            prototype_has_varargs = has_varargs, prototype_varargs_type = varargs_type,
            prototype_is_generic = is_generic_function,
            prototype_generic_parameters = generics\<rparr>)))))))))))"

subsection \<open>Functions and operators\<close>

definition push_constants_scope :: "unit parse" where
  "push_constants_scope = update_context (\<lambda>c.
     c\<lparr>ctx_constants_table_map := push_new_scope (ctx_constants_table_map c)\<rparr>)"

definition pop_constants_scope :: "unit parse" where
  "pop_constants_scope =
     bind (read (\<lambda>s. pop_current_scope (ctx_constants_table_map (pcontext s)))) (\<lambda>r.
     case r of
       None \<Rightarrow> crash EmptyStack
     | Some constants \<Rightarrow> update_context (\<lambda>c. c\<lparr>ctx_constants_table_map := constants\<rparr>))"

text \<open>\<open>= value;\<close> or a block, which gets the implicit return; \<open>no_body\<close> is the error otherwise.\<close>

definition function_body :: "procs \<Rightarrow> ty \<Rightarrow> statement parse \<Rightarrow> statement parse" where
  "function_body P return_type no_body = if_current TOKEN_EQUAL
     (bind peek_and_advance_token (\<lambda>equal_token.
      bind (p_expression P) (\<lambda>v.
      and_then (assert_kind TOKEN_SEMICOLON ''Expect ; after function value'')
      (return_p (ReturnStatement equal_token (Some v) True)))))
     (if_current TOKEN_OPEN_BRACE
       (bind (in_new_body
          (bind (parse_block_statement P) (\<lambda>block.
           and_then check_unnecessary_semicolon_warning (return_p block)))) (\<lambda>block.
        bind peek_previous (\<lambda>close_brace.
        return_p (BlockStatement (implicit_return return_type close_brace block)))))
       no_body)"

definition clear_generic_parameters :: "unit parse" where
  "clear_generic_parameters = modify (\<lambda>s. s\<lparr>generic_parameters_names := []\<rparr>)"

definition parse_function_declaration :: "procs \<Rightarrow> function_kind \<Rightarrow> statement parse" where
  "parse_function_declaration P k = in_scope FUNCTION_SCOPE
     (and_then push_constants_scope
     (bind (parse_function_prototype P k False) (\<lambda>prototype.
      bind (function_body P (prototype_return_type prototype)
        (bind peek_previous (\<lambda>t. stop_error (position t)
           ''function declaration without a body: `{ <body> }` or `= <value>;`''))) (\<lambda>body.
      and_then pop_constants_scope
      (and_then clear_generic_parameters
      (return_p (FunctionDeclaration prototype body)))))))"

text \<open>Two adjacent \<open>>\<close> are the right shift operator.\<close>

definition parse_operator_function_operator :: "function_kind \<Rightarrow> token parse" where
  "parse_operator_function_operator k =
     bind peek_and_advance_token (\<lambda>first.
     bind peek_previous (\<lambda>previous.
     bind peek_current (\<lambda>current.
     bind (if is_right_shift_operator previous current
           then and_then advanced_token (return_p (first\<lparr>kind := TOKEN_RIGHT_SHIFT\<rparr>))
           else return_p first) (\<lambda>op.
     if \<not> is_supported_overloading_operator (kind op)
     then stop_error (position op) ''Unsupported Operator for operator overloading function''
     else if k = PREFIX_FUNCTION \<and> \<not> is_overloading_prefix_operator (kind op)
     then stop_error (position op) ''this operator can't be used as prefix operator''
     else if k = INFIX_FUNCTION \<and> \<not> is_overloading_infix_operator (kind op)
     then stop_error (position op) ''this operator can't be used as infix operator''
     else if k = POSTFIX_FUNCTION \<and> \<not> is_overloading_postfix_operator (kind op)
     then stop_error (position op) ''this operator can't be used as postfix operator''
     else return_p op))))"

definition operator_function_name :: "function_kind \<Rightarrow> token_kind \<Rightarrow> ty list \<Rightarrow> string" where
  "operator_function_name k op types =
     (if k = POSTFIX_FUNCTION then ''_postfix''
      else if k = PREFIX_FUNCTION then ''_prefix'' else '''') @ mangle_operator_function op types"

definition operator_parameters :: "procs \<Rightarrow> parameter list parse" where
  "operator_parameters P = if_current TOKEN_OPEN_PAREN
     (and_then advanced_token
     (bind (comma_list (p_fuel P) True True TOKEN_CLOSE_PAREN (parse_parameter P)) (\<lambda>parameters.
      and_then (assert_kind TOKEN_CLOSE_PAREN ''Expect ) after function parameters.'')
      (return_p parameters))))
     (return_p [])"

definition parse_operator_function_declaraion :: "procs \<Rightarrow> function_kind \<Rightarrow> statement parse" where
  "parse_operator_function_declaraion P k = in_scope FUNCTION_SCOPE
     (and_then push_constants_scope
     (bind peek_and_advance_token (\<lambda>operator_keyword.
      bind (parse_operator_function_operator k) (\<lambda>operator_token.
      bind (operator_parameters P) (\<lambda>parameters.
      and_then (check_function_kind_paramters_count NORMAL_FUNCTION (length parameters)
        (position operator_keyword))
      (let mangled_name = operator_function_name k (kind operator_token) (map parameter_type parameters);
           name = \<lparr>kind = TOKEN_IDENTIFIER, position = position operator_token, literal = mangled_name\<rparr> in
       bind (prototype_return P) (\<lambda>return_type.
       let prototype = \<lparr>prototype_name = name, prototype_parameters = parameters,
             prototype_return_type = return_type, prototype_is_external = False,
             prototype_has_varargs = False, prototype_varargs_type = None,
             prototype_is_generic = False, prototype_generic_parameters = []\<rparr> in
       bind (function_body P return_type
         (stop_error (position operator_keyword)
            ''operator function declaration without a body: `{ <body> }` or `= <value>;`'')) (\<lambda>body.
       and_then pop_constants_scope
       (return_p (OperatorFunctionDeclaraion operator_token prototype body))))))))))"

subsection \<open>Structures\<close>

text \<open>
  A pointer to the structure being declared is parsed as a pointer to none and replaced here; the
  counter of such pointers goes down with every replacement.
\<close>

fun resolve_field_self_reference :: "ty \<Rightarrow> ty \<Rightarrow> int \<Rightarrow> ty \<times> int"
  and resolve_fields :: "ty \<Rightarrow> ty list \<Rightarrow> int \<Rightarrow> ty list \<times> int" where
  "resolve_field_self_reference self (PointerType b) unknown =
     (if b = NoneType then (self, unknown - 1)
      else let (b, unknown) = resolve_field_self_reference self b unknown in (PointerType b, unknown))"
| "resolve_field_self_reference self (StaticArrayType e n) unknown =
     (let (e, unknown) = resolve_field_self_reference self e unknown in (StaticArrayType e n, unknown))"
| "resolve_field_self_reference self (FunctionType name ps r c va vt i g ns) unknown =
     (let (r, unknown) = resolve_field_self_reference self r unknown;
          (ps, unknown) = resolve_fields self ps unknown
      in (FunctionType name ps r c va vt i g ns, unknown))"
| "resolve_field_self_reference self (TupleType name fs) unknown =
     (let (fs, unknown) = resolve_fields self fs unknown in (TupleType name fs, unknown))"
| "resolve_field_self_reference self t unknown = (t, unknown)"
| "resolve_fields self [] unknown = ([], unknown)"
| "resolve_fields self (t # ts) unknown =
     (let (t, unknown) = resolve_field_self_reference self t unknown;
          (ts, unknown) = resolve_fields self ts unknown in (t # ts, unknown))"

definition structure_field ::
  "procs \<Rightarrow> string \<Rightarrow> string list \<times> ty list
    \<Rightarrow> ((string list \<times> ty list) + (string list \<times> ty list)) parse" where
  "structure_field P struct_name_str = (\<lambda>(names, types).
     bind (list_ends True TOKEN_CLOSE_BRACE) (\<lambda>ends.
     if ends then return_p (Inr (names, types))
     else
       bind (consume_kind TOKEN_IDENTIFIER ''Expect Symbol as struct name'') (\<lambda>field_name.
       if is_contains names (literal field_name)
       then stop_error (position field_name)
         (''There is already struct member with name '' @ literal field_name)
       else
         bind (p_type P) (\<lambda>field_type.
         if field_type = NoneType then stop_error (position field_name)
           (''Field type isn't fully defined yet, you can't use it '' @
            ''until it defined but you can use *'' @ struct_name_str)
         else
           and_then (assert_kind TOKEN_SEMICOLON ''Expect ; at the end of struct field declaration'')
           (return_p (Inl (names @ [literal field_name], types @ [field_type])))))))"

text \<open>The new structure enters the table of structures and the table of type aliases.\<close>

definition register_structure :: "string \<Rightarrow> struct_type \<Rightarrow> statement parse" where
  "register_structure name st =
     and_then (update_context (\<lambda>c. c\<lparr>ctx_structures := (ctx_structures c)(name \<mapsto> st),
       ctx_type_alias_table := define_alias name (StructType name) (ctx_type_alias_table c)\<rparr>))
     (and_then (modify (\<lambda>s. s\<lparr>current_struct_name := ''''\<rparr>))
     (and_then clear_generic_parameters (return_p (StructDeclaration name))))"

definition resolve_structure_fields :: "string \<Rightarrow> ty list \<Rightarrow> ty list parse" where
  "resolve_structure_fields name types =
     bind (read current_struct_unknown_fields) (\<lambda>unknown.
     let (types, unknown) =
       (if unknown > 0 then resolve_fields (PointerType (StructType name)) types unknown
        else (types, unknown)) in
     if unknown \<noteq> 0 then crash AssertFailed
     else and_then (modify (\<lambda>s. s\<lparr>current_struct_unknown_fields := unknown\<rparr>)) (return_p types))"

definition parse_structure_declaration :: "procs \<Rightarrow> bool \<Rightarrow> bool \<Rightarrow> statement parse" where
  "parse_structure_declaration P is_packed is_extern =
     and_then (bind (consume_kind TOKEN_STRUCT ''Expect struct keyword'') (\<lambda>struct_token. return_p ()))
     (bind (consume_kind TOKEN_IDENTIFIER ''Expect Symbol as struct name'') (\<lambda>name.
      let struct_name_str = literal name in
      bind (read pcontext) (\<lambda>ctx.
      if ctx_structures ctx struct_name_str \<noteq> None
      then stop_error (position name) (''There is already struct with name '' @ struct_name_str)
      else if contains_alias (ctx_type_alias_table ctx) struct_name_str
      then stop_error (position name) (''There is already a type with name '' @ struct_name_str)
      else
        and_then (modify (\<lambda>s. s\<lparr>current_struct_name := struct_name_str\<rparr>))
        (if is_extern then
           and_then (assert_kind TOKEN_SEMICOLON ''Expect `;` at the end of external struct'')
           (register_structure struct_name_str
              \<lparr>struct_name = struct_name_str, fields_names = [], fields_types = [],
               generic_parameters = [], generic_parameters_types = [], struct_is_packed = False,
               struct_is_generic = False, struct_is_extern = True\<rparr>)
         else
           bind (is_current_kind TOKEN_SMALLER) (\<lambda>is_generic_struct.
           bind (if is_generic_struct then generic_parameter_list P else return_p []) (\<lambda>generics.
           and_then (assert_kind TOKEN_OPEN_BRACE ''Expect { after struct name'')
           (bind (loop (p_fuel P) (structure_field P struct_name_str) ([], [])) (\<lambda>(names, types).
            and_then (assert_kind TOKEN_CLOSE_BRACE ''Expect } in the end of struct declaration'')
            (and_then check_unnecessary_semicolon_warning
            (bind (resolve_structure_fields struct_name_str types) (\<lambda>types.
             register_structure struct_name_str
               \<lparr>struct_name = struct_name_str, fields_names = names, fields_types = types,
                generic_parameters = generics, generic_parameters_types = [],
                struct_is_packed = is_packed, struct_is_generic = is_generic_struct,
                struct_is_extern = False\<rparr>)))))))))))"

subsection \<open>Enumerations and type aliases\<close>

text \<open>
  The elements of an enumeration: the names with their values, the explicit values seen, the next
  implicit value, and whether explicit values are in use.
\<close>

record enum_elements =
  enum_values_indexes :: "(string \<times> int) list"
  explicit_values :: "int list"
  enum_index :: int
  has_explicit_values :: bool

definition enum_explicit_value :: "procs \<Rightarrow> token \<Rightarrow> enum_elements \<Rightarrow> enum_elements parse" where
  "enum_explicit_value P enum_value es =
     and_then advanced_token
     (bind (p_expression P) (\<lambda>field_value.
      case as_number field_value of
        Some (number_value_token, _) \<Rightarrow>
          if is_float_number_token number_value_token
          then stop_error (position enum_value)
            ''Enum field explicit value must be integer value not float''
          else
            bind (stoi (literal number_value_token)) (\<lambda>explicit_value.
            if contains (explicit_values es) explicit_value
            then stop_error (position enum_value)
              (''There is also one enum field with explicit value '' @ to_string explicit_value)
            else return_p (es\<lparr>explicit_values := explicit_value # explicit_values es,
              enum_values_indexes := enum_values_indexes es @ [(literal enum_value, explicit_value)],
              has_explicit_values := True\<rparr>))
      | None \<Rightarrow> stop_error (position enum_value)
          ''Enum field explicit value must be integer expression''))"

definition enum_implicit_value :: "token \<Rightarrow> enum_elements \<Rightarrow> enum_elements parse" where
  "enum_implicit_value enum_value es =
     (if has_explicit_values es
      then stop_error (position enum_value)
        ''You must add explicit value to all enum fields or to no one''
      else return_p (es\<lparr>enum_index := enum_index es + 1,
        enum_values_indexes := enum_values_indexes es @ [(literal enum_value, enum_index es)]\<rparr>))"

definition enum_element ::
  "procs \<Rightarrow> enum_elements \<Rightarrow> (enum_elements + enum_elements) parse" where
  "enum_element P es =
     bind (list_ends True TOKEN_CLOSE_BRACE) (\<lambda>ends.
     if ends then return_p (Inr es)
     else
       bind (consume_kind TOKEN_IDENTIFIER ''Expect Symbol as enum value'') (\<lambda>enum_value.
       if map_of (enum_values_indexes es) (literal enum_value) \<noteq> None
       then stop_error (position enum_value) ''Can't declare 2 elements with the same name''
       else
         bind (if_current TOKEN_EQUAL (enum_explicit_value P enum_value es)
           (enum_implicit_value enum_value es)) (\<lambda>es.
         if_current TOKEN_COMMA (and_then advanced_token (return_p (Inl es))) (return_p (Inl es)))))"

definition parse_enum_declaration :: "procs \<Rightarrow> statement parse" where
  "parse_enum_declaration P =
     and_then (bind (consume_kind TOKEN_ENUM ''Expect enum keyword'') (\<lambda>enum_token. return_p ()))
     (bind (consume_kind TOKEN_IDENTIFIER ''Expect Symbol as enum name'') (\<lambda>enum_name.
      bind (if_current TOKEN_COLON (and_then advanced_token (p_type P)) (return_p i32_type))
        (\<lambda>element_type.
      and_then (assert_kind TOKEN_OPEN_BRACE ''Expect { after enum name'')
      (bind (loop (p_fuel P) (enum_element P)
         \<lparr>enum_values_indexes = [], explicit_values = [], enum_index = 0,
          has_explicit_values = False\<rparr>) (\<lambda>es.
       and_then (assert_kind TOKEN_CLOSE_BRACE ''Expect } in the end of enum declaration'')
       (and_then check_unnecessary_semicolon_warning
       (let enum_ty = \<lparr>enum_type_name = enum_name, enum_type_values = enum_values_indexes es,
              enum_type_element = element_type\<rparr> in
        and_then (update_context (\<lambda>c. c\<lparr>ctx_enumerations :=
           (ctx_enumerations c)(literal enum_name \<mapsto> enum_ty)\<rparr>))
        (return_p (EnumDeclaration enum_name enum_ty)))))))))"

definition parse_type_alias_declaration :: "procs \<Rightarrow> unit parse" where
  "parse_type_alias_declaration P =
     and_then (bind (consume_kind TOKEN_TYPE ''Expect type keyword'') (\<lambda>type_token. return_p ()))
     (bind (consume_kind TOKEN_IDENTIFIER ''Expect identifier for type alias'') (\<lambda>alias_token.
      bind (read (\<lambda>s. ctx_type_alias_table (pcontext s))) (\<lambda>aliases.
      if contains_alias aliases (literal alias_token)
      then stop_error (position alias_token)
        (''There already a type with name '' @ literal alias_token)
      else
        and_then (assert_kind TOKEN_EQUAL ''Expect = after alias name'')
        (bind (p_type P) (\<lambda>actual_type.
         if is_enum_type actual_type
         then stop_error (position alias_token) ''You can't use type alias for enum name''
         else if is_enum_element_type actual_type
         then stop_error (position alias_token) ''You can't use type alias for enum element''
         else
           and_then (assert_kind TOKEN_SEMICOLON ''Expect ; after actual type'')
           (update_context (\<lambda>c. c\<lparr>ctx_type_alias_table :=
              define_alias (literal alias_token) actual_type (ctx_type_alias_table c)\<rparr>)))))))"

subsection \<open>Declarations\<close>

text \<open>\<open>@prefix\<close>, \<open>@infix\<close> and \<open>@postfix\<close> before a function or an operator.\<close>

definition call_kind_directive :: "procs \<Rightarrow> function_kind \<Rightarrow> string \<Rightarrow> statement parse" where
  "call_kind_directive P k msg =
     bind peek_and_advance_token (\<lambda>t.
     if_current TOKEN_FUN (parse_function_declaration P k)
     (if_current TOKEN_OPERATOR (parse_operator_function_declaraion P k)
     (stop_error (position t) msg)))"

definition parse_declaraions_directive :: "procs \<Rightarrow> statement parse" where
  "parse_declaraions_directive P =
     bind (consume_kind TOKEN_AT ''Expect `@` before directive name'') (\<lambda>hash_token.
     if_current TOKEN_IDENTIFIER
       (bind peek_current (\<lambda>directive.
        let directive_name = literal directive in
        if directive_name = ''intrinsic'' then parse_intrinsic_prototype P
        else if directive_name = ''extern'' then
          bind (is_next_kind TOKEN_STRUCT) (\<lambda>opaque.
          if opaque then and_then advanced_token (parse_structure_declaration P False True)
          else bind (parse_function_prototype P NORMAL_FUNCTION True) (\<lambda>p. return_p (FunctionPrototype p)))
        else if directive_name = ''prefix'' then call_kind_directive P PREFIX_FUNCTION
          ''prefix keyword used only for function and operators''
        else if directive_name = ''infix'' then call_kind_directive P INFIX_FUNCTION
          ''infix keyword used only for function and operators''
        else if directive_name = ''postfix'' then call_kind_directive P POSTFIX_FUNCTION
          ''postfix keyword used only for function and operators''
        else if directive_name = ''packed''
        then and_then advanced_token (parse_structure_declaration P True False)
        else stop_error (position hash_token)
          (''No declaraions directive with name '' @ directive_name)))
       (stop_error (position hash_token) ''Expect identifier as directive name''))"

definition parse_declaration_statement :: "procs \<Rightarrow> statement parse" where
  "parse_declaration_statement P =
     bind peek_current (\<lambda>t.
     let k = kind t in
     if k = TOKEN_FUN then parse_function_declaration P NORMAL_FUNCTION
     else if k = TOKEN_OPERATOR then parse_operator_function_declaraion P NORMAL_FUNCTION
     else if k = TOKEN_VAR then
       bind (is_next_kind TOKEN_OPEN_PAREN) (\<lambda>destructuring.
       if destructuring then parse_destructuring_field_declaration P True
       else parse_field_declaration P True)
     else if k = TOKEN_CONST then parse_compiletime_constants_declaraion P
     else if k = TOKEN_STRUCT then parse_structure_declaration P False False
     else if k = TOKEN_ENUM then parse_enum_declaration P
     else if k = TOKEN_AT then parse_declaraions_directive P
     else stop_error (position t) ''Invalid top level declaration statement'')"

subsection \<open>Files\<close>

record file_system =
  file_exists :: "string \<Rightarrow> bool"
  file_content :: "string \<Rightarrow> string"

text \<open>
  A library or a user file by its path: nothing if it is registered, an error with \<open>missing\<close> before
  the name if it does not exist, else its declarations, parsed by \<open>parse_file\<close>.
\<close>

definition load_file ::
  "file_system \<Rightarrow> (string \<Rightarrow> statement list parse) \<Rightarrow> token \<Rightarrow> string \<Rightarrow> string
    \<Rightarrow> statement list parse" where
  "load_file fs parse_file library_name library_path missing =
     bind (read (\<lambda>s. is_path_registered library_path (ctx_source_manager (pcontext s)))) (\<lambda>registered.
     if registered then return_p []
     else if \<not> file_exists fs library_path then stop_error (position library_name) missing
     else parse_file library_path)"

text \<open>
  \<open>import\<close> and \<open>load\<close> differ in the path of a name and in the messages.
\<close>

definition parse_file_declaration ::
  "(string \<Rightarrow> string parse) \<Rightarrow> (string \<Rightarrow> string \<Rightarrow> string) \<Rightarrow> string
    \<Rightarrow> file_system \<Rightarrow> (string \<Rightarrow> statement list parse) \<Rightarrow> nat \<Rightarrow> statement list parse" where
  "parse_file_declaration path_of missing expect_name fs parse_file fuel =
     and_then advanced_token
     (if_current TOKEN_OPEN_BRACE
       (and_then advanced_token
       (bind (loop fuel (\<lambda>tree_nodes.
          bind (list_ends True TOKEN_CLOSE_BRACE) (\<lambda>ends.
          if ends then return_p (Inr tree_nodes)
          else
            bind (consume_kind TOKEN_STRING expect_name) (\<lambda>library_name.
            bind (path_of (literal library_name)) (\<lambda>library_path.
            bind (load_file fs parse_file library_name library_path
                (missing (literal library_name) library_path)) (\<lambda>nodes.
            return_p (Inl (append_vectors tree_nodes nodes))))))) []) (\<lambda>tree_nodes.
        and_then (assert_kind TOKEN_CLOSE_BRACE ''Expect Close brace `}` after import block'')
        (and_then check_unnecessary_semicolon_warning (return_p tree_nodes)))))
       (bind (consume_kind TOKEN_STRING expect_name) (\<lambda>library_name.
        and_then check_unnecessary_semicolon_warning
        (bind (path_of (literal library_name)) (\<lambda>library_path.
         load_file fs parse_file library_name library_path
           (missing (literal library_name) library_path))))))"

definition parse_import_declaration ::
  "file_system \<Rightarrow> (string \<Rightarrow> statement list parse) \<Rightarrow> nat \<Rightarrow> statement list parse" where
  "parse_import_declaration = parse_file_declaration
     (\<lambda>name. return_p (''../lib/'' @ name @ ''.amun''))
     (\<lambda>name path. ''No standard library with name '' @ name)
     ''Expect string as library name after import statement''"

definition parse_load_declaration ::
  "file_system \<Rightarrow> (string \<Rightarrow> statement list parse) \<Rightarrow> nat \<Rightarrow> statement list parse" where
  "parse_load_declaration = parse_file_declaration
     (\<lambda>name. read (\<lambda>s. file_parent_path s @ name @ ''.amun''))
     (\<lambda>name path. ''Path not exists '' @ path)
     ''Expect string as file name after load statement''"

text \<open>
  A file gets a parser of its own on the same context.  Its \<open>Stop\<close> was caught in \<open>parse_unit\<close>; an
  error it reported stops the parser that loads it, too.
\<close>

definition parse_single_source_file ::
  "(parser \<Rightarrow> statement list outcome) \<Rightarrow> file_system \<Rightarrow> string \<Rightarrow> statement list parse" where
  "parse_single_source_file parse_unit fs path s =
     (let source_content = file_content fs path;
          (new_id, manager) = register_source_path path (ctx_source_manager (pcontext s));
          ctx = (pcontext s)\<lparr>ctx_source_manager := manager\<rparr>
      in case parse_unit (new_parser ctx (new_tokenizer new_id source_content)) of
           Ok nodes p \<Rightarrow>
             (let s = s\<lparr>pcontext := pcontext p\<rparr>
              in if level_count ERROR_LEVEL (ctx_diagnostics (pcontext p)) > 0 then Stop s
                 else Ok nodes s)
         | Stop p \<Rightarrow> Stop (s\<lparr>pcontext := pcontext p\<rparr>)
         | Crash c \<Rightarrow> Crash c
         | OutOfFuel \<Rightarrow> OutOfFuel)"

subsection \<open>Compilation units\<close>

text \<open>One turn of the loop of \<open>parse_compilation_unit\<close>.\<close>

definition unit_step ::
  "file_system \<Rightarrow> (string \<Rightarrow> statement list parse) \<Rightarrow> procs \<Rightarrow> statement list
    \<Rightarrow> (statement list + statement list) parse" where
  "unit_step fs parse_file P tree_nodes =
     bind peek_current (\<lambda>t.
     let k = kind t in
     if k = TOKEN_END_OF_FILE then return_p (Inr tree_nodes)
     else if k = TOKEN_IMPORT then
       bind (parse_import_declaration fs parse_file (p_fuel P)) (\<lambda>nodes.
       return_p (Inl (append_vectors tree_nodes nodes)))
     else if k = TOKEN_LOAD then
       bind (parse_load_declaration fs parse_file (p_fuel P)) (\<lambda>nodes.
       return_p (Inl (append_vectors tree_nodes nodes)))
     else if k = TOKEN_TYPE then
       and_then (parse_type_alias_declaration P) (return_p (Inl tree_nodes))
     else bind (parse_declaration_statement P) (\<lambda>d. return_p (Inl (tree_nodes @ [d]))))"

text \<open>The loop under \<open>try\<close>: a \<open>Stop\<close> ends it with the nodes collected so far.\<close>

primrec unit_loop ::
  "nat \<Rightarrow> (statement list \<Rightarrow> (statement list + statement list) parse) \<Rightarrow> statement list
    \<Rightarrow> statement list parse" where
  "unit_loop 0 step tree_nodes s = OutOfFuel"
| "unit_loop (Suc n) step tree_nodes s = (case step tree_nodes s of
     Ok (Inl tree_nodes') s' \<Rightarrow> unit_loop n step tree_nodes' s'
   | Ok (Inr tree_nodes') s' \<Rightarrow> Ok tree_nodes' s'
   | Stop s' \<Rightarrow> Ok tree_nodes s'
   | Crash c \<Rightarrow> Crash c
   | OutOfFuel \<Rightarrow> OutOfFuel)"

definition parse_compilation_unit ::
  "file_system \<Rightarrow> (string \<Rightarrow> statement list parse) \<Rightarrow> procs \<Rightarrow> statement list parse" where
  "parse_compilation_unit fs parse_file P s =
     (case and_then advanced_token advanced_token s of
        Ok _ s' \<Rightarrow> unit_loop (p_fuel P) (unit_step fs parse_file P) [] s'
      | Stop s' \<Rightarrow> Ok [] s'
      | Crash c \<Rightarrow> Crash c
      | OutOfFuel \<Rightarrow> OutOfFuel)"

text \<open>
  The fuel for a file is bounded by its length; \<open>depth\<close> bounds the nesting of files that load files.
\<close>

definition unit_fuel :: "parser \<Rightarrow> nat" where
  "unit_fuel s = length (source_code (ptokenizer s)) + 4"

primrec parse_unit_at :: "file_system \<Rightarrow> nat \<Rightarrow> statement list parse" where
  "parse_unit_at fs 0 s = OutOfFuel"
| "parse_unit_at fs (Suc depth) s =
     parse_compilation_unit fs (parse_single_source_file (parse_unit_at fs depth) fs)
       (procs_at (unit_fuel s)) s"

end
