(* ===== verification/Ast_Wellformed.thy ===== *)
theory Ast_Wellformed
  imports Ast
begin

text \<open>
  What the later phases rely on in a syntax tree: every operator token is one of its node's operators,
  parallel vectors have equal lengths, a switch expression has a case, the operand of \<open>@vec\<close> is an array
  and of \<open>defer\<close> a call, and every \<open>break\<close> and \<open>continue\<close> names at most as many loops as enclose it in its
  function or lambda.  The parser establishes this (theory \<open>Parser_Totality\<close>).
\<close>

definition binary_kinds :: "token_kind list" where
  "binary_kinds = [TOKEN_PLUS, TOKEN_MINUS, TOKEN_STAR, TOKEN_SLASH, TOKEN_PERCENT]"

definition bitwise_kinds :: "token_kind list" where
  "bitwise_kinds = [TOKEN_AND, TOKEN_OR, TOKEN_XOR, TOKEN_LEFT_SHIFT, TOKEN_RIGHT_SHIFT]"

definition comparison_kinds :: "token_kind list" where
  "comparison_kinds = [TOKEN_EQUAL_EQUAL, TOKEN_BANG_EQUAL, TOKEN_GREATER, TOKEN_GREATER_EQUAL,
     TOKEN_SMALLER, TOKEN_SMALLER_EQUAL]"

definition prefix_kinds :: "token_kind list" where
  "prefix_kinds = unary_operators @ [TOKEN_PLUS_PLUS, TOKEN_MINUS_MINUS]"

definition postfix_kinds :: "token_kind list" where
  "postfix_kinds = [TOKEN_PLUS_PLUS, TOKEN_MINUS_MINUS]"

definition number_kinds :: "token_kind list" where
  "number_kinds = map snd number_kind_token_kind @ [TOKEN_INT, TOKEN_FLOAT]"

text \<open>The values of \<open>check_compiletime_constants_expression\<close>.\<close>

definition compiletime_constant :: "expression \<Rightarrow> bool" where
  "compiletime_constant e = (case e of
     CharacterExpression _ _ \<Rightarrow> True
   | StringExpression _ _ \<Rightarrow> True
   | NumberExpression _ _ \<Rightarrow> True
   | BooleanExpression _ _ \<Rightarrow> True
   | PrefixUnaryExpression op (NumberExpression _ _) _ \<Rightarrow> kind op = TOKEN_MINUS
   | _ \<Rightarrow> False)"

definition switch_label :: "expression \<Rightarrow> bool" where
  "switch_label e \<longleftrightarrow> get_ast_node_type e = AST_NUMBER \<or> get_ast_node_type e = AST_ENUM_ELEMENT"

text \<open>\<open>stmt_ok d\<close>: the statement is well-formed inside \<open>d\<close> loops.\<close>

fun expr_ok :: "expression \<Rightarrow> bool"
  and stmt_ok :: "int \<Rightarrow> statement \<Rightarrow> bool"
  and block_ok :: "int \<Rightarrow> conditional_block \<Rightarrow> bool"
  and case_ok :: "int \<Rightarrow> switch_case \<Rightarrow> bool" where
  "expr_ok (IfExpression ts cs vs _) =
     (cs \<noteq> [] \<and> length ts = length cs \<and> length vs = length cs
      \<and> list_all expr_ok cs \<and> list_all expr_ok vs)"
| "expr_ok (SwitchExpression _ a cs vs d _ opk) =
     (expr_ok a \<and> cs \<noteq> [] \<and> length vs = length cs \<and> list_all switch_label cs
      \<and> list_all expr_ok cs \<and> list_all expr_ok vs
      \<and> (case d of None \<Rightarrow> True | Some e \<Rightarrow> expr_ok e) \<and> contains comparisons_operators opk)"
| "expr_ok (TupleExpression _ vs _) = (vs \<noteq> [] \<and> list_all expr_ok vs)"
| "expr_ok (AssignExpression l t r _) =
     (expr_ok l \<and> expr_ok r \<and> contains (TOKEN_EQUAL # binary_kinds @ bitwise_kinds) (kind t))"
| "expr_ok (BinaryExpression l t r _) = (expr_ok l \<and> expr_ok r \<and> contains binary_kinds (kind t))"
| "expr_ok (BitwiseExpression l t r _) = (expr_ok l \<and> expr_ok r \<and> contains bitwise_kinds (kind t))"
| "expr_ok (ComparisonExpression l t r _) =
     (expr_ok l \<and> expr_ok r \<and> contains comparison_kinds (kind t))"
| "expr_ok (LogicalExpression l t r _) =
     (expr_ok l \<and> expr_ok r \<and> contains [TOKEN_AND_AND, TOKEN_OR_OR] (kind t))"
| "expr_ok (PrefixUnaryExpression t r _) = (expr_ok r \<and> contains prefix_kinds (kind t))"
| "expr_ok (PostfixUnaryExpression t r _) = (expr_ok r \<and> contains postfix_kinds (kind t))"
| "expr_ok (CallExpression _ c args _ _) = (expr_ok c \<and> list_all expr_ok args)"
| "expr_ok (InitializeExpression _ _ args) = list_all expr_ok args"
| "expr_ok (LambdaExpression _ _ ns ts _ body _) = (length ns = length ts \<and> list_all (stmt_ok 0) body)"
| "expr_ok (DotExpression _ _ _ c _ _) = expr_ok c"
| "expr_ok (CastExpression _ _ v) = expr_ok v"
| "expr_ok (ValueSizeExpression v) = expr_ok v"
| "expr_ok (IndexExpression _ v i _) = (expr_ok v \<and> expr_ok i)"
| "expr_ok (ArrayExpression _ vs _ _) = list_all expr_ok vs"
| "expr_ok (VectorExpression a) = (expr_ok a \<and> get_ast_node_type a = AST_ARRAY)"
| "expr_ok (StringExpression v _) = (kind v = TOKEN_STRING)"
| "expr_ok (NumberExpression v _) = contains number_kinds (kind v)"
| "expr_ok (CharacterExpression v _) = (kind v = TOKEN_CHARACTER)"
| "expr_ok (BooleanExpression v _) = (kind v = TOKEN_TRUE \<or> kind v = TOKEN_FALSE)"
| "expr_ok _ = True"
| "stmt_ok d (BlockStatement ss) = list_all (stmt_ok d) ss"
| "stmt_ok d (FieldDeclaration _ t v _ explicit) =
     ((explicit \<longleftrightarrow> t \<noteq> NoneType) \<and> (case v of None \<Rightarrow> True | Some e \<Rightarrow> expr_ok e))"
| "stmt_ok d (DestructuringDeclaraion ns ts v _ _) = (length ns = length ts \<and> expr_ok v)"
| "stmt_ok d (ConstDeclaration _ v) = (expr_ok v \<and> compiletime_constant v)"
| "stmt_ok d (FunctionDeclaration _ body) = stmt_ok 0 body"
| "stmt_ok d (OperatorFunctionDeclaraion op _ body) =
     (stmt_ok 0 body \<and> is_supported_overloading_operator (kind op))"
| "stmt_ok d (EnumDeclaration _ t) = distinct (map fst (enum_type_values t))"
| "stmt_ok d (IfStatement bs _) = (bs \<noteq> [] \<and> list_all (block_ok d) bs)"
| "stmt_ok d (ForRangeStatement _ _ a b step body) =
     (expr_ok a \<and> expr_ok b \<and> (case step of None \<Rightarrow> True | Some e \<Rightarrow> expr_ok e)
      \<and> stmt_ok (d + 1) body)"
| "stmt_ok d (ForEachStatement _ _ _ c body) = (expr_ok c \<and> stmt_ok (d + 1) body)"
| "stmt_ok d (ForeverStatement _ body) = stmt_ok (d + 1) body"
| "stmt_ok d (WhileStatement _ c body) = (expr_ok c \<and> stmt_ok (d + 1) body)"
| "stmt_ok d (SwitchStatement _ a cs opk _ _) =
     (expr_ok a \<and> list_all (case_ok d) cs \<and> contains comparisons_operators opk)"
| "stmt_ok d (ReturnStatement _ v has_value) =
     ((has_value \<longleftrightarrow> v \<noteq> None) \<and> (case v of None \<Rightarrow> True | Some e \<Rightarrow> expr_ok e))"
| "stmt_ok d (DeferStatement c) = (expr_ok c \<and> get_ast_node_type c = AST_CALL)"
| "stmt_ok d (BreakStatement _ _ n) = (1 \<le> n \<and> n \<le> d)"
| "stmt_ok d (ContinueStatement _ _ n) = (1 \<le> n \<and> n \<le> d)"
| "stmt_ok d (ExpressionStatement e) = expr_ok e"
| "stmt_ok d _ = True"
| "block_ok d (ConditionalBlock _ c body) = (expr_ok c \<and> stmt_ok d body)"
| "case_ok d (SwitchCase _ vs body) = (list_all expr_ok vs \<and> stmt_ok d body)"

subsection \<open>The node constructors\<close>

lemmas mk_defs = mk_field_declaration_def mk_if_expression_def mk_switch_expression_def mk_tuple_def
  mk_assign_def mk_binary_def mk_bitwise_def mk_comparison_def mk_logical_def mk_prefix_unary_def
  mk_postfix_unary_def mk_call_def mk_lambda_def mk_dot_def mk_index_def mk_array_def mk_string_def
  mk_literal_def mk_number_def mk_character_def mk_boolean_def mk_null_def mk_undefined_def

end
