(* ===== verification/Parser_Logic.thy ===== *)
theory Parser_Logic
  imports Parser_Declarations Ast_Wellformed Tokenizer_Safety
begin

text \<open>
  A total-correctness logic for parsing functions.  \<open>wp e m s Q\<close>: from the state \<open>s\<close>, the function \<open>m\<close>
  returns with a value and state satisfying \<open>Q\<close>, or stops having reported exactly one error more
  than \<open>e\<close>, or crashes in one of the three ways of \<open>known_crash\<close>; it never runs out of fuel.  The
  rules of the token operations, of the checks and of the loops are collected in \<open>wp_rules\<close>.
\<close>

named_theorems wp_rules \<open>rules of the parsing functions, as introduction rules\<close>

subsection \<open>Measure, invariant, weakest precondition\<close>

definition token_weight :: "token option \<Rightarrow> nat" where
  "token_weight t = (case t of Some t \<Rightarrow> (if kind t = TOKEN_END_OF_FILE then 0 else 1) | None \<Rightarrow> 0)"

text \<open>A bound on the tokens before the end of the file.\<close>

definition tokens_left :: "parser \<Rightarrow> nat" where
  "tokens_left s = left (ptokenizer s) + token_weight (next_token s) + token_weight (current_token s)"

definition errors :: "parser \<Rightarrow> nat" where
  "errors s = length (diagnostics (ctx_diagnostics (pcontext s)) ERROR_LEVEL)"

definition cur_kind :: "parser \<Rightarrow> token_kind" where
  "cur_kind s = kind (the (current_token s))"

text \<open>What a function leaves as it found it when it returns; the registered files may grow.\<close>

record ghost =
  g_errors :: nat
  g_levels :: "int list"
  g_scope :: ast_node_scope
  g_depth :: nat
  g_files :: "string set"

definition constants_ok :: "(string, expression) scoped_map \<Rightarrow> bool" where
  "constants_ok m \<longleftrightarrow> linked_scoped m \<noteq> []
     \<and> (\<forall>scope \<in> set (linked_scoped m). \<forall>e \<in> ran scope. expr_ok e \<and> compiletime_constant e)"

definition inv0 :: "ghost \<Rightarrow> parser \<Rightarrow> bool" where
  "inv0 g s \<longleftrightarrow> tz_ok (ptokenizer s) \<and> current_token s \<noteq> None \<and> next_token s \<noteq> None
     \<and> constants_ok (ctx_constants_table_map (pcontext s))
     \<and> None \<notin> ran (type_alias_table (ctx_type_alias_table (pcontext s)))
     \<and> errors s = g_errors g \<and> loop_levels_stack s = g_levels g \<and> current_ast_scope s = g_scope g
     \<and> length (linked_scoped (ctx_constants_table_map (pcontext s))) = g_depth g
     \<and> g_files g \<subseteq> set (files_set (ctx_source_manager (pcontext s)))"

definition inv :: "ghost \<Rightarrow> parser \<Rightarrow> bool" where
  "inv g s \<longleftrightarrow> inv0 g s \<and> previous_token s \<noteq> None"

definition known_crash :: "crash \<Rightarrow> bool" where
  "known_crash c \<longleftrightarrow> c = NullLiteral \<or> c = StoiOutOfRange \<or> c = AssertFailed"

definition wp :: "nat \<Rightarrow> 'a parse \<Rightarrow> parser \<Rightarrow> ('a \<Rightarrow> parser \<Rightarrow> bool) \<Rightarrow> bool" where
  "wp e m s Q = (case m s of Ok x s' \<Rightarrow> Q x s' | Stop s' \<Rightarrow> errors s' = Suc e
     | Crash c \<Rightarrow> known_crash c | OutOfFuel \<Rightarrow> False)"

lemma inv_inv0 [simp]: "inv g s \<Longrightarrow> inv0 g s"
  by (simp add: inv_def)

lemma wp_mono: "wp e m s P \<Longrightarrow> (\<And>x s'. P x s' \<Longrightarrow> Q x s') \<Longrightarrow> wp e m s Q"
  by (auto simp: wp_def split: outcome.splits)

subsection \<open>Control\<close>

lemma wp_return [wp_rules]: "Q x s \<Longrightarrow> wp e (return_p x) s Q"
  by (simp add: wp_def return_p_def)

lemma wp_bind [wp_rules]: "wp e m s (\<lambda>x s'. wp e (f x) s' Q) \<Longrightarrow> wp e (bind m f) s Q"
  by (auto simp: wp_def bind_def split: outcome.splits)

lemma wp_and_then [wp_rules]: "wp e m s (\<lambda>_ s'. wp e n s' Q) \<Longrightarrow> wp e (and_then m n) s Q"
  unfolding and_then_def by (rule wp_bind)

lemma wp_if [wp_rules]:
  "(b \<Longrightarrow> wp e m s Q) \<Longrightarrow> (\<not> b \<Longrightarrow> wp e n s Q) \<Longrightarrow> wp e (if b then m else n) s Q"
  by simp

lemma wp_case_prod [wp_rules]:
  "(\<And>a b. p = (a, b) \<Longrightarrow> wp e (f a b) s Q) \<Longrightarrow> wp e (case p of (a, b) \<Rightarrow> f a b) s Q"
  by (cases p) simp

lemma wp_case_option [wp_rules]:
  "(v = None \<Longrightarrow> wp e m s Q) \<Longrightarrow> (\<And>x. v = Some x \<Longrightarrow> wp e (f x) s Q) \<Longrightarrow>
   wp e (case v of None \<Rightarrow> m | Some x \<Rightarrow> f x) s Q"
  by (cases v) simp_all

lemma wp_let [wp_rules]: "(\<And>x. x = a \<Longrightarrow> wp e (f x) s Q) \<Longrightarrow> wp e (let x = a in f x) s Q"
  by simp

lemma wp_crash [wp_rules]: "known_crash c \<Longrightarrow> wp e (crash c) s Q"
  by (simp add: wp_def crash_def)

lemma known_crashes [simp]: "known_crash NullLiteral" "known_crash StoiOutOfRange"
  "known_crash AssertFailed" "\<not> known_crash BadOptionalAccess" "\<not> known_crash EmptyStack"
  "\<not> known_crash NullPointer" "\<not> known_crash TokenizerUndefined"
  by (simp_all add: known_crash_def)

lemma wp_read [wp_rules]: "Q (f s) s \<Longrightarrow> wp e (read f) s Q"
  by (simp add: wp_def read_def)

lemma wp_modify: "Q () (f s) \<Longrightarrow> wp e (modify f) s Q"
  by (simp add: wp_def modify_def)

lemma wp_update_context: "Q () (s\<lparr>pcontext := f (pcontext s)\<rparr>) \<Longrightarrow> wp e (update_context f) s Q"
  unfolding update_context_def by (rule wp_modify)

lemma wp_stop_error [wp_rules]: "inv0 g s \<Longrightarrow> wp (g_errors g) (stop_error loc msg) s Q"
  by (simp add: wp_def stop_error_def errors_def inv0_def report_error_def report_at_def)

lemma wp_loop:
  assumes "I a s" and "tokens_left s < n"
    and "\<And>a s. I a s \<Longrightarrow> wp e (body a) s (\<lambda>r s'. case r of
           Inl a' \<Rightarrow> I a' s' \<and> tokens_left s' < tokens_left s | Inr b \<Rightarrow> Q b s')"
  shows "wp e (loop n body a) s Q"
  using assms(1,2)
proof (induction n arbitrary: a s)
  case (Suc n)
  show ?case
  proof (simp, rule wp_bind, rule wp_mono [OF assms(3) [OF Suc.prems(1)]])
    fix r s' assume r: "case r of Inl a' \<Rightarrow> I a' s' \<and> tokens_left s' < tokens_left s | Inr b \<Rightarrow> Q b s'"
    show "wp e (case r of Inl a' \<Rightarrow> loop n body a' | Inr b \<Rightarrow> return_p b) s' Q"
      using r Suc.prems(2) by (cases r) (auto intro!: Suc.IH wp_return)
  qed
qed simp

subsection \<open>Token operations\<close>

lemma wp_peek_current [wp_rules]:
  "inv0 g s \<Longrightarrow> (\<And>t. current_token s = Some t \<Longrightarrow> cur_kind s = kind t \<Longrightarrow> Q t s) \<Longrightarrow>
   wp (g_errors g) peek_current s Q"
  by (auto simp: wp_def peek_current_def value_of_def return_p_def cur_kind_def inv0_def)

lemma wp_peek_previous [wp_rules]:
  "inv g s \<Longrightarrow> (\<And>t. previous_token s = Some t \<Longrightarrow> Q t s) \<Longrightarrow> wp (g_errors g) peek_previous s Q"
  by (auto simp: wp_def peek_previous_def value_of_def return_p_def inv_def)

lemma wp_peek_next_token [wp_rules]:
  "inv0 g s \<Longrightarrow> (\<And>t. next_token s = Some t \<Longrightarrow> Q t s) \<Longrightarrow> wp (g_errors g) peek_next_token s Q"
  by (auto simp: wp_def peek_next_token_def value_of_def return_p_def inv0_def)

lemma wp_is_current_kind [wp_rules]:
  "inv0 g s \<Longrightarrow> Q (cur_kind s = k) s \<Longrightarrow> wp (g_errors g) (is_current_kind k) s Q"
  unfolding is_current_kind_def by (rule wp_bind, erule wp_peek_current, rule wp_return) simp

lemma wp_is_next_kind [wp_rules]:
  "inv0 g s \<Longrightarrow> (\<And>b. Q b s) \<Longrightarrow> wp (g_errors g) (is_next_kind k) s Q"
  unfolding is_next_kind_def by (rule wp_bind, erule wp_peek_next_token, rule wp_return) simp

lemma wp_is_previous_kind [wp_rules]:
  "inv g s \<Longrightarrow> (\<And>b. Q b s) \<Longrightarrow> wp (g_errors g) (is_previous_kind k) s Q"
  unfolding is_previous_kind_def by (rule wp_bind, erule wp_peek_previous, rule wp_return) simp

lemma wp_is_source_available_p [wp_rules]:
  "inv0 g s \<Longrightarrow> Q (cur_kind s \<noteq> TOKEN_END_OF_FILE) s \<Longrightarrow> wp (g_errors g) is_source_available_p s Q"
  unfolding is_source_available_p_def by (rule wp_bind, erule wp_peek_current, rule wp_return) simp

lemma wp_if_current [wp_rules]:
  "inv0 g s \<Longrightarrow> (cur_kind s = k \<Longrightarrow> wp (g_errors g) m s Q) \<Longrightarrow>
   (cur_kind s \<noteq> k \<Longrightarrow> wp (g_errors g) n s Q) \<Longrightarrow>
   wp (g_errors g) (if_current k m n) s Q"
  unfolding if_current_def by (rule wp_bind, erule wp_is_current_kind) simp

lemma advanced_inv:
  assumes "inv0 g s" and "scanned (ptokenizer s) tok t"
  defines "s' \<equiv> s\<lparr>ptokenizer := t, previous_token := current_token s,
      current_token := next_token s, next_token := Some tok\<rparr>"
  shows "inv g s'" and "tokens_left s' \<le> tokens_left s"
    and "cur_kind s \<noteq> TOKEN_END_OF_FILE \<Longrightarrow> tokens_left s' < tokens_left s"
proof -
  show "inv g s'"
    using assms by (auto simp: inv_def inv0_def scanned_def errors_def)
  have *: "left t + token_weight (Some tok) \<le> left (ptokenizer s)"
    using assms(2) by (auto simp: scanned_def left_def token_weight_def same_source_def)
  show "tokens_left s' \<le> tokens_left s"
    using * by (simp add: tokens_left_def s'_def)
  show "tokens_left s' < tokens_left s" if "cur_kind s \<noteq> TOKEN_END_OF_FILE"
    using * that assms(1)
    by (auto simp: tokens_left_def s'_def token_weight_def inv0_def cur_kind_def)
qed

lemma wp_advanced_token:
  assumes "inv0 g s"
    and "\<And>s'. inv g s' \<Longrightarrow> tokens_left s' \<le> tokens_left s \<Longrightarrow>
      (cur_kind s \<noteq> TOKEN_END_OF_FILE \<Longrightarrow> tokens_left s' < tokens_left s) \<Longrightarrow>
      previous_token s' = current_token s \<Longrightarrow> Q () s'"
  shows "wp (g_errors g) advanced_token s Q"
proof -
  have "ensures (scan_next_token (ptokenizer s)) (\<lambda>(tok, t'). scanned (ptokenizer s) tok t')"
    using assms(1) by (intro scan_next_token_scanned) (simp add: inv0_def)
  then obtain tok t where scan: "scan_next_token (ptokenizer s) = Some (tok, t)"
    "scanned (ptokenizer s) tok t"
    by (auto simp: ensures_iff)
  note adv = advanced_inv [OF assms(1) scan(2)]
  show ?thesis
  proof (cases "kind tok = TOKEN_INVALID")
    case True
    have "inv0 g (s\<lparr>ptokenizer := t\<rparr>)"
      using assms(1) scan(2) by (simp add: inv0_def scanned_def errors_def)
    then show ?thesis
      using wp_stop_error [of g "s\<lparr>ptokenizer := t\<rparr>"] True scan(1)
      by (simp add: wp_def advanced_token_def)
  next
    case False
    have "Q () (s\<lparr>ptokenizer := t, previous_token := current_token s,
        current_token := next_token s, next_token := Some tok\<rparr>)"
      by (rule assms(2)) (use adv in simp_all)
    then show ?thesis using False scan(1) by (simp add: wp_def advanced_token_def)
  qed
qed

lemma wp_advanced [wp_rules]:
  assumes "inv0 g s"
    and "\<And>s'. inv g s' \<Longrightarrow> tokens_left s' \<le> tokens_left s \<Longrightarrow>
      (cur_kind s \<noteq> TOKEN_END_OF_FILE \<Longrightarrow> tokens_left s' < tokens_left s) \<Longrightarrow> Q () s'"
  shows "wp (g_errors g) advanced_token s Q"
  using assms(1) by (rule wp_advanced_token) (rule assms(2))

lemma wp_peek_and_advance_token [wp_rules]:
  assumes "inv0 g s"
    and "\<And>t s'. inv g s' \<Longrightarrow> tokens_left s' \<le> tokens_left s \<Longrightarrow>
      (kind t \<noteq> TOKEN_END_OF_FILE \<Longrightarrow> tokens_left s' < tokens_left s) \<Longrightarrow> kind t = cur_kind s \<Longrightarrow>
      current_token s = Some t \<Longrightarrow> previous_token s' = Some t \<Longrightarrow> Q t s'"
  shows "wp (g_errors g) peek_and_advance_token s Q"
  unfolding peek_and_advance_token_def
  by (rule wp_bind, rule wp_peek_current [OF assms(1)], rule wp_and_then,
      rule wp_advanced_token [OF assms(1)], rule wp_return, rule assms(2)) simp_all

lemma wp_consume_kind [wp_rules]:
  assumes "inv0 g s" and "k \<noteq> TOKEN_END_OF_FILE"
    and "\<And>t s'. inv g s' \<Longrightarrow> tokens_left s' < tokens_left s \<Longrightarrow> kind t = k \<Longrightarrow> Q t s'"
  shows "wp (g_errors g) (consume_kind k msg) s Q"
  unfolding consume_kind_def
proof (rule wp_bind, rule wp_is_current_kind [OF assms(1)], rule wp_if)
  assume "cur_kind s = k"
  then show "wp (g_errors g) (and_then advanced_token peek_previous) s Q"
    using assms(2)
    by (intro wp_and_then wp_advanced_token [OF assms(1)])
      (auto intro!: wp_peek_previous assms(3) simp: cur_kind_def, metis option.sel)
qed (intro wp_bind wp_peek_current [OF assms(1)] wp_stop_error [OF assms(1)])

lemma wp_assert_kind [wp_rules]:
  assumes "inv0 g s" and "k \<noteq> TOKEN_END_OF_FILE" and "k = TOKEN_SEMICOLON \<Longrightarrow> inv g s"
    and "\<And>s'. inv g s' \<Longrightarrow> tokens_left s' < tokens_left s \<Longrightarrow> Q () s'"
  shows "wp (g_errors g) (assert_kind k msg) s Q"
  unfolding assert_kind_def
proof (rule wp_bind, rule wp_is_current_kind [OF assms(1)], rule wp_if)
  assume "cur_kind s = k"
  then show "wp (g_errors g) advanced_token s Q"
    using assms(2) by (intro wp_advanced_token [OF assms(1)]) (auto intro: assms(4))
qed (intro wp_bind wp_peek_current [OF assms(1)] wp_if wp_peek_previous [OF assms(3)]
    wp_stop_error [OF assms(1)])

lemma wp_list_ends [wp_rules]:
  assumes "inv0 g s"
    and "\<And>b. b = ((ce \<and> cur_kind s = TOKEN_END_OF_FILE) \<or> cur_kind s = k) \<Longrightarrow> Q b s"
  shows "wp (g_errors g) (list_ends ce k) s Q"
  unfolding list_ends_def
  by (rule wp_bind, rule wp_is_source_available_p [OF assms(1)])
    (auto intro!: wp_return wp_is_current_kind [OF assms(1)] assms(2))

subsection \<open>Updates that the invariant does not see\<close>

lemma inv_simps [simp]:
  "inv g (s\<lparr>generic_parameters_names := ns\<rparr>) = inv g s"
  "inv g (s\<lparr>current_struct_name := n\<rparr>) = inv g s"
  "inv g (s\<lparr>current_struct_unknown_fields := i\<rparr>) = inv g s"
  "inv g (s\<lparr>pcontext := (pcontext s)\<lparr>ctx_functions := fs\<rparr>\<rparr>) = inv g s"
  "inv g (s\<lparr>pcontext := (pcontext s)\<lparr>ctx_enumerations := es\<rparr>\<rparr>) = inv g s"
  "inv g (s\<lparr>pcontext := (pcontext s)\<lparr>ctx_diagnostics := report_warning loc msg
     (ctx_diagnostics (pcontext s))\<rparr>\<rparr>) = inv g s"
  by (simp_all add: inv_def inv0_def errors_def report_warning_def report_at_def)

lemma inv_resolve_source_path [simp]:
  "resolve_source_path i (ctx_source_manager (pcontext s)) = (path, m) \<Longrightarrow>
   inv g (s\<lparr>pcontext := (pcontext s)\<lparr>ctx_source_manager := m\<rparr>\<rparr>) = inv g s"
  by (auto simp: inv_def inv0_def errors_def resolve_source_path_def split: option.splits)

lemma ran_update_subset: "ran (m(k \<mapsto> v)) \<subseteq> insert v (ran m)"
  by (auto simp: ran_def split: if_splits)

lemma inv_define_alias [simp]:
  "inv g s \<Longrightarrow> inv g (s\<lparr>pcontext := (pcontext s)\<lparr>ctx_type_alias_table :=
     define_alias a t (ctx_type_alias_table (pcontext s))\<rparr>\<rparr>)"
  "inv g s \<Longrightarrow> inv g (s\<lparr>pcontext := (pcontext s)\<lparr>ctx_structures := sts, ctx_type_alias_table :=
     define_alias a t (ctx_type_alias_table (pcontext s))\<rparr>\<rparr>)"
  using ran_update_subset [of "type_alias_table (ctx_type_alias_table (pcontext s))" a "Some t"]
  by (auto simp: inv_def inv0_def errors_def define_alias_def)

lemma tokens_left_simps [simp]:
  "tokens_left (s\<lparr>generic_parameters_names := ns\<rparr>) = tokens_left s"
  "tokens_left (s\<lparr>current_struct_name := n\<rparr>) = tokens_left s"
  "tokens_left (s\<lparr>current_struct_unknown_fields := i\<rparr>) = tokens_left s"
  "tokens_left (s\<lparr>current_ast_scope := sc\<rparr>) = tokens_left s"
  "tokens_left (s\<lparr>loop_levels_stack := ls\<rparr>) = tokens_left s"
  "tokens_left (s\<lparr>pcontext := c\<rparr>) = tokens_left s"
  by (simp_all add: tokens_left_def)

lemma cur_kind_simps [simp]:
  "cur_kind (s\<lparr>generic_parameters_names := ns\<rparr>) = cur_kind s"
  "cur_kind (s\<lparr>current_struct_name := n\<rparr>) = cur_kind s"
  "cur_kind (s\<lparr>current_struct_unknown_fields := i\<rparr>) = cur_kind s"
  "cur_kind (s\<lparr>current_ast_scope := sc\<rparr>) = cur_kind s"
  "cur_kind (s\<lparr>loop_levels_stack := ls\<rparr>) = cur_kind s"
  "cur_kind (s\<lparr>pcontext := c\<rparr>) = cur_kind s"
  by (simp_all add: cur_kind_def)

subsection \<open>Aliases and constants\<close>

lemma resolve_alias_inv:
  assumes "inv0 g s" and "contains_alias (ctx_type_alias_table (pcontext s)) a"
  shows "fst (resolve_alias a (ctx_type_alias_table (pcontext s))) \<noteq> None"
proof -
  obtain t where t: "type_alias_table (ctx_type_alias_table (pcontext s)) a = Some t"
    using assms(2) by (auto simp: contains_alias_def)
  then have "t \<noteq> None" using assms(1) by (auto simp: inv0_def intro: ranI)
  then show ?thesis using t by (simp add: resolve_alias_def)
qed

lemma lookup_from_scope:
  "lookup_from ms k n = Some (v, i) \<Longrightarrow> n \<le> length ms \<Longrightarrow> \<exists>m \<in> set ms. v \<in> ran m"
  by (induction n) (force simp: ran_def split: option.splits)+

lemma lookup_constants:
  "constants_ok m \<Longrightarrow> lookup m k = Some e \<Longrightarrow> expr_ok e \<and> compiletime_constant e"
  using lookup_from_scope [of "linked_scoped m" k "length (linked_scoped m)"]
  by (fastforce simp: lookup_def constants_ok_def)

lemma is_defined_lookup: "is_defined m k \<Longrightarrow> lookup m k \<noteq> None"
  by (simp add: is_defined_def lookup_def)

lemma ran_scope_update:
  "scope \<in> set (ms[i := m]) \<Longrightarrow> e \<in> ran scope \<Longrightarrow> (\<exists>scope' \<in> set ms. e \<in> ran scope') \<or> e \<in> ran m"
  using set_update_subset_insert [of ms i m] by blast

lemma define_constant:
  assumes "constants_ok m" and "expr_ok e" and "compiletime_constant e"
  obtains b m' where "define_symbol k e m = Some (b, m')" and "constants_ok m'"
    and "length (linked_scoped m') = length (linked_scoped m)"
proof (cases "last (linked_scoped m) k = None")
  case True
  let ?m = "m\<lparr>linked_scoped := (linked_scoped m)[length (linked_scoped m) - 1 :=
    (last (linked_scoped m))(k \<mapsto> e)]\<rparr>"
  have last: "last (linked_scoped m) \<in> set (linked_scoped m)"
    using assms(1) by (simp add: constants_ok_def)
  have "expr_ok e' \<and> compiletime_constant e'"
    if e': "scope \<in> set (linked_scoped ?m)" "e' \<in> ran scope" for scope e'
  proof -
    have "(\<exists>scope' \<in> set (linked_scoped m). e' \<in> ran scope') \<or> e' = e"
      using ran_scope_update [OF e'(1)[simplified] e'(2)]
        ran_update_subset [of "last (linked_scoped m)" k e] last by blast
    then show ?thesis using assms by (auto simp: constants_ok_def)
  qed
  then have "constants_ok ?m"
    using assms(1) by (auto simp: constants_ok_def)
  then show ?thesis
    using that [of True ?m] assms(1) True by (simp add: define_symbol_def constants_ok_def)
next
  case False
  then show ?thesis
    using that [of False m] assms(1) by (simp add: define_symbol_def constants_ok_def)
qed

lemma inv_define_constant:
  "inv g s \<Longrightarrow> constants_ok m \<Longrightarrow>
   length (linked_scoped m) = length (linked_scoped (ctx_constants_table_map (pcontext s))) \<Longrightarrow>
   inv g (s\<lparr>pcontext := (pcontext s)\<lparr>ctx_constants_table_map := m\<rparr>\<rparr>)"
  by (simp add: inv_def inv0_def errors_def)

lemma inv0_constants: "inv0 g s \<Longrightarrow> constants_ok (ctx_constants_table_map (pcontext s))"
  by (simp add: inv0_def)

subsection \<open>Checks\<close>

lemma wp_two_tokens_error: "inv g s \<Longrightarrow> wp (g_errors g) (two_tokens_error ops loc lit) s Q"
  by (induction ops) (auto intro!: wp_rules)

lemma wp_unexpected_token_error [wp_rules]:
  "inv g s \<Longrightarrow> wp (g_errors g) unexpected_token_error s Q"
  unfolding unexpected_token_error_def
  by (intro wp_rules wp_two_tokens_error; (assumption | rule inv_inv0)?) simp_all

lemma wp_get_number_kind [wp_rules]:
  "inv0 g s \<Longrightarrow> (\<And>n. contains number_token_kinds k \<Longrightarrow> Q n s) \<Longrightarrow>
   wp (g_errors g) (get_number_kind k) s Q"
  unfolding get_number_kind_def
  by (intro wp_rules; assumption?) (auto simp: number_token_kinds_def)

lemma wp_check_semicolon [wp_rules]:
  "inv g s \<Longrightarrow> (\<And>s'. inv g s' \<Longrightarrow> tokens_left s' \<le> tokens_left s \<Longrightarrow> Q () s') \<Longrightarrow>
   wp (g_errors g) check_unnecessary_semicolon_warning s Q"
  unfolding check_unnecessary_semicolon_warning_def
  by (intro wp_rules wp_update_context; (assumption | rule inv_inv0)?) simp_all

lemma wp_stoi [wp_rules]: "(\<And>v. Q v s) \<Longrightarrow> wp e (stoi lit) s Q"
  unfolding stoi_def by (intro wp_rules) simp_all

lemma wp_check_kind_count [wp_rules]:
  "inv0 g s \<Longrightarrow> Q () s \<Longrightarrow> wp (g_errors g) (check_function_kind_paramters_count k n loc) s Q"
  unfolding check_function_kind_paramters_count_def by (intro wp_rules)

lemma compiletime_constant_prefix:
  "as_prefix_unary e = Some (op, right) \<Longrightarrow> get_ast_node_type right = AST_NUMBER \<Longrightarrow>
   kind op = TOKEN_MINUS \<Longrightarrow> compiletime_constant e"
  by (cases e; cases right) (auto simp: as_prefix_unary_def get_ast_node_type_def compiletime_constant_def)

lemma compiletime_constant_literal:
  "get_ast_node_type e \<in> {AST_CHARACTER, AST_STRING, AST_NUMBER, AST_BOOL} \<Longrightarrow> compiletime_constant e"
  by (cases e) (auto simp: get_ast_node_type_def compiletime_constant_def)

lemma wp_check_constant [wp_rules]:
  "inv0 g s \<Longrightarrow> (compiletime_constant c \<Longrightarrow> Q () s) \<Longrightarrow>
   wp (g_errors g) (check_compiletime_constants_expression c loc) s Q"
  unfolding check_compiletime_constants_expression_def
  by (intro wp_rules; assumption?)
    (auto intro: compiletime_constant_prefix compiletime_constant_literal)

end
