(* ===== verification/Parser_Types_Total.thy ===== *)
theory Parser_Types_Total
  imports Parser_Logic
begin

text \<open>
  The contract of the parsing functions and its proof for the type parser.  \<open>eats n H m A\<close>: from a state
  with fewer than \<open>n\<close> tokens left, \<open>m\<close> is correct in the sense of \<open>wp\<close>, restores what the invariant
  fixes, consumes at least one token and returns a value satisfying \<open>A\<close>.  The locale \<open>parser_procs\<close>
  assumes the contract of the functions that recursion goes through; the theories of expressions and
  statements continue it.
\<close>

subsection \<open>The contract\<close>

definition eats :: "nat \<Rightarrow> (ghost \<Rightarrow> bool) \<Rightarrow> 'a parse \<Rightarrow> (ghost \<Rightarrow> 'a \<Rightarrow> bool) \<Rightarrow> bool" where
  "eats n H m A \<longleftrightarrow> (\<forall>g s. inv g s \<longrightarrow> H g \<longrightarrow> tokens_left s < n \<longrightarrow>
     wp (g_errors g) m s (\<lambda>x s'. inv g s' \<and> tokens_left s' < tokens_left s \<and> A g x))"

abbreviation anywhere :: "ghost \<Rightarrow> bool" where
  "anywhere \<equiv> \<lambda>_. True"

definition in_body :: "ghost \<Rightarrow> bool" where
  "in_body g \<longleftrightarrow> (case g_levels g of [] \<Rightarrow> False | n # _ \<Rightarrow> 0 \<le> n)"

lemma eatsI:
  "(\<And>g s. inv g s \<Longrightarrow> H g \<Longrightarrow> tokens_left s < n \<Longrightarrow>
     wp (g_errors g) m s (\<lambda>x s'. inv g s' \<and> tokens_left s' < tokens_left s \<and> A g x)) \<Longrightarrow> eats n H m A"
  by (simp add: eats_def)

lemma wp_eats:
  "eats n H m A \<Longrightarrow> inv g s \<Longrightarrow> H g \<Longrightarrow> tokens_left s < n \<Longrightarrow>
   (\<And>x s'. inv g s' \<Longrightarrow> tokens_left s' < tokens_left s \<Longrightarrow> A g x \<Longrightarrow> Q x s') \<Longrightarrow>
   wp (g_errors g) m s Q"
  unfolding eats_def by (blast intro: wp_mono)

lemma eats_anywhere: "eats n anywhere m A \<Longrightarrow> eats n H m A"
  by (simp add: eats_def)

lemma eats_less: "eats n H m A \<Longrightarrow> k \<le> n \<Longrightarrow> eats k H m A"
  by (simp add: eats_def)

text \<open>
  The turns of a loop: \<open>B\<close> holds of what goes round, \<open>R\<close> of what comes out, and a turn that goes on
  consumes a token.
\<close>

definition turns :: "nat \<Rightarrow> (ghost \<Rightarrow> bool) \<Rightarrow> ('a \<Rightarrow> ('a + 'b) parse) \<Rightarrow> (ghost \<Rightarrow> 'a \<Rightarrow> bool)
    \<Rightarrow> (ghost \<Rightarrow> 'b \<Rightarrow> bool) \<Rightarrow> bool" where
  "turns n H body B R \<longleftrightarrow> (\<forall>g s a. inv g s \<longrightarrow> H g \<longrightarrow> tokens_left s < n \<longrightarrow> B g a \<longrightarrow>
     wp (g_errors g) (body a) s (\<lambda>r s'. inv g s' \<and> (case r of
         Inl a' \<Rightarrow> tokens_left s' < tokens_left s \<and> B g a'
       | Inr b \<Rightarrow> tokens_left s' \<le> tokens_left s \<and> R g b)))"

lemma turnsI:
  "(\<And>g s a. inv g s \<Longrightarrow> H g \<Longrightarrow> tokens_left s < n \<Longrightarrow> B g a \<Longrightarrow>
     wp (g_errors g) (body a) s (\<lambda>r s'. inv g s' \<and> (case r of
         Inl a' \<Rightarrow> tokens_left s' < tokens_left s \<and> B g a'
       | Inr b \<Rightarrow> tokens_left s' \<le> tokens_left s \<and> R g b))) \<Longrightarrow> turns n H body B R"
  by (simp add: turns_def)

lemma wp_turns:
  assumes "turns n H body B R" and "inv g s" and "H g" and "tokens_left s < n"
    and "tokens_left s < fuel" and "B g a"
    and "\<And>b s'. inv g s' \<Longrightarrow> tokens_left s' \<le> tokens_left s \<Longrightarrow> R g b \<Longrightarrow> Q b s'"
  shows "wp (g_errors g) (loop fuel body a) s Q"
proof (rule wp_loop [where I = "\<lambda>a s'. inv g s' \<and> tokens_left s' \<le> tokens_left s \<and> B g a"])
  fix a s' assume i: "inv g s' \<and> tokens_left s' \<le> tokens_left s \<and> B g a"
  then have "wp (g_errors g) (body a) s' (\<lambda>r s''. inv g s'' \<and> (case r of
         Inl a' \<Rightarrow> tokens_left s'' < tokens_left s' \<and> B g a'
       | Inr b \<Rightarrow> tokens_left s'' \<le> tokens_left s' \<and> R g b))"
    using assms(1,3,4) by (simp add: turns_def)
  then show "wp (g_errors g) (body a) s' (\<lambda>r s''. case r of
       Inl a' \<Rightarrow> (inv g s'' \<and> tokens_left s'' \<le> tokens_left s \<and> B g a') \<and> tokens_left s'' < tokens_left s'
     | Inr b \<Rightarrow> Q b s'')"
    by (rule wp_mono) (use i in \<open>auto split: sum.splits intro: assms(7)\<close>)
qed (use assms in simp_all)

lemma turns_comma_list:
  assumes "eats n anywhere item A"
  shows "turns n anywhere (\<lambda>xs. bind (list_ends check_end k) (\<lambda>ends.
     if ends then return_p (Inr xs)
     else bind item (\<lambda>x.
       if_current TOKEN_COMMA
         (and_then advanced_token (return_p (Inl (xs @ [x]))))
         (return_p (if strict then Inr (xs @ [x]) else Inl (xs @ [x]))))))
    (\<lambda>g. list_all (A g)) (\<lambda>g. list_all (A g))"
  by (intro turnsI wp_rules wp_eats [OF assms] inv_inv0; assumption?) auto

lemma wp_comma_list:
  assumes "eats n anywhere item A" and "inv g s" and "tokens_left s < n" and "tokens_left s < fuel"
    and "\<And>xs s'. inv g s' \<Longrightarrow> tokens_left s' \<le> tokens_left s \<Longrightarrow> list_all (A g) xs \<Longrightarrow> Q xs s'"
  shows "wp (g_errors g) (comma_list fuel ce st k item) s Q"
  unfolding comma_list_def
  by (rule wp_turns [OF turns_comma_list [OF assms(1)]]) (use assms in simp_all)

locale parser_procs =
  fixes P :: procs and N :: nat
  assumes fuel: "p_fuel P = N"
    and expression: "eats N anywhere (p_expression P) (\<lambda>_. expr_ok)"
    and infix_call: "eats N anywhere (p_infix_call P) (\<lambda>_. expr_ok)"
    and prefix: "eats N anywhere (p_prefix P) (\<lambda>_. expr_ok)"
    and statement: "eats N in_body (p_statement P) (\<lambda>g. stmt_ok (hd (g_levels g)))"
    and type: "eats N anywhere (p_type P) (\<lambda>_ _. True)"
    and type_with_prefix: "eats N anywhere (p_type_with_prefix P) (\<lambda>_ _. True)"
begin

lemmas procs_wp [wp_rules] =
  expression [THEN wp_eats] infix_call [THEN wp_eats] prefix [THEN wp_eats] type [THEN wp_eats]
  type_with_prefix [THEN wp_eats] statement [THEN wp_eats]
  type [THEN wp_comma_list] expression [THEN wp_comma_list]

lemma parse_list_of_types: "eats (Suc N) anywhere (parse_list_of_types P) (\<lambda>_ _. True)"
  unfolding parse_list_of_types_def
  by (intro eatsI wp_rules inv_inv0; assumption?) (simp_all add: fuel)

lemmas parse_list_of_types_wp [wp_rules] = parse_list_of_types [THEN wp_eats]

lemma parse_pointer_to_type: "eats (Suc N) anywhere (parse_pointer_to_type P) (\<lambda>_ _. True)"
  unfolding parse_pointer_to_type_def
  by (intro eatsI wp_rules inv_inv0; assumption?) (simp_all add: fuel)

lemma parse_function_ptr_type: "eats (Suc N) anywhere (parse_function_ptr_type P) (\<lambda>_ _. True)"
  unfolding parse_function_ptr_type_def
  by (intro eatsI wp_rules inv_inv0; assumption?) (simp_all add: fuel)

lemma parse_tuple_type: "eats (Suc N) anywhere (parse_tuple_type P) (\<lambda>_ _. True)"
  unfolding parse_tuple_type_def
  by (intro eatsI wp_rules inv_inv0; assumption?) (simp_all add: fuel)

lemma parse_fixed_size_array_type:
  "eats (Suc N) anywhere (parse_fixed_size_array_type P) (\<lambda>_ _. True)"
  unfolding parse_fixed_size_array_type_def
  by (intro eatsI wp_rules inv_inv0; assumption?) (simp_all add: fuel)

lemma generic_arguments_wp [wp_rules]:
  "inv g s \<Longrightarrow> tokens_left s < N \<Longrightarrow>
   (\<And>ts s'. inv g s' \<Longrightarrow> tokens_left s' \<le> tokens_left s \<Longrightarrow> Q ts s') \<Longrightarrow>
   wp (g_errors g) (parse_generic_arguments_if_exists P) s Q"
  unfolding parse_generic_arguments_if_exists_def
  by (intro wp_rules inv_inv0; assumption?) (simp_all add: fuel)

lemma parse_identifier_type: "eats n anywhere parse_identifier_type (\<lambda>_ _. True)"
  unfolding parse_identifier_type_def
  by (intro eatsI wp_rules inv_inv0 wp_modify; assumption?)
    (auto dest: resolve_alias_inv [OF inv_inv0])

lemma parse_primary_type: "eats n anywhere parse_primary_type (\<lambda>_ _. True)"
  unfolding parse_primary_type_def
  by (intro eatsI wp_rules parse_identifier_type [THEN wp_eats] inv_inv0; assumption?) simp_all

lemma structure_of_wp [wp_rules]: "(\<And>x. Q x s) \<Longrightarrow> wp e (structure_of name f d) s Q"
  unfolding structure_of_def by (rule wp_read)

lemma parse_generic_struct_type: "eats (Suc N) anywhere (parse_generic_struct_type P) (\<lambda>_ _. True)"
  unfolding parse_generic_struct_type_def
  by (intro eatsI wp_rules parse_primary_type [THEN wp_eats] inv_inv0; assumption?)
    (simp_all add: fuel)

lemma parse_type_with_postfix: "eats (Suc N) anywhere (parse_type_with_postfix P) (\<lambda>_ _. True)"
  unfolding parse_type_with_postfix_def
  by (intro eatsI wp_rules parse_generic_struct_type [THEN wp_eats] inv_inv0; assumption?) simp_all

lemmas type_rules = parse_function_ptr_type [THEN wp_eats] parse_pointer_to_type [THEN wp_eats]
  parse_tuple_type [THEN wp_eats] parse_fixed_size_array_type [THEN wp_eats]
  parse_type_with_postfix [THEN wp_eats]

lemma parse_type_with_prefix: "eats (Suc N) anywhere (parse_type_with_prefix P) (\<lambda>_ _. True)"
  unfolding parse_type_with_prefix_def
  by (intro eatsI wp_rules type_rules inv_inv0; assumption?) simp_all

lemma pares_types_directive: "eats (Suc N) anywhere (pares_types_directive P) (\<lambda>_ _. True)"
  unfolding pares_types_directive_def Let_def
  by (intro eatsI wp_rules inv_inv0; assumption?) simp_all

lemma parse_type: "eats (Suc N) anywhere (parse_type P) (\<lambda>_ _. True)"
  unfolding parse_type_def
  by (intro eatsI wp_rules parse_type_with_prefix [THEN wp_eats] pares_types_directive [THEN wp_eats]
      inv_inv0; assumption?) simp_all

end

end
