(* ===== verification/Parser_Expressions_Total.thy ===== *)
theory Parser_Expressions_Total
  imports Parser_Types_Total
begin

text \<open>
  The contract of the expression functions: every one of them consumes a token and returns a
  well-formed tree.
\<close>

subsection \<open>Changing what the invariant fixes\<close>

lemma inv_levels:
  "inv g s \<Longrightarrow> inv (g\<lparr>g_levels := ls\<rparr>) (s\<lparr>loop_levels_stack := ls\<rparr>)"
  "inv (g\<lparr>g_levels := ls\<rparr>) s \<Longrightarrow> loop_levels_stack s = ls"
  "inv g s \<Longrightarrow> loop_levels_stack s = g_levels g"
  "inv (g\<lparr>g_levels := n # g_levels g\<rparr>) s \<Longrightarrow> inv g (s\<lparr>loop_levels_stack := tl (loop_levels_stack s)\<rparr>)"
  by (simp_all add: inv_def inv0_def errors_def)

lemma wp_in_new_body:
  assumes "inv g s" and "tokens_left s < n"
    and body: "\<And>g s. inv g s \<Longrightarrow> g_levels g \<noteq> [] \<Longrightarrow> hd (g_levels g) = 0 \<Longrightarrow> tokens_left s < n \<Longrightarrow>
      wp (g_errors g) m s (\<lambda>x s'. inv g s' \<and> tokens_left s' \<le> tokens_left s \<and> A x)"
    and "\<And>x s'. inv g s' \<Longrightarrow> tokens_left s' \<le> tokens_left s \<Longrightarrow> A x \<Longrightarrow> Q x s'"
  shows "wp (g_errors g) (in_new_body m) s Q"
proof -
  let ?ls = "0 # g_levels g"
  have "wp (g_errors (g\<lparr>g_levels := ?ls\<rparr>)) m (s\<lparr>loop_levels_stack := ?ls\<rparr>)
      (\<lambda>x s'. inv (g\<lparr>g_levels := ?ls\<rparr>) s' \<and> tokens_left s' \<le> tokens_left s \<and> A x)"
    using body [OF inv_levels(1) [OF assms(1), where ls = ?ls]] assms(2) by simp
  then have "wp (g_errors g) m (s\<lparr>loop_levels_stack := ?ls\<rparr>)
      (\<lambda>x s'. wp (g_errors g) (bind (read loop_levels_stack) (\<lambda>levels.
        if levels = [] then crash EmptyStack
        else and_then (modify (\<lambda>s. s\<lparr>loop_levels_stack := tl levels\<rparr>)) (return_p x))) s' Q)"
    by (simp, elim wp_mono)
      (auto intro!: wp_rules wp_modify assms(4) inv_levels(4) dest: inv_levels(2))
  then show ?thesis
    unfolding in_new_body_def
    by (intro wp_and_then wp_modify wp_bind) (simp add: inv_levels(3) [OF assms(1)])
qed

subsection \<open>The branches of a switch expression\<close>

definition cases_ok :: "nat \<Rightarrow> expression list \<Rightarrow> bool" where
  "cases_ok n cs \<longleftrightarrow> n \<le> length cs \<and> list_all switch_label cs \<and> list_all expr_ok cs"

lemma cases_ok_snoc:
  "cases_ok n cs \<Longrightarrow> expr_ok e \<Longrightarrow> get_ast_node_type e = AST_NUMBER \<or> get_ast_node_type e = AST_ENUM_ELEMENT \<Longrightarrow>
   cases_ok n (cs @ [e])"
  by (simp add: cases_ok_def switch_label_def)

definition branches_ok ::
  "expression list \<times> expression list \<times> expression option \<Rightarrow> bool" where
  "branches_ok = (\<lambda>(cs, vs, d). cases_ok (length vs) cs \<and> length vs = length cs \<and> list_all expr_ok vs
     \<and> (case d of None \<Rightarrow> True | Some e \<Rightarrow> expr_ok e))"

subsection \<open>Lists and levels of operators\<close>

context parser_procs
begin

lemma left_assoc:
  assumes "eats (Suc N) anywhere operand (\<lambda>_. expr_ok)" and "TOKEN_END_OF_FILE \<notin> set ops"
    and "\<And>e t r. expr_ok e \<Longrightarrow> expr_ok r \<Longrightarrow> kind t \<in> set ops \<Longrightarrow> expr_ok (mk e t r)"
  shows "eats (Suc N) anywhere (left_assoc (p_fuel P) ops mk operand) (\<lambda>_. expr_ok)"
proof -
  have "turns (Suc N) anywhere (\<lambda>e. bind peek_current (\<lambda>t.
       if contains ops (kind t)
       then bind peek_and_advance_token (\<lambda>operator_token.
            bind operand (\<lambda>right. return_p (Inl (mk e operator_token right))))
       else return_p (Inr e))) (\<lambda>_. expr_ok) (\<lambda>_. expr_ok)"
    using assms(2)
    by (intro turnsI wp_rules wp_eats [OF assms(1)] inv_inv0; assumption?)
      (auto intro: assms(3) simp: contains_def)
  then show ?thesis
    unfolding left_assoc_def
    by (intro eatsI wp_rules wp_eats [OF assms(1)]; assumption?) (auto elim: wp_turns simp: fuel)
qed

lemma parse_parameter: "eats N anywhere (parse_parameter P) (\<lambda>_ _. True)"
  unfolding parse_parameter_def
  by (intro eatsI wp_rules inv_inv0; assumption?) simp_all

lemma statement_turns:
  "turns N in_body (\<lambda>statements. bind (list_ends check_end TOKEN_CLOSE_BRACE) (\<lambda>ends.
     if ends then return_p (Inr statements)
     else bind (p_statement P) (\<lambda>s. return_p (Inl (statements @ [s])))))
   (\<lambda>g. list_all (stmt_ok (hd (g_levels g)))) (\<lambda>g. list_all (stmt_ok (hd (g_levels g))))"
  by (intro turnsI wp_rules inv_inv0; assumption?) auto

lemma wp_statement_list [wp_rules]:
  "inv g s \<Longrightarrow> in_body g \<Longrightarrow> tokens_left s < N \<Longrightarrow>
   (\<And>ss s'. inv g s' \<Longrightarrow> tokens_left s' \<le> tokens_left s \<Longrightarrow>
      list_all (stmt_ok (hd (g_levels g))) ss \<Longrightarrow> Q ss s') \<Longrightarrow>
   wp (g_errors g) (statement_list P check_end) s Q"
  unfolding statement_list_def by (erule wp_turns [OF statement_turns]) (simp_all add: fuel)

lemma wp_new_statement_list [wp_rules]:
  "inv g s \<Longrightarrow> tokens_left s < N \<Longrightarrow>
   (\<And>ss s'. inv g s' \<Longrightarrow> tokens_left s' \<le> tokens_left s \<Longrightarrow> list_all (stmt_ok 0) ss \<Longrightarrow> Q ss s') \<Longrightarrow>
   wp (g_errors g) (in_new_body (statement_list P check_end)) s Q"
  by (erule wp_in_new_body [where n = N and A = "list_all (stmt_ok 0)"])
    (auto intro!: wp_statement_list simp: in_body_def split: list.splits)

subsection \<open>Lambdas, conditions and switches\<close>

lemmas parse_parameter_wp [wp_rules] = parse_parameter [THEN wp_eats] parse_parameter [THEN wp_comma_list]

lemma wp_lambda_signature [wp_rules]:
  "inv g s \<Longrightarrow> tokens_left s < N \<Longrightarrow>
   (\<And>r s'. inv g s' \<Longrightarrow> tokens_left s' \<le> tokens_left s \<Longrightarrow> Q r s') \<Longrightarrow>
   wp (g_errors g) (lambda_signature P) s Q"
  unfolding lambda_signature_def
  by (intro wp_rules inv_inv0; assumption?) (simp_all add: fuel)

lemma implicit_return_ok: "list_all (stmt_ok d) ss \<Longrightarrow> list_all (stmt_ok d) (implicit_return t b ss)"
  by (simp add: implicit_return_def)

lemma parse_lambda_expression: "eats (Suc N) anywhere (parse_lambda_expression P) (\<lambda>_. expr_ok)"
  unfolding parse_lambda_expression_def
  by (intro eatsI wp_rules inv_inv0; assumption?) (auto simp: mk_lambda_def intro: implicit_return_ok)

lemmas lambda_wp [wp_rules] = parse_lambda_expression [THEN wp_eats]

lemma wp_number: "inv g s \<Longrightarrow> contains number_token_kinds (cur_kind s) \<Longrightarrow>
   (\<And>e s'. inv g s' \<Longrightarrow> tokens_left s' < tokens_left s \<Longrightarrow> expr_ok e \<Longrightarrow> Q e s') \<Longrightarrow>
   wp (g_errors g) parse_number_expression s Q"
  unfolding parse_number_expression_def
  by (intro wp_rules inv_inv0; assumption?)
    (auto simp: mk_number_def number_token_kinds_def number_kinds_def number_kind_token_kind_def)

lemma wp_literal [wp_rules]: "inv g s \<Longrightarrow> cur_kind s \<noteq> TOKEN_END_OF_FILE \<Longrightarrow>
   (\<And>e s'. inv g s' \<Longrightarrow> tokens_left s' < tokens_left s \<Longrightarrow> expr_ok e \<Longrightarrow> Q e s') \<Longrightarrow>
   wp (g_errors g) parse_literal_expression s Q"
  unfolding parse_literal_expression_def
  by (intro wp_rules inv_inv0; assumption?) (auto simp: mk_literal_def)

lemma braced_value: "eats N anywhere (braced_value P open_message close_message) (\<lambda>_. expr_ok)"
  unfolding braced_value_def by (intro eatsI wp_rules inv_inv0; assumption?) simp_all

lemma if_condition: "eats N anywhere (if_condition P) (\<lambda>_. expr_ok)"
  unfolding if_condition_def by (intro eatsI wp_rules inv_inv0; assumption?) simp_all

lemmas condition_wp [wp_rules] = braced_value [THEN wp_eats] if_condition [THEN wp_eats]

lemma parse_if_expression:
  "cur_kind s \<noteq> TOKEN_END_OF_FILE \<Longrightarrow> inv g s \<Longrightarrow> tokens_left s < Suc N \<Longrightarrow>
   (\<And>e s'. inv g s' \<Longrightarrow> tokens_left s' < tokens_left s \<Longrightarrow> expr_ok e \<Longrightarrow> Q e s') \<Longrightarrow>
   wp (g_errors g) (parse_if_expression P) s Q"
  unfolding parse_if_expression_def
  by (intro wp_rules turnsI inv_inv0 wp_turns [where n = N and H = anywhere and R = "\<lambda>_. expr_ok"
        and B = "\<lambda>_ (ts, cs, vs, _). cs \<noteq> [] \<and> length ts = length cs \<and> length vs = length cs
          \<and> list_all expr_ok cs \<and> list_all expr_ok vs"]; assumption?)
    (auto simp: fuel mk_if_expression_def mk_boolean_def)

lemma wp_switch_operator [wp_rules]:
  "inv g s \<Longrightarrow> (\<And>op s'. inv g s' \<Longrightarrow> tokens_left s' \<le> tokens_left s \<Longrightarrow> contains comparisons_operators op \<Longrightarrow>
     Q op s') \<Longrightarrow>
   wp (g_errors g) parse_switch_operator s Q"
  unfolding parse_switch_operator_def
  by (intro wp_rules inv_inv0; assumption?) (simp_all add: comparisons_operators_def)

lemma wp_switch_case_values [wp_rules]:
  "inv g s \<Longrightarrow> tokens_left s < N \<Longrightarrow> cases_ok n cs \<Longrightarrow>
   (\<And>cs' s'. inv g s' \<Longrightarrow> tokens_left s' \<le> tokens_left s \<Longrightarrow> cases_ok n cs' \<Longrightarrow> cs' \<noteq> [] \<Longrightarrow> Q cs' s') \<Longrightarrow>
   wp (g_errors g) (switch_case_values P keyword n cs) s Q"
  unfolding switch_case_values_def
  by (intro wp_rules turnsI inv_inv0 wp_turns [where n = N and H = anywhere
        and B = "\<lambda>_. cases_ok n" and R = "\<lambda>_ cs. cs \<noteq> [] \<and> cases_ok n cs"]; assumption?)
    (auto simp: fuel cases_ok_snoc)

lemma switch_expression_branch:
  "turns N anywhere (switch_expression_branch P keyword)
    (\<lambda>_ (cs, vs, d, _). branches_ok (cs, vs, d)) (\<lambda>_. branches_ok)"
  unfolding switch_expression_branch_def branches_ok_def
  by (intro turnsI wp_rules inv_inv0; assumption?) (auto simp: cases_ok_def list_all_iff)

lemma parse_switch_expression: "eats (Suc N) anywhere (parse_switch_expression P) (\<lambda>_. expr_ok)"
  unfolding parse_switch_expression_def
  by (intro eatsI wp_rules wp_turns [OF switch_expression_branch] inv_inv0; assumption?)
    (auto simp: fuel branches_ok_def cases_ok_def mk_switch_expression_def)

subsection \<open>Groups, arrays, casts, sizes and directives\<close>

lemma parse_group_or_tuple_expression:
  "eats (Suc N) anywhere (parse_group_or_tuple_expression P) (\<lambda>_. expr_ok)"
  unfolding parse_group_or_tuple_expression_def
  by (intro eatsI wp_rules inv_inv0; assumption?) (auto simp: fuel mk_tuple_def)

lemma parse_array_expression:
  "cur_kind s \<noteq> TOKEN_END_OF_FILE \<Longrightarrow> inv g s \<Longrightarrow> tokens_left s < Suc N \<Longrightarrow>
   (\<And>e s'. inv g s' \<Longrightarrow> tokens_left s' < tokens_left s \<Longrightarrow> expr_ok e \<Longrightarrow> Q e s') \<Longrightarrow>
   wp (g_errors g) (parse_array_expression P) s Q"
  unfolding parse_array_expression_def
  by (intro wp_rules inv_inv0; assumption?) (auto simp: fuel mk_array_def)

lemma parse_cast_expression: "eats (Suc N) anywhere (parse_cast_expression P) (\<lambda>_. expr_ok)"
  unfolding parse_cast_expression_def
  by (intro eatsI wp_rules inv_inv0; assumption?) simp_all

lemma parse_type_size_expression: "eats (Suc N) anywhere (parse_type_size_expression P) (\<lambda>_. expr_ok)"
  unfolding parse_type_size_expression_def
  by (intro eatsI wp_rules inv_inv0; assumption?) simp_all

lemma parse_type_allign_expression: "eats (Suc N) anywhere (parse_type_allign_expression P) (\<lambda>_. expr_ok)"
  unfolding parse_type_allign_expression_def
  by (intro eatsI wp_rules inv_inv0; assumption?) simp_all

lemma parse_value_size_expression: "eats (Suc N) anywhere (parse_value_size_expression P) (\<lambda>_. expr_ok)"
  unfolding parse_value_size_expression_def
  by (intro eatsI wp_rules inv_inv0; assumption?) simp_all

lemma limit_number_ok [simp]:
  "expr_ok (mk_number \<lparr>kind = (case map_of number_kind_token_kind k of Some tk \<Rightarrow> tk | None \<Rightarrow> TOKEN_LOAD),
     position = loc, literal = l\<rparr> t)"
  by (cases k) (simp_all add: mk_number_def number_kind_token_kind_def number_kinds_def)

lemma limit_value_directive: "eats N anywhere (limit_value_directive P loc name lit) (\<lambda>_. expr_ok)"
  unfolding limit_value_directive_def
  by (intro eatsI wp_rules inv_inv0; assumption?) simp_all

lemma parse_expressions_directive: "eats (Suc N) anywhere (parse_expressions_directive P) (\<lambda>_. expr_ok)"
  unfolding parse_expressions_directive_def
  by (intro eatsI wp_rules wp_update_context limit_value_directive [THEN wp_eats] inv_inv0; assumption?)
    (auto simp: mk_number_def mk_string_def number_kinds_def number_kind_token_kind_def)

subsection \<open>Primary expressions, calls and accesses\<close>

lemma wp_token_expression [wp_rules]:
  "inv g s \<Longrightarrow> cur_kind s \<noteq> TOKEN_END_OF_FILE \<Longrightarrow>
   (\<And>t s'. inv g s' \<Longrightarrow> tokens_left s' < tokens_left s \<Longrightarrow> kind t = cur_kind s \<Longrightarrow> Q (mk t) s') \<Longrightarrow>
   wp (g_errors g) (token_expression mk) s Q"
  unfolding token_expression_def
  by (intro wp_rules wp_advanced_token inv_inv0; assumption?)
    (auto simp: cur_kind_def, metis option.sel)

lemma wp_identifier [wp_rules]:
  "inv g s \<Longrightarrow> cur_kind s \<noteq> TOKEN_END_OF_FILE \<Longrightarrow>
   (\<And>e s'. inv g s' \<Longrightarrow> tokens_left s' < tokens_left s \<Longrightarrow> expr_ok e \<Longrightarrow> Q e s') \<Longrightarrow>
   wp (g_errors g) parse_identifier_expression s Q"
  unfolding parse_identifier_expression_def
  by (intro wp_rules inv_inv0; assumption?)
    (auto dest: is_defined_lookup lookup_constants [OF inv0_constants [OF inv_inv0]])

lemmas primary_rules = parse_switch_expression [THEN wp_eats] parse_group_or_tuple_expression [THEN wp_eats]
  parse_cast_expression [THEN wp_eats] parse_type_size_expression [THEN wp_eats]
  parse_type_allign_expression [THEN wp_eats] parse_value_size_expression [THEN wp_eats]
  parse_expressions_directive [THEN wp_eats] wp_number parse_if_expression parse_array_expression

lemma parse_primary_expression: "eats (Suc N) anywhere (parse_primary_expression P) (\<lambda>_. expr_ok)"
  unfolding parse_primary_expression_def
  by (intro eatsI wp_rules primary_rules inv_inv0; assumption?)
    (auto simp: mk_character_def mk_string_def mk_boolean_def mk_null_def number_token_kinds_def)

lemmas primary_wp [wp_rules] = parse_primary_expression [THEN wp_eats]

lemma wp_with_lambda_argument [wp_rules]:
  "inv g s \<Longrightarrow> tokens_left s < Suc N \<Longrightarrow> list_all expr_ok es \<Longrightarrow>
   (\<And>es s'. inv g s' \<Longrightarrow> tokens_left s' \<le> tokens_left s \<Longrightarrow> list_all expr_ok es \<Longrightarrow> Q es s') \<Longrightarrow>
   wp (g_errors g) (with_lambda_argument P es) s Q"
  unfolding with_lambda_argument_def
  by (intro wp_rules inv_inv0; assumption?) simp_all

lemma wp_is_function_declaration_kind [wp_rules]:
  "(\<And>b. Q b s) \<Longrightarrow> wp e (is_function_declaration_kind f k) s Q"
  unfolding is_function_declaration_kind_def by (intro wp_rules)

lemma parse_function_call_with_lambda_argument:
  "eats (Suc N) anywhere (parse_function_call_with_lambda_argument P) (\<lambda>_. expr_ok)"
  unfolding parse_function_call_with_lambda_argument_def
  by (intro eatsI wp_rules inv_inv0; assumption?) (auto simp: mk_call_def)

lemma wp_initializer_arguments [wp_rules]:
  "inv g s \<Longrightarrow> tokens_left s < N \<Longrightarrow>
   (\<And>es s'. inv g s' \<Longrightarrow> tokens_left s' \<le> tokens_left s \<Longrightarrow> list_all expr_ok es \<Longrightarrow> Q es s') \<Longrightarrow>
   wp (g_errors g) (initializer_arguments P) s Q"
  unfolding initializer_arguments_def
  by (intro wp_rules inv_inv0; assumption?) (simp_all add: fuel)

lemma parse_initializer_expression: "eats (Suc N) anywhere (parse_initializer_expression P) (\<lambda>_. expr_ok)"
  unfolding parse_initializer_expression_def
  by (intro eatsI wp_rules parse_type [THEN wp_eats] inv_inv0
      parse_function_call_with_lambda_argument [THEN wp_eats]; assumption?)
    (auto dest: resolve_alias_inv [OF inv_inv0])

lemma parse_postfix_call_expression: "eats (Suc N) anywhere (parse_postfix_call_expression P) (\<lambda>_. expr_ok)"
  unfolding parse_postfix_call_expression_def
  by (intro eatsI wp_rules parse_initializer_expression [THEN wp_eats] inv_inv0; assumption?)
    (auto simp: mk_call_def)

lemma parse_enumeration_attribute_expression:
  "eats (Suc N) anywhere (parse_enumeration_attribute_expression P) (\<lambda>_. expr_ok)"
  unfolding parse_enumeration_attribute_expression_def
  by (intro eatsI wp_rules parse_postfix_call_expression [THEN wp_eats] inv_inv0; assumption?)
    (auto simp: mk_number_def number_kinds_def number_kind_token_kind_def)

lemma dot_access:
  "inv g s \<Longrightarrow> cur_kind s \<noteq> TOKEN_END_OF_FILE \<Longrightarrow> expr_ok e \<Longrightarrow>
   (\<And>e s'. inv g s' \<Longrightarrow> tokens_left s' < tokens_left s \<Longrightarrow> expr_ok e \<Longrightarrow> Q e s') \<Longrightarrow>
   wp (g_errors g) (dot_access e) s Q"
  unfolding dot_access_def
  by (intro wp_rules inv_inv0; assumption?) (auto simp: mk_dot_def)

lemma wp_call_arguments [wp_rules]:
  "inv g s \<Longrightarrow> tokens_left s < N \<Longrightarrow>
   (\<And>es s'. inv g s' \<Longrightarrow> tokens_left s' < tokens_left s \<Longrightarrow> list_all expr_ok es \<Longrightarrow> Q es s') \<Longrightarrow>
   wp (g_errors g) (call_arguments P msg) s Q"
  unfolding call_arguments_def
  by (intro wp_rules inv_inv0; assumption?) (simp_all add: fuel)

text \<open>A call at \<open><\<close> consumes its parenthesis at least.\<close>

lemma generic_call:
  "inv g s \<Longrightarrow> tokens_left s < N \<Longrightarrow> expr_ok e \<Longrightarrow>
   (\<And>e s'. inv g s' \<Longrightarrow> tokens_left s' < tokens_left s \<Longrightarrow> expr_ok e \<Longrightarrow> Q e s') \<Longrightarrow>
   wp (g_errors g) (generic_call P e) s Q"
  unfolding generic_call_def
  by (intro wp_rules inv_inv0; assumption?) (auto simp: mk_call_def)

lemma plain_call:
  "inv g s \<Longrightarrow> tokens_left s < Suc N \<Longrightarrow> cur_kind s \<noteq> TOKEN_END_OF_FILE \<Longrightarrow> expr_ok e \<Longrightarrow>
   (\<And>e s'. inv g s' \<Longrightarrow> tokens_left s' < tokens_left s \<Longrightarrow> expr_ok e \<Longrightarrow> Q e s') \<Longrightarrow>
   wp (g_errors g) (plain_call P e) s Q"
  unfolding plain_call_def
  by (intro wp_rules inv_inv0; assumption?) (auto simp: mk_call_def)

lemma index_access:
  "inv g s \<Longrightarrow> tokens_left s < Suc N \<Longrightarrow> cur_kind s \<noteq> TOKEN_END_OF_FILE \<Longrightarrow> expr_ok e \<Longrightarrow>
   (\<And>e s'. inv g s' \<Longrightarrow> tokens_left s' < tokens_left s \<Longrightarrow> expr_ok e \<Longrightarrow> Q e s') \<Longrightarrow>
   wp (g_errors g) (index_access P e) s Q"
  unfolding index_access_def
  by (intro wp_rules inv_inv0; assumption?) (auto simp: mk_index_def)

lemma call_or_access_step:
  "turns N anywhere (call_or_access_step P) (\<lambda>_. expr_ok) (\<lambda>_. expr_ok)"
  unfolding call_or_access_step_def
  by (intro turnsI wp_rules dot_access generic_call plain_call index_access inv_inv0; assumption?) simp_all

lemma parse_call_or_access_expression:
  "eats (Suc N) anywhere (parse_call_or_access_expression P) (\<lambda>_. expr_ok)"
  unfolding parse_call_or_access_expression_def
  by (intro eatsI wp_rules parse_enumeration_attribute_expression [THEN wp_eats]
      wp_turns [OF call_or_access_step] inv_inv0; assumption?)
    (simp_all add: fuel)

lemma parse_postfix_increment_or_decrement:
  "eats (Suc N) anywhere (parse_postfix_increment_or_decrement P) (\<lambda>_. expr_ok)"
  unfolding parse_postfix_increment_or_decrement_def
  by (intro eatsI wp_rules parse_call_or_access_expression [THEN wp_eats] inv_inv0; assumption?)
    (auto simp: mk_postfix_unary_def postfix_kinds_def)

subsection \<open>Operators\<close>

lemma parse_prefix_call_expression:
  "eats (Suc N) anywhere (parse_prefix_call_expression P) (\<lambda>_. expr_ok)"
  unfolding parse_prefix_call_expression_def
  by (intro eatsI wp_rules parse_postfix_increment_or_decrement [THEN wp_eats] inv_inv0; assumption?)
    (auto simp: mk_call_def)

lemma parse_prefix_expression: "eats (Suc N) anywhere (parse_prefix_expression P) (\<lambda>_. expr_ok)"
  unfolding parse_prefix_expression_def
  by (intro eatsI wp_rules parse_prefix_call_expression [THEN wp_eats] inv_inv0; assumption?)
    (auto simp: mk_prefix_unary_def prefix_kinds_def is_unary_operator_token_def unary_operators_def)

lemma parse_infix_call_expression:
  "eats (Suc N) anywhere (parse_infix_call_expression P) (\<lambda>_. expr_ok)"
  unfolding parse_infix_call_expression_def
  by (intro eatsI wp_rules parse_prefix_expression [THEN wp_eats] inv_inv0; assumption?)
    (auto simp: mk_call_def)

lemma parse_enum_access_expression:
  "eats (Suc N) anywhere (parse_enum_access_expression P) (\<lambda>_. expr_ok)"
  unfolding parse_enum_access_expression_def
  by (intro eatsI wp_rules parse_infix_call_expression [THEN wp_eats] inv_inv0; assumption?) simp_all

lemmas level_simps = mk_binary_def mk_bitwise_def mk_comparison_def mk_logical_def binary_kinds_def
  bitwise_kinds_def comparison_kinds_def

lemma parse_factor_expression: "eats (Suc N) anywhere (parse_factor_expression P) (\<lambda>_. expr_ok)"
  unfolding parse_factor_expression_def
  by (rule left_assoc [OF parse_enum_access_expression]) (auto simp: level_simps)

lemma parse_term_expression: "eats (Suc N) anywhere (parse_term_expression P) (\<lambda>_. expr_ok)"
  unfolding parse_term_expression_def
  by (rule left_assoc [OF parse_factor_expression]) (auto simp: level_simps)

lemma shift_step: "turns (Suc N) anywhere (shift_step P) (\<lambda>_. expr_ok) (\<lambda>_. expr_ok)"
  unfolding shift_step_def
  by (intro turnsI wp_rules parse_term_expression [THEN wp_eats] inv_inv0; assumption?)
    (auto simp: level_simps is_right_shift_operator_def)

lemma parse_bitwise_shift_expression:
  "eats (Suc N) anywhere (parse_bitwise_shift_expression P) (\<lambda>_. expr_ok)"
  unfolding parse_bitwise_shift_expression_def
  by (intro eatsI wp_rules parse_term_expression [THEN wp_eats] wp_turns [OF shift_step] inv_inv0;
      assumption?) (simp_all add: fuel)

lemma chain_comparison_ok:
  "expr_ok e \<Longrightarrow> expr_ok r \<Longrightarrow> contains comparison_kinds (kind t) \<Longrightarrow> expr_ok (chain_comparison e t r)"
  by (cases e) (auto simp: chain_comparison_def as_comparison_def level_simps)

lemma parse_comparison_expression: "eats (Suc N) anywhere (parse_comparison_expression P) (\<lambda>_. expr_ok)"
  unfolding parse_comparison_expression_def
  by (rule left_assoc [OF parse_bitwise_shift_expression])
    (auto intro!: chain_comparison_ok simp: comparison_kinds_def)

lemma parse_equality_expression: "eats (Suc N) anywhere (parse_equality_expression P) (\<lambda>_. expr_ok)"
  unfolding parse_equality_expression_def
  by (rule left_assoc [OF parse_comparison_expression]) (auto simp: level_simps)

lemma parse_bitwise_or_expression: "eats (Suc N) anywhere (parse_bitwise_or_expression P) (\<lambda>_. expr_ok)"
  unfolding parse_bitwise_or_expression_def
  by (rule left_assoc [OF parse_equality_expression]) (auto simp: level_simps)

lemma parse_bitwise_xor_expression: "eats (Suc N) anywhere (parse_bitwise_xor_expression P) (\<lambda>_. expr_ok)"
  unfolding parse_bitwise_xor_expression_def
  by (rule left_assoc [OF parse_bitwise_or_expression]) (auto simp: level_simps)

lemma parse_bitwise_and_expression: "eats (Suc N) anywhere (parse_bitwise_and_expression P) (\<lambda>_. expr_ok)"
  unfolding parse_bitwise_and_expression_def
  by (rule left_assoc [OF parse_bitwise_xor_expression]) (auto simp: level_simps)

lemma parse_logical_and_expression: "eats (Suc N) anywhere (parse_logical_and_expression P) (\<lambda>_. expr_ok)"
  unfolding parse_logical_and_expression_def
  by (rule left_assoc [OF parse_bitwise_and_expression]) (auto simp: level_simps)

lemma parse_logical_or_expression: "eats (Suc N) anywhere (parse_logical_or_expression P) (\<lambda>_. expr_ok)"
  unfolding parse_logical_or_expression_def
  by (rule left_assoc [OF parse_logical_and_expression]) (auto simp: level_simps)

lemma assignment_of_ok:
  "expr_ok e \<Longrightarrow> expr_ok r \<Longrightarrow> is_assignments_operator_token t \<Longrightarrow> expr_ok (assignment_of e t r)"
  by (auto simp: assignment_of_def mk_assign_def mk_binary_def mk_bitwise_def binary_kinds_def Let_def
      bitwise_kinds_def is_assignments_operator_token_def assignments_operators_def
      assignments_binary_operators_def assignments_bitwise_operators_def split: option.splits if_splits)

lemma parse_expression: "eats (Suc N) anywhere (parse_expression P) (\<lambda>_. expr_ok)"
  unfolding parse_expression_def parse_assignment_expression_def
  by (intro eatsI wp_rules parse_logical_or_expression [THEN wp_eats] inv_inv0; assumption?)
    (auto intro!: assignment_of_ok simp: is_assignments_operator_token_def assignments_operators_def)

end

end
