(* ===== verification/Parser_Statements_Total.thy ===== *)
theory Parser_Statements_Total
  imports Parser_Expressions_Total
begin

text \<open>
  The contract of the statement functions, inside a body with \<open>hd (g_levels g)\<close> loops around, and the
  proof that the knot \<open>procs_at\<close> satisfies the contract the locale assumes.
\<close>

subsection \<open>Scopes and loop levels\<close>

lemma inv_scope:
  "inv g s \<Longrightarrow> inv (g\<lparr>g_scope := sc\<rparr>) (s\<lparr>current_ast_scope := sc\<rparr>)"
  "inv0 g s \<Longrightarrow> inv0 (g\<lparr>g_scope := sc\<rparr>) (s\<lparr>current_ast_scope := sc\<rparr>)"
  "inv (g\<lparr>g_scope := sc\<rparr>) s \<Longrightarrow> inv g (s\<lparr>current_ast_scope := g_scope g\<rparr>)"
  "inv0 g s \<Longrightarrow> current_ast_scope s = g_scope g"
  by (simp_all add: inv_def inv0_def errors_def)

lemma in_body_scope [simp]: "in_body (g\<lparr>g_scope := sc\<rparr>) = in_body g"
  by (simp add: in_body_def)

lemma wp_in_scope:
  assumes "inv0 g s"
    and "inv0 (g\<lparr>g_scope := sc\<rparr>) (s\<lparr>current_ast_scope := sc\<rparr>) \<Longrightarrow>
      wp (g_errors (g\<lparr>g_scope := sc\<rparr>)) m (s\<lparr>current_ast_scope := sc\<rparr>)
        (\<lambda>x s'. inv (g\<lparr>g_scope := sc\<rparr>) s' \<and> Q x (s'\<lparr>current_ast_scope := g_scope g\<rparr>))"
  shows "wp (g_errors g) (in_scope sc m) s Q"
proof -
  have "wp (g_errors g) m (s\<lparr>current_ast_scope := sc\<rparr>)
      (\<lambda>x s'. inv (g\<lparr>g_scope := sc\<rparr>) s' \<and> Q x (s'\<lparr>current_ast_scope := g_scope g\<rparr>))"
    using assms(2) inv_scope(2) [OF assms(1)] by simp
  then have "wp (g_errors g) m (s\<lparr>current_ast_scope := sc\<rparr>)
      (\<lambda>x s'. wp (g_errors g) (and_then (modify (\<lambda>s. s\<lparr>current_ast_scope := g_scope g\<rparr>)) (return_p x)) s' Q)"
    by (rule wp_mono) (auto intro!: wp_rules wp_modify)
  then show ?thesis
    unfolding in_scope_def using inv_scope(4) [OF assms(1)]
    by (intro wp_bind wp_read wp_and_then wp_modify) simp
qed

lemma eats_in_scope:
  assumes "eats n H m A" and "\<And>g. H g \<Longrightarrow> H (g\<lparr>g_scope := sc\<rparr>)"
    and "\<And>g x. A (g\<lparr>g_scope := sc\<rparr>) x \<Longrightarrow> A g x"
  shows "eats n H (in_scope sc m) A"
proof (rule eatsI)
  fix g s assume s: "inv g s" "H g" "tokens_left s < n"
  show "wp (g_errors g) (in_scope sc m) s (\<lambda>x s'. inv g s' \<and> tokens_left s' < tokens_left s \<and> A g x)"
    using s assms(2) inv_scope(1) [OF s(1), of sc]
    by (intro wp_in_scope inv_inv0 wp_eats [OF assms(1)]; assumption?)
      (auto intro: assms(3) inv_scope(3))
qed

lemma wp_loop_levels_top [wp_rules]:
  "inv g s \<Longrightarrow> in_body g \<Longrightarrow> (0 \<le> hd (g_levels g) \<Longrightarrow> Q (hd (g_levels g)) s) \<Longrightarrow>
   wp (g_errors g) loop_levels_top s Q"
  unfolding loop_levels_top_def
  by (intro wp_rules) (auto simp: in_body_def inv_levels(3) split: list.splits intro: wp_return)

lemma wp_change_loop_levels:
  "loop_levels_stack s = n # ls \<Longrightarrow> Q () (s\<lparr>loop_levels_stack := (n + d) # ls\<rparr>) \<Longrightarrow>
   wp e (change_loop_levels d) s Q"
  unfolding change_loop_levels_def loop_levels_top_def
  by (intro wp_rules) (auto intro!: wp_rules wp_modify)

lemma inv_change_levels:
  "inv g s \<Longrightarrow> inv (g\<lparr>g_levels := ls\<rparr>) (s\<lparr>loop_levels_stack := ls\<rparr>)"
  "inv (g\<lparr>g_levels := ls\<rparr>) s \<Longrightarrow> inv g (s\<lparr>loop_levels_stack := g_levels g\<rparr>)"
  by (simp_all add: inv_def inv0_def errors_def)

context parser_procs
begin

lemma loop_body: "eats N in_body (loop_body P) (\<lambda>g. stmt_ok (hd (g_levels g) + 1))"
proof (rule eatsI)
  fix g s assume s: "inv g s" "in_body g" "tokens_left s < N"
  then obtain n ls where g: "g_levels g = n # ls" "0 \<le> n"
    by (auto simp: in_body_def split: list.splits)
  let ?g = "g\<lparr>g_levels := (n + 1) # ls\<rparr>"
  have "wp (g_errors ?g) (p_statement P) (s\<lparr>loop_levels_stack := (n + 1) # ls\<rparr>)
      (\<lambda>x s'. inv ?g s' \<and> tokens_left s' < tokens_left s \<and> stmt_ok (n + 1) x)"
    using s(3) g(2) inv_change_levels(1) [OF s(1), of "(n + 1) # ls"]
    by (intro wp_eats [OF statement]; assumption?) (auto simp: in_body_def)
  then have "wp (g_errors g) (p_statement P) (s\<lparr>loop_levels_stack := (n + 1) # ls\<rparr>)
      (\<lambda>x s'. wp (g_errors g) (and_then (change_loop_levels (- 1)) (return_p x)) s'
        (\<lambda>x s'. inv g s' \<and> tokens_left s' < tokens_left s \<and> stmt_ok (hd (g_levels g) + 1) x))"
    by (simp, elim wp_mono, intro wp_and_then wp_change_loop_levels wp_return)
      (use g inv_levels(2) inv_change_levels(2) in \<open>fastforce\<close>)+
  then show "wp (g_errors g) (loop_body P) s
      (\<lambda>x s'. inv g s' \<and> tokens_left s' < tokens_left s \<and> stmt_ok (hd (g_levels g) + 1) x)"
    unfolding loop_body_def using inv_levels(3) [OF s(1)] g
    by (intro wp_and_then wp_change_loop_levels wp_bind) simp_all
qed

subsection \<open>Declarations, also at the top level\<close>

lemma wp_define_constant:
  assumes "inv g s" and "expr_ok e" and "compiletime_constant e"
    and "\<And>s'. inv g s' \<Longrightarrow> tokens_left s' = tokens_left s \<Longrightarrow> Q x s'"
  shows "wp (g_errors g) (bind (read (\<lambda>s. define_symbol k e (ctx_constants_table_map (pcontext s)))) (\<lambda>r.
        case r of None \<Rightarrow> crash EmptyStack
        | Some (_, constants) \<Rightarrow>
            and_then (update_context (\<lambda>c. c\<lparr>ctx_constants_table_map := constants\<rparr>)) (return_p x))) s Q"
proof -
  obtain b m where "define_symbol k e (ctx_constants_table_map (pcontext s)) = Some (b, m)"
    and "constants_ok m"
    and "length (linked_scoped m) = length (linked_scoped (ctx_constants_table_map (pcontext s)))"
    using define_constant [OF inv0_constants [OF inv_inv0 [OF assms(1)]] assms(2,3)] by metis
  then show ?thesis
    using inv_define_constant [OF assms(1), of m]
    by (intro wp_rules) (auto intro!: wp_rules wp_update_context assms(4))
qed

lemma parse_compiletime_constants_declaraion:
  "inv0 g s \<Longrightarrow> tokens_left s < Suc N \<Longrightarrow> cur_kind s \<noteq> TOKEN_END_OF_FILE \<Longrightarrow>
   (\<And>x s'. inv g s' \<Longrightarrow> tokens_left s' < tokens_left s \<Longrightarrow> (\<And>d. stmt_ok d x) \<Longrightarrow> Q x s') \<Longrightarrow>
   wp (g_errors g) (parse_compiletime_constants_declaraion P) s Q"
  unfolding parse_compiletime_constants_declaraion_def
  by (intro wp_define_constant wp_rules; assumption?) simp_all

lemma wp_field_initializer [wp_rules]:
  "inv g s \<Longrightarrow> tokens_left s < N \<Longrightarrow>
   (\<And>x s'. inv g s' \<Longrightarrow> tokens_left s' \<le> tokens_left s \<Longrightarrow> case x of None \<Rightarrow> True | Some e \<Rightarrow> expr_ok e \<Longrightarrow> Q x s') \<Longrightarrow>
   wp (g_errors g) (field_initializer P) s Q"
  unfolding field_initializer_def
  by (intro wp_rules inv_inv0; assumption?) (auto simp: mk_undefined_def)

lemma parse_field_declaration:
  "inv0 g s \<Longrightarrow> tokens_left s < Suc N \<Longrightarrow>
   (\<And>x s'. inv g s' \<Longrightarrow> tokens_left s' < tokens_left s \<Longrightarrow> (\<And>d. stmt_ok d x) \<Longrightarrow> Q x s') \<Longrightarrow>
   wp (g_errors g) (parse_field_declaration P is_global) s Q"
  unfolding parse_field_declaration_def
  by (intro wp_rules; assumption?) (auto simp: mk_field_declaration_def)

lemma destructured_name: "eats N anywhere (destructured_name P) (\<lambda>_ _. True)"
  unfolding destructured_name_def by (intro eatsI wp_rules inv_inv0; assumption?) simp_all

lemma parse_destructuring_field_declaration:
  "inv0 g s \<Longrightarrow> tokens_left s < Suc N \<Longrightarrow>
   (\<And>x s'. inv g s' \<Longrightarrow> tokens_left s' < tokens_left s \<Longrightarrow> (\<And>d. stmt_ok d x) \<Longrightarrow> Q x s') \<Longrightarrow>
   wp (g_errors g) (parse_destructuring_field_declaration P is_global) s Q"
  unfolding parse_destructuring_field_declaration_def
  by (intro wp_rules destructured_name [THEN wp_comma_list]; assumption?) (simp_all add: fuel)

subsection \<open>Simple statements\<close>

lemma wp_block_statement [wp_rules]:
  "inv g s \<Longrightarrow> in_body g \<Longrightarrow> tokens_left s < Suc N \<Longrightarrow>
   (\<And>x s'. inv g s' \<Longrightarrow> tokens_left s' < tokens_left s \<Longrightarrow> list_all (stmt_ok (hd (g_levels g))) x \<Longrightarrow> Q x s') \<Longrightarrow>
   wp (g_errors g) (parse_block_statement P) s Q"
  unfolding parse_block_statement_def
  by (intro wp_rules; assumption?) simp_all

lemma parse_return_statement: "eats (Suc N) anywhere (parse_return_statement P) (\<lambda>_ x. \<forall>d. stmt_ok d x)"
  unfolding parse_return_statement_def
  by (intro eatsI wp_rules inv_inv0; assumption?) simp_all

lemma parse_defer_statement: "eats (Suc N) anywhere (parse_defer_statement P) (\<lambda>_ x. \<forall>d. stmt_ok d x)"
  unfolding parse_defer_statement_def
  by (intro eatsI wp_rules inv_inv0; assumption?) simp_all

lemma parse_expression_statement:
  "eats (Suc N) anywhere (parse_expression_statement P) (\<lambda>_ x. \<forall>d. stmt_ok d x)"
  unfolding parse_expression_statement_def
  by (intro eatsI wp_rules parse_expression [THEN wp_eats] inv_inv0; assumption?) simp_all

text \<open>A count that is accepted names a loop of the body.\<close>

lemma wp_checked_times [wp_rules]:
  "inv g s \<Longrightarrow> in_body g \<Longrightarrow> tokens_left s < N \<Longrightarrow>
   (\<And>n s'. inv g s' \<Longrightarrow> tokens_left s' < tokens_left s \<Longrightarrow> 1 \<le> n \<Longrightarrow> n \<le> hd (g_levels g) \<Longrightarrow> Q n s') \<Longrightarrow>
   wp (g_errors g) (checked_times P keyword a b c d) s Q"
  unfolding checked_times_def
  by (intro wp_rules inv_inv0; assumption?) simp_all

lemma wp_require_loop [wp_rules]:
  "inv g s \<Longrightarrow> in_body g \<Longrightarrow> (1 \<le> hd (g_levels g) \<Longrightarrow> Q () s) \<Longrightarrow>
   wp (g_errors g) (require_loop keyword msg) s Q"
  unfolding require_loop_def
  by (intro wp_rules inv_inv0; assumption?) simp_all

lemma parse_break_statement:
  "eats (Suc N) in_body (parse_break_statement P) (\<lambda>g. stmt_ok (hd (g_levels g)))"
  unfolding parse_break_statement_def
  by (intro eatsI wp_rules inv_inv0; assumption?) simp_all

lemma parse_continue_statement:
  "eats (Suc N) in_body (parse_continue_statement P) (\<lambda>g. stmt_ok (hd (g_levels g)))"
  unfolding parse_continue_statement_def
  by (intro eatsI wp_rules inv_inv0; assumption?) simp_all

subsection \<open>Conditions, loops and switches\<close>

lemma else_branch:
  "turns N in_body (else_branch P)
    (\<lambda>g (bs, _). bs \<noteq> [] \<and> list_all (block_ok (hd (g_levels g))) bs) (\<lambda>g. stmt_ok (hd (g_levels g)))"
  unfolding else_branch_def
  by (intro turnsI wp_rules inv_inv0; assumption?) (auto simp: mk_boolean_def)

lemma parse_if_statement:
  "eats (Suc N) in_body (parse_if_statement P) (\<lambda>g. stmt_ok (hd (g_levels g)))"
  unfolding parse_if_statement_def
  by (intro eats_in_scope eatsI wp_rules wp_turns [OF else_branch] inv_inv0; assumption?)
    (auto simp: fuel)

lemma wp_for_header [wp_rules]:
  "inv g s \<Longrightarrow> tokens_left s < N \<Longrightarrow>
   (\<And>a b c e s'. inv g s' \<Longrightarrow> tokens_left s' < tokens_left s \<Longrightarrow> expr_ok e \<Longrightarrow> Q (a, b, c, e) s') \<Longrightarrow>
   wp (g_errors g) (for_header P keyword) s Q"
  unfolding for_header_def
  by (intro wp_rules inv_inv0; assumption?) auto

lemma parse_for_statement:
  "eats (Suc N) in_body (parse_for_statement P) (\<lambda>g. stmt_ok (hd (g_levels g)))"
  unfolding parse_for_statement_def
  by (intro eats_in_scope eatsI wp_rules loop_body [THEN wp_eats] inv_inv0; assumption?) auto

lemma parse_while_statement:
  "eats (Suc N) in_body (parse_while_statement P) (\<lambda>g. stmt_ok (hd (g_levels g)))"
  unfolding parse_while_statement_def
  by (intro eats_in_scope eatsI wp_rules loop_body [THEN wp_eats] inv_inv0; assumption?) auto

lemma switch_branch:
  "expr_ok argument \<Longrightarrow> turns N in_body (switch_branch P keyword argument)
    (\<lambda>g (cs, d). list_all (case_ok (hd (g_levels g))) cs
       \<and> (case d of None \<Rightarrow> True | Some c \<Rightarrow> case_ok (hd (g_levels g)) c))
    (\<lambda>g (cs, d). list_all (case_ok (hd (g_levels g))) cs
       \<and> (case d of None \<Rightarrow> True | Some c \<Rightarrow> case_ok (hd (g_levels g)) c))"
  unfolding switch_branch_def
  by (intro turnsI wp_rules inv_inv0; assumption?) (auto simp: fuel)

lemma parse_switch_statement:
  "eats (Suc N) in_body (parse_switch_statement P) (\<lambda>g. stmt_ok (hd (g_levels g)))"
  unfolding parse_switch_statement_def
  by (intro eatsI wp_rules wp_turns [OF switch_branch] inv_inv0; assumption?)
    (auto simp: fuel split: option.splits)

lemma require_complete_check_ok:
  "stmt_ok d s \<Longrightarrow> require_complete_check s = Some x \<Longrightarrow> stmt_ok d x"
  by (cases s) (auto simp: require_complete_check_def)

lemma parse_statements_directive:
  "eats (Suc N) in_body (parse_statements_directive P) (\<lambda>g. stmt_ok (hd (g_levels g)))"
  unfolding parse_statements_directive_def
  by (intro eatsI wp_rules inv_inv0; assumption?) (auto intro: require_complete_check_ok)

lemmas statement_rules = parse_compiletime_constants_declaraion parse_field_declaration
  parse_destructuring_field_declaration parse_return_statement [THEN wp_eats]
  parse_defer_statement [THEN wp_eats] parse_expression_statement [THEN wp_eats]
  parse_break_statement [THEN wp_eats] parse_continue_statement [THEN wp_eats]
  parse_if_statement [THEN wp_eats] parse_for_statement [THEN wp_eats]
  parse_while_statement [THEN wp_eats] parse_switch_statement [THEN wp_eats]
  parse_statements_directive [THEN wp_eats]

lemma parse_statement: "eats (Suc N) in_body (parse_statement P) (\<lambda>g. stmt_ok (hd (g_levels g)))"
  unfolding parse_statement_def
  by (intro eatsI wp_rules statement_rules inv_inv0; assumption?) simp_all

end

subsection \<open>The knot\<close>

lemma eats_0: "eats 0 H m A"
  by (simp add: eats_def)

lemma procs_at_contract: "parser_procs (procs_at n) n"
proof (induction n)
  case 0
  show ?case by unfold_locales (simp_all add: eats_0)
next
  case (Suc n)
  note step = parser_procs.parse_expression parser_procs.parse_infix_call_expression
    parser_procs.parse_prefix_expression parser_procs.parse_statement parser_procs.parse_type
    parser_procs.parse_type_with_prefix
  show ?case by unfold_locales (simp_all add: procs_step_def step [OF Suc.IH])
qed

interpretation knot: parser_procs "procs_at n" n for n
  by (rule procs_at_contract)

end
