(* ===== verification/Parser_Declarations_Total.thy ===== *)
theory Parser_Declarations_Total
  imports Parser_Statements_Total
begin

text \<open>
  The contract of the declarations.  They may be the first thing of a file, so they start from \<open>inv0\<close>,
  where there is no previous token yet.
\<close>

subsection \<open>The scope of constants of a function\<close>

lemma constants_ok_push: "constants_ok m \<Longrightarrow> constants_ok (push_new_scope m)"
  by (auto simp: constants_ok_def push_new_scope_def)

lemma constants_ok_pop:
  assumes "constants_ok m" and "length (linked_scoped m) = Suc d" and "0 < d"
  shows "\<exists>m'. pop_current_scope m = Some m' \<and> constants_ok m' \<and> length (linked_scoped m') = d"
  using assms
  by (cases "linked_scoped m" rule: rev_cases) (auto simp: constants_ok_def pop_current_scope_def)

lemma wp_push_constants_scope:
  assumes "inv0 g s"
    and "\<And>s'. inv0 (g\<lparr>g_depth := Suc (g_depth g)\<rparr>) s' \<Longrightarrow> tokens_left s' = tokens_left s \<Longrightarrow>
      cur_kind s' = cur_kind s \<Longrightarrow> wp (g_errors (g\<lparr>g_depth := Suc (g_depth g)\<rparr>)) m s' Q"
  shows "wp (g_errors g) (and_then push_constants_scope m) s Q"
proof -
  let ?s = "s\<lparr>pcontext := (pcontext s)\<lparr>ctx_constants_table_map :=
    push_new_scope (ctx_constants_table_map (pcontext s))\<rparr>\<rparr>"
  have "inv0 (g\<lparr>g_depth := Suc (g_depth g)\<rparr>) ?s"
    using assms(1) by (simp add: inv0_def errors_def constants_ok_push) (simp add: push_new_scope_def)
  then show ?thesis
    unfolding push_constants_scope_def using assms(2) [of ?s]
    by (intro wp_and_then wp_update_context) simp
qed

lemma wp_pop_constants_scope:
  assumes "inv (g\<lparr>g_depth := Suc (g_depth g)\<rparr>) s" and "0 < g_depth g"
    and "\<And>s'. inv g s' \<Longrightarrow> tokens_left s' = tokens_left s \<Longrightarrow> Q () s'"
  shows "wp (g_errors (g\<lparr>g_depth := Suc (g_depth g)\<rparr>)) pop_constants_scope s Q"
proof -
  let ?m = "ctx_constants_table_map (pcontext s)"
  obtain m' where m': "pop_current_scope ?m = Some m'" "constants_ok m'"
    "length (linked_scoped m') = g_depth g"
    using constants_ok_pop [of ?m "g_depth g"] assms(1,2) by (auto simp: inv_def inv0_def)
  have "inv g (s\<lparr>pcontext := (pcontext s)\<lparr>ctx_constants_table_map := m'\<rparr>\<rparr>)"
    using assms(1) m' by (simp add: inv_def inv0_def errors_def)
  then show ?thesis
    unfolding pop_constants_scope_def using m' assms(3)
    by (intro wp_rules) (auto intro!: wp_update_context)
qed

lemma inv0_depth: "inv0 g s \<Longrightarrow> 0 < g_depth g"
  by (metis inv0_def constants_ok_def length_greater_0_conv)

subsection \<open>Generic parameters and prototypes\<close>

lemma wp_check_generic_parameter_name [wp_rules]:
  "inv g s \<Longrightarrow> (\<And>s'. inv g s' \<Longrightarrow> tokens_left s' = tokens_left s \<Longrightarrow> Q () s') \<Longrightarrow>
   wp (g_errors g) (check_generic_parameter_name name) s Q"
  unfolding check_generic_parameter_name_def
  by (intro wp_rules wp_modify; assumption?) simp_all

lemma generic_parameter:
  "eats n anywhere (bind (consume_kind TOKEN_IDENTIFIER msg) (\<lambda>name.
     and_then (check_generic_parameter_name name) (return_p (literal name)))) (\<lambda>_ _. True)"
  by (intro eatsI wp_rules; assumption?) simp_all

lemma wp_register_function [wp_rules]:
  "inv g s \<Longrightarrow> (\<And>s'. inv g s' \<Longrightarrow> tokens_left s' = tokens_left s \<Longrightarrow> Q () s') \<Longrightarrow>
   wp (g_errors g) (register_function name k) s Q"
  unfolding register_function_def by (intro wp_update_context) simp

lemma wp_check_main_prototype [wp_rules]:
  "inv g s \<Longrightarrow> Q () s \<Longrightarrow> wp (g_errors g) (check_main_prototype name k ext t) s Q"
  unfolding check_main_prototype_def by (intro wp_rules; assumption?) simp_all

lemma wp_clear_generic_parameters [wp_rules]:
  "(\<And>s'. (\<And>g. inv g s' = inv g s) \<Longrightarrow> tokens_left s' = tokens_left s \<Longrightarrow> Q () s') \<Longrightarrow>
   wp e clear_generic_parameters s Q"
  unfolding clear_generic_parameters_def by (intro wp_modify) simp

text \<open>The elements of an enumeration have different names.\<close>

definition enum_ok :: "enum_elements \<Rightarrow> bool" where
  "enum_ok es \<longleftrightarrow> distinct (map fst (enum_values_indexes es))"

lemma enum_ok_snoc [simp]:
  assumes "enum_ok es" and "map_of (enum_values_indexes es) n = None"
  shows "enum_ok (es\<lparr>explicit_values := vs, enum_values_indexes := enum_values_indexes es @ [(n, v)],
      has_explicit_values := b\<rparr>)"
    and "enum_ok (es\<lparr>enum_index := i, enum_values_indexes := enum_values_indexes es @ [(n, v)]\<rparr>)"
  using assms by (simp_all add: enum_ok_def map_of_eq_None_iff)

context parser_procs
begin

lemma wp_generic_parameter_list [wp_rules]:
  "inv g s \<Longrightarrow> tokens_left s < N \<Longrightarrow>
   (\<And>x s'. inv g s' \<Longrightarrow> tokens_left s' \<le> tokens_left s \<Longrightarrow> Q x s') \<Longrightarrow>
   wp (g_errors g) (generic_parameter_list P) s Q"
  unfolding generic_parameter_list_def
  by (intro wp_rules generic_parameter [where n = N, THEN wp_comma_list]; assumption?) (simp_all add: fuel)

lemma prototype_parameter_step:
  "turns N anywhere (prototype_parameter_step P strict) (\<lambda>_ _. True) (\<lambda>_ _. True)"
  unfolding prototype_parameter_step_def
  by (intro turnsI wp_rules; assumption?) simp_all

lemma wp_prototype_parameters [wp_rules]:
  "inv g s \<Longrightarrow> tokens_left s < N \<Longrightarrow>
   (\<And>x s'. inv g s' \<Longrightarrow> tokens_left s' \<le> tokens_left s \<Longrightarrow> Q x s') \<Longrightarrow>
   wp (g_errors g) (parse_prototype_parameters P strict) s Q"
  unfolding parse_prototype_parameters_def
  by (intro wp_rules wp_turns [OF prototype_parameter_step]; assumption?) (simp_all add: fuel)

lemma wp_prototype_return [wp_rules]:
  "inv g s \<Longrightarrow> tokens_left s < N \<Longrightarrow>
   (\<And>x s'. inv g s' \<Longrightarrow> tokens_left s' \<le> tokens_left s \<Longrightarrow> Q x s') \<Longrightarrow>
   wp (g_errors g) (prototype_return P) s Q"
  unfolding prototype_return_def by (intro wp_rules; assumption?) simp_all

lemma parse_intrinsic_prototype:
  "eats (Suc N) anywhere (parse_intrinsic_prototype P) (\<lambda>_. stmt_ok 0)"
  unfolding parse_intrinsic_prototype_def
  by (intro eatsI wp_rules; assumption?) simp_all

lemma parse_function_prototype:
  "inv0 g s \<Longrightarrow> tokens_left s < Suc N \<Longrightarrow>
   (\<And>x s'. inv g s' \<Longrightarrow> tokens_left s' < tokens_left s \<Longrightarrow> Q x s') \<Longrightarrow>
   wp (g_errors g) (parse_function_prototype P k ext) s Q"
  unfolding parse_function_prototype_def
  by (intro wp_rules; assumption?) simp_all

subsection \<open>Functions and operators\<close>

lemma wp_new_block [wp_rules]:
  "inv g s \<Longrightarrow> tokens_left s < Suc N \<Longrightarrow>
   (\<And>x s'. inv g s' \<Longrightarrow> tokens_left s' \<le> tokens_left s \<Longrightarrow> list_all (stmt_ok 0) x \<Longrightarrow> Q x s') \<Longrightarrow>
   wp (g_errors g) (in_new_body (bind (parse_block_statement P) (\<lambda>block.
     and_then check_unnecessary_semicolon_warning (return_p block)))) s Q"
  by (erule wp_in_new_body [where n = "Suc N" and A = "list_all (stmt_ok 0)"], assumption)
    (intro wp_rules, auto simp: in_body_def split: list.splits)

lemma wp_function_body:
  "inv g s \<Longrightarrow> tokens_left s < Suc N \<Longrightarrow> wp (g_errors g) no_body s Q \<Longrightarrow>
   (\<And>x s'. inv g s' \<Longrightarrow> tokens_left s' \<le> tokens_left s \<Longrightarrow> stmt_ok 0 x \<Longrightarrow> Q x s') \<Longrightarrow>
   wp (g_errors g) (function_body P t no_body) s Q"
  unfolding function_body_def
  by (intro wp_rules; assumption?) (simp_all add: implicit_return_ok)

lemma parse_function_declaration:
  "inv0 g s \<Longrightarrow> tokens_left s < Suc N \<Longrightarrow>
   (\<And>x s'. inv g s' \<Longrightarrow> tokens_left s' < tokens_left s \<Longrightarrow> stmt_ok 0 x \<Longrightarrow> Q x s') \<Longrightarrow>
   wp (g_errors g) (parse_function_declaration P k) s Q"
  unfolding parse_function_declaration_def
  by (intro wp_in_scope wp_push_constants_scope wp_pop_constants_scope parse_function_prototype
      wp_function_body wp_rules; assumption?)
    (auto dest: inv0_depth simp: inv_scope(3))

lemma wp_operator_function_operator [wp_rules]:
  "inv g s \<Longrightarrow> (\<And>op s'. inv g s' \<Longrightarrow> tokens_left s' \<le> tokens_left s \<Longrightarrow>
      is_supported_overloading_operator (kind op) \<Longrightarrow> Q op s') \<Longrightarrow>
   wp (g_errors g) (parse_operator_function_operator k) s Q"
  unfolding parse_operator_function_operator_def
  by (intro wp_rules; assumption?) simp_all

lemma wp_operator_parameters [wp_rules]:
  "inv g s \<Longrightarrow> tokens_left s < N \<Longrightarrow>
   (\<And>x s'. inv g s' \<Longrightarrow> tokens_left s' \<le> tokens_left s \<Longrightarrow> Q x s') \<Longrightarrow>
   wp (g_errors g) (operator_parameters P) s Q"
  unfolding operator_parameters_def
  by (intro wp_rules; assumption?) (simp_all add: fuel)

lemma parse_operator_function_declaraion:
  "inv0 g s \<Longrightarrow> cur_kind s \<noteq> TOKEN_END_OF_FILE \<Longrightarrow> tokens_left s < Suc N \<Longrightarrow>
   (\<And>x s'. inv g s' \<Longrightarrow> tokens_left s' < tokens_left s \<Longrightarrow> stmt_ok 0 x \<Longrightarrow> Q x s') \<Longrightarrow>
   wp (g_errors g) (parse_operator_function_declaraion P k) s Q"
  unfolding parse_operator_function_declaraion_def
  by (intro wp_in_scope wp_push_constants_scope wp_pop_constants_scope
      wp_function_body wp_rules; assumption?)
    (auto dest: inv0_depth simp: inv_scope(3))

subsection \<open>Structures, enumerations and aliases\<close>

lemma structure_field:
  "turns N anywhere (structure_field P name) (\<lambda>_ _. True) (\<lambda>_ _. True)"
  unfolding structure_field_def
  by (intro turnsI wp_rules; assumption?) simp_all

lemma wp_register_structure [wp_rules]:
  "inv g s \<Longrightarrow> (\<And>x s'. inv g s' \<Longrightarrow> tokens_left s' = tokens_left s \<Longrightarrow> stmt_ok 0 x \<Longrightarrow> Q x s') \<Longrightarrow>
   wp (g_errors g) (register_structure name st) s Q"
  unfolding register_structure_def
  by (intro wp_rules wp_update_context wp_modify; assumption?) simp_all

lemma wp_resolve_structure_fields [wp_rules]:
  "inv g s \<Longrightarrow> (\<And>x s'. inv g s' \<Longrightarrow> tokens_left s' = tokens_left s \<Longrightarrow> Q x s') \<Longrightarrow>
   wp (g_errors g) (resolve_structure_fields name types) s Q"
  unfolding resolve_structure_fields_def
  by (intro wp_rules wp_modify; assumption?) simp_all

lemma parse_structure_declaration:
  "inv0 g s \<Longrightarrow> tokens_left s < Suc N \<Longrightarrow>
   (\<And>x s'. inv g s' \<Longrightarrow> tokens_left s' < tokens_left s \<Longrightarrow> stmt_ok 0 x \<Longrightarrow> Q x s') \<Longrightarrow>
   wp (g_errors g) (parse_structure_declaration P packed ext) s Q"
  unfolding parse_structure_declaration_def
  by (intro wp_rules wp_modify wp_turns [OF structure_field]; assumption?) (simp_all add: fuel)

lemma wp_enum_explicit_value [wp_rules]:
  "inv g s \<Longrightarrow> tokens_left s < N \<Longrightarrow> enum_ok es \<Longrightarrow> map_of (enum_values_indexes es) (literal t) = None \<Longrightarrow>
   (\<And>es' s'. inv g s' \<Longrightarrow> tokens_left s' \<le> tokens_left s \<Longrightarrow> enum_ok es' \<Longrightarrow> Q es' s') \<Longrightarrow>
   wp (g_errors g) (enum_explicit_value P t es) s Q"
  unfolding enum_explicit_value_def
  by (intro wp_rules; assumption?) simp_all

lemma wp_enum_implicit_value [wp_rules]:
  "inv g s \<Longrightarrow> enum_ok es \<Longrightarrow> map_of (enum_values_indexes es) (literal t) = None \<Longrightarrow>
   (\<And>es'. enum_ok es' \<Longrightarrow> Q es' s) \<Longrightarrow> wp (g_errors g) (enum_implicit_value t es) s Q"
  unfolding enum_implicit_value_def
  by (intro wp_rules; assumption?) simp_all

lemma enum_element: "turns N anywhere (enum_element P) (\<lambda>_. enum_ok) (\<lambda>_. enum_ok)"
  unfolding enum_element_def
  by (intro turnsI wp_rules; assumption?) auto

lemma parse_enum_declaration:
  "inv0 g s \<Longrightarrow> tokens_left s < Suc N \<Longrightarrow>
   (\<And>x s'. inv g s' \<Longrightarrow> tokens_left s' < tokens_left s \<Longrightarrow> stmt_ok 0 x \<Longrightarrow> Q x s') \<Longrightarrow>
   wp (g_errors g) (parse_enum_declaration P) s Q"
  unfolding parse_enum_declaration_def
  by (intro wp_rules wp_update_context wp_turns [OF enum_element]; assumption?)
    (simp_all add: fuel enum_ok_def)

lemma parse_type_alias_declaration:
  "inv0 g s \<Longrightarrow> tokens_left s < Suc N \<Longrightarrow>
   (\<And>s'. inv g s' \<Longrightarrow> tokens_left s' < tokens_left s \<Longrightarrow> Q () s') \<Longrightarrow>
   wp (g_errors g) (parse_type_alias_declaration P) s Q"
  unfolding parse_type_alias_declaration_def
  by (intro wp_rules wp_update_context; assumption?) simp_all

subsection \<open>Declarations\<close>

lemma wp_call_kind_directive:
  "inv g s \<Longrightarrow> cur_kind s \<noteq> TOKEN_END_OF_FILE \<Longrightarrow> tokens_left s < Suc N \<Longrightarrow>
   (\<And>x s'. inv g s' \<Longrightarrow> tokens_left s' < tokens_left s \<Longrightarrow> stmt_ok 0 x \<Longrightarrow> Q x s') \<Longrightarrow>
   wp (g_errors g) (call_kind_directive P k msg) s Q"
  unfolding call_kind_directive_def
  by (intro wp_rules parse_function_declaration parse_operator_function_declaraion; assumption?) simp_all

lemma parse_declaraions_directive:
  "inv0 g s \<Longrightarrow> tokens_left s < Suc N \<Longrightarrow>
   (\<And>x s'. inv g s' \<Longrightarrow> tokens_left s' < tokens_left s \<Longrightarrow> stmt_ok 0 x \<Longrightarrow> Q x s') \<Longrightarrow>
   wp (g_errors g) (parse_declaraions_directive P) s Q"
  unfolding parse_declaraions_directive_def
  by (intro wp_rules parse_intrinsic_prototype [THEN wp_eats] parse_structure_declaration
      parse_function_prototype wp_call_kind_directive; assumption?) simp_all

lemmas declaration_rules = parse_function_declaration parse_operator_function_declaraion
  parse_destructuring_field_declaration parse_field_declaration parse_compiletime_constants_declaraion
  parse_structure_declaration parse_enum_declaration parse_declaraions_directive

lemma parse_declaration_statement:
  "inv0 g s \<Longrightarrow> tokens_left s < Suc N \<Longrightarrow>
   (\<And>x s'. inv g s' \<Longrightarrow> tokens_left s' < tokens_left s \<Longrightarrow> stmt_ok 0 x \<Longrightarrow> Q x s') \<Longrightarrow>
   wp (g_errors g) (parse_declaration_statement P) s Q"
  unfolding parse_declaration_statement_def
  by (intro wp_rules declaration_rules; assumption?) simp_all

end

end
