(* ===== verification/Parser_Totality.thy ===== *)
theory Parser_Totality
  imports Parser_Declarations_Total
begin

text \<open>
  Files: the contract of \<open>parse_compilation_unit\<close>, with the files it loads, and the properties of the
  whole parser.
\<close>

subsection \<open>Loading files\<close>

abbreviation known_files :: "parser \<Rightarrow> string set" where
  "known_files s \<equiv> set (files_set (ctx_source_manager (pcontext s)))"

text \<open>What \<open>parse_single_source_file\<close> promises for an existing file that is not registered yet.\<close>

definition loads :: "file_system \<Rightarrow> (string \<Rightarrow> statement list parse) \<Rightarrow> ghost \<Rightarrow> bool" where
  "loads fs parse_file g \<longleftrightarrow> (\<forall>s path. inv g s \<longrightarrow> file_exists fs path \<longrightarrow> path \<notin> known_files s \<longrightarrow>
     wp (g_errors g) (parse_file path) s (\<lambda>ns s'. inv g s' \<and> tokens_left s' = tokens_left s
       \<and> list_all (stmt_ok 0) ns))"

lemma wp_loads:
  "loads fs parse_file g \<Longrightarrow> inv g s \<Longrightarrow> file_exists fs path \<Longrightarrow> path \<notin> known_files s \<Longrightarrow>
   (\<And>ns s'. inv g s' \<Longrightarrow> tokens_left s' = tokens_left s \<Longrightarrow> list_all (stmt_ok 0) ns \<Longrightarrow> Q ns s') \<Longrightarrow>
   wp (g_errors g) (parse_file path) s Q"
  unfolding loads_def by (blast intro: wp_mono)

lemma wp_load_file:
  "loads fs parse_file g \<Longrightarrow> inv g s \<Longrightarrow>
   (\<And>ns s'. inv g s' \<Longrightarrow> tokens_left s' = tokens_left s \<Longrightarrow> list_all (stmt_ok 0) ns \<Longrightarrow> Q ns s') \<Longrightarrow>
   wp (g_errors g) (load_file fs parse_file t path msg) s Q"
  unfolding load_file_def
  by (intro wp_rules wp_loads; assumption?) (simp_all add: is_path_registered_def contains_def)

lemma append_vectors_append: "append_vectors xs ys = xs @ ys"
  by (induction ys arbitrary: xs) (simp_all add: append_vectors_def)

lemma parse_file_declaration:
  assumes "loads fs parse_file g" and "\<And>name e s Q. (\<And>p. Q p s) \<Longrightarrow> wp e (path_of name) s Q"
    and "inv0 g s" and "cur_kind s \<noteq> TOKEN_END_OF_FILE" and "tokens_left s < Suc fuel"
    and "\<And>ns s'. inv g s' \<Longrightarrow> tokens_left s' < tokens_left s \<Longrightarrow> list_all (stmt_ok 0) ns \<Longrightarrow> Q ns s'"
  shows "wp (g_errors g) (parse_file_declaration path_of missing msg fs parse_file fuel) s Q"
proof -
  have turn: "turns (Suc fuel) (\<lambda>g'. g' = g) (\<lambda>tree_nodes. bind (list_ends True TOKEN_CLOSE_BRACE) (\<lambda>ends.
          if ends then return_p (Inr tree_nodes)
          else
            bind (consume_kind TOKEN_STRING msg) (\<lambda>library_name.
            bind (path_of (literal library_name)) (\<lambda>library_path.
            bind (load_file fs parse_file library_name library_path
                (missing (literal library_name) library_path)) (\<lambda>nodes.
            return_p (Inl (append_vectors tree_nodes nodes)))))))
     (\<lambda>_. list_all (stmt_ok 0)) (\<lambda>_. list_all (stmt_ok 0))"
    using assms(1)
    by (intro turnsI wp_rules assms(2) wp_load_file; assumption?) (auto simp: append_vectors_append)
  show ?thesis
    unfolding parse_file_declaration_def
    using assms(3-5)
    by (intro wp_rules wp_turns [OF turn] assms(1,2) wp_load_file [OF assms(1)]; assumption?)
      (auto intro: assms(6))
qed

lemma parse_import_declaration:
  "loads fs parse_file g \<Longrightarrow> inv0 g s \<Longrightarrow> cur_kind s \<noteq> TOKEN_END_OF_FILE \<Longrightarrow> tokens_left s < Suc fuel \<Longrightarrow>
   (\<And>ns s'. inv g s' \<Longrightarrow> tokens_left s' < tokens_left s \<Longrightarrow> list_all (stmt_ok 0) ns \<Longrightarrow> Q ns s') \<Longrightarrow>
   wp (g_errors g) (parse_import_declaration fs parse_file fuel) s Q"
  unfolding parse_import_declaration_def by (erule parse_file_declaration) (auto intro: wp_return)

lemma parse_load_declaration:
  "loads fs parse_file g \<Longrightarrow> inv0 g s \<Longrightarrow> cur_kind s \<noteq> TOKEN_END_OF_FILE \<Longrightarrow> tokens_left s < Suc fuel \<Longrightarrow>
   (\<And>ns s'. inv g s' \<Longrightarrow> tokens_left s' < tokens_left s \<Longrightarrow> list_all (stmt_ok 0) ns \<Longrightarrow> Q ns s') \<Longrightarrow>
   wp (g_errors g) (parse_load_declaration fs parse_file fuel) s Q"
  unfolding parse_load_declaration_def by (erule parse_file_declaration) (auto intro: wp_read)

subsection \<open>Compilation units\<close>

lemma unit_step:
  assumes "parser_procs P N" and "loads fs parse_file g" and "inv0 g s" and "tokens_left s < N"
    and "list_all (stmt_ok 0) nodes"
  shows "wp (g_errors g) (unit_step fs parse_file P nodes) s (\<lambda>r s'. inv0 g s' \<and> (case r of
       Inl ns \<Rightarrow> tokens_left s' < tokens_left s \<and> list_all (stmt_ok 0) ns
     | Inr ns \<Rightarrow> cur_kind s' = TOKEN_END_OF_FILE \<and> list_all (stmt_ok 0) ns))"
  unfolding unit_step_def
  by (intro wp_rules parse_import_declaration [OF assms(2)] parse_load_declaration [OF assms(2)]
      parser_procs.parse_type_alias_declaration [OF assms(1)]
      parser_procs.parse_declaration_statement [OF assms(1)] assms(3))
    (use assms parser_procs.fuel [OF assms(1)] in \<open>auto simp: append_vectors_append\<close>)

text \<open>
  The result of a compilation unit: well-formed declarations, and either the end of the file reached
  with the invariant, or one error.
\<close>

definition unit_done :: "ghost \<Rightarrow> statement list \<Rightarrow> parser \<Rightarrow> bool" where
  "unit_done g nodes s \<longleftrightarrow> list_all (stmt_ok 0) nodes
     \<and> (inv0 g s \<and> cur_kind s = TOKEN_END_OF_FILE \<or> errors s = Suc (g_errors g))"

lemma unit_doneI:
  "list_all (stmt_ok 0) nodes \<Longrightarrow> inv0 g s \<Longrightarrow> cur_kind s = TOKEN_END_OF_FILE \<Longrightarrow> unit_done g nodes s"
  by (simp add: unit_done_def)

definition no_stop :: "'a parse \<Rightarrow> parser \<Rightarrow> ('a \<Rightarrow> parser \<Rightarrow> bool) \<Rightarrow> bool" where
  "no_stop m s Q \<longleftrightarrow> (case m s of Ok x s' \<Rightarrow> Q x s' | Stop s' \<Rightarrow> False | Crash c \<Rightarrow> known_crash c
     | OutOfFuel \<Rightarrow> False)"

lemma unit_loop:
  assumes step: "\<And>nodes s. inv0 g s \<Longrightarrow> tokens_left s < N \<Longrightarrow> list_all (stmt_ok 0) nodes \<Longrightarrow>
      wp (g_errors g) (step nodes) s (\<lambda>r s'. inv0 g s' \<and> (case r of
         Inl ns \<Rightarrow> tokens_left s' < tokens_left s \<and> list_all (stmt_ok 0) ns
       | Inr ns \<Rightarrow> cur_kind s' = TOKEN_END_OF_FILE \<and> list_all (stmt_ok 0) ns))"
    and "inv0 g s" and "tokens_left s < n" and "n \<le> N" and "list_all (stmt_ok 0) nodes"
  shows "no_stop (unit_loop n step nodes) s (unit_done g)"
  using assms(2-5)
proof (induction n arbitrary: s nodes)
  case (Suc n)
  note * = step [OF Suc.prems(1) less_le_trans [OF Suc.prems(2,3)] Suc.prems(4), unfolded wp_def]
  have go_on: "no_stop (unit_loop n step ns) s' (unit_done g)"
    if "step nodes s = Ok (Inl ns) s'" for ns s'
    using that * Suc.prems by (intro Suc.IH) auto
  show ?case
  proof (cases "step nodes s")
    case (Ok r s')
    then show ?thesis
      using * go_on by (cases r) (auto simp: no_stop_def intro: unit_doneI)
  qed (use * Suc.prems(4) in \<open>simp_all add: no_stop_def unit_done_def\<close>)
qed simp

text \<open>Before the first token: the two lookahead tokens are still to be read.\<close>

definition starts :: "ghost \<Rightarrow> parser \<Rightarrow> bool" where
  "starts g s \<longleftrightarrow> tz_ok (ptokenizer s)
     \<and> constants_ok (ctx_constants_table_map (pcontext s))
     \<and> None \<notin> ran (type_alias_table (ctx_type_alias_table (pcontext s)))
     \<and> errors s = g_errors g \<and> loop_levels_stack s = g_levels g \<and> current_ast_scope s = g_scope g
     \<and> length (linked_scoped (ctx_constants_table_map (pcontext s))) = g_depth g
     \<and> g_files g \<subseteq> known_files s"

lemma starts_inv0: "inv0 g s \<longleftrightarrow> starts g s \<and> current_token s \<noteq> None \<and> next_token s \<noteq> None"
  by (auto simp: starts_def inv0_def)

lemma advanced_starts:
  assumes "starts g s"
  obtains (read) tok t where "scanned (ptokenizer s) tok t"
      "advanced_token s = Ok () (s\<lparr>ptokenizer := t, previous_token := current_token s,
        current_token := next_token s, next_token := Some tok\<rparr>)"
  | (stopped) s' where "advanced_token s = Stop s'" "errors s' = Suc (g_errors g)"
proof -
  have "ensures (scan_next_token (ptokenizer s)) (\<lambda>(tok, t'). scanned (ptokenizer s) tok t')"
    using assms by (intro scan_next_token_scanned) (simp add: starts_def)
  then obtain tok t where scan: "scan_next_token (ptokenizer s) = Some (tok, t)"
    "scanned (ptokenizer s) tok t"
    by (auto simp: ensures_iff)
  show thesis
  proof (cases "kind tok = TOKEN_INVALID")
    case True
    then have "advanced_token s = stop_error (position tok) (literal tok) (s\<lparr>ptokenizer := t\<rparr>)"
      using scan(1) by (simp add: advanced_token_def)
    from stopped [OF this [unfolded stop_error_def]] show thesis
      using assms by (simp add: starts_def errors_def report_error_def report_at_def)
  next
    case False
    then show thesis using scan by (intro read) (simp_all add: advanced_token_def)
  qed
qed

lemma scanned_left:
  "scanned t tok t' \<Longrightarrow> left t' + token_weight (Some tok) \<le> left t"
  by (auto simp: scanned_def left_def token_weight_def same_source_def)

lemma first_tokens:
  assumes "starts g s"
  shows "case and_then advanced_token advanced_token s of
      Ok _ s' \<Rightarrow> inv0 g s' \<and> tokens_left s' \<le> left (ptokenizer s)
    | Stop s' \<Rightarrow> errors s' = Suc (g_errors g) | _ \<Rightarrow> False"
  using assms
proof (cases rule: advanced_starts)
  case (read tok t)
  let ?s = "s\<lparr>ptokenizer := t, previous_token := current_token s,
    current_token := next_token s, next_token := Some tok\<rparr>"
  have "starts g ?s"
    using assms read(1) by (simp add: starts_def scanned_def errors_def)
  then show ?thesis
  proof (cases rule: advanced_starts)
    case (read tok' t')
    then show ?thesis
      using \<open>starts g ?s\<close> \<open>advanced_token s = _\<close> scanned_left [OF \<open>scanned (ptokenizer s) tok t\<close>] scanned_left [OF read(1)]
      by (auto simp: and_then_def bind_def starts_inv0 starts_def errors_def tokens_left_def scanned_def)
  qed (use \<open>advanced_token s = _\<close> in \<open>simp add: and_then_def bind_def\<close>)
qed (simp add: and_then_def bind_def)

lemma parse_compilation_unit:
  assumes "parser_procs P N" and "loads fs parse_file g" and "starts g s"
    and "left (ptokenizer s) < N"
  shows "no_stop (parse_compilation_unit fs parse_file P) s (unit_done g)"
proof -
  note first = first_tokens [OF assms(3)]
  have "no_stop (unit_loop (p_fuel P) (unit_step fs parse_file P) []) s' (unit_done g)"
    if "inv0 g s'" "tokens_left s' \<le> left (ptokenizer s)" for s'
    using that assms parser_procs.fuel [OF assms(1)]
    by (intro unit_loop [where N = N] unit_step) auto
  then show ?thesis
    using first
    by (cases "and_then advanced_token advanced_token s")
      (simp_all add: no_stop_def parse_compilation_unit_def unit_done_def)
qed

text \<open>The files that are still to be loaded bound the nesting of units.\<close>

definition unloaded :: "file_system \<Rightarrow> ghost \<Rightarrow> string set" where
  "unloaded fs g = {p. file_exists fs p} - g_files g"

lemma starts_new_parser:
  assumes "inv0 g s" and "register_source_path path (ctx_source_manager (pcontext s)) = (i, m)"
    and p: "p = new_parser ((pcontext s)\<lparr>ctx_source_manager := m\<rparr>) (new_tokenizer i content)"
  shows "starts \<lparr>g_errors = g_errors g, g_levels = [], g_scope = GLOBAL_SCOPE, g_depth = g_depth g,
      g_files = insert path (known_files s)\<rparr> p"
    and "left (ptokenizer p) < unit_fuel p"
  using assms(1,2)
  by (auto simp: starts_def inv0_def p new_parser_def new_tokenizer_def tz_ok_def left_def errors_def
      unit_fuel_def register_source_path_def resolve_source_path_def get_source_file_id_def Let_def
      split: option.splits prod.splits)

text \<open>Back in the file that loads: without an error the invariant holds again.\<close>

lemma back_from_file:
  assumes "inv g s" and "g_errors g = 0"
    and "unit_done \<lparr>g_errors = g_errors g, g_levels = [], g_scope = GLOBAL_SCOPE, g_depth = g_depth g,
      g_files = insert path (known_files s)\<rparr> ns p" (is "unit_done ?g _ _")
  defines "s' \<equiv> s\<lparr>pcontext := pcontext p\<rparr>"
  shows "list_all (stmt_ok 0) ns" and "0 < errors p \<Longrightarrow> errors s' = Suc (g_errors g)"
    and "errors p = 0 \<Longrightarrow> inv g s' \<and> tokens_left s' = tokens_left s"
proof -
  have ended: "inv0 ?g p \<or> errors p = 1" and "list_all (stmt_ok 0) ns"
    using assms(2,3) by (auto simp: unit_done_def)
  then show "list_all (stmt_ok 0) ns" by simp
  have p: "errors s' = errors p" by (simp add: s'_def errors_def)
  show "errors s' = Suc (g_errors g)" if "0 < errors p"
    using that ended assms(2) p by (auto simp: inv0_def)
  show "inv g s' \<and> tokens_left s' = tokens_left s" if "errors p = 0"
  proof -
    have "inv0 ?g p" using ended that by simp
    then show ?thesis
      using assms(1,2) that p by (auto simp: inv_def inv0_def s'_def)
  qed
qed

lemma parse_unit_at:
  assumes "finite {p. file_exists fs p}" and "starts g s" and "g_errors g = 0"
    and "left (ptokenizer s) < unit_fuel s" and "card (unloaded fs g) < depth"
  shows "no_stop (parse_unit_at fs depth) s (unit_done g)"
  using assms(2-)
proof (induction depth arbitrary: g s)
  case (Suc depth)
  have "wp (g_errors g) (parse_single_source_file (parse_unit_at fs depth) fs path) s
      (\<lambda>ns s'. inv g s' \<and> tokens_left s' = tokens_left s \<and> list_all (stmt_ok 0) ns)"
    if s: "inv g s" "file_exists fs path" "path \<notin> known_files s" for s path
  proof -
    obtain i m where m: "register_source_path path (ctx_source_manager (pcontext s)) = (i, m)"
      by fastforce
    let ?p = "new_parser ((pcontext s)\<lparr>ctx_source_manager := m\<rparr>) (new_tokenizer i (file_content fs path))"
    let ?g = "\<lparr>g_errors = g_errors g, g_levels = [], g_scope = GLOBAL_SCOPE, g_depth = g_depth g,
      g_files = insert path (known_files s)\<rparr>"
    have sub: "g_files g \<subseteq> known_files s" using s(1) by (simp add: inv_def inv0_def)
    then have "unloaded fs ?g \<subset> unloaded fs g"
      using s(2,3) by (auto simp: unloaded_def)
    moreover have "finite (unloaded fs g)" using assms(1) by (simp add: unloaded_def)
    ultimately have "card (unloaded fs ?g) < card (unloaded fs g)" by (rule psubset_card_mono [rotated])
    then have "card (unloaded fs ?g) < depth" using Suc.prems(4) by simp
    then have "no_stop (parse_unit_at fs depth) ?p (unit_done ?g)"
      using starts_new_parser [OF inv_inv0 [OF s(1)] m refl] Suc.prems(2) by (intro Suc.IH) simp_all
    then show ?thesis
      using back_from_file [OF s(1) Suc.prems(2), of path] m
      by (cases "parse_unit_at fs depth ?p")
        (simp_all add: wp_def no_stop_def parse_single_source_file_def errors_def level_count_def Let_def)
  qed
  then have "loads fs (parse_single_source_file (parse_unit_at fs depth) fs) g"
    by (simp add: loads_def)
  then show ?case
    using parse_compilation_unit [OF procs_at_contract _ Suc.prems(1,3)]
    by (simp add: no_stop_def)
qed simp

end
