(* ===== verification/Front_End.thy ===== *)
theory Front_End
  imports Parser_Totality
begin

text \<open>
  \<open>Compiler::parse_source_code\<close> of \<open>src/amun_compiler.cpp\<close>: from a path to a checked syntax tree or the end of
  the process, and what the parser guarantees about it for every source text.
\<close>

subsection \<open>The driver of the front end\<close>

text \<open>
  The process goes on with a value, has called \<open>exit\<close>, was aborted by an uncaught exception or undefined
  behaviour, or does not come back.  \<open>Uncaught\<close> is a \<open>throw "Stop"\<close> that reaches the driver.
\<close>

datatype 'a process =
    Continues 'a compile_context
  | Exited int compile_context
  | Aborted crash
  | Uncaught
  | Endless

definition exit_failure :: int where
  "exit_failure = 1"

definition parse_source_code ::
  "file_system \<Rightarrow> nat \<Rightarrow> string \<Rightarrow> compile_context \<Rightarrow> statement list process" where
  "parse_source_code fs depth source_file ctx =
     (if \<not> file_exists fs source_file then Exited exit_failure ctx
      else
        (let (file_id, manager) = register_source_path source_file (ctx_source_manager ctx);
             source_content = file_content fs source_file
         in case parse_unit_at fs depth (new_parser (ctx\<lparr>ctx_source_manager := manager\<rparr>)
                   (new_tokenizer file_id source_content)) of
              Ok compilation_unit p \<Rightarrow>
                if level_count ERROR_LEVEL (ctx_diagnostics (pcontext p)) > 0
                then Exited exit_failure (pcontext p)
                else Continues compilation_unit (pcontext p)
            | Stop p \<Rightarrow> Uncaught
            | Crash c \<Rightarrow> Aborted c
            | OutOfFuel \<Rightarrow> Endless))"

subsection \<open>The guarantees\<close>

text \<open>The context after \<open>Context::Context\<close>.\<close>

definition parsed_ok :: "statement list process \<Rightarrow> bool" where
  "parsed_ok r \<longleftrightarrow> (case r of
     Continues nodes ctx \<Rightarrow> list_all (stmt_ok 0) nodes
       \<and> length (diagnostics (ctx_diagnostics ctx) ERROR_LEVEL) = 0
       \<and> constants_ok (ctx_constants_table_map ctx)
       \<and> length (linked_scoped (ctx_constants_table_map ctx)) = 1
       \<and> None \<notin> ran (type_alias_table (ctx_type_alias_table ctx))
   | Exited code ctx \<Rightarrow> code = exit_failure
       \<and> length (diagnostics (ctx_diagnostics ctx) ERROR_LEVEL) = 1
   | Aborted c \<Rightarrow> known_crash c
   | Uncaught \<Rightarrow> False
   | Endless \<Rightarrow> False)"

lemma starts_first_parser:
  assumes "register_source_path path (ctx_source_manager (new_context opts)) = (i, m)"
    and "p = new_parser ((new_context opts)\<lparr>ctx_source_manager := m\<rparr>) (new_tokenizer i content)"
  shows "starts \<lparr>g_errors = 0, g_levels = [], g_scope = GLOBAL_SCOPE, g_depth = 1, g_files = {path}\<rparr> p"
    and "left (ptokenizer p) < unit_fuel p"
  using assms
  by (auto simp: starts_def new_parser_def new_tokenizer_def tz_ok_def left_def errors_def
      unit_fuel_def register_source_path_def resolve_source_path_def get_source_file_id_def Let_def
      new_context_def new_diagnostic_engine_def new_source_manager_def constants_ok_def
      push_new_scope_def config_type_alias_table_def ran_def
      split: option.splits prod.splits if_splits)

lemma parse_source_code_ok:
  assumes "finite {p. file_exists fs p}" and "file_exists fs path"
    and "card {p. file_exists fs p} \<le> depth"
  shows "parsed_ok (parse_source_code fs depth path (new_context opts))"
proof -
  obtain i m where m: "register_source_path path (ctx_source_manager (new_context opts)) = (i, m)"
    by fastforce
  let ?g = "\<lparr>g_errors = 0, g_levels = [], g_scope = GLOBAL_SCOPE, g_depth = 1, g_files = {path}\<rparr>"
  let ?p = "new_parser ((new_context opts)\<lparr>ctx_source_manager := m\<rparr>) (new_tokenizer i (file_content fs path))"
  have "card (unloaded fs ?g) < card {p. file_exists fs p}"
    unfolding unloaded_def using assms(1,2) by (intro psubset_card_mono) auto
  then have "no_stop (parse_unit_at fs depth) ?p (unit_done ?g)"
    using starts_first_parser [OF m refl] assms(1,3) by (intro parse_unit_at) simp_all
  then show ?thesis
    using assms(2) m
    by (cases "parse_unit_at fs depth ?p")
      (auto simp: parsed_ok_def parse_source_code_def no_stop_def unit_done_def inv0_def errors_def
        level_count_def)
qed

end
