(* ===== verification/Parser_Eval.thy ===== *)
theory Parser_Eval
  imports Front_End
begin

text \<open>
  Rules that evaluate the parser on a concrete source with the simplifier: every parsing function is
  unfolded when it meets a state, the fuel is a numeral, and the tokens of the source are given as
  equations of \<open>scan_next_token\<close>.
\<close>

lemma loop_numeral: "loop (numeral k) body a =
   bind (body a) (\<lambda>r. case r of Inl a' \<Rightarrow> loop (pred_numeral k) body a' | Inr b \<Rightarrow> return_p b)"
  by (simp add: numeral_eq_Suc)

lemma unit_loop_numeral: "unit_loop (numeral k) step tree_nodes s = (case step tree_nodes s of
     Ok (Inl tree_nodes') s' \<Rightarrow> unit_loop (pred_numeral k) step tree_nodes' s'
   | Ok (Inr tree_nodes') s' \<Rightarrow> Ok tree_nodes' s'
   | Stop s' \<Rightarrow> Ok tree_nodes s'
   | Crash c \<Rightarrow> Crash c
   | OutOfFuel \<Rightarrow> OutOfFuel)"
  by (simp add: numeral_eq_Suc)

lemma procs_numeral: "procs_at (numeral k) = procs_step (numeral k) (procs_at (pred_numeral k))"
  by (simp add: numeral_eq_Suc)

lemma procs_calls:
  "p_fuel (procs_at n) = n"
  "p_expression (procs_at (numeral k)) s = parse_expression (procs_at (pred_numeral k)) s"
  "p_infix_call (procs_at (numeral k)) s = parse_infix_call_expression (procs_at (pred_numeral k)) s"
  "p_prefix (procs_at (numeral k)) s = parse_prefix_expression (procs_at (pred_numeral k)) s"
  "p_statement (procs_at (numeral k)) s = parse_statement (procs_at (pred_numeral k)) s"
  "p_type (procs_at (numeral k)) s = parse_type (procs_at (pred_numeral k)) s"
  "p_type_with_prefix (procs_at (numeral k)) s = parse_type_with_prefix (procs_at (pred_numeral k)) s"
  by (cases n; simp add: procs_numeral procs_step_def)+

lemma unit_eval: "parse_unit_at fs 1 s =
   parse_compilation_unit fs (parse_single_source_file (parse_unit_at fs 0) fs) (procs_at (unit_fuel s)) s"
  by simp

lemmas parser_state_eval =
  return_p_def bind_def and_then_def [THEN fun_cong] crash_def read_def modify_def
  update_context_def [THEN fun_cong] value_of_def [THEN fun_cong] stop_error_def
  peek_previous_def peek_current_def peek_next_token_def is_previous_kind_def [THEN fun_cong]
  is_current_kind_def [THEN fun_cong] is_next_kind_def [THEN fun_cong]
  is_source_available_p_def [THEN fun_cong] advanced_token_def
  peek_and_advance_token_def [THEN fun_cong] consume_kind_def [THEN fun_cong]
  assert_kind_def [THEN fun_cong] if_current_def [THEN fun_cong]
  check_unnecessary_semicolon_warning_def [THEN fun_cong]
  unexpected_token_error_def [THEN fun_cong] get_number_kind_def [THEN fun_cong]
  is_function_declaration_kind_def [THEN fun_cong]
  check_function_kind_paramters_count_def [THEN fun_cong]
  check_compiletime_constants_expression_def [THEN fun_cong]

lemmas parser_types_eval =
  list_ends_def [THEN fun_cong] comma_list_def [THEN fun_cong] stoi_def
  parse_list_of_types_def [THEN fun_cong] parse_pointer_to_type_def [THEN fun_cong]
  parse_function_ptr_type_def [THEN fun_cong] parse_tuple_type_def [THEN fun_cong]
  parse_fixed_size_array_type_def [THEN fun_cong]
  parse_generic_arguments_if_exists_def [THEN fun_cong] structure_of_def [THEN fun_cong]
  parse_identifier_type_def [THEN fun_cong] parse_primary_type_def [THEN fun_cong]
  parse_generic_struct_type_def [THEN fun_cong] parse_type_with_postfix_def [THEN fun_cong]
  parse_type_with_prefix_def [THEN fun_cong] pares_types_directive_def [THEN fun_cong]
  parse_type_def [THEN fun_cong]

lemmas parser_expressions_eval =
  left_assoc_def [THEN fun_cong] parse_parameter_def [THEN fun_cong]
  statement_list_def [THEN fun_cong] in_new_body_def [THEN fun_cong]
  lambda_signature_def [THEN fun_cong] parse_lambda_expression_def [THEN fun_cong]
  parse_number_expression_def [THEN fun_cong] parse_literal_expression_def [THEN fun_cong]
  braced_value_def [THEN fun_cong] if_condition_def [THEN fun_cong]
  parse_if_expression_def [THEN fun_cong] parse_switch_operator_def [THEN fun_cong]
  switch_case_values_def [THEN fun_cong] switch_expression_branch_def [THEN fun_cong]
  parse_switch_expression_def [THEN fun_cong] parse_group_or_tuple_expression_def [THEN fun_cong]
  parse_array_expression_def [THEN fun_cong] parse_cast_expression_def [THEN fun_cong]
  parse_type_size_expression_def [THEN fun_cong] parse_type_allign_expression_def [THEN fun_cong]
  parse_value_size_expression_def [THEN fun_cong] limit_value_directive_def [THEN fun_cong]
  parse_expressions_directive_def [THEN fun_cong] token_expression_def [THEN fun_cong]
  parse_identifier_expression_def [THEN fun_cong] parse_primary_expression_def [THEN fun_cong]
  with_lambda_argument_def [THEN fun_cong]
  parse_function_call_with_lambda_argument_def [THEN fun_cong]
  initializer_arguments_def [THEN fun_cong] parse_initializer_expression_def [THEN fun_cong]
  parse_postfix_call_expression_def [THEN fun_cong]
  parse_enumeration_attribute_expression_def [THEN fun_cong] dot_access_def [THEN fun_cong]
  call_arguments_def [THEN fun_cong] generic_call_def [THEN fun_cong]
  plain_call_def [THEN fun_cong] index_access_def [THEN fun_cong]
  call_or_access_step_def [THEN fun_cong] parse_call_or_access_expression_def [THEN fun_cong]
  parse_postfix_increment_or_decrement_def [THEN fun_cong]
  parse_prefix_call_expression_def [THEN fun_cong] parse_prefix_expression_def [THEN fun_cong]
  parse_infix_call_expression_def [THEN fun_cong]
  parse_enum_access_expression_def [THEN fun_cong] parse_factor_expression_def [THEN fun_cong]
  parse_term_expression_def [THEN fun_cong] shift_step_def [THEN fun_cong]
  parse_bitwise_shift_expression_def [THEN fun_cong]
  parse_comparison_expression_def [THEN fun_cong] parse_equality_expression_def [THEN fun_cong]
  parse_bitwise_or_expression_def [THEN fun_cong]
  parse_bitwise_xor_expression_def [THEN fun_cong]
  parse_bitwise_and_expression_def [THEN fun_cong]
  parse_logical_and_expression_def [THEN fun_cong]
  parse_logical_or_expression_def [THEN fun_cong] parse_assignment_expression_def [THEN fun_cong]
  parse_expression_def [THEN fun_cong]

lemmas parser_statements_eval =
  in_scope_def [THEN fun_cong] loop_levels_top_def [THEN fun_cong]
  change_loop_levels_def [THEN fun_cong] loop_body_def [THEN fun_cong]
  parse_compiletime_constants_declaraion_def [THEN fun_cong]
  field_initializer_def [THEN fun_cong] parse_field_declaration_def [THEN fun_cong]
  destructured_name_def [THEN fun_cong] parse_destructuring_field_declaration_def [THEN fun_cong]
  parse_block_statement_def [THEN fun_cong] parse_return_statement_def [THEN fun_cong]
  parse_defer_statement_def [THEN fun_cong] checked_times_def [THEN fun_cong]
  require_loop_def [THEN fun_cong] parse_break_statement_def [THEN fun_cong]
  parse_continue_statement_def [THEN fun_cong] parse_expression_statement_def [THEN fun_cong]
  else_branch_def [THEN fun_cong] parse_if_statement_def [THEN fun_cong]
  for_header_def [THEN fun_cong] parse_for_statement_def [THEN fun_cong]
  parse_while_statement_def [THEN fun_cong] switch_branch_def [THEN fun_cong]
  parse_switch_statement_def [THEN fun_cong] parse_statements_directive_def [THEN fun_cong]
  parse_statement_def [THEN fun_cong]

lemmas parser_declarations_eval =
  check_generic_parameter_name_def [THEN fun_cong] generic_parameter_list_def [THEN fun_cong]
  prototype_parameter_step_def [THEN fun_cong] parse_prototype_parameters_def [THEN fun_cong]
  prototype_return_def [THEN fun_cong] register_function_def [THEN fun_cong]
  parse_intrinsic_prototype_def [THEN fun_cong] check_main_prototype_def [THEN fun_cong]
  parse_function_prototype_def [THEN fun_cong] push_constants_scope_def [THEN fun_cong]
  pop_constants_scope_def [THEN fun_cong] function_body_def [THEN fun_cong]
  clear_generic_parameters_def [THEN fun_cong] parse_function_declaration_def [THEN fun_cong]
  parse_operator_function_operator_def [THEN fun_cong] operator_parameters_def [THEN fun_cong]
  parse_operator_function_declaraion_def [THEN fun_cong] structure_field_def [THEN fun_cong]
  register_structure_def [THEN fun_cong] resolve_structure_fields_def [THEN fun_cong]
  parse_structure_declaration_def [THEN fun_cong] enum_explicit_value_def [THEN fun_cong]
  enum_implicit_value_def [THEN fun_cong] enum_element_def [THEN fun_cong]
  parse_enum_declaration_def [THEN fun_cong] parse_type_alias_declaration_def [THEN fun_cong]
  call_kind_directive_def [THEN fun_cong] parse_declaraions_directive_def [THEN fun_cong]
  parse_declaration_statement_def [THEN fun_cong] load_file_def [THEN fun_cong]
  parse_file_declaration_def [THEN fun_cong] parse_import_declaration_def [THEN fun_cong]
  parse_load_declaration_def [THEN fun_cong] unit_step_def [THEN fun_cong]

lemmas table_eval = is_assignments_operator_token_def assignments_operators_def
  is_unary_operator_token_def unary_operators_def number_token_kinds_def is_defined_def push_new_scope_def
  contains_alias_def config_type_alias_table_def is_right_shift_operator_def pop_current_scope_def
  two_tokens_operators_def token_kind_literal_def implicit_return_def get_statement_node_type_def
  mk_boolean_def mk_number_def mk_field_declaration_def is_void_type_def void_type_def

lemmas context_eval = parse_source_code_def parse_compilation_unit_def unit_eval unit_fuel_def
  new_parser_def new_context_def resolve_source_path_def register_source_path_def
  new_source_manager_def get_source_file_id_def find_parent_path_def new_diagnostic_engine_def
  level_count_def report_error_def report_at_def Let_def

lemmas parser_eval = loop_numeral unit_loop_numeral procs_calls context_eval table_eval
  parser_state_eval parser_types_eval parser_expressions_eval parser_statements_eval
  parser_declarations_eval

subsection \<open>Examples\<close>

text \<open>A token and the tokenizer behind it, in file 0 and line 1; \<open>a\<close> and \<open>b\<close> are its first and last column.\<close>

definition tz_on :: "string \<Rightarrow> nat \<Rightarrow> nat \<Rightarrow> tokenizer" where
  "tz_on source a b = \<lparr>source_code = source, source_file_id = 0, source_code_length = length source,
     start_position = a, current_position = b, tline_number = 1, tcolumn_start = int a,
     column_current = int b\<rparr>"

abbreviation tok_on :: "token_kind \<Rightarrow> string \<Rightarrow> int \<Rightarrow> int \<Rightarrow> token" where
  "tok_on k l a b \<equiv> \<lparr>kind = k,
     position = \<lparr>file_id = 0, line_number = 1, column_start = a, column_end = b\<rparr>, literal = l\<rparr>"

lemma tz_on_simps [simp]:
  "source_file_id (tz_on source a b) = 0" "source_code (tz_on source a b) = source"
  "new_tokenizer 0 source = tz_on source 0 0"
  by (simp_all add: tz_on_def new_tokenizer_def)

definition one_file :: "string \<Rightarrow> file_system" where
  "one_file source = \<lparr>file_exists = (\<lambda>p. p = ''a''), file_content = (\<lambda>_. source)\<rparr>"

lemma one_file_simps [simp]:
  "file_exists (one_file source) p = (p = ''a'')" "file_content (one_file source) p = source"
  by (simp_all add: one_file_def)

definition loop_source :: string where
  "loop_source = ''fun f() { while (true) break; }''"

lemma loop_tokens:
  "scan_next_token (tz_on loop_source 0 0) =
     Some (tok_on TOKEN_FUN ''fun'' 1 3, tz_on loop_source 1 3)"
  "scan_next_token (tz_on loop_source 1 3) =
     Some (tok_on TOKEN_IDENTIFIER ''f'' 5 5, tz_on loop_source 5 5)"
  "scan_next_token (tz_on loop_source 5 5) =
     Some (tok_on TOKEN_OPEN_PAREN [] 6 6, tz_on loop_source 6 6)"
  "scan_next_token (tz_on loop_source 6 6) =
     Some (tok_on TOKEN_CLOSE_PAREN [] 7 7, tz_on loop_source 7 7)"
  "scan_next_token (tz_on loop_source 7 7) =
     Some (tok_on TOKEN_OPEN_BRACE [] 9 9, tz_on loop_source 9 9)"
  "scan_next_token (tz_on loop_source 9 9) =
     Some (tok_on TOKEN_WHILE ''while'' 11 15, tz_on loop_source 11 15)"
  "scan_next_token (tz_on loop_source 11 15) =
     Some (tok_on TOKEN_OPEN_PAREN [] 17 17, tz_on loop_source 17 17)"
  "scan_next_token (tz_on loop_source 17 17) =
     Some (tok_on TOKEN_TRUE ''true'' 18 21, tz_on loop_source 18 21)"
  "scan_next_token (tz_on loop_source 18 21) =
     Some (tok_on TOKEN_CLOSE_PAREN [] 22 22, tz_on loop_source 22 22)"
  "scan_next_token (tz_on loop_source 22 22) =
     Some (tok_on TOKEN_BREAK ''break'' 24 28, tz_on loop_source 24 28)"
  "scan_next_token (tz_on loop_source 24 28) =
     Some (tok_on TOKEN_SEMICOLON [] 29 29, tz_on loop_source 29 29)"
  "scan_next_token (tz_on loop_source 29 29) =
     Some (tok_on TOKEN_CLOSE_BRACE [] 31 31, tz_on loop_source 31 31)"
  "scan_next_token (tz_on loop_source 31 31) =
     Some (tok_on TOKEN_END_OF_FILE [] 32 32, tz_on loop_source 32 32)"
  "scan_next_token (tz_on loop_source 32 32) =
     Some (tok_on TOKEN_END_OF_FILE [] 33 33, tz_on loop_source 33 33)"
  by code_simp+

definition bad_source :: string where
  "bad_source = ''var x 1;''"

lemma bad_tokens:
  "scan_next_token (tz_on bad_source 0 0) =
     Some (tok_on TOKEN_VAR ''var'' 1 3, tz_on bad_source 1 3)"
  "scan_next_token (tz_on bad_source 1 3) =
     Some (tok_on TOKEN_IDENTIFIER ''x'' 5 5, tz_on bad_source 5 5)"
  "scan_next_token (tz_on bad_source 5 5) =
     Some (tok_on TOKEN_INT ''1'' 7 7, tz_on bad_source 7 7)"
  "scan_next_token (tz_on bad_source 7 7) =
     Some (tok_on TOKEN_SEMICOLON [] 8 8, tz_on bad_source 8 8)"
  "scan_next_token (tz_on bad_source 8 8) =
     Some (tok_on TOKEN_END_OF_FILE [] 9 9, tz_on bad_source 9 9)"
  "scan_next_token (tz_on bad_source 9 9) =
     Some (tok_on TOKEN_END_OF_FILE [] 10 10, tz_on bad_source 10 10)"
  by code_simp+

definition null_source :: string where
  "null_source = ''var x = |= 1;''"

lemma null_tokens:
  "scan_next_token (tz_on null_source 0 0) =
     Some (tok_on TOKEN_VAR ''var'' 1 3, tz_on null_source 1 3)"
  "scan_next_token (tz_on null_source 1 3) =
     Some (tok_on TOKEN_IDENTIFIER ''x'' 5 5, tz_on null_source 5 5)"
  "scan_next_token (tz_on null_source 5 5) =
     Some (tok_on TOKEN_EQUAL [] 7 7, tz_on null_source 7 7)"
  "scan_next_token (tz_on null_source 7 7) =
     Some (tok_on TOKEN_OR_EQUAL [] 9 10, tz_on null_source 9 10)"
  "scan_next_token (tz_on null_source 9 10) =
     Some (tok_on TOKEN_INT ''1'' 12 12, tz_on null_source 12 12)"
  "scan_next_token (tz_on null_source 12 12) =
     Some (tok_on TOKEN_SEMICOLON [] 13 13, tz_on null_source 13 13)"
  "scan_next_token (tz_on null_source 13 13) =
     Some (tok_on TOKEN_END_OF_FILE [] 14 14, tz_on null_source 14 14)"
  "scan_next_token (tz_on null_source 14 14) =
     Some (tok_on TOKEN_END_OF_FILE [] 15 15, tz_on null_source 15 15)"
  by code_simp+

lemma loop_parses:
  "\<exists>ctx prototype. parse_source_code (one_file loop_source) 1 ''a'' (new_context default_options) =
     Continues [FunctionDeclaration prototype (BlockStatement
       [WhileStatement (tok_on TOKEN_WHILE ''while'' 11 15)
          (mk_boolean (tok_on TOKEN_TRUE ''true'' 18 21))
          (BreakStatement (tok_on TOKEN_BREAK ''break'' 24 28) False 1),
        ReturnStatement (tok_on TOKEN_CLOSE_BRACE [] 31 31) None False])] ctx"
  by (simp add: parser_eval loop_tokens loop_source_def [THEN arg_cong [where f = length]]
      del: parse_unit_at.simps One_nat_def)

lemma bad_stops:
  "\<exists>ctx. parse_source_code (one_file bad_source) 1 ''a'' (new_context default_options) =
     Exited exit_failure ctx"
  by (simp add: parser_eval bad_tokens bad_source_def [THEN arg_cong [where f = length]]
      del: parse_unit_at.simps One_nat_def)

lemma null_aborts:
  "parse_source_code (one_file null_source) 1 ''a'' (new_context default_options) = Aborted NullLiteral"
  by (simp add: parser_eval null_tokens null_source_def [THEN arg_cong [where f = length]]
      del: parse_unit_at.simps One_nat_def)

end
