(* ===== verification/Parser_Guarantees.thy ===== *)
theory Parser_Guarantees
  imports Parser_Eval
begin

text \<open>
  The properties of the front end, for every source text: it comes back, how it can fail, and what
  holds when it succeeds.
\<close>

subsection \<open>Examples\<close>

lemma one_file_finite: "finite {p. file_exists (one_file source) p}"
  "card {p. file_exists (one_file source) p} \<le> 1" "file_exists (one_file source) ''a''"
  by simp_all

text \<open>
  C16: the front end always comes back.  For a finite set of files the recursion of the parser, its
  loops, and the nesting of files that load files end on every source text: with more nesting than
  there are files, the result is never \<open>Endless\<close>, and no \<open>throw "Stop"\<close> of the parser reaches the
  driver.
\<close>

theorem parse_source_code_returns:
  assumes "finite {p. file_exists fs p}" and "file_exists fs path"
    and "card {p. file_exists fs p} \<le> depth"
  shows "parse_source_code fs depth path (new_context opts) \<noteq> Endless
    \<and> parse_source_code fs depth path (new_context opts) \<noteq> Uncaught"
  using parse_source_code_ok [OF assms, of opts] by (auto simp: parsed_ok_def)

theorem parse_source_code_returns_witness:
  "parse_source_code (one_file ''var x = ((('') 1 ''a'' (new_context default_options) \<noteq> Endless"
  using parse_source_code_returns [OF one_file_finite(1,3,2)] by blast

text \<open>
  C17: the front end aborts in three ways only: a \<open>std::string\<close> is built from the missing text of a token
  kind, \<open>std::stoi\<close> rejects a count or an enumeration value, or the assertion on unresolved references
  to the structure being declared fails.  No optional without a value is read, no empty stack popped,
  no null pointer followed, and the tokenizer stays inside the source.
\<close>

theorem parse_source_code_crashes:
  assumes "finite {p. file_exists fs p}" and "file_exists fs path"
    and "card {p. file_exists fs p} \<le> depth"
    and "parse_source_code fs depth path (new_context opts) = Aborted c"
  shows "c \<in> {NullLiteral, StoiOutOfRange, AssertFailed}"
  using parse_source_code_ok [OF assms(1-3), of opts] assms(4)
  by (auto simp: parsed_ok_def known_crash_def)

theorem parse_source_code_crashes_witness:
  "\<exists>c. parse_source_code (one_file null_source) 1 ''a'' (new_context default_options) = Aborted c
     \<and> c \<in> {NullLiteral, StoiOutOfRange, AssertFailed}"
  using parse_source_code_crashes [OF one_file_finite(1,3,2) null_aborts] null_aborts by blast

text \<open>
  C18: a source that is rejected has exactly one error reported, however many files it loads, and ends
  the process with the failure code.
\<close>

theorem parse_source_code_one_error:
  assumes "finite {p. file_exists fs p}" and "file_exists fs path"
    and "card {p. file_exists fs p} \<le> depth"
    and "parse_source_code fs depth path (new_context opts) = Exited code ctx"
  shows "code = exit_failure \<and> (\<exists>d. diagnostics (ctx_diagnostics ctx) ERROR_LEVEL = [d])"
  using parse_source_code_ok [OF assms(1-3), of opts] assms(4)
  by (auto simp: parsed_ok_def length_Suc_conv)

theorem parse_source_code_one_error_witness:
  "\<exists>ctx d. parse_source_code (one_file bad_source) 1 ''a'' (new_context default_options)
     = Exited exit_failure ctx \<and> diagnostics (ctx_diagnostics ctx) ERROR_LEVEL = [d]"
  using bad_stops parse_source_code_one_error [OF one_file_finite(1,3,2)] by blast

text \<open>
  C19: a syntax tree that the front end accepts is well-formed.  Every operator node carries one of its
  operators, the parallel vectors of conditions, values, names and types have equal lengths, \<open>defer\<close>
  has a call, \<open>@vec\<close> an array, a switch expression a case, constants are compile time values, the
  elements of an enumeration have different names, and every \<open>break n\<close> and \<open>continue n\<close> has
  \<open>1 \<le> n\<close> and at least \<open>n\<close> loops around it in its function or lambda.
\<close>

theorem parse_source_code_wellformed:
  assumes "finite {p. file_exists fs p}" and "file_exists fs path"
    and "card {p. file_exists fs p} \<le> depth"
    and "parse_source_code fs depth path (new_context opts) = Continues nodes ctx"
  shows "list_all (stmt_ok 0) nodes"
  using parse_source_code_ok [OF assms(1-3), of opts] assms(4) by (simp add: parsed_ok_def)

theorem parse_source_code_wellformed_witness:
  "\<exists>nodes ctx. parse_source_code (one_file loop_source) 1 ''a'' (new_context default_options)
     = Continues nodes ctx \<and> list_all (stmt_ok 0) nodes \<and> nodes \<noteq> []"
  using loop_parses parse_source_code_wellformed [OF one_file_finite(1,3,2)] by blast

text \<open>
  C20: the context is consistent after an accepted source: no error was reported, the scopes of
  constants opened by functions are closed again, and only compile time values are in the remaining
  one; no type alias is null.
\<close>

theorem parse_source_code_context:
  assumes "finite {p. file_exists fs p}" and "file_exists fs path"
    and "card {p. file_exists fs p} \<le> depth"
    and "parse_source_code fs depth path (new_context opts) = Continues nodes ctx"
  shows "diagnostics (ctx_diagnostics ctx) ERROR_LEVEL = []
    \<and> (\<exists>scope. linked_scoped (ctx_constants_table_map ctx) = [scope]
      \<and> (\<forall>e \<in> ran scope. expr_ok e \<and> compiletime_constant e))
    \<and> None \<notin> ran (type_alias_table (ctx_type_alias_table ctx))"
  using parse_source_code_ok [OF assms(1-3), of opts] assms(4)
  by (auto simp: parsed_ok_def constants_ok_def length_Suc_conv)

theorem parse_source_code_context_witness:
  "\<exists>nodes ctx. parse_source_code (one_file loop_source) 1 ''a'' (new_context default_options)
     = Continues nodes ctx \<and> diagnostics (ctx_diagnostics ctx) ERROR_LEVEL = []"
  using loop_parses parse_source_code_context [OF one_file_finite(1,3,2)] by blast

end
