(* ===== verification/Parser_Precedence.thy ===== *)
theory Parser_Precedence
  imports Parser_Eval
begin

text \<open>
  The operators of expressions against a reference grammar.  The grammar is the usual stratified one,
  with a nonterminal per level and left recursion for the binary operators; the parser climbs the
  levels with loops.  Every sentence of the grammar is parsed to the tree of its derivation.
\<close>

subsection \<open>The grammar\<close>

text \<open>The levels of the binary operators, from the loosest to the tightest.\<close>

definition level_ops :: "nat \<Rightarrow> token_kind list" where
  "level_ops k = (if k = 1 then [TOKEN_OR_OR] else if k = 2 then [TOKEN_AND_AND]
     else if k = 3 then [TOKEN_AND] else if k = 4 then [TOKEN_XOR] else if k = 5 then [TOKEN_OR]
     else if k = 6 then [TOKEN_EQUAL_EQUAL, TOKEN_BANG_EQUAL]
     else if k = 7 then [TOKEN_GREATER, TOKEN_GREATER_EQUAL, TOKEN_SMALLER, TOKEN_SMALLER_EQUAL]
     else if k = 8 then [TOKEN_LEFT_SHIFT] else if k = 9 then [TOKEN_PLUS, TOKEN_MINUS]
     else if k = 10 then [TOKEN_STAR, TOKEN_SLASH, TOKEN_PERCENT] else [])"

definition level_node :: "nat \<Rightarrow> expression \<Rightarrow> token \<Rightarrow> expression \<Rightarrow> expression" where
  "level_node k = (if k \<le> 2 then mk_logical else if k \<le> 5 \<or> k = 8 then mk_bitwise
     else if k = 6 then mk_comparison else if k = 7 then chain_comparison else mk_binary)"

definition number_kind_of :: "token_kind \<Rightarrow> number_kind" where
  "number_kind_of k = (if k = TOKEN_INT1 then INTEGER_1 else if k = TOKEN_INT8 then INTEGER_8
     else if k = TOKEN_INT16 then INTEGER_16 else if k = TOKEN_INT32 then INTEGER_32
     else if k = TOKEN_INT \<or> k = TOKEN_INT64 then INTEGER_64
     else if k = TOKEN_UINT8 then U_INTEGER_8 else if k = TOKEN_UINT16 then U_INTEGER_16
     else if k = TOKEN_UINT32 then U_INTEGER_32 else if k = TOKEN_UINT64 then U_INTEGER_64
     else if k = TOKEN_FLOAT32 then FLOAT_32 else FLOAT_64)"

definition atom_kinds :: "token_kind list" where
  "atom_kinds = TOKEN_IDENTIFIER # TOKEN_STRING # TOKEN_CHARACTER # TOKEN_TRUE # TOKEN_FALSE # TOKEN_NULL
     # number_token_kinds"

definition atom_node :: "token \<Rightarrow> expression" where
  "atom_node t = (if kind t = TOKEN_IDENTIFIER then mk_literal t
     else if kind t = TOKEN_STRING then mk_string t
     else if kind t = TOKEN_CHARACTER then mk_character t
     else if kind t = TOKEN_TRUE \<or> kind t = TOKEN_FALSE then mk_boolean t
     else if kind t = TOKEN_NULL then mk_null t
     else mk_number t (NumberType (number_kind_of (kind t))))"

text \<open>A name that is just a variable: no function, type or constant has it.\<close>

definition variable_name :: "compile_context \<Rightarrow> string \<Rightarrow> bool" where
  "variable_name c x \<longleftrightarrow> ctx_functions c x = None \<and> \<not> contains_alias (ctx_type_alias_table c) x
     \<and> \<not> is_defined (ctx_constants_table_map c) x"

text \<open>
  \<open>derives c k ts e\<close>: the tokens \<open>ts\<close> are an expression of level \<open>k\<close> with the tree \<open>e\<close>.  Level 0 is
  assignment, 1 to 10 the binary operators, 11 an operand, 12 an operand with prefix operators.
\<close>

inductive derives :: "compile_context \<Rightarrow> nat \<Rightarrow> token list \<Rightarrow> expression \<Rightarrow> bool" for c where
  atom: "contains atom_kinds (kind t) \<Longrightarrow> (kind t = TOKEN_IDENTIFIER \<longrightarrow> variable_name c (literal t)) \<Longrightarrow>
    derives c 12 [t] (atom_node t)"
| group: "derives c 0 ts e \<Longrightarrow> kind l = TOKEN_OPEN_PAREN \<Longrightarrow> kind r = TOKEN_CLOSE_PAREN \<Longrightarrow>
    derives c 12 (l # ts @ [r]) e"
| prefix: "derives c 12 ts e \<Longrightarrow> contains prefix_kinds (kind t) \<Longrightarrow>
    derives c 12 (t # ts) (mk_prefix_unary t e)"
| operand: "derives c (Suc k) ts e \<Longrightarrow> k \<le> 11 \<Longrightarrow> derives c k ts e"
| binary: "derives c k ts1 e1 \<Longrightarrow> derives c (Suc k) ts2 e2 \<Longrightarrow> contains (level_ops k) (kind t) \<Longrightarrow>
    derives c k (ts1 @ t # ts2) (level_node k e1 t e2)"
| assign: "derives c 1 ts1 e1 \<Longrightarrow> derives c 0 ts2 e2 \<Longrightarrow> kind t = TOKEN_EQUAL \<Longrightarrow>
    derives c 0 (ts1 @ t # ts2) (mk_assign e1 t e2)"

subsection \<open>The parser on a stream of tokens\<close>

text \<open>The tokens that the parser is about to read; at least one, which need not be consumed.\<close>

fun sees :: "compile_context \<Rightarrow> token list \<Rightarrow> parser \<Rightarrow> bool" where
  "sees c [] s = False"
| "sees c [t] s = (pcontext s = c \<and> current_token s = Some t \<and> next_token s \<noteq> None)"
| "sees c (t # t' # ts) s = (pcontext s = c \<and> current_token s = Some t
     \<and> (\<exists>s'. advanced_token s = Ok () s' \<and> sees c (t' # ts) s'))"

lemma advanced_tokens:
  "advanced_token s = Ok () s' \<Longrightarrow> current_token s' = next_token s \<and> previous_token s' = current_token s"
  by (auto simp: advanced_token_def stop_error_def Let_def split: option.splits prod.splits if_splits)

lemma sees_head:
  "sees c (t # ts) s \<Longrightarrow> pcontext s = c \<and> current_token s = Some t \<and> next_token s \<noteq> None"
  by (cases ts; cases "tl ts") (auto dest: advanced_tokens)

lemma sees_next: "sees c (t # t' # ts) s \<Longrightarrow> next_token s = Some t'"
  using sees_head [of c t' ts] by (auto dest: advanced_tokens)

lemma sees_advance:
  assumes "sees c (t # ts) s" and "ts \<noteq> []"
  obtains s' where "advanced_token s = Ok () s'" and "sees c ts s'" and "previous_token s' = Some t"
proof -
  obtain t' ts' where ts: "ts = t' # ts'" using assms(2) by (cases ts) auto
  then obtain s' where s': "advanced_token s = Ok () s'" "sees c ts s'" using assms(1) by auto
  show thesis
    using that [OF s'] advanced_tokens [OF s'(1)] sees_head [OF assms(1)] by simp
qed

lemma sees_not_nil: "sees c ts s \<Longrightarrow> ts \<noteq> []"
  by auto

text \<open>
  What may follow an expression of level \<open>k\<close>: the end of an expression, or an operator of a lower level;
  two \<open>>\<close> in a row could be a shift.
\<close>

definition end_kinds :: "token_kind list" where
  "end_kinds = [TOKEN_CLOSE_PAREN, TOKEN_CLOSE_BRACE, TOKEN_CLOSE_BRACKET, TOKEN_COMMA, TOKEN_SEMICOLON,
     TOKEN_COLON, TOKEN_END_OF_FILE]"

definition stops :: "nat \<Rightarrow> token list \<Rightarrow> bool" where
  "stops k ts \<longleftrightarrow> (case ts of [] \<Rightarrow> False
     | f # r \<Rightarrow> contains end_kinds (kind f) \<or> kind f = TOKEN_EQUAL \<and> 0 < k
       \<or> (\<exists>j<k. contains (level_ops j) (kind f)
            \<and> (kind f = TOKEN_GREATER \<longrightarrow> r \<noteq> [] \<and> kind (hd r) \<noteq> TOKEN_GREATER)))"

lemma stops_mono: "stops j ts \<Longrightarrow> j \<le> k \<Longrightarrow> stops k ts"
  by (fastforce simp: stops_def split: list.splits)

lemma level_ops_cases: "contains (level_ops k) op \<Longrightarrow> 1 \<le> k \<and> k \<le> 10"
  by (auto simp: level_ops_def split: if_splits)

lemma level_ops_unique: "contains (level_ops j) op \<Longrightarrow> contains (level_ops k) op \<Longrightarrow> j = k"
  by (auto simp: level_ops_def split: if_splits)

lemma level_ops_not_end: "contains end_kinds op \<or> op = TOKEN_EQUAL \<Longrightarrow> \<not> contains (level_ops k) op"
  by (auto simp: level_ops_def end_kinds_def)

lemma stops_not_op:
  "stops k (f # r) \<Longrightarrow> \<not> contains (level_ops k) (kind f)"
  using level_ops_unique level_ops_not_end by (fastforce simp: stops_def)

subsection \<open>The levels of the parser\<close>

definition level_parser :: "procs \<Rightarrow> nat \<Rightarrow> expression parse" where
  "level_parser P k = (if k = 0 then parse_expression P
     else if k = 1 then parse_logical_or_expression P else if k = 2 then parse_logical_and_expression P
     else if k = 3 then parse_bitwise_and_expression P else if k = 4 then parse_bitwise_xor_expression P
     else if k = 5 then parse_bitwise_or_expression P else if k = 6 then parse_equality_expression P
     else if k = 7 then parse_comparison_expression P else if k = 8 then parse_bitwise_shift_expression P
     else if k = 9 then parse_term_expression P else if k = 10 then parse_factor_expression P
     else if k = 11 then parse_enum_access_expression P else parse_prefix_expression P)"

definition level_step :: "procs \<Rightarrow> nat \<Rightarrow> expression \<Rightarrow> (expression + expression) parse" where
  "level_step P k e = (if k = 8 then shift_step P e
     else bind peek_current (\<lambda>t.
       if contains (level_ops k) (kind t)
       then bind peek_and_advance_token (\<lambda>operator_token.
            bind (level_parser P (Suc k)) (\<lambda>right. return_p (Inl (level_node k e operator_token right))))
       else return_p (Inr e)))"

lemma level_cases: "1 \<le> k \<Longrightarrow> k \<le> 10 \<Longrightarrow>
  k = 1 \<or> k = 2 \<or> k = 3 \<or> k = 4 \<or> k = 5 \<or> k = 6 \<or> k = 7 \<or> k = 8 \<or> k = 9 \<or> k = (10::nat)"
  by presburger

lemma level_parser_simps:
  "level_parser P 0 = parse_expression P"
  "level_parser P 1 = parse_logical_or_expression P"
  "level_parser P (Suc 0) = parse_logical_or_expression P"
  "level_parser P 2 = parse_logical_and_expression P"
  "level_parser P 3 = parse_bitwise_and_expression P"
  "level_parser P 4 = parse_bitwise_xor_expression P"
  "level_parser P 5 = parse_bitwise_or_expression P"
  "level_parser P 6 = parse_equality_expression P"
  "level_parser P 7 = parse_comparison_expression P"
  "level_parser P 8 = parse_bitwise_shift_expression P"
  "level_parser P 9 = parse_term_expression P"
  "level_parser P 10 = parse_factor_expression P"
  "level_parser P 11 = parse_enum_access_expression P"
  "level_parser P 12 = parse_prefix_expression P"
  by (simp_all add: level_parser_def)

lemma level_parser_loop:
  "1 \<le> k \<Longrightarrow> k \<le> 10 \<Longrightarrow>
   level_parser P k = bind (level_parser P (Suc k)) (loop (p_fuel P) (level_step P k))"
  by (drule (1) level_cases, elim disjE; hypsubst,
      simp add: level_parser_def level_step_def [abs_def] level_ops_def level_node_def cong: if_cong;
      (subst parse_logical_or_expression_def | subst parse_logical_and_expression_def
        | subst parse_bitwise_and_expression_def | subst parse_bitwise_xor_expression_def
        | subst parse_bitwise_or_expression_def | subst parse_equality_expression_def
        | subst parse_comparison_expression_def | subst parse_bitwise_shift_expression_def
        | subst parse_term_expression_def | subst parse_factor_expression_def);
      simp add: left_assoc_def cong: if_cong)

lemma peek_current_sees: "sees c (t # ts) s \<Longrightarrow> peek_current s = Ok t s"
  by (auto dest: sees_head simp: peek_current_def value_of_def return_p_def)

lemma step_stop:
  assumes "sees c after s" and "stops k after" and "1 \<le> k" and "k \<le> 10"
  shows "level_step P k e s = Ok (Inr e) s"
proof -
  obtain f r where after: "after = f # r" using assms(1) by (cases after) auto
  note f = stops_not_op [OF assms(2) [unfolded after]]
  note s = sees_head [OF assms(1) [unfolded after]]
  show ?thesis
  proof (cases "k = 8")
    case False
    then show ?thesis
      using f s by (simp add: level_step_def bind_def peek_current_def value_of_def return_p_def)
  next
    case True
    obtain t2 where t2: "next_token s = Some t2" using s by auto
    have "\<not> is_right_shift_operator f t2"
    proof (cases "kind f = TOKEN_GREATER")
      case True
      then obtain r' t' where "r = t' # r'" "kind t' \<noteq> TOKEN_GREATER"
        using assms(2) after by (cases r) (auto simp: stops_def end_kinds_def)
      then show ?thesis
        using sees_next assms(1) after t2 by (fastforce simp: is_right_shift_operator_def)
    qed (simp add: is_right_shift_operator_def)
    then show ?thesis
      using f s t2 True
      by (simp add: level_step_def shift_step_def if_current_def is_current_kind_def bind_def
          peek_current_def peek_next_token_def value_of_def return_p_def level_ops_def)
  qed
qed

lemma step_go:
  assumes "sees c (t # ts) s" and "ts \<noteq> []" and "contains (level_ops k) (kind t)"
  obtains s' where "sees c ts s'" and "level_step P k e s =
    bind (level_parser P (Suc k)) (\<lambda>r. return_p (Inl (level_node k e t r))) s'"
proof -
  obtain s' where s': "advanced_token s = Ok () s'" "sees c ts s'"
    using sees_advance [OF assms(1,2)] by metis
  have "level_step P k e s = bind (level_parser P (Suc k)) (\<lambda>r. return_p (Inl (level_node k e t r))) s'"
    using assms(3) s'(1) sees_head [OF assms(1)]
    by (auto simp: level_step_def shift_step_def if_current_def is_current_kind_def bind_def and_then_def
        peek_current_def peek_and_advance_token_def value_of_def return_p_def level_ops_def
        level_parser_def level_node_def)
  with that s'(2) show thesis by blast
qed

subsection \<open>Reading a sentence of a level\<close>

definition reads :: "compile_context \<Rightarrow> nat \<Rightarrow> token list \<Rightarrow> expression \<Rightarrow> bool" where
  "reads c k ts e \<longleftrightarrow> (\<forall>n s after. length ts \<le> n \<longrightarrow> sees c (ts @ after) s \<longrightarrow> stops k after \<longrightarrow>
     (\<exists>s'. level_parser (procs_at n) k s = Ok e s' \<and> sees c after s'))"

lemma readsD:
  assumes "reads c k ts e" and "length ts \<le> n" and "sees c (ts @ after) s" and "stops k after"
  obtains s' where "level_parser (procs_at n) k s = Ok e s'" and "sees c after s'"
  using assms unfolding reads_def by meson

text \<open>
  The state of the loop of level \<open>k\<close> behind \<open>ts\<close>: the tree so far is \<open>e\<close>, and fuel is left.
\<close>

definition spine :: "compile_context \<Rightarrow> nat \<Rightarrow> token list \<Rightarrow> expression \<Rightarrow> bool" where
  "spine c k ts e \<longleftrightarrow> (\<forall>N n s after. length ts \<le> N \<longrightarrow> sees c (ts @ after) s \<longrightarrow> stops (Suc k) after \<longrightarrow>
     length ts \<le> n \<longrightarrow> (\<exists>m s'. n < m + length ts \<and> sees c after s'
       \<and> bind (level_parser (procs_at N) (Suc k)) (loop n (level_step (procs_at N) k)) s
         = loop m (level_step (procs_at N) k) e s'))"

lemma spineD:
  assumes "spine c k ts e" and "length ts \<le> N" and "sees c (ts @ after) s" and "stops (Suc k) after"
    and "length ts \<le> n"
  obtains m s' where "n < m + length ts" and "sees c after s'" and
    "bind (level_parser (procs_at N) (Suc k)) (loop n (level_step (procs_at N) k)) s
     = loop m (level_step (procs_at N) k) e s'"
  using assms unfolding spine_def by meson

lemma spine_start:
  assumes "reads c (Suc k) ts e" and "ts \<noteq> []"
  shows "spine c k ts e"
  unfolding spine_def
proof (intro allI impI)
  fix N n s after
  assume a: "length ts \<le> N" "sees c (ts @ after) s" "stops (Suc k) after" "length ts \<le> n"
  obtain s' where "level_parser (procs_at N) (Suc k) s = Ok e s'" "sees c after s'"
    using readsD [OF assms(1) a(1-3)] by metis
  then show "\<exists>m s'. n < m + length ts \<and> sees c after s'
      \<and> bind (level_parser (procs_at N) (Suc k)) (loop n (level_step (procs_at N) k)) s
        = loop m (level_step (procs_at N) k) e s'"
    using assms(2) by (intro exI [of _ n] exI [of _ s']) (simp add: bind_def)
qed

lemma spine_go:
  assumes "spine c k ts1 e1" and "reads c (Suc k) ts2 e2" and "contains (level_ops k) (kind t)"
    and "ts2 \<noteq> []" and "kind (hd ts2) \<noteq> TOKEN_GREATER"
  shows "spine c k (ts1 @ t # ts2) (level_node k e1 t e2)"
  unfolding spine_def
proof (intro allI impI)
  fix N n s after
  assume a: "length (ts1 @ t # ts2) \<le> N" "sees c ((ts1 @ t # ts2) @ after) s" "stops (Suc k) after"
    "length (ts1 @ t # ts2) \<le> n"
  have stop: "stops (Suc k) (t # ts2 @ after)"
    using assms(3-5) by (auto simp: stops_def intro!: exI [of _ k])
  obtain m s1 where m: "n < m + length ts1" "sees c (t # ts2 @ after) s1"
    "bind (level_parser (procs_at N) (Suc k)) (loop n (level_step (procs_at N) k)) s
     = loop m (level_step (procs_at N) k) e1 s1"
    by (rule spineD [OF assms(1) _ _ stop, of N s n]) (use a in simp_all)
  then obtain m' where m': "m = Suc m'" using a(4) by (cases m) auto
  obtain s2 where s2: "sees c (ts2 @ after) s2" "level_step (procs_at N) k e1 s1 =
      bind (level_parser (procs_at N) (Suc k)) (\<lambda>r. return_p (Inl (level_node k e1 t r))) s2"
    using step_go [OF m(2) _ assms(3)] assms(4) by (metis append_is_Nil_conv)
  obtain s3 where "level_parser (procs_at N) (Suc k) s2 = Ok e2 s3" "sees c after s3"
    by (rule readsD [OF assms(2) _ s2(1) a(3), of N]) (use a in simp_all)
  then show "\<exists>m s'. n < m + length (ts1 @ t # ts2) \<and> sees c after s'
      \<and> bind (level_parser (procs_at N) (Suc k)) (loop n (level_step (procs_at N) k)) s
        = loop m (level_step (procs_at N) k) (level_node k e1 t e2) s'"
    using m m' s2(2) by (intro exI [of _ m'] exI [of _ s3]) (simp add: bind_def return_p_def)
qed

lemma spine_end:
  assumes "spine c k ts e" and "1 \<le> k" and "k \<le> 10"
  shows "reads c k ts e"
  unfolding reads_def
proof (intro allI impI)
  fix n s after
  assume a: "length ts \<le> n" "sees c (ts @ after) s" "stops k after"
  obtain m s' where m: "n < m + length ts" "sees c after s'"
    "bind (level_parser (procs_at n) (Suc k)) (loop n (level_step (procs_at n) k)) s
     = loop m (level_step (procs_at n) k) e s'"
    by (rule spineD [OF assms(1) a(1,2) stops_mono [OF a(3)] a(1)]) simp_all
  then obtain m' where "m = Suc m'" using a(1) by (cases m) auto
  then show "\<exists>s'. level_parser (procs_at n) k s = Ok e s' \<and> sees c after s'"
    using m step_stop [OF m(2) a(3) assms(2,3)]
    by (simp add: level_parser_loop [OF assms(2,3)] procs_calls(1) bind_def return_p_def)
qed

subsection \<open>Operands\<close>

lemmas run_simps = bind_def and_then_def return_p_def read_def if_current_def is_current_kind_def
  peek_current_def peek_next_token_def peek_previous_def value_of_def peek_and_advance_token_def
  is_function_declaration_kind_def

lemma stops_kind:
  "stops k (f # r) \<Longrightarrow> kind f \<notin> {TOKEN_DOT, TOKEN_OPEN_PAREN, TOKEN_OPEN_BRACKET, TOKEN_PLUS_PLUS,
     TOKEN_MINUS_MINUS, TOKEN_IDENTIFIER, TOKEN_COLON_COLON}"
  by (auto simp: stops_def end_kinds_def level_ops_def split: if_splits)

text \<open>Behind a primary expression, nothing of the call, access and postfix functions applies.\<close>

lemma primary_is_prefix:
  assumes "sees c (t # ts) s" and "\<not> contains prefix_kinds (kind t)"
    and "kind t = TOKEN_IDENTIFIER \<longrightarrow> variable_name c (literal t)"
    and "parse_primary_expression P s = Ok e s'" and "sees c after s'" and "stops k after"
    and "\<And>x. as_literal e = Some x \<Longrightarrow> ctx_functions c (literal x) = None" and "0 < p_fuel P"
  shows "parse_prefix_expression P s = Ok e s'"
proof -
  obtain f r where after: "after = f # r" using assms(5) by (cases after) auto
  obtain n where n: "p_fuel P = Suc n" using assms(8) by (cases "p_fuel P") auto
  note s = sees_head [OF assms(1)] and s' = sees_head [OF assms(5) [unfolded after]]
  note f = stops_kind [OF assms(6) [unfolded after]]
  obtain t2 where t2: "next_token s = Some t2" using s by auto
  have "parse_function_call_with_lambda_argument P s = Ok e s'"
    using s t2 assms(3,4)
    by (auto simp: parse_function_call_with_lambda_argument_def run_simps variable_name_def)
  then have "parse_initializer_expression P s = Ok e s'"
    using s t2 assms(3) by (auto simp: parse_initializer_expression_def run_simps variable_name_def)
  then have "parse_postfix_call_expression P s = Ok e s'"
    using f s' by (auto simp: parse_postfix_call_expression_def run_simps)
  then have "parse_enumeration_attribute_expression P s = Ok e s'"
    using f s' by (auto simp: parse_enumeration_attribute_expression_def run_simps)
  moreover have "call_or_access_step P e s' = Ok (Inr e) s'"
    using f s' assms(7) by (auto simp: call_or_access_step_def run_simps split: option.splits)
  ultimately have "parse_call_or_access_expression P s = Ok e s'"
    by (simp add: parse_call_or_access_expression_def n bind_def return_p_def)
  then have "parse_postfix_increment_or_decrement P s = Ok e s'"
    using f s' by (auto simp: parse_postfix_increment_or_decrement_def run_simps)
  then have "parse_prefix_call_expression P s = Ok e s'"
    using s assms(3) by (auto simp: parse_prefix_call_expression_def run_simps variable_name_def)
  then show ?thesis
    using s assms(2)
    by (auto simp: parse_prefix_expression_def run_simps prefix_kinds_def is_unary_operator_token_def contains_def)
qed

lemma primary_atom:
  assumes "sees c (t # ts) s" and "ts \<noteq> []" and "contains atom_kinds (kind t)"
    and "kind t = TOKEN_IDENTIFIER \<longrightarrow> variable_name c (literal t)"
  shows "\<exists>s'. parse_primary_expression P s = Ok (atom_node t) s' \<and> sees c ts s'"
proof -
  obtain s' where s': "advanced_token s = Ok () s'" "sees c ts s'" "previous_token s' = Some t"
    using sees_advance [OF assms(1,2)] by metis
  note s = sees_head [OF assms(1)]
  have "parse_primary_expression P s = Ok (atom_node t) s'"
    using assms(3,4) s s'
    by (auto simp: parse_primary_expression_def run_simps atom_kinds_def number_token_kinds_def atom_node_def
        parse_number_expression_def get_number_kind_def number_kind_of_def token_expression_def
        parse_identifier_expression_def parse_literal_expression_def variable_name_def Let_def)
  then show ?thesis using s'(2) by blast
qed

subsection \<open>The parser implements the grammar\<close>

definition not_function :: "compile_context \<Rightarrow> expression \<Rightarrow> bool" where
  "not_function c e \<longleftrightarrow> (\<forall>x. as_literal e = Some x \<longrightarrow> ctx_functions c (literal x) = None)"

lemma not_function_nodes [simp]:
  "not_function c (mk_prefix_unary t e)" "not_function c (level_node k e t e')"
  "not_function c (mk_assign e t e')"
  by (simp_all add: not_function_def as_literal_def level_node_def mk_prefix_unary_def mk_logical_def
      mk_bitwise_def mk_comparison_def mk_binary_def mk_assign_def chain_comparison_def split: option.splits)

lemma atom_not_function:
  "kind t = TOKEN_IDENTIFIER \<longrightarrow> variable_name c (literal t) \<Longrightarrow> not_function c (atom_node t)"
  by (auto simp: not_function_def atom_node_def as_literal_def variable_name_def mk_literal_def mk_string_def
      mk_character_def mk_boolean_def mk_null_def mk_number_def)

lemma reads_atom:
  assumes "contains atom_kinds (kind t)" and "kind t = TOKEN_IDENTIFIER \<longrightarrow> variable_name c (literal t)"
  shows "reads c 12 [t] (atom_node t)"
  unfolding reads_def
proof (intro allI impI)
  fix n s after
  assume a: "length [t] \<le> n" "sees c ([t] @ after) s" "stops 12 after"
  then have "after \<noteq> []" by (auto simp: stops_def)
  then obtain s' where "parse_primary_expression (procs_at n) s = Ok (atom_node t) s'" "sees c after s'"
    using primary_atom [of c t after s] a(2) assms by auto
  moreover have "\<not> contains prefix_kinds (kind t)"
    using assms(1) by (auto simp: atom_kinds_def number_token_kinds_def prefix_kinds_def unary_operators_def contains_def)
  ultimately show "\<exists>s'. level_parser (procs_at n) 12 s = Ok (atom_node t) s' \<and> sees c after s'"
    using primary_is_prefix [of c t after s "procs_at n"] a atom_not_function [OF assms(2)] assms(2)
    by (auto simp: level_parser_simps procs_calls(1) not_function_def)
qed

lemma reads_group:
  assumes "reads c 0 ts e" and "kind l = TOKEN_OPEN_PAREN" and "kind r = TOKEN_CLOSE_PAREN"
    and "ts \<noteq> []" and "not_function c e"
  shows "reads c 12 (l # ts @ [r]) e"
  unfolding reads_def
proof (intro allI impI)
  fix n s after
  assume a: "length (l # ts @ [r]) \<le> n" "sees c ((l # ts @ [r]) @ after) s" "stops 12 after"
  then obtain n' where n: "n = Suc n'" by (cases n) auto
  have after: "after \<noteq> []" using a(3) by (auto simp: stops_def)
  obtain s1 where s1: "advanced_token s = Ok () s1" "sees c (ts @ r # after) s1"
    using sees_advance [of c l "ts @ r # after" s] a(2) assms(4) by auto
  obtain s2 where s2: "parse_expression (procs_at n') s1 = Ok e s2" "sees c (r # after) s2"
    by (rule readsD [OF assms(1) _ s1(2), of n'])
      (use a(1) n assms(3) in \<open>auto simp: level_parser_simps stops_def end_kinds_def\<close>)
  obtain s3 where s3: "advanced_token s2 = Ok () s3" "sees c after s3"
    using sees_advance [OF s2(2) after] by metis
  have s: "current_token s = Some l" using a(2) sees_head by fastforce
  have p: "p_expression (procs_at n) = parse_expression (procs_at n')" by (simp add: n procs_step_def)
  have "parse_group_or_tuple_expression (procs_at n) s = Ok e s3"
    using s s1(1) s2 s3(1) sees_head [OF s2(2)] assms(2,3)
    by (simp add: parse_group_or_tuple_expression_def assert_kind_def run_simps p)
  then have "parse_primary_expression (procs_at n) s = Ok e s3"
    using s assms(2) by (simp add: parse_primary_expression_def run_simps number_token_kinds_def)
  then show "\<exists>s'. level_parser (procs_at n) 12 s = Ok e s' \<and> sees c after s'"
    using primary_is_prefix [of c l "ts @ r # after" s "procs_at n" e s3 after 12] a assms(2,5) s3(2)
    by (auto simp: level_parser_simps procs_calls(1) not_function_def prefix_kinds_def unary_operators_def)
qed

lemma reads_prefix:
  assumes "reads c 12 ts e" and "contains prefix_kinds (kind t)" and "ts \<noteq> []"
  shows "reads c 12 (t # ts) (mk_prefix_unary t e)"
  unfolding reads_def
proof (intro allI impI)
  fix n s after
  assume a: "length (t # ts) \<le> n" "sees c ((t # ts) @ after) s" "stops 12 after"
  then obtain n' where n: "n = Suc n'" by (cases n) auto
  obtain s1 where s1: "advanced_token s = Ok () s1" "sees c (ts @ after) s1"
    using sees_advance [of c t "ts @ after" s] a(2) assms(3) by auto
  obtain s2 where s2: "parse_prefix_expression (procs_at n') s1 = Ok e s2" "sees c after s2"
    by (rule readsD [OF assms(1) _ s1(2) a(3), of n']) (use a(1) n in \<open>auto simp: level_parser_simps\<close>)
  have p: "p_prefix (procs_at n) = parse_prefix_expression (procs_at n')" by (simp add: n procs_step_def)
  have "parse_prefix_expression (procs_at n) s = Ok (mk_prefix_unary t e) s2"
    unfolding parse_prefix_expression_def
    using a(2) sees_head [of c t "ts @ after" s] s1(1) s2(1) assms(2)
    by (auto simp: run_simps p prefix_kinds_def is_unary_operator_token_def contains_def)
  then show "\<exists>s'. level_parser (procs_at n) 12 s = Ok (mk_prefix_unary t e) s' \<and> sees c after s'"
    using s2(2) by (auto simp: level_parser_simps)
qed

lemma reads_operand: "reads c 12 ts e \<Longrightarrow> reads c 11 ts e"
  unfolding reads_def
proof (intro allI impI)
  fix n s after
  assume a: "\<forall>n s after. length ts \<le> n \<longrightarrow> sees c (ts @ after) s \<longrightarrow> stops 12 after \<longrightarrow>
      (\<exists>s'. level_parser (procs_at n) 12 s = Ok e s' \<and> sees c after s')"
    "length ts \<le> n" "sees c (ts @ after) s" "stops 11 after"
  obtain f r where after: "after = f # r" using a(4) by (cases after) (auto simp: stops_def)
  obtain s' where s': "parse_prefix_expression (procs_at n) s = Ok e s'" "sees c after s'"
    using a stops_mono [OF a(4), of 12] by (fastforce simp: level_parser_simps)
  then have "parse_enum_access_expression (procs_at n) s = Ok e s'"
    using sees_head [of c f r s'] stops_kind [of 11 f r] a(4) after
    by (auto simp: parse_enum_access_expression_def parse_infix_call_expression_def run_simps)
  then show "\<exists>s'. level_parser (procs_at n) 11 s = Ok e s' \<and> sees c after s'"
    using s'(2) by (auto simp: level_parser_simps)
qed

lemma end_not_assignment: "contains end_kinds k \<Longrightarrow> \<not> contains assignments_operators k"
  by (auto simp: end_kinds_def assignments_operators_def)

lemma reads_expression:
  assumes "reads c 1 ts e"
  shows "reads c 0 ts e"
  unfolding reads_def
proof (intro allI impI)
  fix n s after
  assume a: "length ts \<le> n" "sees c (ts @ after) s" "stops 0 after"
  obtain f r where after: "after = f # r" "contains end_kinds (kind f)"
    using a(3) by (cases after) (auto simp: stops_def)
  obtain s' where s': "parse_logical_or_expression (procs_at n) s = Ok e s'" "sees c after s'"
    using readsD [OF assms a(1,2) stops_mono [OF a(3)]] by (metis level_parser_simps(2) zero_le_one)
  then have "parse_expression (procs_at n) s = Ok e s'"
    using sees_head [of c f r s'] after end_not_assignment [of "kind f"]
    by (simp add: parse_expression_def parse_assignment_expression_def run_simps is_assignments_operator_token_def)
  then show "\<exists>s'. level_parser (procs_at n) 0 s = Ok e s' \<and> sees c after s'"
    using s'(2) by (auto simp: level_parser_simps)
qed

lemma reads_assign:
  assumes "reads c 1 ts1 e1" and "reads c 0 ts2 e2" and "kind t = TOKEN_EQUAL" and "ts2 \<noteq> []"
  shows "reads c 0 (ts1 @ t # ts2) (mk_assign e1 t e2)"
  unfolding reads_def
proof (intro allI impI)
  fix n s after
  assume a: "length (ts1 @ t # ts2) \<le> n" "sees c ((ts1 @ t # ts2) @ after) s" "stops 0 after"
  then obtain n' where n: "n = Suc n'" by (cases n) auto
  obtain s1 where s1: "parse_logical_or_expression (procs_at n) s = Ok e1 s1" "sees c (t # ts2 @ after) s1"
    by (rule readsD [OF assms(1), of n "t # ts2 @ after" s])
      (use a assms(3) in \<open>auto simp: level_parser_simps stops_def\<close>)
  obtain s2 where s2: "advanced_token s1 = Ok () s2" "sees c (ts2 @ after) s2"
    using sees_advance [OF s1(2)] assms(4) by (metis append_is_Nil_conv)
  obtain s3 where s3: "parse_expression (procs_at n') s2 = Ok e2 s3" "sees c after s3"
    by (rule readsD [OF assms(2) _ s2(2) a(3), of n']) (use a(1) n in \<open>auto simp: level_parser_simps\<close>)
  have p: "p_expression (procs_at n) = parse_expression (procs_at n')" by (simp add: n procs_step_def)
  have op: "is_assignments_operator_token t" "assignment_of e1 t e2 = mk_assign e1 t e2"
    using assms(3) by (simp_all add: is_assignments_operator_token_def assignments_operators_def
      assignment_of_def assignments_binary_operators_def assignments_bitwise_operators_def)
  have "parse_expression (procs_at n) s = Ok (mk_assign e1 t e2) s3"
    unfolding parse_expression_def parse_assignment_expression_def
    using s1(1) s2(1) s3(1) sees_head [OF s1(2)] op by (simp add: run_simps p)
  then show "\<exists>s'. level_parser (procs_at n) 0 s = Ok (mk_assign e1 t e2) s' \<and> sees c after s'"
    using s3(2) by (auto simp: level_parser_simps)
qed

lemma reads_lift:
  assumes "reads c (Suc k) ts e" and "k \<le> 11" and "ts \<noteq> []"
  shows "reads c k ts e"
proof -
  consider "k = 0" | "1 \<le> k \<and> k \<le> 10" | "k = 11" using assms(2) by linarith
  then show ?thesis
    using assms by cases (auto intro: reads_expression reads_operand spine_end spine_start)
qed

lemma derives_reads:
  "derives c k ts e \<Longrightarrow> ts \<noteq> [] \<and> kind (hd ts) \<noteq> TOKEN_GREATER \<and> not_function c e \<and> reads c k ts e
     \<and> (1 \<le> k \<and> k \<le> 10 \<longrightarrow> spine c k ts e)"
proof (induction rule: derives.induct)
  case (atom t)
  then show ?case
    using reads_atom [of t c] atom_not_function [of t c]
    by (auto simp: atom_kinds_def number_token_kinds_def)
next
  case (group ts e l r)
  then show ?case using reads_group [of c ts e l r] by simp
next
  case (prefix ts e t)
  then show ?case
    using reads_prefix [of c ts e t] by (auto simp: prefix_kinds_def unary_operators_def contains_def)
next
  case (operand k ts e)
  then show ?case using reads_lift [of c k ts e] spine_start [of c k ts e] by simp
next
  case (binary k ts1 e1 ts2 e2 t)
  have k: "1 \<le> k \<and> k \<le> 10" using level_ops_cases [OF binary.hyps(3)] .
  then have "spine c k (ts1 @ t # ts2) (level_node k e1 t e2)"
    using binary by (intro spine_go) simp_all
  then show ?case using spine_end [of c k] k binary.IH(1) by simp
next
  case (assign ts1 e1 ts2 e2 t)
  then show ?case using reads_assign [of c ts1 e1 ts2 e2 t] by simp
qed

text \<open>
  C21: the expression parser implements the stratified grammar.  Whatever tokens the grammar derives as
  an expression, with its levels of precedence, its left associative binary operators and its right
  associative assignment, the parser turns into the tree of the derivation, if the expression is
  followed by a token that ends it; it consumes exactly these tokens.  Chained comparisons become
  conjunctions, by \<open>chain_comparison\<close>.
\<close>

theorem parse_expression_implements_grammar:
  assumes "derives c 0 ts e" and "sees c (ts @ f # after) s" and "contains end_kinds (kind f)"
    and "length ts \<le> n"
  shows "\<exists>s'. parse_expression (procs_at n) s = Ok e s' \<and> sees c (f # after) s'"
proof -
  have "reads c 0 ts e" using derives_reads [OF assms(1)] by simp
  then show ?thesis
    using assms(2-4) by (auto simp: level_parser_simps stops_def elim!: readsD)
qed

subsection \<open>An example\<close>

definition sum_source :: string where
  "sum_source = ''x = a - b - c * d;''"

lemma sum_scans:
  "scan_next_token (tz_on sum_source 0 0) =
     Some (tok_on TOKEN_IDENTIFIER ''x'' 1 1, tz_on sum_source 1 1)"
  "scan_next_token (tz_on sum_source 1 1) =
     Some (tok_on TOKEN_EQUAL [] 3 3, tz_on sum_source 3 3)"
  "scan_next_token (tz_on sum_source 3 3) =
     Some (tok_on TOKEN_IDENTIFIER ''a'' 5 5, tz_on sum_source 5 5)"
  "scan_next_token (tz_on sum_source 5 5) =
     Some (tok_on TOKEN_MINUS [] 7 7, tz_on sum_source 7 7)"
  "scan_next_token (tz_on sum_source 7 7) =
     Some (tok_on TOKEN_IDENTIFIER ''b'' 9 9, tz_on sum_source 9 9)"
  "scan_next_token (tz_on sum_source 9 9) =
     Some (tok_on TOKEN_MINUS [] 11 11, tz_on sum_source 11 11)"
  "scan_next_token (tz_on sum_source 11 11) =
     Some (tok_on TOKEN_IDENTIFIER ''c'' 13 13, tz_on sum_source 13 13)"
  "scan_next_token (tz_on sum_source 13 13) =
     Some (tok_on TOKEN_STAR [] 15 15, tz_on sum_source 15 15)"
  "scan_next_token (tz_on sum_source 15 15) =
     Some (tok_on TOKEN_IDENTIFIER ''d'' 17 17, tz_on sum_source 17 17)"
  "scan_next_token (tz_on sum_source 17 17) =
     Some (tok_on TOKEN_SEMICOLON [] 18 18, tz_on sum_source 18 18)"
  "scan_next_token (tz_on sum_source 18 18) =
     Some (tok_on TOKEN_END_OF_FILE [] 19 19, tz_on sum_source 19 19)"
  by code_simp+

abbreviation sum_token :: "token_kind \<Rightarrow> string \<Rightarrow> int \<Rightarrow> token" where
  "sum_token k l a \<equiv> tok_on k l a a"

definition sum_tokens :: "token list" where
  "sum_tokens = [sum_token TOKEN_IDENTIFIER ''x'' 1, sum_token TOKEN_EQUAL [] 3,
     sum_token TOKEN_IDENTIFIER ''a'' 5, sum_token TOKEN_MINUS [] 7, sum_token TOKEN_IDENTIFIER ''b'' 9,
     sum_token TOKEN_MINUS [] 11, sum_token TOKEN_IDENTIFIER ''c'' 13, sum_token TOKEN_STAR [] 15,
     sum_token TOKEN_IDENTIFIER ''d'' 17]"

definition sum_start :: parser where
  "sum_start = (new_parser (new_context default_options) (tz_on sum_source 3 3))
     \<lparr>pcontext := new_context default_options,
      current_token := Some (sum_token TOKEN_IDENTIFIER ''x'' 1),
      next_token := Some (sum_token TOKEN_EQUAL [] 3)\<rparr>"

abbreviation sum_name :: "string \<Rightarrow> int \<Rightarrow> expression" where
  "sum_name x a \<equiv> mk_literal (sum_token TOKEN_IDENTIFIER x a)"

abbreviation sum_tree :: expression where
  "sum_tree \<equiv> mk_assign (sum_name ''x'' 1) (sum_token TOKEN_EQUAL [] 3)
     (mk_binary (mk_binary (sum_name ''a'' 5) (sum_token TOKEN_MINUS [] 7) (sum_name ''b'' 9))
       (sum_token TOKEN_MINUS [] 11)
       (mk_binary (sum_name ''c'' 13) (sum_token TOKEN_STAR [] 15) (sum_name ''d'' 17)))"

lemma sum_sees:
  "sees (new_context default_options) (sum_tokens @ [sum_token TOKEN_SEMICOLON [] 18]) sum_start"
  by (simp add: sum_tokens_def sum_start_def context_eval advanced_token_def sum_scans)

lemma derives_down: "derives c j ts e \<Longrightarrow> k \<le> j \<Longrightarrow> j \<le> 12 \<Longrightarrow> derives c k ts e"
  by (induction j) (auto simp: le_Suc_eq intro: derives.operand)

lemma derives_name:
  assumes "variable_name c x" and "k \<le> 12"
  shows "derives c k [tok_on TOKEN_IDENTIFIER x a b] (mk_literal (tok_on TOKEN_IDENTIFIER x a b))"
  using derives_down [OF derives.atom [of "tok_on TOKEN_IDENTIFIER x a b" c] assms(2)] assms(1)
  by (simp add: atom_kinds_def atom_node_def)

lemma sum_variables:
  "variable_name (new_context default_options) ''x''" "variable_name (new_context default_options) ''a''"
  "variable_name (new_context default_options) ''b''" "variable_name (new_context default_options) ''c''"
  "variable_name (new_context default_options) ''d''"
  by (simp_all add: variable_name_def new_context_def table_eval)

lemma sum_derives: "derives (new_context default_options) 0 sum_tokens sum_tree"
proof -
  let ?d = "derives (new_context default_options)"
  let ?v = "\<lambda>x a. [sum_token TOKEN_IDENTIFIER x a]"
  let ?m = "?v ''a'' 5 @ sum_token TOKEN_MINUS [] 7 # ?v ''b'' 9"
  let ?me = "mk_binary (sum_name ''a'' 5) (sum_token TOKEN_MINUS [] 7) (sum_name ''b'' 9)"
  let ?p = "?v ''c'' 13 @ sum_token TOKEN_STAR [] 15 # ?v ''d'' 17"
  let ?pe = "mk_binary (sum_name ''c'' 13) (sum_token TOKEN_STAR [] 15) (sum_name ''d'' 17)"
  note name = derives_name [OF sum_variables(1)] derives_name [OF sum_variables(2)]
    derives_name [OF sum_variables(3)] derives_name [OF sum_variables(4)] derives_name [OF sum_variables(5)]
  note node = level_ops_def level_node_def
  have "?d 10 ?p ?pe"
    using derives.binary [OF name(4) [of 10] name(5) [of "Suc 10"], of "sum_token TOKEN_STAR [] 15"]
    by (simp add: node)
  moreover have "?d 9 ?m ?me"
    using derives.binary [OF name(2) [of 9] name(3) [of "Suc 9"], of "sum_token TOKEN_MINUS [] 7"]
    by (simp add: node)
  ultimately have "?d 9 (?m @ sum_token TOKEN_MINUS [] 11 # ?p)
      (mk_binary ?me (sum_token TOKEN_MINUS [] 11) ?pe)"
    using derives.binary [of _ 9 ?m ?me ?p ?pe "sum_token TOKEN_MINUS [] 11"] by (simp add: node)
  then have "?d 0 (?m @ sum_token TOKEN_MINUS [] 11 # ?p) (mk_binary ?me (sum_token TOKEN_MINUS [] 11) ?pe)"
    by (rule derives_down) simp_all
  then show ?thesis
    using derives.assign [OF name(1) [of 1], of _ _ "sum_token TOKEN_EQUAL [] 3"]
    by (simp add: sum_tokens_def)
qed

theorem parse_expression_implements_grammar_witness:
  "\<exists>s'. parse_expression (procs_at 9) sum_start = Ok sum_tree s'
     \<and> sees (new_context default_options) [sum_token TOKEN_SEMICOLON [] 18] s'"
  using parse_expression_implements_grammar [OF sum_derives sum_sees, of 9]
  by (simp add: end_kinds_def sum_tokens_def)

end
