(* ===== verification/Checker_State.thy ===== *)
theory Checker_State
  imports Parser_State
begin

text \<open>
  The state of the type checker (\<open>include/amun_typechecker.hpp\<close>), the outcomes of a visitor and the
  operations on the table of types.

  A visitor is an \<open>'a check\<close>: from a checker to an outcome.  \<open>Done\<close> returns; \<open>Thrown\<close> is an exception,
  \<open>throw "Stop"\<close> or \<open>std::bad_any_cast\<close>, which \<open>check_compilation_unit\<close> catches; \<open>Failed\<close> is undefined
  behaviour or an assertion; \<open>NoFuel\<close> is recursion that is deeper than the fuel.

  The visitors of the code change the nodes they visit; here they return the changed node.  A type is
  a value, as in the tree the parser builds.  \<open>resolve_generic_type\<close> also changes the type it is given;
  its model returns the changed type beside the result, and the callers put it back where the code
  took it from: a member of a node, the prototype of a generic function, or a field of a generic
  structure.  Where the changed object would belong to another node, the outcome is
  \<open>Failed SharedType\<close>: the model stops there.
\<close>

subsection \<open>State\<close>

text \<open>\<open>std::any\<close> in the table of types: a \<open>Shared<StructType>\<close>, or a shared pointer to another type class.\<close>

datatype any_type = AnyType ty | AnyStruct string

definition node_amun_type :: "any_type \<Rightarrow> ty" where
  "node_amun_type v = (case v of AnyType t \<Rightarrow> t | AnyStruct name \<Rightarrow> StructType name)"

text \<open>
  The heads of the stacks are their tops.  \<open>generic_functions\<close> holds the declarations themselves;
  \<open>struct_instances\<close> the structures that \<open>resolve_generic_type\<close> creates, by their mangled name.
\<close>

record checker =
  tcontext :: compile_context
  types_table :: "(string, any_type) scoped_map"
  generic_functions :: "string \<rightharpoonup> function_prototype \<times> statement"
  generic_types :: "string \<rightharpoonup> ty"
  return_types_stack :: "ty list"
  is_inside_lambda_body :: bool
  lambda_implicit_parameters :: "(string \<times> ty) list list"
  struct_instances :: "string \<rightharpoonup> struct_type"

text \<open>
  The constructor does not initialise \<open>is_inside_lambda_body\<close>: \<open>memory\<close> is what the memory held before.
\<close>

definition new_checker :: "bool \<Rightarrow> compile_context \<Rightarrow> checker" where
  "new_checker memory ctx = \<lparr>tcontext = ctx,
     types_table = push_new_scope \<lparr>linked_scoped = []\<rparr>, generic_functions = Map.empty,
     generic_types = Map.empty, return_types_stack = [], is_inside_lambda_body = memory,
     lambda_implicit_parameters = [], struct_instances = Map.empty\<rparr>"

subsection \<open>Outcomes\<close>

datatype fault =
    NullAccess \<comment> \<open>a null pointer is used\<close>
  | EmptyContainer \<comment> \<open>\<open>top\<close>, \<open>pop\<close> or \<open>back\<close> of an empty container\<close>
  | IndexOutOfRange
  | BadCast \<comment> \<open>\<open>static_pointer_cast\<close> to a class the object does not have\<close>
  | AssertFailure
  | MissingReturn \<comment> \<open>the end of a function that returns a value is reached\<close>
  | SignedOverflow
  | SharedType \<comment> \<open>a type object of another node is changed: not modelled\<close>
  | NameClash \<comment> \<open>a structure is declared with the name of an instance: not modelled\<close>

datatype 'a checked = Done 'a checker | Thrown checker | Failed fault | NoFuel

type_synonym 'a check = "checker \<Rightarrow> 'a checked"

definition return_t :: "'a \<Rightarrow> 'a check" where
  "return_t x s = Done x s"

definition bind_t :: "'a check \<Rightarrow> ('a \<Rightarrow> 'b check) \<Rightarrow> 'b check" where
  "bind_t m f s = (case m s of Done x s' \<Rightarrow> f x s' | Thrown s' \<Rightarrow> Thrown s' | Failed c \<Rightarrow> Failed c
     | NoFuel \<Rightarrow> NoFuel)"

definition then_t :: "unit check \<Rightarrow> 'b check \<Rightarrow> 'b check" where
  "then_t m n = bind_t m (\<lambda>_. n)"

definition fail_t :: "fault \<Rightarrow> 'a check" where
  "fail_t c s = Failed c"

definition read_t :: "(checker \<Rightarrow> 'a) \<Rightarrow> 'a check" where
  "read_t f s = Done (f s) s"

definition modify_t :: "(checker \<Rightarrow> checker) \<Rightarrow> unit check" where
  "modify_t f s = Done () (f s)"

definition some_t :: "fault \<Rightarrow> 'a option \<Rightarrow> 'a check" where
  "some_t c v = (case v of Some x \<Rightarrow> return_t x | None \<Rightarrow> fail_t c)"

definition nth_t :: "'a list \<Rightarrow> nat \<Rightarrow> 'a check" where
  "nth_t xs i = (if i < length xs then return_t (xs ! i) else fail_t IndexOutOfRange)"

definition update_diagnostics :: "(diagnostic_engine \<Rightarrow> diagnostic_engine) \<Rightarrow> checker \<Rightarrow> checker" where
  "update_diagnostics f s = s\<lparr>tcontext := (tcontext s)
     \<lparr>ctx_diagnostics := f (ctx_diagnostics (tcontext s))\<rparr>\<rparr>"

text \<open>\<open>report_error(position, message); throw "Stop";\<close>\<close>

definition throw_error :: "token_span \<Rightarrow> string \<Rightarrow> 'a check" where
  "throw_error loc msg s = Thrown (update_diagnostics (report_error loc msg) s)"

definition warn_t :: "token_span \<Rightarrow> string \<Rightarrow> unit check" where
  "warn_t loc msg = modify_t (update_diagnostics (report_warning loc msg))"

text \<open>\<open>if (bad) { report_error(loc, msg); throw "Stop"; }\<close>\<close>

definition error_if :: "bool \<Rightarrow> token_span \<Rightarrow> string \<Rightarrow> unit check" where
  "error_if bad loc msg = (if bad then throw_error loc msg else return_t ())"

text \<open>\<open>std::bad_any_cast\<close>, for which nothing is reported.\<close>

definition bad_any_cast :: "'a check" where
  "bad_any_cast s = Thrown s"

text \<open>A range-based loop whose body returns a value.\<close>

primrec map_t :: "('a \<Rightarrow> 'b check) \<Rightarrow> 'a list \<Rightarrow> 'b list check" where
  "map_t f [] = return_t []"
| "map_t f (x # xs) = bind_t (f x) (\<lambda>y. bind_t (map_t f xs) (\<lambda>ys. return_t (y # ys)))"

primrec each_t :: "('a \<Rightarrow> unit check) \<Rightarrow> 'a list \<Rightarrow> unit check" where
  "each_t f [] = return_t ()"
| "each_t f (x # xs) = then_t (f x) (each_t f xs)"

primrec fold_t :: "('a \<Rightarrow> 'b \<Rightarrow> 'b check) \<Rightarrow> 'a list \<Rightarrow> 'b \<Rightarrow> 'b check" where
  "fold_t f [] b = return_t b"
| "fold_t f (x # xs) b = bind_t (f x b) (fold_t f xs)"

subsection \<open>The table of types and the stacks\<close>

definition push_new_scope_t :: "unit check" where
  "push_new_scope_t = modify_t (\<lambda>s. s\<lparr>types_table := push_new_scope (types_table s)\<rparr>)"

definition pop_current_scope_t :: "unit check" where
  "pop_current_scope_t = bind_t (read_t types_table) (\<lambda>table.
     bind_t (some_t EmptyContainer (pop_current_scope table)) (\<lambda>table'.
     modify_t (\<lambda>s. s\<lparr>types_table := table'\<rparr>)))"

definition in_new_scope :: "'a check \<Rightarrow> 'a check" where
  "in_new_scope m = then_t push_new_scope_t (bind_t m (\<lambda>x. then_t pop_current_scope_t (return_t x)))"

definition define_type :: "string \<Rightarrow> any_type \<Rightarrow> bool check" where
  "define_type name v = bind_t (read_t types_table) (\<lambda>table.
     bind_t (some_t EmptyContainer (define_symbol name v table)) (\<lambda>(is_first_defined, table').
     then_t (modify_t (\<lambda>s. s\<lparr>types_table := table'\<rparr>)) (return_t is_first_defined)))"

text \<open>The result of \<open>define\<close> ignored, and an error if the scope already defines the name.\<close>

definition define_any :: "string \<Rightarrow> any_type \<Rightarrow> unit check" where
  "define_any name v = bind_t (define_type name v) (\<lambda>_. return_t ())"

definition define_once :: "string \<Rightarrow> any_type \<Rightarrow> token_span \<Rightarrow> string \<Rightarrow> unit check" where
  "define_once name v loc msg =
     bind_t (define_type name v) (\<lambda>is_first_defined. error_if (\<not> is_first_defined) loc msg)"

definition is_type_defined :: "string \<Rightarrow> bool check" where
  "is_type_defined name = read_t (\<lambda>s. is_defined (types_table s) name)"

text \<open>\<open>node_amun_type\<close> of the \<open>std::any\<close> with a null pointer that a failing lookup returns throws.\<close>

definition lookup_type :: "string \<Rightarrow> ty check" where
  "lookup_type name = bind_t (read_t (\<lambda>s. lookup (types_table s) name)) (\<lambda>v.
     case v of Some a \<Rightarrow> return_t (node_amun_type a) | None \<Rightarrow> bad_any_cast)"

definition push_return_type :: "ty \<Rightarrow> unit check" where
  "push_return_type t = modify_t (\<lambda>s. s\<lparr>return_types_stack := t # return_types_stack s\<rparr>)"

definition top_return_type :: "ty check" where
  "top_return_type = bind_t (read_t return_types_stack) (\<lambda>ts. case ts of
     [] \<Rightarrow> fail_t EmptyContainer | t # _ \<Rightarrow> return_t t)"

definition pop_return_type :: "unit check" where
  "pop_return_type = bind_t (read_t return_types_stack) (\<lambda>ts. case ts of
     [] \<Rightarrow> fail_t EmptyContainer | _ # ts' \<Rightarrow> modify_t (\<lambda>s. s\<lparr>return_types_stack := ts'\<rparr>))"

text \<open>A pointer to a type that the code uses.\<close>

definition type_of_node :: "type_node \<Rightarrow> ty check" where
  "type_of_node n = (case n of TypeNode t \<Rightarrow> return_t t | _ \<Rightarrow> fail_t NullAccess)"

text \<open>The object of a structure: created by \<open>resolve_generic_type\<close>, or declared.\<close>

definition struct_object :: "checker \<Rightarrow> string \<rightharpoonup> struct_type" where
  "struct_object s name = (case struct_instances s name of
     Some st \<Rightarrow> Some st | None \<Rightarrow> ctx_structures (tcontext s) name)"

definition structure_t :: "string \<Rightarrow> struct_type check" where
  "structure_t name = bind_t (read_t (\<lambda>s. struct_object s name)) (some_t NullAccess)"

text \<open>The structure that a generic structure type points to is a declared one.\<close>

definition declared_structure_t :: "string \<Rightarrow> struct_type check" where
  "declared_structure_t name =
     bind_t (read_t (\<lambda>s. ctx_structures (tcontext s) name)) (some_t NullAccess)"

text \<open>\<open>context->enumerations[name]\<close> inserts a null pointer for an unknown name.\<close>

definition enumeration_t :: "string \<Rightarrow> enum_type check" where
  "enumeration_t name =
     bind_t (read_t (\<lambda>s. ctx_enumerations (tcontext s) name)) (some_t NullAccess)"

subsection \<open>The visitors as parameters\<close>

text \<open>
  The visitors call each other through \<open>accept\<close>; each is defined over the record of the visitors it
  calls (theory \<open>Checker_Statements\<close> ties the knot).  A visitor of expressions returns the type and the
  changed node.
\<close>

record visitors =
  v_expression :: "expression \<Rightarrow> (ty \<times> expression) check"
  v_statement :: "statement \<Rightarrow> statement check"
  v_resolve :: "ty \<Rightarrow> string list \<Rightarrow> ty list \<Rightarrow> (ty \<times> ty) check"

text \<open>The default arguments of \<open>resolve_generic_type\<close>.\<close>

definition resolve_in_place :: "visitors \<Rightarrow> ty \<Rightarrow> (ty \<times> ty) check" where
  "resolve_in_place V t = v_resolve V t [] []"

definition resolve_shared :: "visitors \<Rightarrow> ty \<Rightarrow> ty check" where
  "resolve_shared V t = bind_t (resolve_in_place V t) (\<lambda>(changed, resolved).
     if changed = t then return_t resolved else fail_t SharedType)"

definition visit_expressions :: "visitors \<Rightarrow> expression list \<Rightarrow> (ty list \<times> expression list) check" where
  "visit_expressions V es = bind_t (map_t (v_expression V) es) (\<lambda>r. return_t (map fst r, map snd r))"

end
