(* ===== verification/Checker_Types.thy ===== *)
theory Checker_Types
  imports Checker_State
begin

text \<open>
  The checker on types: \<open>resolve_generic_type\<close>, \<open>infier_type_by_other_type\<close>, and the checks of number
  literals of \<open>src/amun_typechecker.cpp\<close>.
\<close>

subsection \<open>\<open>resolve_generic_type\<close>\<close>

text \<open>\<open>generic_types[name]\<close>: a null pointer for an unknown name, which every caller reads through.\<close>

definition generic_type_t :: "string \<Rightarrow> ty check" where
  "generic_type_t name = bind_t (read_t (\<lambda>s. generic_types s name)) (some_t NullAccess)"

definition resolve_generic_parameter :: "string \<Rightarrow> string list \<Rightarrow> ty list \<Rightarrow> ty check" where
  "resolve_generic_parameter name gnames gparams =
     (let index = index_of gnames name
      in if index \<noteq> -1 then nth_t gparams (nat index) else generic_type_t name)"

text \<open>The loop over the fields of a generic structure; the resolved fields are changed in the structure.\<close>

definition resolve_field :: "visitors \<Rightarrow> string \<Rightarrow> struct_type \<Rightarrow> ty list \<Rightarrow> nat \<Rightarrow> ty check" where
  "resolve_field V name structure parameters i =
     bind_t (declared_structure_t name) (\<lambda>current. bind_t (nth_t (fields_types current) i) (\<lambda>field.
     bind_t (v_resolve V field (generic_parameters structure) parameters) (\<lambda>(changed, resolved).
     then_t (modify_t (\<lambda>s. s\<lparr>tcontext := (tcontext s)\<lparr>ctx_structures :=
         (ctx_structures (tcontext s))(name := map_option
            (\<lambda>st. st\<lparr>fields_types := (fields_types st)[i := changed]\<rparr>)
            (ctx_structures (tcontext s) name))\<rparr>\<rparr>))
     (return_t resolved))))"

definition new_instance :: "string \<Rightarrow> struct_type \<Rightarrow> ty list \<Rightarrow> ty list \<Rightarrow> struct_type" where
  "new_instance mangled_name structure types parameters = \<lparr>struct_name = mangled_name,
     fields_names = fields_names structure, fields_types = types,
     generic_parameters = generic_parameters structure, generic_parameters_types = parameters,
     struct_is_packed = True, struct_is_generic = True, struct_is_extern = False\<rparr>"

text \<open>Instances and declared structures are told apart by their names.\<close>

definition instance_name_free :: "string \<Rightarrow> unit check" where
  "instance_name_free mangled_name =
     bind_t (read_t (\<lambda>s. ctx_structures (tcontext s) mangled_name)) (\<lambda>declared.
     if declared = None then return_t () else fail_t NameClash)"

definition resolve_generic_struct ::
  "visitors \<Rightarrow> string \<Rightarrow> ty list \<Rightarrow> string list \<Rightarrow> ty list \<Rightarrow> (ty \<times> ty) check" where
  "resolve_generic_struct V name params gnames gparams =
     bind_t (declared_structure_t name) (\<lambda>structure.
     bind_t (map_t (\<lambda>p. case p of
         GenericParameterType g \<Rightarrow> resolve_generic_parameter g gnames gparams
       | _ \<Rightarrow> return_t p) params) (\<lambda>parameters.
     let changed = GenericStructType name parameters;
         mangled_name = struct_name structure @ mangle_types parameters
     in bind_t (read_t (\<lambda>s. lookup (types_table s) mangled_name)) (\<lambda>existing. case existing of
          Some (AnyStruct instance_name) \<Rightarrow> return_t (changed, StructType instance_name)
        | Some (AnyType _) \<Rightarrow> bad_any_cast
        | None \<Rightarrow>
            bind_t (map_t (resolve_field V name structure parameters)
                [0 ..< length (fields_types structure)]) (\<lambda>types.
            then_t (instance_name_free mangled_name)
            (then_t (modify_t (\<lambda>s. s\<lparr>struct_instances := (struct_instances s)
                (mangled_name \<mapsto> new_instance mangled_name structure types parameters)\<rparr>))
            (then_t (define_any mangled_name (AnyStruct mangled_name))
            (return_t (changed, StructType mangled_name))))))))"

text \<open>
  The result is the type as it is changed in place, and the resolved type.  A function type is
  resolved in place.
\<close>

definition resolve_generic_type ::
  "visitors \<Rightarrow> ty \<Rightarrow> string list \<Rightarrow> ty list \<Rightarrow> (ty \<times> ty) check" where
  "resolve_generic_type V type gnames gparams = (case type of
     GenericParameterType name \<Rightarrow>
       (let index = index_of gnames name
        in if index \<ge> 0 then
             bind_t (nth_t gparams (nat index)) (\<lambda>resolved_type.
             then_t (modify_t (\<lambda>s. s\<lparr>generic_types := (generic_types s)(name \<mapsto> resolved_type)\<rparr>))
             (return_t (type, resolved_type)))
           else bind_t (generic_type_t name) (\<lambda>resolved_type. return_t (type, resolved_type)))
   | PointerType base \<Rightarrow>
       bind_t (v_resolve V base gnames gparams) (\<lambda>(changed, new_base).
       return_t (PointerType changed, PointerType new_base))
   | StaticArrayType element_type n \<Rightarrow>
       bind_t (v_resolve V element_type gnames gparams) (\<lambda>(changed, new_element).
       return_t (StaticArrayType changed n, StaticArrayType new_element n))
   | FunctionType name parameters return_type implicit varargs varargs_ty intrinsic gen names \<Rightarrow>
       bind_t (v_resolve V return_type gnames gparams) (\<lambda>(_, new_return_type).
       bind_t (map_t (\<lambda>p. v_resolve V p gnames gparams) parameters) (\<lambda>new_parameters.
       let function = FunctionType name (map snd new_parameters) new_return_type implicit varargs
             varargs_ty intrinsic gen names
       in return_t (function, function)))
   | GenericStructType name parameters \<Rightarrow>
       resolve_generic_struct V name parameters gnames gparams
   | TupleType name types \<Rightarrow>
       bind_t (map_t (\<lambda>f. v_resolve V f gnames gparams) types) (\<lambda>resolved.
       return_t (TupleType name (map fst resolved),
         TupleType (''_tuple_'' @ mangle_types (map snd resolved)) (map snd resolved)))
   | _ \<Rightarrow> return_t (type, type))"

subsection \<open>\<open>infier_type_by_other_type\<close>\<close>

text \<open>
  The map of the inferred parameters, in the order they are inserted; \<open>None\<close> is a read past the end of
  a vector or through a null pointer.  \<open>inserted\<close> keeps the first value of a key.
\<close>

definition inserted :: "(string \<times> ty) list \<Rightarrow> (string \<times> ty) list \<Rightarrow> (string \<times> ty) list" where
  "inserted m extra = fold (\<lambda>(k, t) m. if map_of m k = None then m @ [(k, t)] else m) extra m"

fun infier_type_by_other_type ::
  "(string \<Rightarrow> struct_type option) \<Rightarrow> ty \<Rightarrow> ty \<Rightarrow> (string \<times> ty) list option"
  and infier_types ::
  "(string \<Rightarrow> struct_type option) \<Rightarrow> ty list \<Rightarrow> ty list \<Rightarrow> (string \<times> ty) list
    \<Rightarrow> (string \<times> ty) list option" where
  "infier_type_by_other_type objects (GenericParameterType name) other = Some [(name, other)]"
| "infier_type_by_other_type objects (PointerType base) other = (case other of
     PointerType other_base \<Rightarrow>
       (case (base, other_base) of
          (FunctionType _ ps r _ _ _ _ _ _, FunctionType _ other_ps other_r _ _ _ _ _ _) \<Rightarrow>
            if length ps = length other_ps
            then (case infier_type_by_other_type objects r other_r of
                None \<Rightarrow> None
              | Some resolved_types \<Rightarrow> infier_types objects ps other_ps resolved_types)
            else Some []
        | _ \<Rightarrow> infier_type_by_other_type objects base other_base)
   | _ \<Rightarrow> Some [])"
| "infier_type_by_other_type objects (StaticArrayType element_type _) other = (case other of
     StaticArrayType other_element _ \<Rightarrow> infier_type_by_other_type objects element_type other_element
   | _ \<Rightarrow> Some [])"
| "infier_type_by_other_type objects (GenericStructType name parameters) other = (case other of
     StructType other_name \<Rightarrow> (case objects other_name of
         None \<Rightarrow> None
       | Some other_struct \<Rightarrow>
           if length (generic_parameters_types other_struct) \<le> length parameters
           then infier_types objects parameters (generic_parameters_types other_struct) []
           else None)
   | GenericStructType other_name other_parameters \<Rightarrow>
       (case (objects name, objects other_name) of
          (Some type_struct, Some other_struct) \<Rightarrow>
            if struct_name type_struct = struct_name other_struct
               \<and> length (fields_types type_struct) = length (fields_types other_struct)
            then if length parameters \<le> length other_parameters
                 then infier_types objects parameters other_parameters [] else None
            else Some []
        | _ \<Rightarrow> None)
   | _ \<Rightarrow> Some [])"
| "infier_type_by_other_type objects (TupleType _ types) other = (case other of
     TupleType _ other_types \<Rightarrow>
       if length types = length other_types then infier_types objects types other_types []
       else Some []
   | _ \<Rightarrow> Some [])"
| "infier_type_by_other_type objects _ other = Some []"
| "infier_types objects (t # ts) (other # others) resolved_types =
     (case infier_type_by_other_type objects t other of
        None \<Rightarrow> None
      | Some result \<Rightarrow> infier_types objects ts others (inserted resolved_types result))"
| "infier_types objects _ _ resolved_types = Some resolved_types"

subsection \<open>\<open>check_number_limits\<close>\<close>

text \<open>
  \<open>str_to_int\<close> accumulates in an \<open>int64\<close>: larger values overflow.
\<close>

definition str_to_int64 :: "string \<Rightarrow> int option" where
  "str_to_int64 s = (let n = str_to_int s in if \<bar>n\<bar> < 2 ^ 63 then Some n else None)"

text \<open>
  \<open>atof\<close> on the literals of number tokens, digits with an optional fraction: the digits as an integer
  and the number of digits after the point.
\<close>

fun decimal_number :: "string \<Rightarrow> int \<Rightarrow> nat \<Rightarrow> bool \<Rightarrow> int \<times> nat" where
  "decimal_number [] n m fraction = (n, m)"
| "decimal_number (c # s) n m fraction =
     (if 48 \<le> schar c \<and> schar c \<le> 57
      then decimal_number s (n * 10 + (schar c - 48)) (if fraction then m + 1 else m) fraction
      else if c = CHR ''.'' \<and> \<not> fraction then decimal_number s n m True
      else (n, m))"

text \<open>
  The nearest \<open>double\<close> to the literal is at most the largest \<open>float\<close>, or the largest \<open>double\<close>:
  half a unit of the last place of a \<open>double\<close> above it is still rounded down to the former, and up to
  infinity from the latter.
\<close>

definition fits_float32 :: "string \<Rightarrow> bool" where
  "fits_float32 s = (let (n, m) = decimal_number s 0 0 False
     in n \<le> (2 ^ 128 - 2 ^ 104 + 2 ^ 74) * 10 ^ m)"

definition fits_float64 :: "string \<Rightarrow> bool" where
  "fits_float64 s = (let (n, m) = decimal_number s 0 0 False in n < (2 ^ 1024 - 2 ^ 970) * 10 ^ m)"

text \<open>
  \<open>int64\<close> is compared with \<open>uint64\<close> limits after conversion to \<open>uint64\<close>, so both 64-bit tests always
  hold.
\<close>

definition check_number_limits :: "string \<Rightarrow> number_kind \<Rightarrow> bool option" where
  "check_number_limits s k = (case k of
     FLOAT_32 \<Rightarrow> Some (fits_float32 s)
   | FLOAT_64 \<Rightarrow> Some (fits_float64 s)
   | _ \<Rightarrow> (case str_to_int64 s of
       None \<Rightarrow> None
     | Some n \<Rightarrow> Some (case k of
         INTEGER_1 \<Rightarrow> n = 0 \<or> n = 1
       | INTEGER_8 \<Rightarrow> - 128 \<le> n \<and> n \<le> 127
       | U_INTEGER_8 \<Rightarrow> 0 \<le> n \<and> n \<le> 255
       | INTEGER_16 \<Rightarrow> - 32768 \<le> n \<and> n \<le> 32767
       | U_INTEGER_16 \<Rightarrow> 0 \<le> n \<and> n \<le> 65535
       | INTEGER_32 \<Rightarrow> - 2147483648 \<le> n \<and> n \<le> 2147483647
       | U_INTEGER_32 \<Rightarrow> 0 \<le> n \<and> n \<le> 4294967295
       | INTEGER_64 \<Rightarrow> - 9223372036854775808 \<le> n \<and> n \<le> 9223372036854775807
       | _ \<Rightarrow> 0 \<le> n mod 2 ^ 64 \<and> n mod 2 ^ 64 \<le> 18446744073709551615)))"

end
