(* ===== verification/Checker_Expressions.thy ===== *)
theory Checker_Expressions
  imports Checker_Types
begin

text \<open>
  The visitors of expressions of \<open>src/amun_typechecker.cpp\<close>, from the conditional expression to the
  literals, and the checks of arguments and of assignments they use.
\<close>

subsection \<open>Parts shared by the visitors\<close>

text \<open>\<open>dynamic_pointer_cast<NullExpression>(e)->null_base_type = t\<close>.\<close>

definition set_null_base_type :: "expression \<Rightarrow> ty \<Rightarrow> expression check" where
  "set_null_base_type e t = (case e of
     NullExpression v type _ \<Rightarrow> return_t (NullExpression v type t) | _ \<Rightarrow> fail_t NullAccess)"

text \<open>\<open>static_pointer_cast\<close> to a pointer type and of its base to a function type.\<close>

definition function_pointer_t :: "ty \<Rightarrow> ty check" where
  "function_pointer_t t = (case t of
     PointerType base \<Rightarrow> if is_function_type base then return_t base else fail_t BadCast
   | _ \<Rightarrow> fail_t BadCast)"

text \<open>The return type of the operator function of that name if there is one, or \<open>otherwise\<close>.\<close>

definition overloaded_operator :: "string \<Rightarrow> ty check \<Rightarrow> ty check" where
  "overloaded_operator fname otherwise =
     bind_t (is_type_defined fname) (\<lambda>defined.
     if \<not> defined then otherwise
     else bind_t (lookup_type fname) (\<lambda>type.
       if is_function_type type then return_t (function_return type) else fail_t AssertFailure))"

definition infix_overloading :: "token \<Rightarrow> ty \<Rightarrow> ty \<Rightarrow> ty check" where
  "infix_overloading op lhs rhs =
     overloaded_operator (mangle_operator_function (kind op) [lhs, rhs])
       (throw_error (position op) (''Can't found operator overloading operator ''
          @ lookup_string overloading_operator_literal (kind op) @ ''('' @ get_type_literal lhs @ '', ''
          @ get_type_literal rhs @ '')''))"

definition expect_same :: "string \<Rightarrow> token \<Rightarrow> ty \<Rightarrow> ty \<Rightarrow> unit check" where
  "expect_same msg op lhs rhs = error_if (\<not> is_types_equals lhs rhs) (position op)
     (msg @ get_type_literal lhs @ '' and '' @ get_type_literal rhs)"

definition same_numbers :: "token \<Rightarrow> ty \<Rightarrow> ty \<Rightarrow> unit check" where
  "same_numbers = expect_same ''Expect numbers types to be the same size but got ''"

definition same_vectors :: "token \<Rightarrow> ty \<Rightarrow> ty \<Rightarrow> unit check" where
  "same_vectors = expect_same ''Expect vector types to be the same size and type but got ''"

definition visit_operands ::
  "visitors \<Rightarrow> expression \<Rightarrow> expression \<Rightarrow> ((ty \<times> expression) \<times> (ty \<times> expression)) check" where
  "visit_operands V left right =
     bind_t (v_expression V left) (\<lambda>l. bind_t (v_expression V right) (\<lambda>r. return_t (l, r)))"

subsection \<open>Arguments\<close>

definition check_lambda_has_invalid_capturing :: "expression \<Rightarrow> unit check" where
  "check_lambda_has_invalid_capturing e = (case e of
     LambdaExpression pos _ implict_names _ _ _ _ \<Rightarrow>
       error_if (implict_names \<noteq> []) (position pos)
         (''function argument lambda expression can't capture variables ''
          @ ''from non global scopes'' @ [CHR 0x0A] @ [CHR 0x0A] @ ''Captured variables:'' @ [CHR 0x0A]
          @ concat (map (\<lambda>name. ''-> '' @ name @ [CHR 0x0A]) implict_names))
   | _ \<Rightarrow> return_t ())"

definition visit_argument :: "visitors \<Rightarrow> expression \<Rightarrow> (ty \<times> expression) check" where
  "visit_argument V argument =
     then_t (check_lambda_has_invalid_capturing argument)
     (bind_t (v_expression V argument) (\<lambda>(argument_type, argument').
      if is_generic_struct_type argument_type
      then bind_t (resolve_shared V argument_type) (\<lambda>resolved. return_t (resolved, argument'))
      else return_t (argument_type, argument')))"

text \<open>One parameter against its argument; an array literal is accepted whatever its elements are.\<close>

definition check_argument :: "token_span \<Rightarrow> ty \<Rightarrow> ty \<Rightarrow> expression \<Rightarrow> expression check" where
  "check_argument loc parameter_ty argument_type argument =
     (if is_types_equals parameter_ty argument_type then return_t argument
      else if is_pointer_type parameter_ty \<and> is_null_type argument_type
      then set_null_base_type argument parameter_ty
      else case (parameter_ty, argument) of
        (StaticArrayType param_element _, ArrayExpression pos values (TypeNode (StaticArrayType e n)) c) \<Rightarrow>
          return_t (ArrayExpression pos values
            (TypeNode (StaticArrayType (if n = 0 then param_element else e) n)) c)
      | (StaticArrayType _ _, ArrayExpression _ _ _ _) \<Rightarrow> fail_t BadCast
      | _ \<Rightarrow> throw_error loc (''Argument type didn't match parameter type expect ''
          @ get_type_literal parameter_ty @ '' got '' @ get_type_literal argument_type))"

definition check_parameters_types ::
  "visitors \<Rightarrow> token_span \<Rightarrow> expression list \<Rightarrow> ty list \<Rightarrow> bool \<Rightarrow> ty option \<Rightarrow> int
    \<Rightarrow> expression list check" where
  "check_parameters_types V loc arguments parameters varargs varargs_ty implicit =
     (let arguments_size = length arguments;
          all_arguments_size = int arguments_size + implicit;
          parameters_size = length parameters
      in then_t (error_if (\<not> varargs \<and> all_arguments_size \<noteq> int parameters_size) loc
           (''Invalid number of arguments, expect '' @ to_string (int parameters_size) @ '' but got ''
            @ to_string all_arguments_size))
      (then_t (error_if (varargs \<and> int parameters_size > all_arguments_size) loc
           (''Invalid number of arguments, expect at last'' @ to_string (int parameters_size)
            @ '' but got '' @ to_string all_arguments_size))
      (bind_t (map_t (visit_argument V) arguments) (\<lambda>visited.
       bind_t (map_t (\<lambda>p. if is_generic_struct_type p then resolve_shared V p else return_t p)
         parameters) (\<lambda>parameters.
       let count = (if parameters_size > arguments_size then arguments_size else parameters_size)
       in bind_t (map_t (\<lambda>i.
            bind_t (nth_t parameters (nat (int i + implicit))) (\<lambda>parameter_ty.
            bind_t (nth_t visited i) (\<lambda>(argument_type, argument).
            check_argument loc parameter_ty argument_type argument))) [0 ..< count]) (\<lambda>checked_arguments.
       let result = checked_arguments @ map snd (drop count visited)
       in case varargs_ty of
            None \<Rightarrow> return_t result
          | Some expected \<Rightarrow>
              then_t (each_t (\<lambda>(argument_type, _). error_if (\<not> is_types_equals argument_type expected) loc
                  (''Argument type didn't match varargs type expect '' @ get_type_literal expected
                   @ '' got '' @ get_type_literal argument_type)) (drop parameters_size visited))
              (return_t result)))))))"

text \<open>\<open>argument->set_type_node(node_amun_type(argument->accept(this)))\<close>.\<close>

definition visit_and_set_type :: "visitors \<Rightarrow> expression \<Rightarrow> expression check" where
  "visit_and_set_type V argument =
     bind_t (v_expression V argument) (\<lambda>(t, e). return_t (set_type_node e (TypeNode t)))"

subsection \<open>Assignments\<close>

definition invalid_left_nodes :: "ast_node_type list" where
  "invalid_left_nodes = [AST_CHARACTER, AST_BOOL, AST_NUMBER, AST_STRING, AST_ENUM_ELEMENT, AST_NULL]"

definition check_valid_assignment_right_side :: "expression \<Rightarrow> token_span \<Rightarrow> unit check" where
  "check_valid_assignment_right_side node loc =
     (let left_node_type = get_ast_node_type node;
          invalid = throw_error loc ''invalid left-hand side of assignment''
      in if left_node_type = AST_LITERAL then return_t ()
         else if left_node_type = AST_CALL then invalid
         else if left_node_type = AST_CAST then invalid
         else (case node of
             IndexExpression pos array_value _ _ \<Rightarrow>
               bind_t (type_of_node (get_type_node array_value)) (\<lambda>value_type.
               error_if (get_type_literal value_type = ''*Int8'') (position pos)
                 ''String literal are readonly can't modify it using [i]'')
           | PrefixUnaryExpression op _ _ \<Rightarrow> if kind op = TOKEN_STAR then return_t () else invalid
           | _ \<Rightarrow> if contains invalid_left_nodes left_node_type then invalid else return_t ()))"

definition visit_assign :: "visitors \<Rightarrow> expression \<Rightarrow> token \<Rightarrow> expression \<Rightarrow> type_node
    \<Rightarrow> (ty \<times> expression) check" where
  "visit_assign V left op right type =
     bind_t (v_expression V left) (\<lambda>(left_type, left).
     then_t (check_valid_assignment_right_side left (position op))
     (bind_t (v_expression V right) (\<lambda>(right_type, right).
      if is_pointer_type left_type \<and> is_null_type right_type
      then bind_t (set_null_base_type right left_type) (\<lambda>right.
        return_t (left_type, AssignExpression left op right type))
      else
        then_t (error_if (\<not> is_types_equals left_type right_type) (position op)
          (''Type missmatch expect '' @ get_type_literal left_type @ '' but got ''
           @ get_type_literal right_type))
        (return_t (right_type, AssignExpression left op right type)))))"

subsection \<open>Conditional expressions, switches and tuples\<close>

text \<open>
  The loop over the branches of \<open>IfExpression\<close>; the accumulator is the type of the first value, the
  changed conditions and the changed values.
\<close>

definition if_expression_branch :: "visitors \<Rightarrow> token list \<Rightarrow> expression list \<Rightarrow> expression list \<Rightarrow> nat
    \<Rightarrow> ty \<times> expression list \<times> expression list \<Rightarrow> (ty \<times> expression list \<times> expression list) check" where
  "if_expression_branch V tokens conditions values i = (\<lambda>(node_type, cs, vs).
     bind_t (nth_t tokens i) (\<lambda>tok. bind_t (nth_t conditions i) (\<lambda>c.
     bind_t (v_expression V c) (\<lambda>(condition, c).
     then_t (error_if (\<not> is_number_type condition) (position tok)
       (''If Expression condition mush be a number but got '' @ get_type_literal condition))
     (bind_t (nth_t values i) (\<lambda>v. bind_t (v_expression V v) (\<lambda>(branch_type, v).
      if i = 0 then return_t (branch_type, cs @ [c], vs @ [v])
      else then_t (error_if (\<not> is_types_equals node_type branch_type) (position tok)
         (''If Expression Type missmatch expect '' @ get_type_literal node_type @ '' but got ''
          @ get_type_literal branch_type))
        (return_t (node_type, cs @ [c], vs @ [v])))))))))"

definition visit_if_expression :: "visitors \<Rightarrow> token list \<Rightarrow> expression list \<Rightarrow> expression list
    \<Rightarrow> (ty \<times> expression) check" where
  "visit_if_expression V tokens conditions values =
     bind_t (fold_t (if_expression_branch V tokens conditions values) [0 ..< length tokens]
       (none_type, [], [])) (\<lambda>(node_type, cs, vs).
     return_t (node_type, IfExpression tokens (cs @ drop (length tokens) conditions)
       (vs @ drop (length tokens) values) (TypeNode node_type)))"

definition switch_expression_case :: "visitors \<Rightarrow> token_span \<Rightarrow> ty \<Rightarrow> nat \<times> expression \<Rightarrow> expression check" where
  "switch_expression_case V loc argument = (\<lambda>(i, c).
     bind_t (v_expression V c) (\<lambda>(case_type, c).
     then_t (error_if (\<not> is_types_equals argument case_type) loc
       (''Switch case type must be the same type of argument type '' @ get_type_literal argument
        @ '' but got '' @ get_type_literal case_type @ '' in case number '' @ to_string (int i + 1)))
     (return_t c)))"

definition switch_expression_value :: "visitors \<Rightarrow> token_span \<Rightarrow> ty \<Rightarrow> expression \<Rightarrow> expression check" where
  "switch_expression_value V loc expected_type v =
     bind_t (v_expression V v) (\<lambda>(case_value, v).
     then_t (error_if (\<not> is_types_equals expected_type case_value) loc
       (''Switch cases must be the same time but got '' @ get_type_literal expected_type
        @ '' and '' @ get_type_literal case_value))
     (return_t v))"

definition switch_expression_default ::
  "visitors \<Rightarrow> token_span \<Rightarrow> ty \<Rightarrow> expression option \<Rightarrow> expression option check" where
  "switch_expression_default V loc expected_type else_value = (case else_value of
     None \<Rightarrow> return_t None
   | Some e \<Rightarrow> bind_t (v_expression V e) (\<lambda>(default_value_type, e).
       then_t (error_if (\<not> is_types_equals expected_type default_value_type) loc
         (''Switch case default values must be the same type of other cases expect ''
          @ get_type_literal expected_type @ '' but got '' @ get_type_literal default_value_type))
       (return_t (Some e))))"

definition check_complete_switch_expression ::
  "token_span \<Rightarrow> ty \<Rightarrow> nat \<Rightarrow> expression option \<Rightarrow> unit check" where
  "check_complete_switch_expression loc argument cases_count else_value =
     (if else_value \<noteq> None then return_t ()
      else case argument of
        EnumElementType enum_name _ \<Rightarrow> bind_t (enumeration_t enum_name) (\<lambda>enum.
          error_if (length (enum_type_values enum) > cases_count) loc
            ''Switch is incomplete and must has else branch'')
      | _ \<Rightarrow> throw_error loc ''Switch is incomplete and must has else branch'')"

definition visit_switch_expression :: "visitors \<Rightarrow> token \<Rightarrow> expression \<Rightarrow> expression list
    \<Rightarrow> expression list \<Rightarrow> expression option \<Rightarrow> token_kind \<Rightarrow> (ty \<times> expression) check" where
  "visit_switch_expression V keyword argument cases values else_value op =
     (let loc = position keyword
      in bind_t (v_expression V argument) (\<lambda>(argument_type, argument).
         bind_t (map_t (switch_expression_case V loc argument_type) (enumerate 0 cases)) (\<lambda>cases.
         bind_t (nth_t values 0) (\<lambda>first.
         bind_t (v_expression V first) (\<lambda>(expected_type, first).
         bind_t (map_t (\<lambda>i. bind_t (nth_t values i) (switch_expression_value V loc expected_type))
             [1 ..< length cases]) (\<lambda>others.
         bind_t (switch_expression_default V loc expected_type else_value) (\<lambda>else_value.
         then_t (check_complete_switch_expression loc argument_type (length cases) else_value)
         (return_t (expected_type, SwitchExpression keyword argument cases
            (first # others @ drop (max 1 (length cases)) values) else_value
            (TypeNode expected_type) op)))))))))"

definition visit_tuple :: "visitors \<Rightarrow> token \<Rightarrow> expression list \<Rightarrow> (ty \<times> expression) check" where
  "visit_tuple V pos values =
     bind_t (visit_expressions V values) (\<lambda>(types, values).
     let tuple_type = TupleType (''_tuple_'' @ mangle_types types) types
     in return_t (tuple_type, TupleExpression pos values (TypeNode tuple_type)))"

subsection \<open>Operators\<close>

definition visit_binary :: "visitors \<Rightarrow> expression \<Rightarrow> token \<Rightarrow> expression \<Rightarrow> type_node
    \<Rightarrow> (ty \<times> expression) check" where
  "visit_binary V left op right type =
     bind_t (visit_operands V left right) (\<lambda>((lhs, left), (rhs, right)).
     if is_number_type lhs \<and> is_number_type rhs
     then then_t (same_numbers op lhs rhs) (return_t (lhs, BinaryExpression left op right type))
     else if is_vector_type lhs \<and> is_vector_type rhs
     then then_t (same_vectors op lhs rhs)
       (return_t (lhs, BinaryExpression left op right (TypeNode lhs)))
     else bind_t (infix_overloading op lhs rhs) (\<lambda>result.
       return_t (result, BinaryExpression left op right type)))"

text \<open>The width of the left operand against a constant right operand.\<close>

definition check_shift :: "token \<Rightarrow> ty \<Rightarrow> expression \<Rightarrow> unit check" where
  "check_shift op lhs right =
     (if kind op = TOKEN_RIGHT_SHIFT \<or> kind op = TOKEN_LEFT_SHIFT
      then (case right of
          NumberExpression value _ \<Rightarrow> (case lhs of
              NumberType k \<Rightarrow>
                bind_t (some_t SignedOverflow (str_to_int64 (literal value))) (\<lambda>num.
                let first_operand_width = (case map_of number_kind_width k of Some w \<Rightarrow> w | None \<Rightarrow> 0)
                in error_if (num \<ge> first_operand_width) (position op)
                     (''Shift Expressions second operand can't be bigger than or equal first operand bit ''
                      @ ''width ('' @ to_string first_operand_width @ '')''))
            | _ \<Rightarrow> fail_t BadCast)
        | PrefixUnaryExpression unary_op operand _ \<Rightarrow>
            error_if (kind unary_op = TOKEN_MINUS \<and> get_ast_node_type operand = AST_NUMBER) (position op)
              ''Shift Expressions second operand can't be a negative number''
        | _ \<Rightarrow> return_t ())
      else return_t ())"

definition visit_bitwise :: "visitors \<Rightarrow> expression \<Rightarrow> token \<Rightarrow> expression \<Rightarrow> type_node
    \<Rightarrow> (ty \<times> expression) check" where
  "visit_bitwise V left op right type =
     bind_t (visit_operands V left right) (\<lambda>((lhs, left), (rhs, right)).
     if is_number_type lhs \<and> is_number_type rhs
     then then_t (same_numbers op lhs rhs) (then_t (check_shift op lhs right)
       (return_t (lhs, BitwiseExpression left op right type)))
     else if is_vector_type lhs \<and> is_vector_type rhs
     then then_t (same_vectors op lhs rhs)
       (return_t (lhs, BitwiseExpression left op right (TypeNode lhs)))
     else bind_t (infix_overloading op lhs rhs) (\<lambda>result.
       return_t (result, BitwiseExpression left op right type)))"

definition visit_comparison :: "visitors \<Rightarrow> expression \<Rightarrow> token \<Rightarrow> expression \<Rightarrow> type_node
    \<Rightarrow> (ty \<times> expression) check" where
  "visit_comparison V left op right type =
     bind_t (visit_operands V left right) (\<lambda>((lhs, left), (rhs, right)).
     let node = ComparisonExpression left op right type
     in if is_number_type lhs \<and> is_number_type rhs
        then then_t (same_numbers op lhs rhs) (return_t (i1_type, node))
        else if is_enum_element_type lhs \<and> is_enum_element_type rhs
        then then_t (expect_same ''You can't compare elements from different enums '' op lhs rhs)
          (return_t (i1_type, node))
        else if is_pointer_type lhs \<and> is_pointer_type rhs
        then then_t (expect_same ''You can't compare pointers to different types '' op lhs rhs)
          (return_t (i1_type, node))
        else if is_pointer_type lhs \<and> is_null_type rhs
        then bind_t (set_null_base_type right lhs) (\<lambda>right.
          return_t (i1_type, ComparisonExpression left op right type))
        else if is_null_type lhs \<and> is_pointer_type rhs
        then bind_t (set_null_base_type left rhs) (\<lambda>left.
          return_t (i1_type, ComparisonExpression left op right type))
        else if is_null_type lhs \<and> is_null_type rhs then return_t (i1_type, node)
        else if is_vector_type lhs \<and> is_vector_type rhs
        then then_t (same_vectors op lhs rhs)
          (return_t (i1_type, ComparisonExpression left op right (TypeNode lhs)))
        else if is_null_type lhs \<or> is_null_type rhs
        then throw_error (position op) ''Can't compare non pointer type with null value''
        else bind_t (infix_overloading op lhs rhs) (\<lambda>result. return_t (result, node)))"

definition visit_logical :: "visitors \<Rightarrow> expression \<Rightarrow> token \<Rightarrow> expression \<Rightarrow> type_node
    \<Rightarrow> (ty \<times> expression) check" where
  "visit_logical V left op right type =
     bind_t (visit_operands V left right) (\<lambda>((lhs, left), (rhs, right)).
     let node = LogicalExpression left op right type
     in if is_integer1_type lhs \<and> is_integer1_type rhs then return_t (lhs, node)
        else bind_t (infix_overloading op lhs rhs) (\<lambda>result. return_t (result, node)))"

text \<open>A number, or a type with an operator function of that prefix, for a unary operator.\<close>

definition number_or_overloaded ::
  "string \<Rightarrow> token \<Rightarrow> string \<Rightarrow> ty \<Rightarrow> (type_node \<Rightarrow> expression) \<Rightarrow> type_node \<Rightarrow> (ty \<times> expression) check" where
  "number_or_overloaded prefix op msg rhs node type =
     (if is_number_type rhs then return_t (rhs, node (TypeNode rhs))
      else bind_t (overloaded_operator (prefix @ mangle_operator_function (kind op) [rhs])
          (throw_error (position op) (msg @ get_type_literal rhs))) (\<lambda>result.
        return_t (result, node type)))"

definition visit_prefix_unary :: "visitors \<Rightarrow> token \<Rightarrow> expression \<Rightarrow> type_node
    \<Rightarrow> (ty \<times> expression) check" where
  "visit_prefix_unary V op right type =
     bind_t (v_expression V right) (\<lambda>(rhs, right).
     let op_kind = kind op; node = PrefixUnaryExpression op right; overloaded = number_or_overloaded ''_prefix'' op
     in if op_kind = TOKEN_MINUS
        then overloaded ''Unary Minus `-` expect numbers or to override operators '' rhs node type
        else if op_kind = TOKEN_BANG
        then overloaded ''Bang `!` expect numbers or to override operators '' rhs node type
        else if op_kind = TOKEN_NOT
        then overloaded ''Not `~` expect numbers or to override operators '' rhs node type
        else if op_kind = TOKEN_STAR
        then (case rhs of
            PointerType base \<Rightarrow> return_t (base, node (TypeNode base))
          | _ \<Rightarrow> throw_error (position op)
              (''Derefernse operator require pointer as an right operand but got '' @ get_type_literal rhs))
        else if op_kind = TOKEN_AND
        then then_t (if is_function_type rhs \<and> is_intrinsic rhs
            then throw_error (position (function_name rhs)) ''Can't take address of an intrinsic function''
            else return_t ())
          (return_t (PointerType rhs, node (TypeNode (PointerType rhs))))
        else if op_kind = TOKEN_PLUS_PLUS \<or> op_kind = TOKEN_MINUS_MINUS
        then overloaded ''Unary ++ or -- expect numbers or to override operators '' rhs node type
        else throw_error (position op) (''Unsupported unary expression '' @ get_type_literal rhs))"

definition visit_postfix_unary :: "visitors \<Rightarrow> token \<Rightarrow> expression \<Rightarrow> type_node
    \<Rightarrow> (ty \<times> expression) check" where
  "visit_postfix_unary V op right type =
     bind_t (v_expression V right) (\<lambda>(rhs, right).
     if kind op = TOKEN_PLUS_PLUS \<or> kind op = TOKEN_MINUS_MINUS
     then number_or_overloaded ''_postfix'' op ''Unary ++ or -- expect numbers or to override operators ''
       rhs (PostfixUnaryExpression op right) type
     else throw_error (position op) (''Unsupported unary expression '' @ get_type_literal rhs))"

end
