(* ===== verification/Checker_Calls.thy ===== *)
theory Checker_Calls
  imports Checker_Expressions
begin

text \<open>
  The visitors of calls, lambdas, member accesses and literals of \<open>src/amun_typechecker.cpp\<close>, and the
  dispatch over the nodes of expressions.
\<close>

subsection \<open>Calls of a function or of a function pointer\<close>

text \<open>The call of a known function type; \<open>visit\<close> is what is done with the arguments before the check.\<close>

definition call_function :: "visitors \<Rightarrow> (expression \<Rightarrow> expression check) \<Rightarrow> token \<Rightarrow> expression
    \<Rightarrow> expression list \<Rightarrow> ty list \<Rightarrow> ty \<Rightarrow> (ty \<times> expression) check" where
  "call_function V visit pos callee arguments gargs function =
     bind_t (map_t visit arguments) (\<lambda>arguments.
     bind_t (check_parameters_types V (position pos) arguments (function_parameters function)
         (has_varargs function) (varargs_type function) (implicit_parameters_count function)) (\<lambda>arguments.
     return_t (function_return function,
       CallExpression pos callee arguments (TypeNode function) gargs)))"

text \<open>A name in the table of types.\<close>

definition call_defined_name :: "visitors \<Rightarrow> token \<Rightarrow> string \<Rightarrow> expression \<Rightarrow> expression list
    \<Rightarrow> ty list \<Rightarrow> (ty \<times> expression) check" where
  "call_defined_name V pos name callee arguments gargs =
     bind_t (lookup_type name) (\<lambda>t.
     let function = (case t of PointerType base \<Rightarrow> base | _ \<Rightarrow> t)
     in if is_function_type function
        then call_function V (visit_and_set_type V) pos callee arguments gargs function
        else throw_error (position pos) ''Call expression work only with function'')"

subsection \<open>Calls of a generic function\<close>

text \<open>
  The inferred generic arguments: the set of the indices assigned so far, and the vector, in which a
  null pointer is \<open>None\<close>.
\<close>

definition assign_generic_argument ::
  "string list \<Rightarrow> string \<times> ty \<Rightarrow> int list \<times> ty option list \<Rightarrow> (int list \<times> ty option list) check" where
  "assign_generic_argument names = (\<lambda>(name, t) (indices, gargs).
     let index = index_of names name
     in if contains indices index then return_t (indices, gargs)
        else if index < 0 then fail_t IndexOutOfRange
        else return_t (index # indices, gargs[nat index := Some t]))"

definition infer_generic_argument :: "visitors \<Rightarrow> token_span \<Rightarrow> string list \<Rightarrow> ty \<times> expression
    \<Rightarrow> (int list \<times> ty option list) \<times> expression list
    \<Rightarrow> ((int list \<times> ty option list) \<times> expression list) check" where
  "infer_generic_argument V loc names = (\<lambda>(parameter_ty, argument) (inferred, arguments).
     bind_t (v_expression V argument) (\<lambda>(argument_type, argument).
     if is_types_equals parameter_ty argument_type then return_t (inferred, arguments @ [argument])
     else
       then_t (error_if (is_null_type argument_type) loc
         ''Not enough information to infer generic parameter from null value'')
       (then_t (error_if (is_void_type argument_type) loc ''Can't pass `void` value as argument'')
       (bind_t (read_t struct_object) (\<lambda>objects.
        bind_t (some_t IndexOutOfRange (infier_type_by_other_type objects parameter_ty argument_type))
          (\<lambda>result_map.
        bind_t (fold_t (assign_generic_argument names) result_map inferred) (\<lambda>inferred.
        return_t (inferred, arguments @ [argument]))))))))"

definition infer_generic_arguments :: "visitors \<Rightarrow> token_span \<Rightarrow> string list \<Rightarrow> ty list
    \<Rightarrow> expression list \<Rightarrow> (ty list \<times> expression list) check" where
  "infer_generic_arguments V loc names parameters arguments =
     then_t (error_if (parameters = []) loc ''Not enough information to infer generic types variables'')
     (bind_t (fold_t (infer_generic_argument V loc names) (zip parameters arguments)
         (([], replicate (length names) None), [])) (\<lambda>((indices, gargs), arguments).
      then_t (error_if (length indices \<noteq> length names) loc
        ''Not enough information to infer all generic types variables'')
      (bind_t (some_t NullAccess (those gargs)) (\<lambda>gargs. return_t (gargs, arguments)))))"

text \<open>The types of the prototype are resolved, and changed in the declaration.\<close>

definition update_prototype :: "string \<Rightarrow> (function_prototype \<Rightarrow> function_prototype) \<Rightarrow> unit check" where
  "update_prototype name f = modify_t (\<lambda>s. s\<lparr>generic_functions :=
     (generic_functions s)(name := map_option (\<lambda>(p, body). (f p, body)) (generic_functions s name))\<rparr>)"

definition resolve_return_type :: "visitors \<Rightarrow> string \<Rightarrow> ty \<Rightarrow> string list \<Rightarrow> ty list \<Rightarrow> ty check" where
  "resolve_return_type V name return_ty names gargs =
     bind_t (v_resolve V return_ty names gargs) (\<lambda>(changed, resolved).
     then_t (update_prototype name (\<lambda>p. p\<lparr>prototype_return_type := changed\<rparr>)) (return_t resolved))"

definition resolve_parameter :: "visitors \<Rightarrow> string \<Rightarrow> string list \<Rightarrow> ty list \<Rightarrow> nat \<times> parameter \<Rightarrow> ty check" where
  "resolve_parameter V name names gargs = (\<lambda>(i, p).
     bind_t (v_resolve V (parameter_type p) names gargs) (\<lambda>(changed, resolved).
     then_t (update_prototype name (\<lambda>proto. proto\<lparr>prototype_parameters :=
         (prototype_parameters proto)[i := p\<lparr>parameter_type := changed\<rparr>]\<rparr>))
     (return_t resolved)))"

definition generic_declaration :: "string \<Rightarrow> (function_prototype \<times> statement) check" where
  "generic_declaration name = bind_t (read_t (\<lambda>s. generic_functions s name)) (some_t NullAccess)"

definition visit_generic_body :: "visitors \<Rightarrow> string \<Rightarrow> parameter list \<Rightarrow> ty list \<Rightarrow> unit check" where
  "visit_generic_body V name parameters types = in_new_scope
     (then_t (each_t (\<lambda>(p, t). define_any (literal (parameter_name p)) (AnyType t)) (zip parameters types))
     (bind_t (generic_declaration name) (\<lambda>(_, body).
      bind_t (v_statement V body) (\<lambda>body.
      modify_t (\<lambda>s. s\<lparr>generic_functions := (generic_functions s)(name :=
        map_option (\<lambda>(p, _). (p, body)) (generic_functions s name))\<rparr>)))))"

definition resolve_argument :: "visitors \<Rightarrow> expression \<Rightarrow> expression check" where
  "resolve_argument V argument =
     bind_t (v_expression V argument) (\<lambda>(argument_type, argument).
     bind_t (resolve_shared V argument_type) (\<lambda>argument_type.
     return_t (set_type_node argument (TypeNode argument_type))))"

definition call_generic_function :: "visitors \<Rightarrow> token \<Rightarrow> string \<Rightarrow> expression \<Rightarrow> expression list
    \<Rightarrow> type_node \<Rightarrow> ty list \<Rightarrow> (ty \<times> expression) check" where
  "call_generic_function V pos name callee arguments type gargs =
     bind_t (generic_declaration name) (\<lambda>(prototype, _).
     let loc = position pos;
         parameters = prototype_parameters prototype;
         names = prototype_generic_parameters prototype
     in then_t (error_if (length parameters \<noteq> length arguments) loc
          (''Invalid number of arguments, expect '' @ to_string (int (length parameters)) @ '' but got ''
           @ to_string (int (length arguments))))
     (bind_t (if gargs = []
         then infer_generic_arguments V loc names (map parameter_type parameters) arguments
         else return_t (gargs, arguments)) (\<lambda>(gargs, arguments).
      then_t (error_if (length gargs \<noteq> length names) loc
         ''Not enough information to infer all generic types variables'')
      (then_t (modify_t (\<lambda>s. s\<lparr>generic_types :=
          fold (\<lambda>(n, t) m. m(n \<mapsto> t)) (zip names gargs) (generic_types s)\<rparr>))
      (bind_t (resolve_return_type V name (prototype_return_type prototype) names gargs) (\<lambda>return_ty.
       then_t (push_return_type return_ty)
       (bind_t (map_t (resolve_parameter V name names gargs) (enumerate 0 parameters)) (\<lambda>types.
        then_t (visit_generic_body V name parameters types)
        (then_t pop_return_type
        (bind_t (map_t (resolve_argument V) arguments) (\<lambda>arguments.
         bind_t (check_parameters_types V loc arguments types (prototype_has_varargs prototype)
           (prototype_varargs_type prototype) 0) (\<lambda>arguments.
         then_t (modify_t (\<lambda>s. s\<lparr>generic_types := Map.empty\<rparr>))
         (return_t (return_ty, CallExpression pos callee arguments type gargs))))))))))))))"

subsection \<open>\<open>visit(CallExpression)\<close>\<close>

definition visit_call :: "visitors \<Rightarrow> token \<Rightarrow> expression \<Rightarrow> expression list \<Rightarrow> type_node \<Rightarrow> ty list
    \<Rightarrow> (ty \<times> expression) check" where
  "visit_call V pos callee arguments type gargs = (case callee of
     LiteralExpression name_token _ _ \<Rightarrow>
       (let name = literal name_token
        in bind_t (is_type_defined name) (\<lambda>defined.
           if defined then call_defined_name V pos name callee arguments gargs
           else bind_t (read_t (\<lambda>s. generic_functions s name \<noteq> None)) (\<lambda>generic.
             if generic then call_generic_function V pos name callee arguments type gargs
             else throw_error (position pos) (''Can't resolve function call with name '' @ name))))
   | CallExpression _ _ _ _ _ \<Rightarrow>
       bind_t (v_expression V callee) (\<lambda>(t, callee).
       bind_t (function_pointer_t t) (call_function V return_t pos callee arguments gargs))
   | LambdaExpression _ _ _ _ _ _ _ \<Rightarrow>
       bind_t (v_expression V callee) (\<lambda>(t, callee).
       bind_t (function_pointer_t t) (call_function V (visit_and_set_type V) pos callee arguments gargs))
   | DotExpression _ _ _ _ _ _ \<Rightarrow>
       bind_t (v_expression V callee) (\<lambda>(t, callee).
       bind_t (function_pointer_t t) (call_function V (visit_and_set_type V) pos callee arguments gargs))
   | _ \<Rightarrow> throw_error (position pos) ''Unexpected callee type for Call Expression'')"

subsection \<open>Structures and lambdas\<close>

definition visit_initialize :: "visitors \<Rightarrow> token \<Rightarrow> type_node \<Rightarrow> expression list
    \<Rightarrow> (ty \<times> expression) check" where
  "visit_initialize V pos node_type arguments =
     bind_t (type_of_node node_type) (\<lambda>t. bind_t (resolve_in_place V t) (\<lambda>(_, type). case type of
       StructType name \<Rightarrow>
         bind_t (structure_t name) (\<lambda>struct_ty.
         bind_t (check_parameters_types V (position pos) arguments (fields_types struct_ty) False None 0)
           (\<lambda>arguments. return_t (type, InitializeExpression pos (TypeNode type) arguments)))
     | _ \<Rightarrow> throw_error (position pos) ''InitializeExpression work only with structures''))"

text \<open>An explicit parameter: its type is resolved, and it is defined in the scope of the lambda.\<close>

definition lambda_parameter :: "visitors \<Rightarrow> parameter \<Rightarrow> parameter check" where
  "lambda_parameter V p =
     bind_t (resolve_in_place V (parameter_type p)) (\<lambda>(_, t).
     then_t (define_any (literal (parameter_name p)) (AnyType t))
     (return_t (p\<lparr>parameter_type := t\<rparr>)))"

definition enter_lambda :: "unit check" where
  "enter_lambda = modify_t (\<lambda>s. s\<lparr>is_inside_lambda_body := True,
     lambda_implicit_parameters := [] # lambda_implicit_parameters s\<rparr>)"

definition leave_lambda_body :: "unit check" where
  "leave_lambda_body = modify_t (\<lambda>s. s\<lparr>is_inside_lambda_body := False\<rparr>)"

text \<open>\<open>top\<close> and, at the end of the visitor, \<open>pop\<close>; nothing in between reads the stack.\<close>

definition take_implicit_parameters :: "(string \<times> ty) list check" where
  "take_implicit_parameters = bind_t (read_t lambda_implicit_parameters) (\<lambda>stack. case stack of
     [] \<Rightarrow> fail_t EmptyContainer
   | pairs # rest \<Rightarrow>
       then_t (modify_t (\<lambda>s. s\<lparr>lambda_implicit_parameters := rest\<rparr>)) (return_t pairs))"

definition collect_captures :: "'a check \<Rightarrow> ('a \<times> (string \<times> ty) list) check" where
  "collect_captures m = then_t enter_lambda (bind_t m (\<lambda>x. then_t leave_lambda_body
     (bind_t take_implicit_parameters (\<lambda>pairs. return_t (x, pairs)))))"

text \<open>The captured variables come before the explicit parameters of the function type.\<close>

definition capturing_function :: "ty \<Rightarrow> ty list \<Rightarrow> ty \<Rightarrow> int \<Rightarrow> ty" where
  "capturing_function function parameters return_ty count = (case function of
     FunctionType name _ _ implicit varargs varargs_ty intrinsic gen gnames \<Rightarrow>
       FunctionType name parameters return_ty (implicit + count) varargs varargs_ty intrinsic gen gnames
   | _ \<Rightarrow> function)"

definition visit_lambda :: "visitors \<Rightarrow> token \<Rightarrow> parameter list \<Rightarrow> string list \<Rightarrow> ty list \<Rightarrow> ty
    \<Rightarrow> statement list \<Rightarrow> type_node \<Rightarrow> (ty \<times> expression) check" where
  "visit_lambda V pos explicit_parameters implict_names implict_types return_ty body node_type =
     bind_t (type_of_node node_type) (\<lambda>t. bind_t (function_pointer_t t) (\<lambda>function.
     bind_t (resolve_in_place V (function_return function)) (\<lambda>(_, function_ret).
     then_t (push_return_type function_ret)
     (bind_t (collect_captures (in_new_scope
        (bind_t (map_t (lambda_parameter V) explicit_parameters) (\<lambda>parameters.
         bind_t (v_statement V (BlockStatement body)) (\<lambda>block. return_t (parameters, block))))))
       (\<lambda>visited. then_t pop_return_type
       (case visited of ((parameters, block), pairs) \<Rightarrow>
        let names = implict_names @ map fst pairs;
            types = implict_types @ map snd pairs;
            pointer = PointerType (capturing_function function (types @ map parameter_type parameters)
              function_ret (int (length pairs)));
            statements = (case block of BlockStatement ss \<Rightarrow> ss | _ \<Rightarrow> [block])
        in return_t (pointer, LambdaExpression pos parameters names types return_ty statements
             (TypeNode pointer))))))))"

subsection \<open>\<open>visit(DotExpression)\<close>\<close>

definition struct_field :: "token_span \<Rightarrow> struct_type \<Rightarrow> string \<Rightarrow> (int \<times> ty) check" where
  "struct_field loc struct_ty field =
     (if is_contains (fields_names struct_ty) field
      then let member_index = index_of (fields_names struct_ty) field
           in bind_t (nth_t (fields_types struct_ty) (nat member_index)) (\<lambda>field_type.
              return_t (member_index, field_type))
      else throw_error loc (''Can't find a field with name '' @ field @ '' in struct ''
        @ struct_name struct_ty))"

text \<open>The attribute \<open>count\<close> of strings, arrays and vectors.\<close>

definition count_attribute :: "token_span \<Rightarrow> string \<Rightarrow> token \<Rightarrow> unit check" where
  "count_attribute loc what field = error_if (literal field \<noteq> ''count'') loc
     (''Unkown '' @ what @ '' attribute with name '' @ literal field)"

definition visit_dot :: "visitors \<Rightarrow> int \<Rightarrow> bool \<Rightarrow> token \<Rightarrow> expression \<Rightarrow> token \<Rightarrow> (ty \<times> expression) check" where
  "visit_dot V index constant dot callee field =
     bind_t (v_expression V callee) (\<lambda>(callee_type, callee).
     let loc = position dot;
         member = (\<lambda>struct_ty. bind_t (struct_field loc struct_ty (literal field))
           (\<lambda>(i, t). return_t (t, DotExpression i constant dot callee field (TypeNode t))));
         attribute = (\<lambda>what is_const. then_t (count_attribute loc what field)
           (return_t (i64_type, DotExpression index is_const dot callee field (TypeNode i64_type))))
     in case callee_type of
          StructType name \<Rightarrow>
            then_t (error_if (kind field \<noteq> TOKEN_IDENTIFIER) loc
              ''Can't access struct member using index, only tuples can do this'')
            (bind_t (structure_t name) member)
        | TupleType _ types \<Rightarrow>
            then_t (error_if (kind field \<noteq> TOKEN_INT) loc ''Tuple must be accessed using position only'')
            (let i = index mod 2 ^ 64
             in if i \<ge> int (length types)
                then throw_error loc (''No tuple field with index '' @ to_string i)
                else return_t (types ! nat i,
                  DotExpression index constant dot callee field (TypeNode (types ! nat i))))
        | PointerType base \<Rightarrow> (case base of
              StructType name \<Rightarrow> bind_t (structure_t name) member
            | _ \<Rightarrow> if is_types_equals base i8_type
                   then attribute ''String'' (get_ast_node_type callee = AST_STRING)
                   else throw_error loc
                     ''Dot expression expect calling member from struct or pointer to struct'')
        | StaticArrayType _ _ \<Rightarrow> attribute ''Array'' True
        | StaticVectorType _ _ \<Rightarrow> attribute ''Array'' True
        | GenericStructType _ _ \<Rightarrow>
            bind_t (resolve_shared V callee_type) (\<lambda>resolved. case resolved of
              StructType name \<Rightarrow> bind_t (structure_t name) member
            | _ \<Rightarrow> fail_t BadCast)
        | _ \<Rightarrow> throw_error loc ''Dot expression expect struct or enum type as lvalue'')"

subsection \<open>Casts, sizes and indices\<close>

definition visit_cast :: "visitors \<Rightarrow> token \<Rightarrow> type_node \<Rightarrow> expression \<Rightarrow> (ty \<times> expression) check" where
  "visit_cast V pos node_type e =
     bind_t (v_expression V e) (\<lambda>(value_type, e).
     bind_t (type_of_node node_type) (\<lambda>t. bind_t (resolve_in_place V t) (\<lambda>(changed, target_type).
     let node = CastExpression pos (TypeNode changed) e
     in if is_types_equals value_type target_type
        then then_t (warn_t (position pos) ''unnecessary cast to the same type'')
          (return_t (target_type, node))
        else then_t (error_if (\<not> can_types_casted value_type target_type) (position pos)
            (''Can't cast from '' @ get_type_literal value_type @ '' to '' @ get_type_literal target_type))
          (return_t (target_type, node)))))"

definition visit_type_size :: "visitors \<Rightarrow> ty \<Rightarrow> (ty \<times> expression) check" where
  "visit_type_size V t = bind_t (resolve_in_place V t) (\<lambda>(_, resolved_type).
     return_t (i64_type, TypeSizeExpression resolved_type))"

definition visit_type_align :: "visitors \<Rightarrow> ty \<Rightarrow> (ty \<times> expression) check" where
  "visit_type_align V t = bind_t (resolve_in_place V t) (\<lambda>(_, resolved_type).
     return_t (i64_type, TypeAlignExpression resolved_type))"

definition visit_value_size :: "visitors \<Rightarrow> expression \<Rightarrow> (ty \<times> expression) check" where
  "visit_value_size V e = bind_t (v_expression V e) (\<lambda>(_, e). return_t (i64_type, ValueSizeExpression e))"

text \<open>The index of a number node; a \<open>size_t\<close>, so the test for a negative index is never true.\<close>

definition constant_index_t :: "expression \<Rightarrow> int option check" where
  "constant_index_t e = (case e of
     NumberExpression v _ \<Rightarrow> bind_t (some_t SignedOverflow (str_to_int64 (literal v)))
       (\<lambda>n. return_t (Some (n mod 2 ^ 64)))
   | _ \<Rightarrow> return_t None)"

definition check_index_bound :: "token_span \<Rightarrow> int option \<Rightarrow> nat \<Rightarrow> unit check" where
  "check_index_bound loc constant_index n = error_if
     (case constant_index of Some i \<Rightarrow> i \<ge> int n | None \<Rightarrow> False) loc
     ''Index can't be bigger than or equal array size''"

definition visit_index :: "visitors \<Rightarrow> token \<Rightarrow> expression \<Rightarrow> expression \<Rightarrow> (ty \<times> expression) check" where
  "visit_index V pos e index =
     bind_t (v_expression V index) (\<lambda>(index_type, index).
     then_t (error_if (\<not> is_integer_type index_type) (position pos)
       (''Index must be an integer but got '' @ get_type_literal index_type))
     (bind_t (constant_index_t index) (\<lambda>constant_index.
      bind_t (v_expression V e) (\<lambda>(callee_type, e).
      let element = (\<lambda>t. return_t (t, IndexExpression pos e index (TypeNode t)))
      in case callee_type of
           StaticArrayType t n \<Rightarrow> then_t (check_index_bound (position pos) constant_index n) (element t)
         | StaticVectorType t n \<Rightarrow> then_t (check_index_bound (position pos) constant_index n) (element t)
         | PointerType t \<Rightarrow> element t
         | _ \<Rightarrow> throw_error (position pos)
             (''Index expression require array but got '' @ get_type_literal callee_type)))))"

subsection \<open>Names and literals\<close>

text \<open>\<open>lambda_implicit_parameters.top().push_back(pair)\<close>.\<close>

definition add_implicit_parameter :: "string \<times> ty \<Rightarrow> unit check" where
  "add_implicit_parameter pair = bind_t (read_t lambda_implicit_parameters) (\<lambda>stack. case stack of
     [] \<Rightarrow> fail_t EmptyContainer
   | pairs # others \<Rightarrow>
       modify_t (\<lambda>s. s\<lparr>lambda_implicit_parameters := (pairs @ [pair]) # others\<rparr>))"

text \<open>
  Inside a lambda: a name that is not in the innermost scope is captured if the scope that defines it
  is neither the global one nor the one around the innermost.
\<close>

definition capture_type :: "string \<Rightarrow> ty check" where
  "capture_type name = bind_t (read_t (\<lambda>s. lookup_on_current (types_table s) name)) (\<lambda>local_variable.
     case local_variable of
       None \<Rightarrow> fail_t EmptyContainer
     | Some (Some v) \<Rightarrow> return_t (node_amun_type v)
     | Some None \<Rightarrow> bind_t (read_t (\<lambda>s. lookup_with_level (types_table s) name)) (\<lambda>(v, level).
         case v of
           None \<Rightarrow> bad_any_cast
         | Some v \<Rightarrow> bind_t (read_t (\<lambda>s. scoped_size (types_table s))) (\<lambda>size.
             let type = node_amun_type v
             in if level \<noteq> 0 \<and> level mod 2 ^ 64 < (int size - 2) mod 2 ^ 64
                then then_t (define_any name (AnyType type))
                  (then_t (add_implicit_parameter (name, type)) (return_t type))
                else return_t type)))"

definition visit_literal :: "token \<Rightarrow> bool \<Rightarrow> (ty \<times> expression) check" where
  "visit_literal name_token constant =
     (let name = literal name_token
      in bind_t (is_type_defined name) (\<lambda>defined.
         then_t (error_if (\<not> defined) (position name_token) (''Can't resolve variable with name '' @ name))
         (bind_t (read_t is_inside_lambda_body) (\<lambda>inside.
          bind_t (if inside then capture_type name else lookup_type name) (\<lambda>type.
          return_t (type, LiteralExpression name_token (TypeNode type)
            (if is_number_type type \<or> is_enum_element_type type then True else constant)))))))"

definition visit_number :: "token \<Rightarrow> type_node \<Rightarrow> (ty \<times> expression) check" where
  "visit_number v node_type = bind_t (type_of_node node_type) (\<lambda>number_type. case number_type of
     NumberType k \<Rightarrow>
       bind_t (some_t SignedOverflow (check_number_limits (literal v) k)) (\<lambda>is_valid_range.
       then_t (error_if (\<not> is_valid_range) (position v) (''Number Value '' @ literal v
         @ '' Can't be represented using type '' @ get_type_literal number_type))
       (return_t (number_type, NumberExpression v node_type)))
   | _ \<Rightarrow> fail_t BadCast)"

definition array_element :: "visitors \<Rightarrow> token \<Rightarrow> nat \<times> expression \<Rightarrow> ty \<times> expression list
    \<Rightarrow> (ty \<times> expression list) check" where
  "array_element V pos = (\<lambda>(i, e) (last_element_type, es).
     bind_t (v_expression V e) (\<lambda>(current_element_type, e).
     if is_types_equals current_element_type last_element_type
     then return_t (current_element_type, es @ [e])
     else throw_error (position pos) (''Array elements with index '' @ to_string (int i - 1) @ '' and ''
       @ to_string (int i) @ '' are not the same types'')))"

definition visit_array :: "visitors \<Rightarrow> token \<Rightarrow> expression list \<Rightarrow> type_node \<Rightarrow> bool
    \<Rightarrow> (ty \<times> expression) check" where
  "visit_array V pos values node_type constant = (case values of
     [] \<Rightarrow> bind_t (type_of_node node_type) (\<lambda>t. return_t (t, ArrayExpression pos [] node_type constant))
   | first # others \<Rightarrow>
       bind_t (v_expression V first) (\<lambda>(first_type, first).
       bind_t (fold_t (array_element V pos) (enumerate 1 others) (first_type, [first]))
         (\<lambda>(last_element_type, values).
       bind_t (case node_type of
           TypeNode (StaticArrayType _ n) \<Rightarrow> return_t n
         | ArrayNode _ n \<Rightarrow> return_t n
         | NullNode \<Rightarrow> fail_t NullAccess
         | _ \<Rightarrow> fail_t BadCast) (\<lambda>n.
       let array_type = StaticArrayType last_element_type n
       in return_t (array_type, ArrayExpression pos values (TypeNode array_type) constant)))))"

definition visit_vector :: "expression \<Rightarrow> (ty \<times> expression) check" where
  "visit_vector array = (case array of
     ArrayExpression pos _ node_type _ \<Rightarrow> (case node_type of
         TypeNode (StaticArrayType element_type n) \<Rightarrow>
           then_t (error_if (\<not> is_number_type element_type \<or> is_signed_integer_type element_type)
             (position pos) ''vector type accept only unsinged number or float types'')
           (return_t (StaticVectorType element_type n, VectorExpression array))
       | TypeNode _ \<Rightarrow> fail_t BadCast
       | VectorNode _ _ \<Rightarrow> fail_t BadCast
       | _ \<Rightarrow> fail_t NullAccess)
   | _ \<Rightarrow> fail_t BadCast)"

text \<open>\<open>return node->get_type_node();\<close>\<close>

definition visit_typed_node :: "expression \<Rightarrow> (ty \<times> expression) check" where
  "visit_typed_node e = bind_t (type_of_node (get_type_node e)) (\<lambda>t. return_t (t, e))"

subsection \<open>The dispatch of \<open>accept\<close>\<close>

definition visit_expression :: "visitors \<Rightarrow> expression \<Rightarrow> (ty \<times> expression) check" where
  "visit_expression V e = (case e of
     IfExpression tokens conditions values _ \<Rightarrow> visit_if_expression V tokens conditions values
   | SwitchExpression keyword argument cases values d _ op \<Rightarrow>
       visit_switch_expression V keyword argument cases values d op
   | TupleExpression pos values _ \<Rightarrow> visit_tuple V pos values
   | AssignExpression left op right type \<Rightarrow> visit_assign V left op right type
   | BinaryExpression left op right type \<Rightarrow> visit_binary V left op right type
   | BitwiseExpression left op right type \<Rightarrow> visit_bitwise V left op right type
   | ComparisonExpression left op right type \<Rightarrow> visit_comparison V left op right type
   | LogicalExpression left op right type \<Rightarrow> visit_logical V left op right type
   | PrefixUnaryExpression op right type \<Rightarrow> visit_prefix_unary V op right type
   | PostfixUnaryExpression op right type \<Rightarrow> visit_postfix_unary V op right type
   | CallExpression pos callee arguments type gargs \<Rightarrow> visit_call V pos callee arguments type gargs
   | InitializeExpression pos type arguments \<Rightarrow> visit_initialize V pos type arguments
   | LambdaExpression pos parameters names types return_ty body type \<Rightarrow>
       visit_lambda V pos parameters names types return_ty body type
   | DotExpression index constant dot callee field _ \<Rightarrow> visit_dot V index constant dot callee field
   | CastExpression pos type v \<Rightarrow> visit_cast V pos type v
   | TypeSizeExpression t \<Rightarrow> visit_type_size V t
   | TypeAlignExpression t \<Rightarrow> visit_type_align V t
   | ValueSizeExpression v \<Rightarrow> visit_value_size V v
   | IndexExpression pos v index _ \<Rightarrow> visit_index V pos v index
   | ArrayExpression pos values type constant \<Rightarrow> visit_array V pos values type constant
   | VectorExpression array \<Rightarrow> visit_vector array
   | LiteralExpression name _ constant \<Rightarrow> visit_literal name constant
   | NumberExpression v type \<Rightarrow> visit_number v type
   | _ \<Rightarrow> visit_typed_node e)"

end
