(* ===== verification/Checker_Returns.thy ===== *)
theory Checker_Returns
  imports Ast_Wellformed
begin

text \<open>
  \<open>TypeChecker::check_missing_return_statement\<close> of \<open>src/amun_typechecker.cpp\<close> against the control flow
  of statements.
\<close>

subsection \<open>The check\<close>

lemma size_list_snoc: "size_list f (xs @ ys) = size_list f xs + size_list f ys"
  by (induction xs) auto

lemma size_list_rev_same: "size_list f (rev xs) = size_list f xs"
  by (induction xs) (auto simp: size_list_snoc)

lemma size_list_last: "xs \<noteq> [] \<Longrightarrow> f (last xs) \<le> size_list f xs"
  by (induction xs) auto

text \<open>
  \<open>None\<close>: \<open>dynamic_pointer_cast<BlockStatement>\<close> of another statement gives a null pointer and the check
  reads through it.  \<open>returns_upwards\<close> is the loop over the reversed statements, \<open>blocks_return\<close> and
  \<open>cases_return\<close> the loops over the branches that stop at the first branch that is not covered.
\<close>

function (sequential) check_missing_return_statement :: "statement \<Rightarrow> bool option"
  and returns_upwards :: "statement list \<Rightarrow> bool option"
  and blocks_return :: "bool \<Rightarrow> conditional_block list \<Rightarrow> bool option"
  and cases_return :: "bool \<Rightarrow> switch_case list \<Rightarrow> bool option"
  and case_returns :: "switch_case \<Rightarrow> bool option" where
  "check_missing_return_statement (ReturnStatement _ _ _) = Some True"
| "check_missing_return_statement (BlockStatement statements) =
     (if statements = [] then Some False
      else if get_statement_node_type (last statements) = AST_RETURN then Some True
      else returns_upwards (rev statements))"
| "check_missing_return_statement _ = None"
| "returns_upwards [] = Some False"
| "returns_upwards (statement # it) = (case statement of
     BlockStatement _ \<Rightarrow> (case check_missing_return_statement statement of
         None \<Rightarrow> None
       | Some covered \<Rightarrow> if covered then Some True else returns_upwards it)
   | IfStatement conditional_blocks has_else \<Rightarrow> (case blocks_return False conditional_blocks of
         None \<Rightarrow> None
       | Some is_covered \<Rightarrow> if is_covered \<and> has_else then Some True else returns_upwards it)
   | SwitchStatement _ _ cases _ has_default_case _ \<Rightarrow>
       if \<not> has_default_case then Some False
       else if cases = [] then None
       else (case case_returns (last cases) of
         None \<Rightarrow> None
       | Some last_covered \<Rightarrow>
           if \<not> last_covered then returns_upwards it
           else (case cases_return False cases of
               None \<Rightarrow> None
             | Some is_cases_covered \<Rightarrow>
                 if is_cases_covered then Some True else returns_upwards it))
   | _ \<Rightarrow> returns_upwards it)"
| "blocks_return is_covered [] = Some is_covered"
| "blocks_return is_covered (ConditionalBlock _ _ body # branches) =
     (case check_missing_return_statement body of
        None \<Rightarrow> None
      | Some covered \<Rightarrow> if covered then blocks_return True branches else Some False)"
| "cases_return is_covered [] = Some is_covered"
| "cases_return is_covered (switch_case # cases) = (case case_returns switch_case of
        None \<Rightarrow> None
      | Some covered \<Rightarrow> if covered then cases_return True cases else Some False)"
| "case_returns (SwitchCase _ _ body) = check_missing_return_statement body"
  by pat_completeness auto
termination
  by (relation "measure (\<lambda>x. case x of
        Inl (Inl s) \<Rightarrow> 2 * size s
      | Inl (Inr ss) \<Rightarrow> 2 * size_list size ss + 1
      | Inr (Inl (_, bs)) \<Rightarrow> 2 * size_list size bs + 1
      | Inr (Inr (Inl (_, cs))) \<Rightarrow> 2 * size_list size cs + 1
      | Inr (Inr (Inr c)) \<Rightarrow> 2 * size c)")
    (auto simp: size_list_rev_same dest!: size_list_last [of _ size])

subsection \<open>Control flow\<close>

text \<open>
  How a statement ends: it falls through to the next one, returns from the function, or leaves or
  continues an enclosing loop.  \<open>runs s o\<close> holds if some run of \<open>s\<close> ends that way, where a condition may
  have either value; an \<open>if\<close> with an \<open>else\<close> and a switch with a default take one of their branches.
\<close>

datatype flow = Falls | Returns | Breaks int | Skips int

text \<open>A way out of the body of a loop as a way out of the loop.\<close>

fun leaves_loop :: "flow \<Rightarrow> flow option" where
  "leaves_loop Falls = None"
| "leaves_loop Returns = Some Returns"
| "leaves_loop (Breaks n) = Some (if n \<le> 1 then Falls else Breaks (n - 1))"
| "leaves_loop (Skips n) = (if n \<le> 1 then None else Some (Skips (n - 1)))"

definition simple_statement :: "statement \<Rightarrow> bool" where
  "simple_statement s \<longleftrightarrow> get_statement_node_type s \<notin> {AST_RETURN, AST_BREAK, AST_CONTINUE, AST_BLOCK,
     AST_IF_STATEMENT, AST_SWITCH_STATEMENT, AST_FOR_RANGE, AST_FOR_EACH, AST_FOR_EVER, AST_WHILE}"

inductive runs :: "statement \<Rightarrow> flow \<Rightarrow> bool"
  and runs_all :: "statement list \<Rightarrow> flow \<Rightarrow> bool" where
  simple: "simple_statement s \<Longrightarrow> runs s Falls"
| returns: "runs (ReturnStatement k v h) Returns"
| breaks: "runs (BreakStatement k h n) (Breaks n)"
| skips: "runs (ContinueStatement k h n) (Skips n)"
| block: "runs_all ss r \<Longrightarrow> runs (BlockStatement ss) r"
| all_nil: "runs_all [] Falls"
| all_next: "runs s Falls \<Longrightarrow> runs_all ss r \<Longrightarrow> runs_all (s # ss) r"
| all_leave: "runs s r \<Longrightarrow> r \<noteq> Falls \<Longrightarrow> runs_all (s # ss) r"
| if_branch: "ConditionalBlock t c b \<in> set bs \<Longrightarrow> runs b r \<Longrightarrow> runs (IfStatement bs e) r"
| if_none: "runs (IfStatement bs False) Falls"
| switch_case: "SwitchCase t vs b \<in> set cs \<Longrightarrow> runs b r \<Longrightarrow> runs (SwitchStatement k a cs opk d f) r"
| switch_none: "runs (SwitchStatement k a cs opk False f) Falls"
| range_done: "runs (ForRangeStatement k x a z st b) Falls"
| range_leave: "runs b r \<Longrightarrow> leaves_loop r = Some r' \<Longrightarrow> runs (ForRangeStatement k x a z st b) r'"
| each_done: "runs (ForEachStatement k x y c b) Falls"
| each_leave: "runs b r \<Longrightarrow> leaves_loop r = Some r' \<Longrightarrow> runs (ForEachStatement k x y c b) r'"
| ever_leave: "runs b r \<Longrightarrow> leaves_loop r = Some r' \<Longrightarrow> runs (ForeverStatement k b) r'"
| while_done: "runs (WhileStatement k c b) Falls"
| while_leave: "runs b r \<Longrightarrow> leaves_loop r = Some r' \<Longrightarrow> runs (WhileStatement k c b) r'"

lemma control_statements [simp]:
  "\<not> simple_statement (ReturnStatement k v h)" "\<not> simple_statement (BreakStatement k h n)"
  "\<not> simple_statement (ContinueStatement k h n)" "\<not> simple_statement (BlockStatement ss)"
  "\<not> simple_statement (IfStatement bs e)" "\<not> simple_statement (SwitchStatement k a cs opk d f)"
  "\<not> simple_statement (ForRangeStatement k x a z st b)" "\<not> simple_statement (ForEachStatement k x y a b)"
  "\<not> simple_statement (ForeverStatement k b)" "\<not> simple_statement (WhileStatement k a b)"
  by (simp_all add: simple_statement_def get_statement_node_type_def)

inductive_simps runs_simps [simplified, simp]:
  "runs (ReturnStatement k v h) r"
  "runs (BreakStatement k h n) r"
  "runs (ContinueStatement k h n) r"
  "runs (BlockStatement ss) r"
  "runs_all [] r"
  "runs_all (s # ss) r"
  "runs (IfStatement bs e) r"
  "runs (SwitchStatement k a cs opk d f) r"

lemma runs_all_falls: "s \<in> set ss \<Longrightarrow> runs_all ss Falls \<Longrightarrow> runs s Falls"
  by (induction ss) auto

subsection \<open>The check is sound\<close>

lemma return_never_falls: "get_statement_node_type s = AST_RETURN \<Longrightarrow> \<not> runs s Falls"
  by (cases s) (auto simp: get_statement_node_type_def)

lemma check_falls:
  "check_missing_return_statement s = Some True \<Longrightarrow> \<not> runs s Falls"
  "returns_upwards ss = Some True \<Longrightarrow> \<exists>s \<in> set ss. \<not> runs s Falls"
  "blocks_return covered bs = Some True \<Longrightarrow>
     \<forall>t c st. ConditionalBlock t c st \<in> set bs \<longrightarrow> \<not> runs st Falls"
  "cases_return covered cs = Some True \<Longrightarrow> \<forall>t vs st. SwitchCase t vs st \<in> set cs \<longrightarrow> \<not> runs st Falls"
  "case_returns sc = Some True \<Longrightarrow> \<forall>t vs st. sc = SwitchCase t vs st \<longrightarrow> \<not> runs st Falls"
proof (induction s and ss and covered bs and covered cs and sc
    rule: check_missing_return_statement_returns_upwards_blocks_return_cases_return_case_returns.induct)
  case (2 statements)
  show ?case
  proof (cases "statements \<noteq> [] \<and> get_statement_node_type (last statements) = AST_RETURN")
    case True
    then show ?thesis
      using return_never_falls [of "last statements"] runs_all_falls [of "last statements" statements]
      by auto
  next
    case False
    then have "\<exists>s \<in> set statements. \<not> runs s Falls"
      using 2 by (auto split: if_splits)
    then show ?thesis by (auto dest: runs_all_falls)
  qed
next
  case (4)
  then show ?case by simp
next
  case (5 statement it)
  show ?case
  proof (cases statement)
    case (BlockStatement ss)
    then show ?thesis
      using 5 by (auto simp del: check_missing_return_statement.simps runs_simps(4)
          split: option.splits if_splits)
  next
    case (IfStatement bs e)
    then show ?thesis
      using "5.IH"(12,13) "5.prems" by (auto simp del: check_missing_return_statement.simps runs_simps(4)
          split: option.splits if_splits)
  next
    case (SwitchStatement k a cs opk d f)
    then show ?thesis
      using "5.IH"(18-21) "5.prems" by (auto simp del: check_missing_return_statement.simps runs_simps(4)
          split: option.splits if_splits)
  qed (use 5 in simp_all)
qed (auto split: option.splits if_splits)

text \<open>\<open>break\<close> and \<open>continue\<close> stay inside the loops that the parser counted.\<close>

fun flow_ok :: "int \<Rightarrow> flow \<Rightarrow> bool" where
  "flow_ok d (Breaks n) = (1 \<le> n \<and> n \<le> d)"
| "flow_ok d (Skips n) = (1 \<le> n \<and> n \<le> d)"
| "flow_ok d _ = True"

lemma leaves_loop_ok: "leaves_loop r = Some r' \<Longrightarrow> flow_ok (d + 1) r \<Longrightarrow> flow_ok d r'"
  by (cases r) (auto split: if_splits)

lemma runs_flow_ok:
  "runs s r \<Longrightarrow> stmt_ok d s \<Longrightarrow> flow_ok d r"
  "runs_all ss r \<Longrightarrow> list_all (stmt_ok d) ss \<Longrightarrow> flow_ok d r"
  by (induction s r and ss r arbitrary: d and d rule: runs_runs_all.inducts)
    (auto simp: list_all_iff intro: leaves_loop_ok)

text \<open>
  C22: the check for a missing return is sound.  If it accepts the body of a function, every run of
  the body that ends ends with a \<open>return\<close>: none falls off the end, and with the loop levels that
  the parser guarantees none leaves it by \<open>break\<close> or \<open>continue\<close>.
\<close>

theorem check_missing_return_sound:
  assumes "check_missing_return_statement body = Some True" and "stmt_ok 0 body" and "runs body r"
  shows "r = Returns"
  using runs_flow_ok(1) [OF assms(3,2)] check_falls(1) [OF assms(1)] assms(3) by (cases r) auto

abbreviation example_span :: token_span where
  "example_span \<equiv> \<lparr>file_id = 0, line_number = 1, column_start = 0, column_end = 0\<rparr>"

abbreviation example_token :: "token_kind \<Rightarrow> string \<Rightarrow> token" where
  "example_token k l \<equiv> \<lparr>kind = k, position = example_span, literal = l\<rparr>"

definition return_example :: statement where
  "return_example = ReturnStatement (example_token TOKEN_RETURN ''return'') None False"

definition branches_example :: statement where
  "branches_example = BlockStatement
     [IfStatement
       [ConditionalBlock (example_token TOKEN_IF ''if'') (mk_boolean (example_token TOKEN_TRUE ''true''))
          (BlockStatement [return_example]),
        ConditionalBlock (example_token TOKEN_ELSE ''else'') (mk_boolean (example_token TOKEN_TRUE ''true''))
          return_example] True,
      ExpressionStatement (mk_literal (example_token TOKEN_IDENTIFIER ''x''))]"

theorem check_missing_return_sound_witness:
  "runs branches_example Returns \<and> {r. runs branches_example r} \<subseteq> {Returns}"
proof -
  have "check_missing_return_statement branches_example = Some True" "stmt_ok 0 branches_example"
    by (simp_all add: branches_example_def return_example_def mk_boolean_def mk_literal_def
        get_statement_node_type_def)
  moreover have "runs branches_example Returns"
    unfolding branches_example_def
    by (intro runs_runs_all.block runs_runs_all.all_leave runs_runs_all.if_branch [where b = return_example])
      (auto simp: return_example_def)
  ultimately show ?thesis using check_missing_return_sound [of branches_example] by blast
qed

subsection \<open>When the check is defined\<close>

text \<open>Every branch the check looks at is a block or a \<open>return\<close>.\<close>

fun checkable :: "statement \<Rightarrow> bool"
  and checkable_inside :: "statement \<Rightarrow> bool"
  and checkable_block :: "conditional_block \<Rightarrow> bool"
  and checkable_case :: "switch_case \<Rightarrow> bool" where
  "checkable (ReturnStatement _ _ _) = True"
| "checkable (BlockStatement ss) = list_all checkable_inside ss"
| "checkable _ = False"
| "checkable_inside (BlockStatement ss) = list_all checkable_inside ss"
| "checkable_inside (IfStatement bs _) = list_all checkable_block bs"
| "checkable_inside (SwitchStatement _ _ cs _ d _) = (d \<longrightarrow> cs \<noteq> [] \<and> list_all checkable_case cs)"
| "checkable_inside _ = True"
| "checkable_block (ConditionalBlock _ _ b) = checkable b"
| "checkable_case (SwitchCase _ _ b) = checkable b"

lemma check_defined:
  "checkable s \<Longrightarrow> check_missing_return_statement s \<noteq> None"
  "list_all checkable_inside ss \<Longrightarrow> returns_upwards ss \<noteq> None"
  "list_all checkable_block bs \<Longrightarrow> blocks_return covered bs \<noteq> None"
  "list_all checkable_case cs \<Longrightarrow> cases_return covered cs \<noteq> None"
  "checkable_case sc \<Longrightarrow> case_returns sc \<noteq> None"
proof (induction s and ss and covered bs and covered cs and sc
    rule: check_missing_return_statement_returns_upwards_blocks_return_cases_return_case_returns.induct)
  case (5 statement it)
  show ?case
  proof (cases statement)
    case (BlockStatement ss)
    then show ?thesis
      using "5.IH"(1,2) "5.prems" by (auto simp del: check_missing_return_statement.simps split: option.splits)
  next
    case (IfStatement bs e)
    then show ?thesis using "5.IH"(12,13) "5.prems" by (auto split: option.splits)
  next
    case (SwitchStatement k a cs opk d f)
    then show ?thesis
      using "5.IH"(18-21) "5.prems" by (auto simp: list_all_iff split: option.splits)
  qed (use 5 in simp_all)
qed (auto simp: list_all_iff split: option.splits)

end
