(* ===== verification/Checker_Statements.thy ===== *)
theory Checker_Statements
  imports Checker_Calls Checker_Returns
begin

text \<open>
  The visitors of statements and declarations of \<open>src/amun_typechecker.cpp\<close>, the knot of the visitors,
  and \<open>check_compilation_unit\<close>.
\<close>

subsection \<open>Declarations of variables\<close>

definition twice_message :: "string \<Rightarrow> string" where
  "twice_message name = ''Field '' @ name @ '' is defined twice in the same scope''"

text \<open>The null checks on the types of a field with an initialiser.\<close>

definition check_field_types :: "token_span \<Rightarrow> bool \<Rightarrow> expression \<Rightarrow> ty \<Rightarrow> ty \<Rightarrow> unit check" where
  "check_field_types loc is_global right_value left_type right_type =
     then_t (error_if (is_global \<and> \<not> is_constant right_value) loc
       ''Initializer element is not a compile-time constant'')
     (then_t (error_if (is_none_type left_type \<and> is_none_type right_type) loc
       ''Can't resolve field type when both rvalue and lvalue are unkown'')
     (then_t (error_if (is_none_type left_type \<and> is_null_type right_type) loc
       ''Can't resolve field type rvalue is null, please add type to the varaible'')
     (error_if (\<not> is_pointer_type left_type \<and> is_null_type right_type) loc
       ''Can't declare non pointer variable with null value'')))"

text \<open>
  The agreement of the two sides: the result is the new type of the left side, the type of the node
  and the changed initialiser.
\<close>

definition unify_field_types :: "token_span \<Rightarrow> bool \<Rightarrow> ty \<Rightarrow> ty \<Rightarrow> ty \<Rightarrow> expression
    \<Rightarrow> (ty \<times> ty \<times> expression) check" where
  "unify_field_types loc is_type_updated node_type left_type right_type v =
     (let infer_left = \<not> is_type_updated \<and> is_none_type left_type;
          infer_right = \<not> is_type_updated \<and> \<not> infer_left \<and> is_none_type right_type;
          null_pointer = is_pointer_type left_type \<and> is_null_type right_type
      in bind_t (if null_pointer
           then set_null_base_type (if infer_right then set_type_node v (TypeNode left_type) else v)
             (if infer_left then right_type else left_type)
           else return_t (if infer_right then set_type_node v (TypeNode left_type) else v)) (\<lambda>v.
         then_t (error_if (\<not> is_type_updated \<and> \<not> infer_left \<and> \<not> infer_right \<and> \<not> null_pointer
             \<and> \<not> is_types_equals left_type right_type) loc
           (''Type missmatch expect '' @ get_type_literal left_type @ '' but got ''
            @ get_type_literal right_type))
         (return_t (if infer_left then (right_type, right_type, v) else (left_type, node_type, v)))))"

text \<open>
  The type object that the initialiser had before it was visited, as the visit has left it: a node with
  a generic structure as its type resolves the parameters of that object.
\<close>

definition visited_origin :: "ty \<Rightarrow> ty check" where
  "visited_origin t = (case t of
     GenericStructType name params \<Rightarrow>
       bind_t (map_t (\<lambda>p. case p of
           GenericParameterType g \<Rightarrow> generic_type_t g | _ \<Rightarrow> return_t p) params) (\<lambda>params.
       return_t (GenericStructType name params))
   | _ \<Rightarrow> return_t t)"

definition visit_field_initializer :: "visitors \<Rightarrow> token \<Rightarrow> bool \<Rightarrow> ty \<Rightarrow> ty \<Rightarrow> expression
    \<Rightarrow> (ty \<times> ty \<times> expression \<times> bool) check" where
  "visit_field_initializer V name is_global node_type left_type right_value =
     (let loc = position name; origin = get_type_node right_value
      in bind_t (v_expression V right_value) (\<lambda>(right_type, v).
         then_t (error_if (is_void_type right_type) loc ''Can't declare field with void type'')
         (let generic_origin = (case origin of TypeNode t \<Rightarrow> is_generic_struct_type t | _ \<Rightarrow> False)
          in bind_t (case origin of
               TypeNode t \<Rightarrow> if is_generic_struct_type t
                 then bind_t (resolve_shared V right_type) (\<lambda>resolved.
                   then_t (define_once (literal name) (AnyType resolved) loc (twice_message (literal name)))
                   (bind_t (visited_origin t) (\<lambda>t. return_t (t, resolved))))
                 else return_t (node_type, right_type)
             | _ \<Rightarrow> return_t (node_type, right_type)) (\<lambda>(node_type, right_type).
          bind_t (if is_generic_struct_type left_type then resolve_shared V left_type
             else return_t left_type) (\<lambda>left_type.
          then_t (check_field_types loc is_global v left_type right_type)
          (bind_t (unify_field_types loc generic_origin node_type left_type right_type v)
            (\<lambda>(left_type, node_type, v).
           return_t (left_type, node_type, v, \<not> generic_origin))))))))"

definition visit_field :: "visitors \<Rightarrow> token \<Rightarrow> ty \<Rightarrow> expression option \<Rightarrow> bool \<Rightarrow> bool
    \<Rightarrow> statement check" where
  "visit_field V name type initializer is_global has_explicit_type =
     bind_t (if has_explicit_type then resolve_in_place V type else return_t (type, none_type))
       (\<lambda>(node_type, left_type).
     bind_t (case initializer of
         None \<Rightarrow> return_t (left_type, node_type, None, True)
       | Some e \<Rightarrow> bind_t (visit_field_initializer V name is_global node_type left_type e)
           (\<lambda>(left_type, node_type, v, update). return_t (left_type, node_type, Some v, update)))
       (\<lambda>(left_type, node_type, v, should_update_node_type).
     let node = (\<lambda>t. FieldDeclaration name t v is_global has_explicit_type);
         define = (\<lambda>t. define_once (literal name) (AnyType t) (position name)
           (twice_message (literal name)))
     in if \<not> should_update_node_type then return_t (node node_type)
        else if is_generic_struct_type left_type
        then bind_t (resolve_shared V left_type) (\<lambda>resolved.
          then_t (define resolved) (return_t (node left_type)))
        else then_t (define left_type) (return_t (node node_type))))"

definition destructured_field :: "visitors \<Rightarrow> token list \<Rightarrow> ty list \<Rightarrow> ty list \<Rightarrow> nat \<Rightarrow> ty check" where
  "destructured_field V names types tuple_field_types i =
     bind_t (nth_t names i) (\<lambda>name. bind_t (nth_t types i) (\<lambda>declared.
     bind_t (if is_none_type declared then resolve_shared V (tuple_field_types ! i)
       else then_t (error_if (\<not> is_types_equals declared (tuple_field_types ! i)) (position name)
           ''field type must be equal to tuple element type'') (return_t declared)) (\<lambda>t.
     then_t (define_once (literal name) (AnyType t) (position name) (twice_message (literal name)))
     (return_t t))))"

definition visit_destructuring :: "visitors \<Rightarrow> token list \<Rightarrow> ty list \<Rightarrow> expression \<Rightarrow> token \<Rightarrow> bool
    \<Rightarrow> statement check" where
  "visit_destructuring V names types e equal_token is_global =
     (let loc = position equal_token
      in then_t (error_if is_global loc ''Can't used it in global scope'')
         (bind_t (v_expression V e) (\<lambda>(t, e). case t of
            TupleType _ tuple_types \<Rightarrow>
              then_t (error_if (length tuple_types \<noteq> length names) loc
                (''number of fields must be equal to tuple size expect ''
                 @ to_string (int (length tuple_types)) @ '' but got '' @ to_string (int (length names))))
              (bind_t (map_t (destructured_field V names types tuple_types) [0 ..< length tuple_types])
                (\<lambda>new_types. return_t (DestructuringDeclaraion names
                  (new_types @ drop (length tuple_types) types) e equal_token is_global)))
          | _ \<Rightarrow> throw_error loc ''value type must be a tuple'')))"

definition visit_const :: "visitors \<Rightarrow> token \<Rightarrow> expression \<Rightarrow> statement check" where
  "visit_const V name e = bind_t (v_expression V e) (\<lambda>(t, e).
     then_t (define_once (literal name) (AnyType t) (position name) (twice_message (literal name)))
     (return_t (ConstDeclaration name e)))"

subsection \<open>Functions, structures and enumerations\<close>

text \<open>The prototype of a function or an intrinsic: its function type is defined and returned.\<close>

definition define_prototype :: "token \<Rightarrow> parameter list \<Rightarrow> ty \<Rightarrow> bool \<Rightarrow> ty option \<Rightarrow> bool \<Rightarrow> ty check" where
  "define_prototype name parameters return_ty varargs varargs_ty intrinsic =
     (let function_type = FunctionType name (map parameter_type parameters) return_ty 0 varargs varargs_ty
            intrinsic False []
      in then_t (define_once (literal name) (AnyType function_type) (position name)
           (''function '' @ literal name @ '' is defined twice in the same scope''))
         (return_t function_type))"

definition visit_prototype :: "function_prototype \<Rightarrow> ty check" where
  "visit_prototype p = define_prototype (prototype_name p) (prototype_parameters p)
     (prototype_return_type p) (prototype_has_varargs p) (prototype_varargs_type p) False"

definition visit_function :: "visitors \<Rightarrow> function_prototype \<Rightarrow> statement
    \<Rightarrow> (function_prototype \<times> statement) check" where
  "visit_function V prototype body =
     (if prototype_is_generic prototype
      then then_t (modify_t (\<lambda>s. s\<lparr>generic_functions := (generic_functions s)
             (literal (prototype_name prototype) \<mapsto> (prototype, body))\<rparr>)) (return_t (prototype, body))
      else
        bind_t (visit_prototype prototype) (\<lambda>function.
        then_t (push_return_type (function_return function))
        (bind_t (in_new_scope
           (then_t (each_t (\<lambda>p. define_any (literal (parameter_name p)) (AnyType (parameter_type p)))
              (prototype_parameters prototype)) (v_statement V body))) (\<lambda>body.
         then_t pop_return_type
         (if is_void_type (function_return function) then return_t (prototype, body)
          else bind_t (some_t NullAccess (check_missing_return_statement body)) (\<lambda>returns.
            then_t (error_if (\<not> returns) (position (prototype_name prototype))
              ''A 'return' statement required in a function with a block body ('{...}')'')
            (return_t (prototype, body))))))))"

definition visit_operator_function :: "visitors \<Rightarrow> token \<Rightarrow> function_prototype \<Rightarrow> statement
    \<Rightarrow> statement check" where
  "visit_operator_function V op prototype body =
     then_t (error_if (\<not> list_ex (\<lambda>p. \<not> (is_number_type (parameter_type p)
           \<or> is_enum_element_type (parameter_type p))) (prototype_parameters prototype)) (position op)
       ''overloaded operator must have at least one parameter of struct, tuple, array, enum'')
     (bind_t (visit_function V prototype body) (\<lambda>(prototype, body).
      return_t (OperatorFunctionDeclaraion op prototype body)))"

definition visit_struct :: "string \<Rightarrow> statement check" where
  "visit_struct name = bind_t (structure_t name) (\<lambda>struct_ty.
     then_t (if struct_is_generic struct_ty then return_t ()
       else define_any (struct_name struct_ty) (AnyStruct name)) (return_t (StructDeclaration name)))"

definition visit_enum :: "token \<Rightarrow> enum_type \<Rightarrow> statement check" where
  "visit_enum name enum =
     (let element_type = enum_type_element enum
      in then_t (error_if (\<not> is_integer_type element_type) (position name)
           ''Enum element type must be aa integer type'')
      (then_t (error_if (length (enum_type_values enum) > 2 \<and> is_boolean_type element_type) (position name)
           ''Enum with bool (int1) type can't has more than 2 elements'')
      (then_t (define_once (literal name)
           (AnyType (EnumType (enum_type_name enum) (enum_type_values enum) element_type)) (position name)
           (''enumeration '' @ literal name @ '' is defined twice in the same scope''))
      (return_t (EnumDeclaration name enum)))))"

subsection \<open>Control flow\<close>

definition visit_block :: "visitors \<Rightarrow> statement list \<Rightarrow> statement check" where
  "visit_block V statements = in_new_scope
     (bind_t (map_t (v_statement V) statements) (\<lambda>ss. return_t (BlockStatement ss)))"

definition visit_conditional_block :: "visitors \<Rightarrow> conditional_block \<Rightarrow> conditional_block check" where
  "visit_conditional_block V = (\<lambda>ConditionalBlock pos condition body \<Rightarrow>
     bind_t (v_expression V condition) (\<lambda>(t, condition).
     then_t (error_if (\<not> is_number_type t) (position pos)
       (''if condition mush be a number but got '' @ get_type_literal t))
     (bind_t (in_new_scope (v_statement V body)) (\<lambda>body.
      return_t (ConditionalBlock pos condition body)))))"

definition visit_if :: "visitors \<Rightarrow> conditional_block list \<Rightarrow> bool \<Rightarrow> statement check" where
  "visit_if V blocks has_else =
     bind_t (map_t (visit_conditional_block V) blocks) (\<lambda>blocks. return_t (IfStatement blocks has_else))"

definition visit_step :: "visitors \<Rightarrow> token_span \<Rightarrow> ty \<Rightarrow> expression option \<Rightarrow> expression option check" where
  "visit_step V loc start_type step_value = (case step_value of
     None \<Rightarrow> return_t None
   | Some e \<Rightarrow> bind_t (v_expression V e) (\<lambda>(step_type, e).
       then_t (error_if (\<not> is_types_equals step_type start_type) loc
         ''For range declared step must be the same type as range start and end'')
       (return_t (Some e))))"

definition visit_for_range :: "visitors \<Rightarrow> token \<Rightarrow> string \<Rightarrow> expression \<Rightarrow> expression
    \<Rightarrow> expression option \<Rightarrow> statement \<Rightarrow> statement check" where
  "visit_for_range V pos element_name range_start range_end step_value body =
     bind_t (visit_operands V range_start range_end)
       (\<lambda>((start_type, range_start), (end_type, range_end)).
     if is_number_type start_type \<and> is_types_equals start_type end_type
     then bind_t (visit_step V (position pos) start_type step_value) (\<lambda>step_value.
       bind_t (in_new_scope (then_t (define_any element_name (AnyType start_type)) (v_statement V body)))
         (\<lambda>body. return_t (ForRangeStatement pos element_name range_start range_end step_value body)))
     else throw_error (position pos) ''For range start and end must be integers'')"

definition element_type_of :: "ty \<Rightarrow> ty option" where
  "element_type_of collection_type = (case collection_type of
     StaticArrayType element_type _ \<Rightarrow> Some element_type
   | StaticVectorType element_type _ \<Rightarrow> Some element_type
   | _ \<Rightarrow> if is_pointer_of_type collection_type i8_type then Some i8_type else None)"

definition define_unless_blank :: "string \<Rightarrow> ty \<Rightarrow> unit check" where
  "define_unless_blank name t = (if name \<noteq> ''_'' then define_any name (AnyType t) else return_t ())"

definition visit_for_each :: "visitors \<Rightarrow> token \<Rightarrow> string \<Rightarrow> string \<Rightarrow> expression \<Rightarrow> statement
    \<Rightarrow> statement check" where
  "visit_for_each V pos element_name index_name collection body =
     bind_t (v_expression V collection) (\<lambda>(collection_type, collection).
     case element_type_of collection_type of
       None \<Rightarrow> throw_error (position pos) ''For each expect array or string as paramter''
     | Some element_type \<Rightarrow>
         bind_t (in_new_scope
           (then_t (define_unless_blank element_name element_type)
           (then_t (define_unless_blank index_name i64_type) (v_statement V body))))
         (\<lambda>body. return_t (ForEachStatement pos element_name index_name collection body)))"

definition visit_forever :: "visitors \<Rightarrow> token \<Rightarrow> statement \<Rightarrow> statement check" where
  "visit_forever V pos body =
     bind_t (in_new_scope (v_statement V body)) (\<lambda>body. return_t (ForeverStatement pos body))"

definition visit_while :: "visitors \<Rightarrow> token \<Rightarrow> expression \<Rightarrow> statement \<Rightarrow> statement check" where
  "visit_while V keyword condition body =
     bind_t (v_expression V condition) (\<lambda>(t, condition).
     then_t (error_if (\<not> is_number_type t) (position keyword)
       (''While condition mush be a number but got '' @ get_type_literal t))
     (bind_t (in_new_scope (v_statement V body)) (\<lambda>body. return_t (WhileStatement keyword condition body))))"

subsection \<open>Switch statements\<close>

text \<open>\<open>cases_values\<close> is the set of the values of the cases so far.\<close>

definition add_case_value :: "token_span \<Rightarrow> string \<Rightarrow> string list \<Rightarrow> string list check" where
  "add_case_value loc v cases_values =
     (if contains cases_values v
      then throw_error loc ''Switch can't has more than case with the same constants value''
      else return_t (v # cases_values))"

definition switch_case_value :: "visitors \<Rightarrow> token_span \<Rightarrow> ty \<Rightarrow> expression
    \<Rightarrow> string list \<times> expression list \<Rightarrow> (string list \<times> expression list) check" where
  "switch_case_value V loc argument e = (\<lambda>(cases_values, es). case e of
     EnumAccessExpression enum_name _ index _ \<Rightarrow> (case argument of
         EnumElementType argument_enum _ \<Rightarrow>
           then_t (error_if (literal enum_name \<noteq> argument_enum) loc
             (''Switch argument and case are elements of different enums '' @ argument_enum @ '' and ''
              @ literal enum_name))
           (bind_t (add_case_value loc (to_string index) cases_values) (\<lambda>cases_values.
            return_t (cases_values, es @ [e])))
       | _ \<Rightarrow> throw_error loc
           ''Switch argument is enum type and expect all cases to be the same type'')
   | NumberExpression number _ \<Rightarrow>
       if is_integer_type argument
       then bind_t (v_expression V e) (\<lambda>(t, e).
         then_t (error_if (\<not> is_number_type t) loc
           (''Switch case value must be an integer but found '' @ get_type_literal t))
         (bind_t (add_case_value loc (literal number) cases_values) (\<lambda>cases_values.
          return_t (cases_values, es @ [e]))))
       else throw_error loc ''Switch argument is integer type and expect all cases to be the same type''
   | _ \<Rightarrow> throw_error loc ''Switch case type must be integer or enum element'')"

definition visit_switch_case :: "visitors \<Rightarrow> ty \<Rightarrow> bool \<Rightarrow> nat \<Rightarrow> nat \<times> switch_case
    \<Rightarrow> string list \<times> switch_case list \<Rightarrow> (string list \<times> switch_case list) check" where
  "visit_switch_case V argument has_default_case cases_count = (\<lambda>(case_index, branch) (cases_values, bs).
     case branch of SwitchCase pos values body \<Rightarrow>
       bind_t (if \<not> has_default_case \<or> case_index \<noteq> cases_count - 1
         then fold_t (switch_case_value V (position pos) argument) values (cases_values, [])
         else return_t (cases_values, values)) (\<lambda>(cases_values, values).
       bind_t (in_new_scope (v_statement V body)) (\<lambda>body.
       return_t (cases_values, bs @ [SwitchCase pos values body]))))"

text \<open>
  \<open>missing_cases_count\<close> is a \<open>size_t\<close> and wraps.  The lines of the missing elements come in the order of
  an \<open>unordered_map\<close>, which is the order of the list here.
\<close>

definition check_complete_switch_cases :: "enum_type \<Rightarrow> string list \<Rightarrow> bool \<Rightarrow> token_span \<Rightarrow> unit check" where
  "check_complete_switch_cases enum cases_values has_else_branch span =
     (let members = enum_type_values enum;
          missing_cases_count = (int (length members) - int (length cases_values)) mod 2 ^ 64;
          newline = [CHR 0x0A]
      in if has_else_branch \<or> missing_cases_count = 0 then return_t ()
         else throw_error span (''Incomplete switch, missing '' @ to_string missing_cases_count
           @ '' cases'' @ newline @ newline @ ''You forget to cover the following cases:'' @ newline
           @ concat (map (\<lambda>(name, v). if contains cases_values (to_string v) then []
               else ''- '' @ literal (enum_type_name enum) @ ''::'' @ name @ newline) members)))"

definition visit_switch :: "visitors \<Rightarrow> token \<Rightarrow> expression \<Rightarrow> switch_case list \<Rightarrow> token_kind \<Rightarrow> bool
    \<Rightarrow> bool \<Rightarrow> statement check" where
  "visit_switch V keyword argument cases op has_default_case should_perform_complete_check =
     bind_t (v_expression V argument) (\<lambda>(argument_type, argument).
     let loc = position keyword
     in then_t (error_if (\<not> is_integer_type argument_type \<and> \<not> is_enum_element_type argument_type) loc
          (''Switch argument type must be integer or enum element but found ''
           @ get_type_literal argument_type))
     (bind_t (fold_t (visit_switch_case V argument_type has_default_case (length cases))
         (enumerate 0 cases) ([], [])) (\<lambda>(cases_values, cases).
      then_t (case argument_type of
          EnumElementType enum_name _ \<Rightarrow>
            if should_perform_complete_check
            then bind_t (enumeration_t enum_name) (\<lambda>enum.
              check_complete_switch_cases enum cases_values has_default_case loc)
            else return_t ()
        | _ \<Rightarrow> return_t ())
      (return_t (SwitchStatement keyword argument cases op has_default_case
        should_perform_complete_check)))))"

subsection \<open>Jumps and expressions\<close>

text \<open>Two pointers to functions that capture different numbers of values.\<close>

definition check_return_capturing :: "token_span \<Rightarrow> ty \<Rightarrow> ty \<Rightarrow> unit check" where
  "check_return_capturing loc expected returned = (case (expected, returned) of
     (PointerType expected_fun, PointerType return_fun) \<Rightarrow>
       error_if (is_function_type expected_fun \<and> is_function_type return_fun
           \<and> implicit_parameters_count expected_fun \<noteq> implicit_parameters_count return_fun) loc
         ''Can't return lambda that implicit capture values from function''
   | _ \<Rightarrow> return_t ())"

definition visit_return :: "visitors \<Rightarrow> token \<Rightarrow> expression option \<Rightarrow> bool \<Rightarrow> statement check" where
  "visit_return V keyword value_node has_value =
     (let loc = position keyword
      in if \<not> has_value
         then bind_t top_return_type (\<lambda>expected.
           then_t (error_if (\<not> is_void_type expected) loc
             (''Expect return value to be '' @ get_type_literal expected @ '' but got void''))
           (return_t (ReturnStatement keyword value_node has_value)))
         else
           bind_t (some_t NullAccess value_node) (\<lambda>e. bind_t (v_expression V e) (\<lambda>(return_ty, e).
           bind_t top_return_type (\<lambda>top. bind_t (resolve_shared V top) (\<lambda>expected.
           let node = (\<lambda>e. ReturnStatement keyword (Some e) has_value)
           in if is_types_equals expected return_ty then return_t (node e)
              else if is_pointer_type expected \<and> is_null_type return_ty
              then bind_t (set_null_base_type e expected) (\<lambda>e. return_t (node e))
              else
                then_t (error_if (\<not> is_pointer_type expected \<and> is_null_type return_ty) loc
                  ''Can't return null from function that return non pointer type'')
                (then_t (check_return_capturing loc expected return_ty)
                (throw_error loc (''Expect return value to be '' @ get_type_literal expected
                  @ '' but got '' @ get_type_literal return_ty))))))))"

definition visit_jump :: "string \<Rightarrow> token \<Rightarrow> bool \<Rightarrow> int \<Rightarrow> unit check" where
  "visit_jump name keyword has_times n =
     (if has_times \<and> n = 1
      then warn_t (position keyword)
        (''`'' @ name @ '' 1;` can implicity written as `'' @ name @ '';`'')
      else return_t ())"

subsection \<open>The dispatch of \<open>accept\<close>\<close>

definition visit_statement :: "visitors \<Rightarrow> statement \<Rightarrow> statement check" where
  "visit_statement V s = (case s of
     BlockStatement ss \<Rightarrow> visit_block V ss
   | FieldDeclaration name type v is_global explicit \<Rightarrow> visit_field V name type v is_global explicit
   | DestructuringDeclaraion names types v equal_token is_global \<Rightarrow>
       visit_destructuring V names types v equal_token is_global
   | ConstDeclaration name v \<Rightarrow> visit_const V name v
   | FunctionPrototype p \<Rightarrow> bind_t (visit_prototype p) (\<lambda>_. return_t s)
   | IntrinsicPrototype name _ parameters return_ty varargs varargs_ty \<Rightarrow>
       bind_t (define_prototype name parameters return_ty varargs varargs_ty True) (\<lambda>_. return_t s)
   | FunctionDeclaration prototype body \<Rightarrow>
       bind_t (visit_function V prototype body) (\<lambda>(p, b). return_t (FunctionDeclaration p b))
   | OperatorFunctionDeclaraion op prototype body \<Rightarrow> visit_operator_function V op prototype body
   | StructDeclaration name \<Rightarrow> visit_struct name
   | EnumDeclaration name enum \<Rightarrow> visit_enum name enum
   | IfStatement blocks has_else \<Rightarrow> visit_if V blocks has_else
   | ForRangeStatement pos x a z st body \<Rightarrow> visit_for_range V pos x a z st body
   | ForEachStatement pos x i c body \<Rightarrow> visit_for_each V pos x i c body
   | ForeverStatement pos body \<Rightarrow> visit_forever V pos body
   | WhileStatement keyword c body \<Rightarrow> visit_while V keyword c body
   | SwitchStatement keyword argument cases op has_default complete \<Rightarrow>
       visit_switch V keyword argument cases op has_default complete
   | ReturnStatement keyword v has_value \<Rightarrow> visit_return V keyword v has_value
   | DeferStatement call \<Rightarrow> bind_t (v_expression V call) (\<lambda>(_, call). return_t (DeferStatement call))
   | BreakStatement keyword has_times n \<Rightarrow>
       then_t (visit_jump ''break'' keyword has_times n) (return_t s)
   | ContinueStatement keyword has_times n \<Rightarrow>
       then_t (visit_jump ''continue'' keyword has_times n) (return_t s)
   | ExpressionStatement e \<Rightarrow> bind_t (v_expression V e) (\<lambda>(_, e). return_t (ExpressionStatement e)))"

subsection \<open>The knot\<close>

definition no_fuel :: "'a check" where
  "no_fuel s = NoFuel"

definition visitors_step :: "visitors \<Rightarrow> visitors" where
  "visitors_step V = \<lparr>v_expression = visit_expression V, v_statement = visit_statement V,
     v_resolve = resolve_generic_type V\<rparr>"

text \<open>The visitors that recurse to a depth of at most \<open>n\<close> calls.\<close>

primrec visitors_at :: "nat \<Rightarrow> visitors" where
  "visitors_at 0 = \<lparr>v_expression = (\<lambda>_. no_fuel), v_statement = (\<lambda>_. no_fuel),
     v_resolve = (\<lambda>_ _ _. no_fuel)\<rparr>"
| "visitors_at (Suc n) = visitors_step (visitors_at n)"

text \<open>
  \<open>check_compilation_unit\<close>: the loop over the top level nodes inside \<open>catch (...) { }\<close>.  The result is the
  list of the changed nodes, or \<open>None\<close> if an exception ended the loop.
\<close>

definition check_compilation_unit :: "visitors \<Rightarrow> statement list \<Rightarrow> statement list option check" where
  "check_compilation_unit V statements s = (case map_t (v_statement V) statements s of
     Done nodes s' \<Rightarrow> Done (Some nodes) s'
   | Thrown s' \<Rightarrow> Done None s'
   | Failed c \<Rightarrow> Failed c
   | NoFuel \<Rightarrow> NoFuel)"

end
