(* ===== verification/Checker_Checks.thy ===== *)
theory Checker_Checks
  imports Checker_Statements
begin

text \<open>
  The checks of the type checker that need no types: the range of number literals and the coverage of
  a switch over an enumeration.
\<close>

subsection \<open>Number literals\<close>

definition max_of_kind :: "number_kind \<Rightarrow> int" where
  "max_of_kind k = (case map_of integers_kind_max_value k of Some m \<Rightarrow> m | None \<Rightarrow> 0)"

text \<open>
  C23: the range check of integer literals is exact.  The literal of a natural number is accepted for
  an integer type exactly when it is at most the largest value of the type, as long as it fits into
  the \<open>int64\<close> that \<open>str_to_int\<close> accumulates; from \<open>2^63\<close> on, where only \<open>uint64\<close> could accept it, the
  accumulator overflows.
\<close>

theorem check_number_limits_exact:
  assumes "0 \<le> n" and "contains [INTEGER_1, INTEGER_8, INTEGER_16, INTEGER_32, INTEGER_64,
     U_INTEGER_8, U_INTEGER_16, U_INTEGER_32, U_INTEGER_64] k"
  shows "check_number_limits (to_string n) k
    = (if n < 2 ^ 63 then Some (n \<le> max_of_kind k) else None)"
  using assms(2) str_to_int_natural [OF assms(1)] assms(1)
  by (cases k) (auto simp: check_number_limits_def str_to_int64_def max_of_kind_def
      integers_kind_max_value_def)

theorem check_number_limits_exact_witness:
  "check_number_limits (to_string 255) U_INTEGER_8 = Some True
     \<and> check_number_limits (to_string 128) INTEGER_8 = Some False
     \<and> check_number_limits (to_string (2 ^ 63)) U_INTEGER_64 = None"
  using check_number_limits_exact [of 255 U_INTEGER_8] check_number_limits_exact [of 128 INTEGER_8]
    check_number_limits_exact [of "2 ^ 63" U_INTEGER_64]
  by (simp add: max_of_kind_def integers_kind_max_value_def)

end
