(* ===== verification/Checker_Frames.thy ===== *)
theory Checker_Frames
  imports Checker_Statements
begin

text \<open>
  What every visitor of the type checker leaves alone.  \<open>keeps\<close> relates the states before and after a
  visitor that returns, \<open>throws\<close> the states before and at an exception; \<open>frames\<close> says that a visitor
  respects both, and is closed under the constructions the visitors are made of.
\<close>

named_theorems frames

subsection \<open>The relations\<close>

definition errors_of :: "checker \<Rightarrow> diagnostic list" where
  "errors_of s = diagnostics (ctx_diagnostics (tcontext s)) ERROR_LEVEL"

text \<open>The innermost scope may grow, the others stay.\<close>

definition scopes_keep :: "('k \<rightharpoonup> 'v) list \<Rightarrow> ('k \<rightharpoonup> 'v) list \<Rightarrow> bool" where
  "scopes_keep ms ms' \<longleftrightarrow> ms' \<noteq> [] \<and> butlast ms' = butlast ms \<and> last ms \<subseteq>\<^sub>m last ms'"

text \<open>The captures of the innermost lambda may grow.\<close>

definition captures_keep :: "'a list list \<Rightarrow> 'a list list \<Rightarrow> bool" where
  "captures_keep ls ls' \<longleftrightarrow> (case ls of [] \<Rightarrow> ls' = [] | l # r \<Rightarrow> \<exists>e. ls' = (l @ e) # r)"

definition keeps :: "checker \<Rightarrow> checker \<Rightarrow> bool" where
  "keeps s s' \<longleftrightarrow> scopes_keep (linked_scoped (types_table s)) (linked_scoped (types_table s'))
     \<and> return_types_stack s' = return_types_stack s
     \<and> captures_keep (lambda_implicit_parameters s) (lambda_implicit_parameters s')
     \<and> errors_of s' = errors_of s
     \<and> ctx_enumerations (tcontext s') = ctx_enumerations (tcontext s)
     \<and> ctx_options (tcontext s') = ctx_options (tcontext s)"

definition throws :: "checker \<Rightarrow> checker \<Rightarrow> bool" where
  "throws s s' \<longleftrightarrow> (\<exists>ds. errors_of s' = errors_of s @ ds \<and> length ds \<le> 1)
     \<and> ctx_options (tcontext s') = ctx_options (tcontext s)"

definition scoped :: "checker \<Rightarrow> bool" where
  "scoped s \<longleftrightarrow> linked_scoped (types_table s) \<noteq> []"

definition frames :: "'a check \<Rightarrow> bool" where
  "frames m \<longleftrightarrow> (\<forall>s. scoped s \<longrightarrow> (case m s of Done x s' \<Rightarrow> keeps s s' | Thrown s' \<Rightarrow> throws s s' | _ \<Rightarrow> True))"

lemma framesI:
  assumes "\<And>s x s'. scoped s \<Longrightarrow> m s = Done x s' \<Longrightarrow> keeps s s'"
    and "\<And>s s'. scoped s \<Longrightarrow> m s = Thrown s' \<Longrightarrow> throws s s'"
  shows "frames m"
  using assms by (auto simp: frames_def split: checked.split)

lemma frames_Done: "frames m \<Longrightarrow> scoped s \<Longrightarrow> m s = Done x s' \<Longrightarrow> keeps s s'"
  by (auto simp: frames_def split: checked.splits)

lemma frames_Thrown: "frames m \<Longrightarrow> scoped s \<Longrightarrow> m s = Thrown s' \<Longrightarrow> throws s s'"
  by (auto simp: frames_def split: checked.splits)

lemma keeps_refl: "scoped s \<Longrightarrow> keeps s s"
  by (auto simp: keeps_def scoped_def scopes_keep_def captures_keep_def split: list.split)

lemma keeps_scoped: "keeps s s' \<Longrightarrow> scoped s'"
  by (simp add: keeps_def scoped_def scopes_keep_def)

lemma keeps_trans: "keeps s s' \<Longrightarrow> keeps s' s'' \<Longrightarrow> keeps s s''"
  by (auto simp: keeps_def scopes_keep_def captures_keep_def intro: map_le_trans split: list.splits)

lemma keeps_throws: "keeps s s' \<Longrightarrow> throws s' s'' \<Longrightarrow> throws s s''"
  by (simp add: keeps_def throws_def)

subsection \<open>The combinators\<close>

lemma frames_return [frames]: "frames (return_t x)"
  by (rule framesI) (auto simp: return_t_def keeps_refl)

lemma frames_fail [frames]: "frames (fail_t c)" "frames no_fuel"
  by (auto simp: frames_def fail_t_def no_fuel_def)

lemma frames_throw [frames]: "frames (throw_error loc msg)" "frames bad_any_cast"
  by (auto simp: frames_def throw_error_def bad_any_cast_def throws_def errors_of_def
      update_diagnostics_def report_error_def report_at_def)

lemma frames_read [frames]: "frames (read_t f)"
  by (rule framesI) (auto simp: read_t_def keeps_refl)

lemma frames_bind [frames]:
  assumes "frames m" and "\<And>x. frames (f x)"
  shows "frames (bind_t m f)"
proof (rule framesI)
  fix s y s'
  assume s: "scoped s" and r: "bind_t m f s = Done y s'"
  then obtain x s1 where 1: "m s = Done x s1" "f x s1 = Done y s'"
    by (auto simp: bind_t_def split: checked.splits)
  then show "keeps s s'"
    using assms s by (meson frames_Done keeps_scoped keeps_trans)
next
  fix s s'
  assume s: "scoped s" and r: "bind_t m f s = Thrown s'"
  then consider "m s = Thrown s'" | x s1 where "m s = Done x s1" "f x s1 = Thrown s'"
    by (auto simp: bind_t_def split: checked.splits)
  then show "throws s s'"
    using assms s by cases (meson frames_Done frames_Thrown keeps_scoped keeps_throws)+
qed

lemma frames_then [frames]: "frames m \<Longrightarrow> frames n \<Longrightarrow> frames (then_t m n)"
  by (simp add: then_t_def frames_bind)

lemma frames_some [frames]: "frames (some_t c v)"
  by (auto simp: some_t_def frames split: option.split)

lemma frames_nth [frames]: "frames (nth_t xs i)"
  by (auto simp: nth_t_def frames)

lemma frames_error_if [frames]: "frames (error_if b loc msg)"
  by (auto simp: error_if_def frames)

lemma frames_map [frames]: "(\<And>x. frames (f x)) \<Longrightarrow> frames (map_t f xs)"
  by (induction xs) (auto intro!: frames)

lemma frames_each [frames]: "(\<And>x. frames (f x)) \<Longrightarrow> frames (each_t f xs)"
  by (induction xs) (auto intro!: frames)

lemma frames_fold [frames]: "(\<And>x b. frames (f x b)) \<Longrightarrow> frames (fold_t f xs b)"
  by (induction xs arbitrary: b) (auto intro!: frames)

lemma frames_if [frames]: "frames m \<Longrightarrow> frames n \<Longrightarrow> frames (if b then m else n)"
  by simp

lemma frames_prod [frames]: "(\<And>a b. frames (f a b)) \<Longrightarrow> frames (case_prod f p)"
  by (cases p) simp

lemma frames_prod2 [frames]: "(\<And>a b. frames (f a b x)) \<Longrightarrow> frames (case_prod f p x)"
  by (cases p) simp

lemma frames_option [frames]: "frames m \<Longrightarrow> (\<And>x. frames (f x)) \<Longrightarrow> frames (case_option m f v)"
  by (cases v) simp_all

lemma frames_list [frames]: "frames m \<Longrightarrow> (\<And>x xs. frames (f x xs)) \<Longrightarrow> frames (case_list m f v)"
  by (cases v) simp_all

lemma frames_modify:
  assumes "\<And>s. scoped s \<Longrightarrow> keeps s (f s)"
  shows "frames (modify_t f)"
  using assms by (auto simp: frames_def modify_t_def)

lemma frames_ty [frames]:
  assumes "\<And>k. frames (f1 k)" "\<And>b. frames (f2 b)" "\<And>n p r i v w x g y. frames (f3 n p r i v w x g y)"
    "\<And>e n. frames (f4 e n)" "\<And>e n. frames (f5 e n)" "\<And>n. frames (f6 n)" "\<And>n ts. frames (f7 n ts)"
    "\<And>n vs e. frames (f8 n vs e)" "\<And>n e. frames (f9 n e)" "\<And>n. frames (f10 n)"
    "\<And>n ps. frames (f11 n ps)" "frames f12" "frames f13" "frames f14"
  shows "frames (case_ty f1 f2 f3 f4 f5 f6 f7 f8 f9 f10 f11 f12 f13 f14 t)"
  using assms by (cases t) simp_all

lemma frames_type_node [frames]:
  "frames f1 \<Longrightarrow> (\<And>t. frames (f2 t)) \<Longrightarrow> (\<And>t n. frames (f3 t n)) \<Longrightarrow> (\<And>t n. frames (f4 t n)) \<Longrightarrow>
   frames (case_type_node f1 f2 f3 f4 t)"
  by (cases t) simp_all

lemma frames_any_type [frames]:
  "(\<And>t. frames (f1 t)) \<Longrightarrow> (\<And>n. frames (f2 n)) \<Longrightarrow> frames (case_any_type f1 f2 t)"
  by (cases t) simp_all

lemma frames_case_expression [frames]:
  assumes "\<And>a b c d. frames (f1 a b c d)" "\<And>a b c d e f g. frames (f2 a b c d e f g)"
    "\<And>a b c. frames (f3 a b c)" "\<And>a b c d. frames (f4 a b c d)"
    "\<And>a b c d. frames (f5 a b c d)" "\<And>a b c d. frames (f6 a b c d)"
    "\<And>a b c d. frames (f7 a b c d)" "\<And>a b c d. frames (f8 a b c d)"
    "\<And>a b c. frames (f9 a b c)" "\<And>a b c. frames (f10 a b c)"
    "\<And>a b c d e. frames (f11 a b c d e)" "\<And>a b c. frames (f12 a b c)"
    "\<And>a b c d e f g. frames (f13 a b c d e f g)" "\<And>a b c d e f. frames (f14 a b c d e f)"
    "\<And>a b c. frames (f15 a b c)" "\<And>a. frames (f16 a)" "\<And>a. frames (f17 a)"
    "\<And>a. frames (f18 a)" "\<And>a b c d. frames (f19 a b c d)"
    "\<And>a b c d. frames (f20 a b c d)" "\<And>a b c d. frames (f21 a b c d)"
    "\<And>a. frames (f22 a)" "\<And>a b. frames (f23 a b)" "\<And>a b c. frames (f24 a b c)"
    "\<And>a b. frames (f25 a b)" "\<And>a b. frames (f26 a b)" "\<And>a b. frames (f27 a b)"
    "\<And>a b c. frames (f28 a b c)" "\<And>a b. frames (f29 a b)" "\<And>a. frames (f30 a)"
  shows "frames (case_expression f1 f2 f3 f4 f5 f6 f7 f8 f9 f10 f11 f12 f13 f14 f15 f16 f17
    f18 f19 f20 f21 f22 f23 f24 f25 f26 f27 f28 f29 f30 e)"
  using assms by (cases e) simp_all

subsection \<open>The table of types and the stacks\<close>

lemma keeps_same:
  "types_table (s' :: checker) = types_table (s :: checker) \<Longrightarrow> return_types_stack s' = return_types_stack s \<Longrightarrow>
   lambda_implicit_parameters s' = lambda_implicit_parameters s \<Longrightarrow> errors_of s' = errors_of s \<Longrightarrow>
   ctx_enumerations (tcontext s') = ctx_enumerations (tcontext s) \<Longrightarrow>
   ctx_options (tcontext s') = ctx_options (tcontext s) \<Longrightarrow> scoped s \<Longrightarrow> keeps s s'"
  using keeps_refl [of s] by (simp add: keeps_def)

lemma frames_modify_same [frames]:
  assumes "\<And>s. types_table (f s) = types_table s" "\<And>s. return_types_stack (f s) = return_types_stack s"
    "\<And>s. lambda_implicit_parameters (f s) = lambda_implicit_parameters s" "\<And>s. errors_of (f s) = errors_of s"
    "\<And>s. ctx_enumerations (tcontext (f s)) = ctx_enumerations (tcontext s)"
    "\<And>s. ctx_options (tcontext (f s)) = ctx_options (tcontext s)"
  shows "frames (modify_t f)"
  using assms by (intro frames_modify keeps_same) simp_all

lemma frames_warn [frames]: "frames (warn_t loc msg)"
  unfolding warn_t_def
  by (rule frames_modify_same)
    (simp_all add: errors_of_def update_diagnostics_def report_warning_def report_at_def)

lemma linked_scoped_push: "linked_scoped (push_new_scope m) = linked_scoped m @ [Map.empty]"
  by (simp add: push_new_scope_def)

lemma in_new_scope_cases:
  "in_new_scope m s =
    (case m (s\<lparr>types_table := push_new_scope (types_table s)\<rparr>) of
       Done x s' \<Rightarrow> (case pop_current_scope (types_table s') of
           None \<Rightarrow> Failed EmptyContainer | Some t \<Rightarrow> Done x (s'\<lparr>types_table := t\<rparr>))
     | Thrown s' \<Rightarrow> Thrown s' | Failed c \<Rightarrow> Failed c | NoFuel \<Rightarrow> NoFuel)"
  by (simp add: in_new_scope_def push_new_scope_t_def pop_current_scope_t_def then_t_def bind_t_def
      modify_t_def read_t_def some_t_def return_t_def fail_t_def split: checked.split option.split)

lemma frames_in_new_scope [frames]:
  assumes "frames m"
  shows "frames (in_new_scope m)"
proof (rule framesI)
  fix s s' :: checker and x
  let ?s = "s\<lparr>types_table := push_new_scope (types_table s)\<rparr>"
  assume s: "scoped s" and r: "in_new_scope m s = Done x s'"
  then obtain s1 where s1: "m ?s = Done x s1" "s' = s1\<lparr>types_table := (types_table s1)
      \<lparr>linked_scoped := butlast (linked_scoped (types_table s1))\<rparr>\<rparr>"
    by (auto simp: in_new_scope_cases pop_current_scope_def split: checked.splits option.splits if_splits)
  have "keeps ?s s1"
    by (rule frames_Done [OF assms _ s1(1)]) (simp add: scoped_def linked_scoped_push)
  then show "keeps s s'"
    using s s1(2)
    by (auto simp: keeps_def scopes_keep_def linked_scoped_push errors_of_def scoped_def)
next
  fix s s' :: checker
  let ?s = "s\<lparr>types_table := push_new_scope (types_table s)\<rparr>"
  assume r: "in_new_scope m s = Thrown s'"
  then have m: "m ?s = Thrown s'"
    by (auto simp: in_new_scope_cases split: checked.splits option.splits)
  have "throws ?s s'"
    by (rule frames_Thrown [OF assms _ m]) (simp add: scoped_def linked_scoped_push)
  then show "throws s s'" by (simp add: throws_def errors_of_def)
qed

lemma frames_define_type [frames]: "frames (define_type name v)"
proof (rule framesI)
  fix s x s'
  assume s: "scoped s" and r: "define_type name v s = Done x s'"
  then obtain ms m where ms: "linked_scoped (types_table s) = ms @ [m]"
    by (metis scoped_def append_butlast_last_id)
  then show "keeps s s'"
    using r s
    by (auto simp: define_type_def bind_t_def read_t_def some_t_def define_symbol_def return_t_def
        fail_t_def then_t_def modify_t_def keeps_def scopes_keep_def errors_of_def captures_keep_def map_le_def
        split: checked.splits option.splits if_splits list.splits)
qed (auto simp: define_type_def bind_t_def read_t_def some_t_def return_t_def fail_t_def then_t_def
    modify_t_def split: checked.splits option.splits)

lemma frames_define_any [frames]: "frames (define_any name v)"
  unfolding define_any_def by (intro frames)

lemma frames_define_once [frames]: "frames (define_once name v loc msg)"
  unfolding define_once_def by (intro frames)

lemma frames_lookups [frames]: "frames (is_type_defined name)" "frames (lookup_type name)"
  "frames top_return_type" "frames (type_of_node n)" "frames (structure_t name)"
  "frames (enumeration_t name)" "frames (generic_type_t name)" "frames (generic_declaration name)"
  "frames (declared_structure_t name)" "frames (instance_name_free name)"
  unfolding is_type_defined_def lookup_type_def top_return_type_def type_of_node_def structure_t_def
    enumeration_t_def generic_type_t_def generic_declaration_def
    declared_structure_t_def instance_name_free_def
  by (intro frames)+

text \<open>A return type that is pushed is popped again.\<close>

lemma frames_return_type:
  assumes "frames m" and "\<And>x. frames (n x)" and "\<And>x. frames (k x)"
  shows "frames (then_t (push_return_type t) (bind_t m (\<lambda>x. then_t (n x) (then_t pop_return_type (k x)))))"
proof -
  have eq: "then_t (push_return_type t) (bind_t m (\<lambda>x. then_t (n x) (then_t pop_return_type (k x)))) s
      = bind_t (\<lambda>s. case bind_t m (\<lambda>x. then_t (n x) (return_t x))
          (s\<lparr>return_types_stack := t # return_types_stack s\<rparr>) of
            Done x s' \<Rightarrow> (case return_types_stack s' of
                [] \<Rightarrow> Failed EmptyContainer | _ # ts \<Rightarrow> Done x (s'\<lparr>return_types_stack := ts\<rparr>))
          | Thrown s' \<Rightarrow> Thrown s' | Failed c \<Rightarrow> Failed c | NoFuel \<Rightarrow> NoFuel) k s" for s
    by (auto simp: then_t_def push_return_type_def modify_t_def bind_t_def pop_return_type_def read_t_def
        return_t_def fail_t_def split: checked.split list.split)
  have inner: "frames (bind_t m (\<lambda>x. then_t (n x) (return_t x)))"
    using assms(1,2) by (intro frames)
  have "frames (\<lambda>s. case bind_t m (\<lambda>x. then_t (n x) (return_t x))
          (s\<lparr>return_types_stack := t # return_types_stack s\<rparr>) of
            Done x s' \<Rightarrow> (case return_types_stack s' of
                [] \<Rightarrow> Failed EmptyContainer | _ # ts \<Rightarrow> Done x (s'\<lparr>return_types_stack := ts\<rparr>))
          | Thrown s' \<Rightarrow> Thrown s' | Failed c \<Rightarrow> Failed c | NoFuel \<Rightarrow> NoFuel)" (is "frames ?m")
  proof (rule framesI)
    fix s s' :: checker and x
    assume s: "scoped s" and r: "?m s = Done x s'"
    then obtain s1 where s1: "bind_t m (\<lambda>x. then_t (n x) (return_t x))
        (s\<lparr>return_types_stack := t # return_types_stack s\<rparr>) = Done x s1"
      "s' = s1\<lparr>return_types_stack := tl (return_types_stack s1)\<rparr>"
      by (auto split: checked.splits list.splits)
    have "keeps (s\<lparr>return_types_stack := t # return_types_stack s\<rparr>) s1"
      using s by (intro frames_Done [OF inner _ s1(1)]) (simp add: scoped_def)
    then show "keeps s s'" using s1(2) by (auto simp: keeps_def errors_of_def)
  next
    fix s s' :: checker
    assume s: "scoped s" and r: "?m s = Thrown s'"
    then have m: "bind_t m (\<lambda>x. then_t (n x) (return_t x))
        (s\<lparr>return_types_stack := t # return_types_stack s\<rparr>) = Thrown s'"
      by (auto split: checked.splits list.splits)
    have "throws (s\<lparr>return_types_stack := t # return_types_stack s\<rparr>) s'"
      using s by (intro frames_Thrown [OF inner _ m]) (simp add: scoped_def)
    then show "throws s s'" by (simp add: throws_def errors_of_def)
  qed
  then have "frames (bind_t ?m k)" using assms(3) by (rule frames_bind)
  then show ?thesis by (simp add: frames_def eq)
qed

lemma then_return: "then_t (return_t ()) m = m"
  by (rule ext) (simp add: then_t_def bind_t_def return_t_def)

lemma frames_return_type_one [frames]:
  assumes "frames m" and "\<And>x. frames (k x)"
  shows "frames (then_t (push_return_type t) (bind_t m (\<lambda>x. then_t pop_return_type (k x))))"
  using frames_return_type [of m "\<lambda>_. return_t ()" k t] assms by (simp add: then_return frames_return)

text \<open>A lambda: its captures are collected in a list of their own, which is taken away at the end.\<close>

lemma frames_lambda_body [frames]:
  assumes "frames m"
  shows "frames (collect_captures m)"
  unfolding collect_captures_def
proof (rule framesI)
  fix s s' :: checker and r
  assume s: "scoped s" and r: "then_t enter_lambda (bind_t m (\<lambda>x. then_t leave_lambda_body
    (bind_t take_implicit_parameters (\<lambda>pairs. return_t (x, pairs))))) s = Done r s'"
  let ?s = "s\<lparr>is_inside_lambda_body := True,
    lambda_implicit_parameters := [] # lambda_implicit_parameters s\<rparr>"
  obtain x s1 where s1: "m ?s = Done x s1"
    "s' = s1\<lparr>is_inside_lambda_body := False,
       lambda_implicit_parameters := tl (lambda_implicit_parameters s1)\<rparr>"
    using r by (auto simp: enter_lambda_def then_t_def bind_t_def modify_t_def leave_lambda_body_def
        take_implicit_parameters_def read_t_def return_t_def fail_t_def split: checked.splits list.splits)
  have "keeps ?s s1"
    using s by (intro frames_Done [OF assms _ s1(1)]) (simp add: scoped_def)
  then have "keeps s (s1\<lparr>is_inside_lambda_body := False,
       lambda_implicit_parameters := lambda_implicit_parameters s\<rparr>)"
      and "tl (lambda_implicit_parameters s1) = lambda_implicit_parameters s"
    by (auto simp: keeps_def errors_of_def captures_keep_def split: list.split)
  then show "keeps s s'" using s1(2) by simp
next
  fix s s' :: checker
  assume s: "scoped s" and r: "then_t enter_lambda (bind_t m (\<lambda>x. then_t leave_lambda_body
    (bind_t take_implicit_parameters (\<lambda>pairs. return_t (x, pairs))))) s = Thrown s'"
  let ?s = "s\<lparr>is_inside_lambda_body := True,
    lambda_implicit_parameters := [] # lambda_implicit_parameters s\<rparr>"
  have m: "m ?s = Thrown s'"
    using r by (auto simp: enter_lambda_def then_t_def bind_t_def modify_t_def leave_lambda_body_def
        take_implicit_parameters_def read_t_def return_t_def fail_t_def split: checked.splits list.splits)
  have "throws ?s s'"
    using s by (intro frames_Thrown [OF assms _ m]) (simp add: scoped_def)
  then show "throws s s'" by (simp add: throws_def errors_of_def)
qed

subsection \<open>The visitors\<close>

text \<open>The contract of the visitors that a visitor calls.\<close>

locale framed_visitors =
  fixes V :: visitors
  assumes frames_expression [frames]: "frames (v_expression V e)"
    and frames_statement [frames]: "frames (v_statement V st)"
    and frames_resolve [frames]: "frames (v_resolve V t names params)"
begin

lemma frames_shared [frames]: "frames (resolve_in_place V t)" "frames (resolve_shared V t)"
  "frames (visit_expressions V es)" "frames (visit_operands V l r)" "frames (visit_and_set_type V e)"
  unfolding resolve_in_place_def resolve_shared_def visit_expressions_def visit_operands_def
    visit_and_set_type_def
  by (intro frames)+

lemma frames_update_structure [frames]:
  "frames (modify_t (\<lambda>s. s\<lparr>tcontext := (tcontext s)\<lparr>ctx_structures := f s\<rparr>\<rparr>))"
  "frames (modify_t (\<lambda>s. s\<lparr>struct_instances := g s\<rparr>))"
  "frames (modify_t (\<lambda>s. s\<lparr>generic_types := g' s\<rparr>))"
  "frames (modify_t (\<lambda>s. s\<lparr>generic_functions := h s\<rparr>))"
  by (rule frames_modify_same; simp add: errors_of_def)+

lemma frames_resolve_generic_type [frames]: "frames (resolve_generic_type V t names params)"
  unfolding resolve_generic_type_def resolve_generic_struct_def resolve_generic_parameter_def
    resolve_field_def Let_def
  by (intro frames)

lemma frames_set_null [frames]: "frames (set_null_base_type e t)"
  unfolding set_null_base_type_def by (intro frames)

lemma frames_function_pointer [frames]: "frames (function_pointer_t t)"
  unfolding function_pointer_t_def by (intro frames)

lemma frames_overloaded [frames]: "frames m \<Longrightarrow> frames (overloaded_operator fname m)"
  unfolding overloaded_operator_def by (intro frames)

lemma frames_overloading [frames]: "frames (infix_overloading op l r)"
  unfolding infix_overloading_def by (intro frames)

lemma frames_same [frames]: "frames (expect_same msg op l r)" "frames (same_numbers op l r)"
  "frames (same_vectors op l r)"
  unfolding expect_same_def same_numbers_def same_vectors_def by (intro frames)+

lemma frames_capturing [frames]: "frames (check_lambda_has_invalid_capturing e)"
  unfolding check_lambda_has_invalid_capturing_def by (intro frames)

lemma frames_argument [frames]: "frames (visit_argument V e)"
  unfolding visit_argument_def by (intro frames)

lemma frames_check_argument [frames]: "frames (check_argument loc p t e)"
  unfolding check_argument_def by (intro frames)

lemma frames_check_parameters [frames]: "frames (check_parameters_types V loc es ps va vt i)"
  unfolding check_parameters_types_def Let_def by (intro frames)

lemma frames_valid_assignment [frames]: "frames (check_valid_assignment_right_side e loc)"
  unfolding check_valid_assignment_right_side_def Let_def by (intro frames)

lemma frames_operators [frames]: "frames (visit_assign V l op r t)" "frames (visit_binary V l op r t)"
  "frames (visit_logical V l op r t)" "frames (visit_comparison V l op r t)"
  unfolding visit_assign_def visit_binary_def visit_logical_def visit_comparison_def Let_def
  by (intro frames)+

lemma frames_shift [frames]: "frames (check_shift op t e)"
  unfolding check_shift_def Let_def by (intro frames)

lemma frames_bitwise [frames]: "frames (visit_bitwise V l op r t)"
  unfolding visit_bitwise_def by (intro frames)

lemma frames_unary [frames]: "frames (number_or_overloaded x op msg t f n)"
  "frames (visit_prefix_unary V op e n)" "frames (visit_postfix_unary V op e n)"
  unfolding number_or_overloaded_def visit_prefix_unary_def visit_postfix_unary_def Let_def
  by (intro frames)+

lemma frames_branches [frames]: "frames (visit_if_expression V ts cs vs)"
  "frames (visit_switch_expression V k a cs vs d op)" "frames (visit_tuple V pos vs)"
  unfolding visit_if_expression_def if_expression_branch_def visit_switch_expression_def
    switch_expression_case_def switch_expression_value_def switch_expression_default_def
    check_complete_switch_expression_def visit_tuple_def Let_def
  by (intro frames)+

lemma frames_call_function [frames]:
  "(\<And>e. frames (visit e)) \<Longrightarrow> frames (call_function V visit pos c args gargs t)"
  unfolding call_function_def by (intro frames)

lemma frames_call_defined [frames]: "frames (call_defined_name V pos name c args gargs)"
  unfolding call_defined_name_def Let_def by (intro frames)

lemma frames_infer [frames]: "frames (infer_generic_arguments V loc names ps args)"
  unfolding infer_generic_arguments_def infer_generic_argument_def assign_generic_argument_def Let_def
  by (intro frames)

lemma frames_prototype [frames]: "frames (resolve_return_type V name t names gargs)"
  "frames (resolve_parameter V name names gargs p)" "frames (resolve_argument V e)"
  "frames (visit_generic_body V name ps ts)"
  unfolding resolve_return_type_def resolve_parameter_def update_prototype_def resolve_argument_def
    visit_generic_body_def
  by (intro frames)+

lemma frames_call_generic [frames]: "frames (call_generic_function V pos name c args t gargs)"
  unfolding call_generic_function_def Let_def
  by (intro frames frames_return_type)

lemma frames_call [frames]: "frames (visit_call V pos c args t gargs)"
  unfolding visit_call_def Let_def by (intro frames)

lemma frames_initialize [frames]: "frames (visit_initialize V pos t args)"
  unfolding visit_initialize_def by (intro frames)

lemma frames_lambda_parameter [frames]: "frames (lambda_parameter V p)"
  unfolding lambda_parameter_def by (intro frames)

lemma frames_dot [frames]: "frames (visit_dot V i c d e f)"
  unfolding visit_dot_def struct_field_def count_attribute_def Let_def by (intro frames)

lemma frames_cast [frames]: "frames (visit_cast V pos t e)"
  unfolding visit_cast_def Let_def by (intro frames)

lemma frames_sizes [frames]: "frames (visit_type_size V t)" "frames (visit_type_align V t)"
  "frames (visit_value_size V e)"
  unfolding visit_type_size_def visit_type_align_def visit_value_size_def by (intro frames)+

lemma frames_index [frames]: "frames (visit_index V pos e i)"
  unfolding visit_index_def constant_index_t_def check_index_bound_def Let_def by (intro frames)

lemma frames_add_implicit [frames]: "frames (add_implicit_parameter p)"
  by (auto simp: add_implicit_parameter_def frames_def bind_t_def read_t_def fail_t_def modify_t_def
      keeps_def scopes_keep_def scoped_def captures_keep_def errors_of_def
      split: list.splits checked.splits)

lemma frames_capture [frames]: "frames (capture_type name)"
  unfolding capture_type_def Let_def by (intro frames)

lemma frames_literals [frames]: "frames (visit_literal n c)" "frames (visit_number n t)"
  "frames (visit_array V pos es t c)" "frames (visit_vector e)" "frames (visit_typed_node e)"
  unfolding visit_literal_def visit_number_def visit_array_def array_element_def visit_vector_def
    visit_typed_node_def Let_def
  by (intro frames)+

lemma frames_field_parts [frames]: "frames (visited_origin t)" "frames (check_field_types loc g e l r)"
  "frames (unify_field_types loc u n l r e)"
  unfolding visited_origin_def check_field_types_def unify_field_types_def Let_def by (intro frames)+

lemma frames_field [frames]: "frames (visit_field V name t v g x)"
  unfolding visit_field_def visit_field_initializer_def Let_def by (intro frames)

lemma frames_destructuring [frames]: "frames (visit_destructuring V ns ts e k g)"
  unfolding visit_destructuring_def destructured_field_def Let_def by (intro frames)

lemma frames_const [frames]: "frames (visit_const V name e)"
  unfolding visit_const_def by (intro frames)

lemma frames_prototypes [frames]: "frames (define_prototype name ps t v w i)" "frames (visit_prototype p)"
  unfolding define_prototype_def visit_prototype_def Let_def by (intro frames)+

lemma frames_function [frames]: "frames (visit_function V p b)"
  unfolding visit_function_def by (intro frames)

lemma frames_operator_function [frames]: "frames (visit_operator_function V op p b)"
  unfolding visit_operator_function_def by (intro frames)

lemma frames_types [frames]: "frames (visit_struct name)" "frames (visit_enum n e)"
  unfolding visit_struct_def visit_enum_def Let_def by (intro frames)+

lemma frames_conditional_block [frames]: "frames (visit_conditional_block V b)"
  unfolding visit_conditional_block_def by (cases b; simp; intro frames)

lemma frames_loops [frames]: "frames (visit_block V ss)" "frames (visit_if V bs e)"
  "frames (visit_for_range V pos x a z st b)" "frames (visit_for_each V pos x i c b)"
  "frames (visit_forever V pos b)" "frames (visit_while V k c b)"
  unfolding visit_block_def visit_if_def visit_for_range_def visit_step_def visit_for_each_def
    define_unless_blank_def visit_forever_def visit_while_def
  by (intro frames)+

lemma frames_switch_value [frames]: "frames (switch_case_value V loc t e a)"
  unfolding switch_case_value_def add_case_value_def by (intro frames)

lemma frames_switch_case [frames]: "frames (visit_switch_case V t d n c a)"
  unfolding visit_switch_case_def by (cases "snd c"; cases c; simp; intro frames)

lemma frames_switch [frames]: "frames (visit_switch V k a cs op d f)"
  unfolding visit_switch_def check_complete_switch_cases_def Let_def by (intro frames)

lemma frames_return_statement [frames]: "frames (visit_return V k v h)"
  unfolding visit_return_def check_return_capturing_def Let_def by (intro frames)

lemma frames_jump [frames]: "frames (visit_jump name k h n)"
  unfolding visit_jump_def by (intro frames)

lemma frames_visit_statement: "frames (visit_statement V st)"
  unfolding visit_statement_def by (cases st; simp; intro frames)

lemma frames_lambda [frames]: "frames (visit_lambda V pos ps ns ts r b t)"
  unfolding visit_lambda_def Let_def by (intro frames)

lemma frames_visit_expression: "frames (visit_expression V e)"
  unfolding visit_expression_def by (intro frames)

lemma framed_step: "framed_visitors (visitors_step V)"
  by (rule framed_visitors.intro)
    (simp_all add: visitors_step_def frames_visit_expression frames_visit_statement
      frames_resolve_generic_type)

end

lemma framed_visitors_at: "framed_visitors (visitors_at n)"
proof (induction n)
  case 0
  show ?case by (rule framed_visitors.intro) (simp_all add: frames)
next
  case (Suc n)
  then show ?case by (simp add: framed_visitors.framed_step)
qed

interpretation checked: framed_visitors "visitors_at n" for n
  by (rule framed_visitors_at)

end
