(* ===== verification/Checker_Fuel.thy ===== *)
theory Checker_Fuel
  imports Checker_Statements
begin

text \<open>
  The fuel of the visitors does not matter: a visitor that comes back with some fuel comes back with the
  same outcome with more.  \<open>grows m m'\<close> says that \<open>m'\<close> is \<open>m\<close> wherever \<open>m\<close> does not run out of fuel; it
  is closed under the constructions the visitors are made of.
\<close>

named_theorems grows

subsection \<open>The combinators\<close>

definition grows :: "'a check \<Rightarrow> 'a check \<Rightarrow> bool" where
  "grows m m' \<longleftrightarrow> (\<forall>s. m s \<noteq> NoFuel \<longrightarrow> m' s = m s)"

lemma grows_refl [grows]: "grows m m"
  by (simp add: grows_def)

lemma grows_trans: "grows m m' \<Longrightarrow> grows m' m'' \<Longrightarrow> grows m m''"
  by (simp add: grows_def)

lemma grows_no_fuel [grows]: "grows no_fuel m"
  by (simp add: grows_def no_fuel_def)

lemma grows_bind [grows]:
  "grows m m' \<Longrightarrow> (\<And>x. grows (f x) (f' x)) \<Longrightarrow> grows (bind_t m f) (bind_t m' f')"
  by (auto simp: grows_def bind_t_def split: checked.splits)

lemma grows_then [grows]: "grows m m' \<Longrightarrow> grows n n' \<Longrightarrow> grows (then_t m n) (then_t m' n')"
  by (simp add: then_t_def grows_bind)

lemma grows_map [grows]: "(\<And>x. grows (f x) (f' x)) \<Longrightarrow> grows (map_t f xs) (map_t f' xs)"
  by (induction xs) (auto intro!: grows)

lemma grows_each [grows]: "(\<And>x. grows (f x) (f' x)) \<Longrightarrow> grows (each_t f xs) (each_t f' xs)"
  by (induction xs) (auto intro!: grows)

lemma grows_fold [grows]: "(\<And>x b. grows (f x b) (f' x b)) \<Longrightarrow> grows (fold_t f xs b) (fold_t f' xs b)"
  by (induction xs arbitrary: b) (auto intro!: grows)

lemma grows_if [grows]: "grows m m' \<Longrightarrow> grows n n' \<Longrightarrow> grows (if b then m else n) (if b then m' else n')"
  by simp

lemma grows_prod [grows]: "(\<And>a b. grows (f a b) (f' a b)) \<Longrightarrow> grows (case_prod f p) (case_prod f' p)"
  by (cases p) simp

lemma grows_prod2 [grows]:
  "(\<And>a b. grows (f a b x) (f' a b x)) \<Longrightarrow> grows (case_prod f p x) (case_prod f' p x)"
  by (cases p) simp

lemma grows_option [grows]:
  "grows m m' \<Longrightarrow> (\<And>x. grows (f x) (f' x)) \<Longrightarrow> grows (case_option m f v) (case_option m' f' v)"
  by (cases v) simp_all

lemma grows_list [grows]:
  "grows m m' \<Longrightarrow> (\<And>x xs. grows (f x xs) (f' x xs)) \<Longrightarrow> grows (case_list m f v) (case_list m' f' v)"
  by (cases v) simp_all

lemma grows_type_node [grows]:
  "grows f1 g1 \<Longrightarrow> (\<And>t. grows (f2 t) (g2 t)) \<Longrightarrow> (\<And>t n. grows (f3 t n) (g3 t n)) \<Longrightarrow>
   (\<And>t n. grows (f4 t n) (g4 t n)) \<Longrightarrow> grows (case_type_node f1 f2 f3 f4 t) (case_type_node g1 g2 g3 g4 t)"
  by (cases t) simp_all

lemma grows_any_type [grows]:
  "(\<And>t. grows (f1 t) (g1 t)) \<Longrightarrow> (\<And>n. grows (f2 n) (g2 n)) \<Longrightarrow>
   grows (case_any_type f1 f2 t) (case_any_type g1 g2 t)"
  by (cases t) simp_all

lemma grows_ty [grows]:
  assumes "\<And>k. grows (f1 k) (g1 k)" "\<And>b. grows (f2 b) (g2 b)"
    "\<And>n p r i v w x g y. grows (f3 n p r i v w x g y) (g3 n p r i v w x g y)"
    "\<And>e n. grows (f4 e n) (g4 e n)" "\<And>e n. grows (f5 e n) (g5 e n)" "\<And>n. grows (f6 n) (g6 n)"
    "\<And>n ts. grows (f7 n ts) (g7 n ts)" "\<And>n vs e. grows (f8 n vs e) (g8 n vs e)"
    "\<And>n e. grows (f9 n e) (g9 n e)" "\<And>n. grows (f10 n) (g10 n)"
    "\<And>n ps. grows (f11 n ps) (g11 n ps)" "grows f12 g12" "grows f13 g13" "grows f14 g14"
  shows "grows (case_ty f1 f2 f3 f4 f5 f6 f7 f8 f9 f10 f11 f12 f13 f14 t)
    (case_ty g1 g2 g3 g4 g5 g6 g7 g8 g9 g10 g11 g12 g13 g14 t)"
  using assms by (cases t) simp_all

lemma grows_case_expression [grows]:
  assumes "\<And>a b c d. grows (f1 a b c d) (g1 a b c d)"
    "\<And>a b c d e f g. grows (f2 a b c d e f g) (g2 a b c d e f g)"
    "\<And>a b c. grows (f3 a b c) (g3 a b c)" "\<And>a b c d. grows (f4 a b c d) (g4 a b c d)"
    "\<And>a b c d. grows (f5 a b c d) (g5 a b c d)" "\<And>a b c d. grows (f6 a b c d) (g6 a b c d)"
    "\<And>a b c d. grows (f7 a b c d) (g7 a b c d)" "\<And>a b c d. grows (f8 a b c d) (g8 a b c d)"
    "\<And>a b c. grows (f9 a b c) (g9 a b c)" "\<And>a b c. grows (f10 a b c) (g10 a b c)"
    "\<And>a b c d e. grows (f11 a b c d e) (g11 a b c d e)"
    "\<And>a b c. grows (f12 a b c) (g12 a b c)"
    "\<And>a b c d e f g. grows (f13 a b c d e f g) (g13 a b c d e f g)"
    "\<And>a b c d e f. grows (f14 a b c d e f) (g14 a b c d e f)"
    "\<And>a b c. grows (f15 a b c) (g15 a b c)" "\<And>a. grows (f16 a) (g16 a)"
    "\<And>a. grows (f17 a) (g17 a)" "\<And>a. grows (f18 a) (g18 a)"
    "\<And>a b c d. grows (f19 a b c d) (g19 a b c d)"
    "\<And>a b c d. grows (f20 a b c d) (g20 a b c d)"
    "\<And>a b c d. grows (f21 a b c d) (g21 a b c d)" "\<And>a. grows (f22 a) (g22 a)"
    "\<And>a b. grows (f23 a b) (g23 a b)" "\<And>a b c. grows (f24 a b c) (g24 a b c)"
    "\<And>a b. grows (f25 a b) (g25 a b)" "\<And>a b. grows (f26 a b) (g26 a b)"
    "\<And>a b. grows (f27 a b) (g27 a b)" "\<And>a b c. grows (f28 a b c) (g28 a b c)"
    "\<And>a b. grows (f29 a b) (g29 a b)" "\<And>a. grows (f30 a) (g30 a)"
  shows "grows (case_expression f1 f2 f3 f4 f5 f6 f7 f8 f9 f10 f11 f12 f13 f14 f15 f16 f17
      f18 f19 f20 f21 f22 f23 f24 f25 f26 f27 f28 f29 f30 e)
    (case_expression g1 g2 g3 g4 g5 g6 g7 g8 g9 g10 g11 g12 g13 g14 g15 g16 g17
      g18 g19 g20 g21 g22 g23 g24 g25 g26 g27 g28 g29 g30 e)"
  using assms by (cases e) simp_all

lemma grows_in_new_scope [grows]: "grows m m' \<Longrightarrow> grows (in_new_scope m) (in_new_scope m')"
  unfolding in_new_scope_def by (intro grows)

lemma grows_collect_captures [grows]: "grows m m' \<Longrightarrow> grows (collect_captures m) (collect_captures m')"
  unfolding collect_captures_def by (intro grows)

subsection \<open>The visitors\<close>

text \<open>The contract of two records of visitors, the second with more fuel.\<close>

locale growing_visitors =
  fixes V :: visitors and W :: visitors
  assumes grows_expression [grows]: "grows (v_expression V e) (v_expression W e)"
    and grows_statement [grows]: "grows (v_statement V st) (v_statement W st)"
    and grows_resolve [grows]: "grows (v_resolve V t names params) (v_resolve W t names params)"
begin

lemma grows_shared [grows]: "grows (resolve_in_place V t) (resolve_in_place W t)"
    "grows (resolve_shared V t) (resolve_shared W t)"
  "grows (visit_expressions V es) (visit_expressions W es)"
    "grows (visit_operands V l r) (visit_operands W l r)"
    "grows (visit_and_set_type V e) (visit_and_set_type W e)"
  unfolding resolve_in_place_def resolve_shared_def visit_expressions_def visit_operands_def
    visit_and_set_type_def
  by (intro grows)+

lemma grows_resolve_generic_type [grows]: "grows (resolve_generic_type V t names params) (resolve_generic_type W t names params)"
  unfolding resolve_generic_type_def resolve_generic_struct_def resolve_generic_parameter_def
    resolve_field_def Let_def
  by (intro grows)

lemma grows_argument [grows]: "grows (visit_argument V e) (visit_argument W e)"
  unfolding visit_argument_def by (intro grows)

lemma grows_check_parameters [grows]: "grows (check_parameters_types V loc es ps va vt i) (check_parameters_types W loc es ps va vt i)"
  unfolding check_parameters_types_def Let_def by (intro grows)

lemma grows_operators [grows]: "grows (visit_assign V l op r t) (visit_assign W l op r t)"
    "grows (visit_binary V l op r t) (visit_binary W l op r t)"
  "grows (visit_logical V l op r t) (visit_logical W l op r t)"
    "grows (visit_comparison V l op r t) (visit_comparison W l op r t)"
  unfolding visit_assign_def visit_binary_def visit_logical_def visit_comparison_def Let_def
  by (intro grows)+

lemma grows_bitwise [grows]: "grows (visit_bitwise V l op r t) (visit_bitwise W l op r t)"
  unfolding visit_bitwise_def by (intro grows)

lemma grows_unary [grows]: "grows (visit_prefix_unary V op e n) (visit_prefix_unary W op e n)"
    "grows (visit_postfix_unary V op e n) (visit_postfix_unary W op e n)"
  unfolding number_or_overloaded_def visit_prefix_unary_def visit_postfix_unary_def Let_def
  by (intro grows)+

lemma grows_branches [grows]: "grows (visit_if_expression V ts cs vs) (visit_if_expression W ts cs vs)"
  "grows (visit_switch_expression V k a cs vs d op) (visit_switch_expression W k a cs vs d op)"
    "grows (visit_tuple V pos vs) (visit_tuple W pos vs)"
  unfolding visit_if_expression_def if_expression_branch_def visit_switch_expression_def
    switch_expression_case_def switch_expression_value_def switch_expression_default_def
    check_complete_switch_expression_def visit_tuple_def Let_def
  by (intro grows)+

lemma grows_call_function [grows]:
  "(\<And>e. grows (visit e) (visit' e)) \<Longrightarrow> grows (call_function V visit pos c args gargs t) (call_function W visit' pos c args gargs t)"
  unfolding call_function_def by (intro grows)

lemma grows_call_defined [grows]: "grows (call_defined_name V pos name c args gargs) (call_defined_name W pos name c args gargs)"
  unfolding call_defined_name_def Let_def by (intro grows)

lemma grows_infer [grows]: "grows (infer_generic_arguments V loc names ps args) (infer_generic_arguments W loc names ps args)"
  unfolding infer_generic_arguments_def infer_generic_argument_def assign_generic_argument_def Let_def
  by (intro grows)

lemma grows_prototype [grows]: "grows (resolve_return_type V name t names gargs) (resolve_return_type W name t names gargs)"
  "grows (resolve_parameter V name names gargs p) (resolve_parameter W name names gargs p)"
    "grows (resolve_argument V e) (resolve_argument W e)"
  "grows (visit_generic_body V name ps ts) (visit_generic_body W name ps ts)"
  unfolding resolve_return_type_def resolve_parameter_def update_prototype_def resolve_argument_def
    visit_generic_body_def
  by (intro grows)+

lemma grows_call_generic [grows]: "grows (call_generic_function V pos name c args t gargs) (call_generic_function W pos name c args t gargs)"
  unfolding call_generic_function_def Let_def
  by (intro grows)

lemma grows_call [grows]: "grows (visit_call V pos c args t gargs) (visit_call W pos c args t gargs)"
  unfolding visit_call_def Let_def by (intro grows)

lemma grows_initialize [grows]: "grows (visit_initialize V pos t args) (visit_initialize W pos t args)"
  unfolding visit_initialize_def by (intro grows)

lemma grows_lambda_parameter [grows]: "grows (lambda_parameter V p) (lambda_parameter W p)"
  unfolding lambda_parameter_def by (intro grows)

lemma grows_dot [grows]: "grows (visit_dot V i c d e f) (visit_dot W i c d e f)"
  unfolding visit_dot_def struct_field_def count_attribute_def Let_def by (intro grows)

lemma grows_cast [grows]: "grows (visit_cast V pos t e) (visit_cast W pos t e)"
  unfolding visit_cast_def Let_def by (intro grows)

lemma grows_sizes [grows]: "grows (visit_type_size V t) (visit_type_size W t)"
    "grows (visit_type_align V t) (visit_type_align W t)"
  "grows (visit_value_size V e) (visit_value_size W e)"
  unfolding visit_type_size_def visit_type_align_def visit_value_size_def by (intro grows)+

lemma grows_index [grows]: "grows (visit_index V pos e i) (visit_index W pos e i)"
  unfolding visit_index_def constant_index_t_def check_index_bound_def Let_def by (intro grows)

lemma grows_literals [grows]:   "grows (visit_array V pos es t c) (visit_array W pos es t c)"
  unfolding visit_literal_def visit_number_def visit_array_def array_element_def visit_vector_def
    visit_typed_node_def Let_def
  by (intro grows)+

lemma grows_field [grows]: "grows (visit_field V name t v g x) (visit_field W name t v g x)"
  unfolding visit_field_def visit_field_initializer_def Let_def by (intro grows)

lemma grows_destructuring [grows]: "grows (visit_destructuring V ns ts e k g) (visit_destructuring W ns ts e k g)"
  unfolding visit_destructuring_def destructured_field_def Let_def by (intro grows)

lemma grows_const [grows]: "grows (visit_const V name e) (visit_const W name e)"
  unfolding visit_const_def by (intro grows)

lemma grows_function [grows]: "grows (visit_function V p b) (visit_function W p b)"
  unfolding visit_function_def by (intro grows)

lemma grows_operator_function [grows]: "grows (visit_operator_function V op p b) (visit_operator_function W op p b)"
  unfolding visit_operator_function_def by (intro grows)

lemma grows_conditional_block [grows]: "grows (visit_conditional_block V b) (visit_conditional_block W b)"
  unfolding visit_conditional_block_def by (cases b; simp; intro grows)

lemma grows_loops [grows]: "grows (visit_block V ss) (visit_block W ss)"
    "grows (visit_if V bs e) (visit_if W bs e)"
  "grows (visit_for_range V pos x a z st b) (visit_for_range W pos x a z st b)"
    "grows (visit_for_each V pos x i c b) (visit_for_each W pos x i c b)"
  "grows (visit_forever V pos b) (visit_forever W pos b)"
    "grows (visit_while V k c b) (visit_while W k c b)"
  unfolding visit_block_def visit_if_def visit_for_range_def visit_step_def visit_for_each_def
    define_unless_blank_def visit_forever_def visit_while_def
  by (intro grows)+

lemma grows_switch_value [grows]: "grows (switch_case_value V loc t e a) (switch_case_value W loc t e a)"
  unfolding switch_case_value_def add_case_value_def by (intro grows)

lemma grows_switch_case [grows]: "grows (visit_switch_case V t d n c a) (visit_switch_case W t d n c a)"
  unfolding visit_switch_case_def by (cases "snd c"; cases c; simp; intro grows)

lemma grows_switch [grows]: "grows (visit_switch V k a cs op d f) (visit_switch W k a cs op d f)"
  unfolding visit_switch_def check_complete_switch_cases_def Let_def by (intro grows)

lemma grows_return_statement [grows]: "grows (visit_return V k v h) (visit_return W k v h)"
  unfolding visit_return_def check_return_capturing_def Let_def by (intro grows)

lemma grows_visit_statement: "grows (visit_statement V st) (visit_statement W st)"
  unfolding visit_statement_def by (cases st; simp; intro grows)

lemma grows_lambda [grows]: "grows (visit_lambda V pos ps ns ts r b t) (visit_lambda W pos ps ns ts r b t)"
  unfolding visit_lambda_def Let_def by (intro grows)

lemma grows_visit_expression: "grows (visit_expression V e) (visit_expression W e)"
  unfolding visit_expression_def by (intro grows)

lemma growing_step: "growing_visitors (visitors_step V) (visitors_step W)"
  by (rule growing_visitors.intro)
    (simp_all add: visitors_step_def grows_visit_expression grows_visit_statement
      grows_resolve_generic_type)

end

lemma growing_visitors_at: "growing_visitors (visitors_at n) (visitors_at (Suc n))"
proof (induction n)
  case 0
  show ?case by (rule growing_visitors.intro) (simp_all add: grows)
next
  case (Suc n)
  then have "growing_visitors (visitors_step (visitors_at n)) (visitors_step (visitors_at (Suc n)))"
    by (rule growing_visitors.growing_step)
  then show ?case by simp
qed

interpretation fuel: growing_visitors "visitors_at n" "visitors_at (Suc n)" for n
  by (rule growing_visitors_at)

lemma grows_more_fuel:
  assumes "m \<le> n"
  shows "grows (v_expression (visitors_at m) e) (v_expression (visitors_at n) e)"
    and "grows (v_statement (visitors_at m) st) (v_statement (visitors_at n) st)"
    and "grows (v_resolve (visitors_at m) t names params) (v_resolve (visitors_at n) t names params)"
  using assms
  by (induction rule: dec_induct; blast intro: grows_refl grows_trans fuel.grows_expression
      fuel.grows_statement fuel.grows_resolve)+

end
