(* ===== verification/Checker_Shape.thy ===== *)
theory Checker_Shape
  imports Checker_Statements
begin

text \<open>
  What the type checker may change in a tree.  The shape of a tree is the tree without the annotations
  of the checker: types, captured variables, generic arguments, the constant flag of names and members,
  and the index of a member.  \<open>returns m Q\<close> says that every result of \<open>m\<close> satisfies \<open>Q\<close>; with it, every
  visitor returns a node of the shape of the node it was given.
\<close>

subsection \<open>Shapes\<close>

primrec expr_shape :: "expression \<Rightarrow> expression"
  and stmt_shape :: "statement \<Rightarrow> statement"
  and block_shape :: "conditional_block \<Rightarrow> conditional_block"
  and case_shape :: "switch_case \<Rightarrow> switch_case" where
  "expr_shape (IfExpression ts cs vs _) = IfExpression ts (map expr_shape cs) (map expr_shape vs) NullNode"
| "expr_shape (SwitchExpression k a cs vs d _ op) = SwitchExpression k (expr_shape a)
     (map expr_shape cs) (map expr_shape vs) (map_option expr_shape d) NullNode op"
| "expr_shape (TupleExpression p vs _) = TupleExpression p (map expr_shape vs) NullNode"
| "expr_shape (AssignExpression l t r _) = AssignExpression (expr_shape l) t (expr_shape r) NullNode"
| "expr_shape (BinaryExpression l t r _) = BinaryExpression (expr_shape l) t (expr_shape r) NullNode"
| "expr_shape (BitwiseExpression l t r _) = BitwiseExpression (expr_shape l) t (expr_shape r) NullNode"
| "expr_shape (ComparisonExpression l t r _) = ComparisonExpression (expr_shape l) t (expr_shape r) NullNode"
| "expr_shape (LogicalExpression l t r _) = LogicalExpression (expr_shape l) t (expr_shape r) NullNode"
| "expr_shape (PrefixUnaryExpression t r _) = PrefixUnaryExpression t (expr_shape r) NullNode"
| "expr_shape (PostfixUnaryExpression t r _) = PostfixUnaryExpression t (expr_shape r) NullNode"
| "expr_shape (CallExpression p c args _ _) =
     CallExpression p (expr_shape c) (map expr_shape args) NullNode []"
| "expr_shape (InitializeExpression p _ args) = InitializeExpression p NullNode (map expr_shape args)"
| "expr_shape (LambdaExpression p ps _ _ r body _) =
     LambdaExpression p (map (\<lambda>q. q\<lparr>parameter_type := NoneType\<rparr>) ps) [] [] r (map stmt_shape body) NullNode"
| "expr_shape (DotExpression _ _ d c f _) = DotExpression 0 False d (expr_shape c) f NullNode"
| "expr_shape (CastExpression p _ v) = CastExpression p NullNode (expr_shape v)"
| "expr_shape (TypeSizeExpression _) = TypeSizeExpression NoneType"
| "expr_shape (TypeAlignExpression _) = TypeAlignExpression NoneType"
| "expr_shape (ValueSizeExpression v) = ValueSizeExpression (expr_shape v)"
| "expr_shape (IndexExpression p v i _) = IndexExpression p (expr_shape v) (expr_shape i) NullNode"
| "expr_shape (EnumAccessExpression n e i _) = EnumAccessExpression n e i NullNode"
| "expr_shape (ArrayExpression p vs _ c) = ArrayExpression p (map expr_shape vs) NullNode c"
| "expr_shape (VectorExpression a) = VectorExpression (expr_shape a)"
| "expr_shape (StringExpression v _) = StringExpression v NullNode"
| "expr_shape (LiteralExpression n _ _) = LiteralExpression n NullNode False"
| "expr_shape (NumberExpression v _) = NumberExpression v NullNode"
| "expr_shape (CharacterExpression v _) = CharacterExpression v NullNode"
| "expr_shape (BooleanExpression v _) = BooleanExpression v NullNode"
| "expr_shape (NullExpression v _ _) = NullExpression v NullNode NoneType"
| "expr_shape (UndefinedExpression k _) = UndefinedExpression k NullNode"
| "expr_shape (InfinityExpression _) = InfinityExpression NullNode"
| "stmt_shape (BlockStatement ss) = BlockStatement (map stmt_shape ss)"
| "stmt_shape (FieldDeclaration n _ v g x) = FieldDeclaration n NoneType (map_option expr_shape v) g x"
| "stmt_shape (DestructuringDeclaraion ns ts v k g) =
     DestructuringDeclaraion ns (map (\<lambda>_. NoneType) ts) (expr_shape v) k g"
| "stmt_shape (ConstDeclaration n v) = ConstDeclaration n (expr_shape v)"
| "stmt_shape (FunctionPrototype p) = FunctionPrototype p"
| "stmt_shape (IntrinsicPrototype n i ps t va vt) = IntrinsicPrototype n i ps t va vt"
| "stmt_shape (FunctionDeclaration p body) = FunctionDeclaration p (stmt_shape body)"
| "stmt_shape (OperatorFunctionDeclaraion op p body) = OperatorFunctionDeclaraion op p (stmt_shape body)"
| "stmt_shape (StructDeclaration n) = StructDeclaration n"
| "stmt_shape (EnumDeclaration n t) = EnumDeclaration n t"
| "stmt_shape (IfStatement bs e) = IfStatement (map block_shape bs) e"
| "stmt_shape (ForRangeStatement p x a b step body) = ForRangeStatement p x (expr_shape a) (expr_shape b)
     (map_option expr_shape step) (stmt_shape body)"
| "stmt_shape (ForEachStatement p x i c body) = ForEachStatement p x i (expr_shape c) (stmt_shape body)"
| "stmt_shape (ForeverStatement p body) = ForeverStatement p (stmt_shape body)"
| "stmt_shape (WhileStatement k c body) = WhileStatement k (expr_shape c) (stmt_shape body)"
| "stmt_shape (SwitchStatement k a cs op d f) =
     SwitchStatement k (expr_shape a) (map case_shape cs) op d f"
| "stmt_shape (ReturnStatement k v h) = ReturnStatement k (map_option expr_shape v) h"
| "stmt_shape (DeferStatement c) = DeferStatement (expr_shape c)"
| "stmt_shape (BreakStatement k h n) = BreakStatement k h n"
| "stmt_shape (ContinueStatement k h n) = ContinueStatement k h n"
| "stmt_shape (ExpressionStatement e) = ExpressionStatement (expr_shape e)"
| "block_shape (ConditionalBlock p c body) = ConditionalBlock p (expr_shape c) (stmt_shape body)"
| "case_shape (SwitchCase p vs body) = SwitchCase p (map expr_shape vs) (stmt_shape body)"

lemma shape_set_type_node [simp]: "expr_shape (set_type_node e t) = expr_shape e"
  by (induction e) simp_all

subsection \<open>The results of a visitor\<close>

named_theorems returns

definition returns :: "'a check \<Rightarrow> ('a \<Rightarrow> bool) \<Rightarrow> bool" where
  "returns m Q \<longleftrightarrow> (\<forall>s x s'. m s = Done x s' \<longrightarrow> Q x)"

lemma returns_mono: "returns m P \<Longrightarrow> (\<And>x. P x \<Longrightarrow> Q x) \<Longrightarrow> returns m Q"
  by (auto simp: returns_def)

lemma returns_any: "(\<And>x. Q x) \<Longrightarrow> returns m Q"
  by (simp add: returns_def)

lemma returns_return [returns]: "Q x \<Longrightarrow> returns (return_t x) Q"
  by (simp add: returns_def return_t_def)

lemma returns_bind [returns]: "returns m (\<lambda>x. returns (f x) Q) \<Longrightarrow> returns (bind_t m f) Q"
  by (fastforce simp: returns_def bind_t_def split: checked.splits)

lemma returns_then [returns]: "returns n Q \<Longrightarrow> returns (then_t m n) Q"
  unfolding then_t_def by (rule returns_bind) (simp add: returns_any)

lemma returns_fail [returns]: "returns (fail_t c) Q" "returns no_fuel Q"
  "returns (throw_error loc msg) Q" "returns bad_any_cast Q"
  by (simp_all add: returns_def fail_t_def no_fuel_def throw_error_def bad_any_cast_def)

lemma returns_error_if: "(\<not> b \<Longrightarrow> Q ()) \<Longrightarrow> returns (error_if b loc msg) Q"
  by (simp add: error_if_def returns_fail returns_return)

lemma returns_some [returns]: "(\<And>x. v = Some x \<Longrightarrow> Q x) \<Longrightarrow> returns (some_t c v) Q"
  by (auto simp: some_t_def intro!: returns split: option.split)

lemma returns_nth [returns]: "(i < length xs \<Longrightarrow> Q (xs ! i)) \<Longrightarrow> returns (nth_t xs i) Q"
  by (auto simp: nth_t_def intro!: returns)

lemma returns_if [returns]:
  "(b \<Longrightarrow> returns m Q) \<Longrightarrow> (\<not> b \<Longrightarrow> returns n Q) \<Longrightarrow> returns (if b then m else n) Q"
  by simp

lemma returns_prod [returns]: "(\<And>a b. p = (a, b) \<Longrightarrow> returns (f a b) Q) \<Longrightarrow> returns (case_prod f p) Q"
  by (cases p) simp

lemma returns_prod2 [returns]:
  "(\<And>a b. p = (a, b) \<Longrightarrow> returns (f a b x) Q) \<Longrightarrow> returns (case_prod f p x) Q"
  by (cases p) simp

lemma returns_option [returns]:
  "(v = None \<Longrightarrow> returns m Q) \<Longrightarrow> (\<And>x. v = Some x \<Longrightarrow> returns (f x) Q) \<Longrightarrow> returns (case_option m f v) Q"
  by (cases v) simp_all

lemma returns_list [returns]:
  "(v = [] \<Longrightarrow> returns m Q) \<Longrightarrow> (\<And>x xs. v = x # xs \<Longrightarrow> returns (f x xs) Q) \<Longrightarrow>
   returns (case_list m f v) Q"
  by (cases v) simp_all

lemma returns_type_node [returns]:
  "returns f1 Q \<Longrightarrow> (\<And>t. returns (f2 t) Q) \<Longrightarrow> (\<And>t n. returns (f3 t n) Q) \<Longrightarrow> (\<And>t n. returns (f4 t n) Q) \<Longrightarrow>
   returns (case_type_node f1 f2 f3 f4 t) Q"
  by (cases t) simp_all

lemma returns_ty [returns]:
  assumes "\<And>k. returns (f1 k) Q" "\<And>b. returns (f2 b) Q"
    "\<And>n p r i v w x g y. returns (f3 n p r i v w x g y) Q"
    "\<And>e n. returns (f4 e n) Q" "\<And>e n. returns (f5 e n) Q" "\<And>n. returns (f6 n) Q"
    "\<And>n ts. returns (f7 n ts) Q" "\<And>n vs e. returns (f8 n vs e) Q" "\<And>n e. returns (f9 n e) Q"
    "\<And>n. returns (f10 n) Q" "\<And>n ps. returns (f11 n ps) Q" "returns f12 Q" "returns f13 Q" "returns f14 Q"
  shows "returns (case_ty f1 f2 f3 f4 f5 f6 f7 f8 f9 f10 f11 f12 f13 f14 t) Q"
  using assms by (cases t) simp_all

lemma returns_case_expression [returns]:
  assumes "\<And>a b c d. returns (f1 a b c d) Q" "\<And>a b c d e f g. returns (f2 a b c d e f g) Q"
    "\<And>a b c. returns (f3 a b c) Q" "\<And>a b c d. returns (f4 a b c d) Q"
    "\<And>a b c d. returns (f5 a b c d) Q" "\<And>a b c d. returns (f6 a b c d) Q"
    "\<And>a b c d. returns (f7 a b c d) Q" "\<And>a b c d. returns (f8 a b c d) Q"
    "\<And>a b c. returns (f9 a b c) Q" "\<And>a b c. returns (f10 a b c) Q"
    "\<And>a b c d e. returns (f11 a b c d e) Q" "\<And>a b c. returns (f12 a b c) Q"
    "\<And>a b c d e f g. returns (f13 a b c d e f g) Q"
    "\<And>a b c d e f. returns (f14 a b c d e f) Q" "\<And>a b c. returns (f15 a b c) Q"
    "\<And>a. returns (f16 a) Q" "\<And>a. returns (f17 a) Q" "\<And>a. returns (f18 a) Q"
    "\<And>a b c d. returns (f19 a b c d) Q" "\<And>a b c d. returns (f20 a b c d) Q"
    "\<And>a b c d. returns (f21 a b c d) Q" "\<And>a. returns (f22 a) Q" "\<And>a b. returns (f23 a b) Q"
    "\<And>a b c. returns (f24 a b c) Q" "\<And>a b. returns (f25 a b) Q" "\<And>a b. returns (f26 a b) Q"
    "\<And>a b. returns (f27 a b) Q" "\<And>a b c. returns (f28 a b c) Q" "\<And>a b. returns (f29 a b) Q"
    "\<And>a. returns (f30 a) Q"
  shows "returns (case_expression f1 f2 f3 f4 f5 f6 f7 f8 f9 f10 f11 f12 f13 f14 f15 f16
    f17 f18 f19 f20 f21 f22 f23 f24 f25 f26 f27 f28 f29 f30 e) Q"
  using assms by (cases e) simp_all

lemma upt_split:
  assumes "[0 ..< n] = xs @ i # ys"
  shows "i = length xs"
proof -
  have "length xs < n" using arg_cong [OF assms, of length] by simp
  then have "[0 ..< n] ! length xs = length xs" by simp
  then show ?thesis unfolding assms by simp
qed

lemma map_append_rest: "map g ys = map g (take k xs) \<Longrightarrow> map g (ys @ drop k xs) = map g xs"
  by (metis append_take_drop_id map_append)

lemma map_append_snd:
  "map g ys = map (g \<circ> snd) (take k xs) \<Longrightarrow> map g (ys @ map snd (drop k xs)) = map (g \<circ> snd) xs"
  by (metis append_take_drop_id map_append map_map)

lemma map_switch_values:
  "xs \<noteq> [] \<Longrightarrow> g y = g (xs ! 0) \<Longrightarrow> map g ys = map g (drop (Suc 0) (take k xs)) \<Longrightarrow>
   map g (y # ys @ drop (max (Suc 0) k) xs) = map g xs"
  by (cases xs; cases k) (simp_all add: map_append_rest del: map_append)

text \<open>A loop whose body keeps something of each element.\<close>

lemma returns_map_all:
  assumes "\<And>x. x \<in> set xs \<Longrightarrow> returns (f x) (P x)"
  shows "returns (map_t f xs) (list_all2 P xs)"
  using assms
proof (induction xs)
  case (Cons x xs)
  then have "returns (f x) (P x)" "returns (map_t f xs) (list_all2 P xs)"
    by simp_all
  then show ?case
    by (auto simp: returns_def bind_t_def return_t_def split: checked.splits)
qed (simp add: returns_return)

lemma returns_map_same:
  assumes "\<And>x. x \<in> set xs \<Longrightarrow> returns (f x) (\<lambda>y. g y = h x)" and "\<And>ys. map g ys = map h xs \<Longrightarrow> Q ys"
  shows "returns (map_t f xs) Q"
  using returns_map_all [OF assms(1)]
  by (rule returns_mono) (auto simp: list_all2_conv_all_nth intro!: assms(2) nth_equalityI)

lemma returns_map_nth:
  assumes "\<And>i. i < n \<Longrightarrow> returns (f i) (\<lambda>y. i < length xs \<and> g y = h (xs ! i))"
    and "\<And>ys. n \<le> max a (length xs) \<Longrightarrow> map g ys = map h (drop a (take n xs)) \<Longrightarrow> Q ys"
  shows "returns (map_t f [a ..< n]) Q"
proof (rule returns_mono)
  show "returns (map_t f [a ..< n]) (list_all2 (\<lambda>i y. i < length xs \<and> g y = h (xs ! i)) [a ..< n])"
    by (rule returns_map_all) (auto intro: assms(1))
  fix ys
  assume all: "list_all2 (\<lambda>i y. i < length xs \<and> g y = h (xs ! i)) [a ..< n] ys"
  have bound: "n \<le> max a (length xs)"
  proof (cases "a < n")
    case True
    then have "n - 1 - a < length [a ..< n]" by simp
    from list_all2_nthD [OF all this] True have "n - Suc 0 < length xs" by simp
    with True show ?thesis by linarith
  qed simp
  show "Q ys"
    using all bound
    by (intro assms(2) bound nth_equalityI) (auto simp: list_all2_conv_all_nth max_def split: if_splits)
qed

lemma returns_fold_inv:
  assumes "\<And>x b xs ys. zs = xs @ x # ys \<Longrightarrow> P xs b \<Longrightarrow> returns (f x b) (P (xs @ [x]))"
    and "P [] b" and "\<And>b. P zs b \<Longrightarrow> Q b"
  shows "returns (fold_t f zs b) Q"
proof -
  have "returns (fold_t f ys b) (P zs)" if "zs = xs @ ys" "P xs b" for xs ys b
    using that
  proof (induction ys arbitrary: xs b)
    case (Cons y ys)
    have "returns (f y b) (P (xs @ [y]))" using Cons.prems by (rule assms(1))
    then show ?case
      using Cons by (auto intro!: returns_bind elim!: returns_mono)
  qed (simp add: returns_return)
  from this [of "[]" zs] have "returns (fold_t f zs b) (P zs)" using assms(2) by simp
  then show ?thesis using assms(3) by (rule returns_mono)
qed

subsection \<open>The visitors\<close>

text \<open>The contract of the visitors that a visitor calls.\<close>

locale shaping_visitors =
  fixes V :: visitors
  assumes shaped_expression: "returns (v_expression V e) (\<lambda>(_, e'). expr_shape e' = expr_shape e)"
    and shaped_statement: "returns (v_statement V st) (\<lambda>st'. stmt_shape st' = stmt_shape st)"
begin

lemma returns_expression [returns]:
  "(\<And>t e'. expr_shape e' = expr_shape e \<Longrightarrow> Q (t, e')) \<Longrightarrow> returns (v_expression V e) Q"
  using shaped_expression by (rule returns_mono) auto

lemma returns_statement [returns]:
  "(\<And>st'. stmt_shape st' = stmt_shape st \<Longrightarrow> Q st') \<Longrightarrow> returns (v_statement V st) Q"
  using shaped_statement by (rule returns_mono) auto

lemma returns_operands [returns]:
  "(\<And>t l' u r'. expr_shape l' = expr_shape l \<Longrightarrow> expr_shape r' = expr_shape r \<Longrightarrow> Q ((t, l'), (u, r')))
   \<Longrightarrow> returns (visit_operands V l r) Q"
  unfolding visit_operands_def by (intro returns) auto

lemma returns_expressions [returns]:
  "(\<And>ts es'. map expr_shape es' = map expr_shape es \<Longrightarrow> Q (ts, es')) \<Longrightarrow> returns (visit_expressions V es) Q"
  unfolding visit_expressions_def
  by (intro returns returns_map_same [where g = "expr_shape \<circ> snd" and h = expr_shape]) auto

lemma returns_set_null [returns]:
  "(\<And>e'. expr_shape e' = expr_shape e \<Longrightarrow> Q e') \<Longrightarrow> returns (set_null_base_type e t) Q"
  unfolding set_null_base_type_def by (cases e; simp; intro returns) simp_all

lemmas returns_lookups [returns] =
  returns_any [where m = "infix_overloading op l r" for op l r]
  returns_any [where m = "overloaded_operator f m" for f m]
  returns_any [where m = "type_of_node n" for n]
  returns_any [where m = "read_t f" for f]
  returns_any [where m = "is_type_defined x" for x]
  returns_any [where m = "lookup_type x" for x]
  returns_any [where m = "capture_type x" for x]
  returns_any [where m = "structure_t x" for x]
  returns_any [where m = "enumeration_t x" for x]
  returns_any [where m = "function_pointer_t t" for t]
  returns_any [where m = "define_type x v" for x v]
  returns_any [where m = "top_return_type"]
  returns_any [where m = "resolve_in_place V t" for t]
  returns_any [where m = "resolve_shared V t" for t]

lemma returns_operators:
  "returns (visit_assign V l op r t) (\<lambda>(_, e). expr_shape e = expr_shape (AssignExpression l op r n))"
  "returns (visit_binary V l op r t) (\<lambda>(_, e). expr_shape e = expr_shape (BinaryExpression l op r n))"
  "returns (visit_bitwise V l op r t) (\<lambda>(_, e). expr_shape e = expr_shape (BitwiseExpression l op r n))"
  "returns (visit_logical V l op r t) (\<lambda>(_, e). expr_shape e = expr_shape (LogicalExpression l op r n))"
  "returns (visit_comparison V l op r t) (\<lambda>(_, e). expr_shape e = expr_shape (ComparisonExpression l op r n))"
  unfolding visit_assign_def visit_binary_def visit_bitwise_def visit_logical_def visit_comparison_def Let_def
  by (intro returns; simp)+

lemma returns_unary:
  "returns (visit_prefix_unary V op e t) (\<lambda>(_, e'). expr_shape e' = expr_shape (PrefixUnaryExpression op e n))"
  "returns (visit_postfix_unary V op e t) (\<lambda>(_, e'). expr_shape e' = expr_shape (PostfixUnaryExpression op e n))"
  unfolding visit_prefix_unary_def visit_postfix_unary_def number_or_overloaded_def Let_def
  by (intro returns; simp)+

lemma returns_tuple:
  "returns (visit_tuple V pos vs) (\<lambda>(_, e). expr_shape e = expr_shape (TupleExpression pos vs n))"
  unfolding visit_tuple_def Let_def by (intro returns; simp)

lemma returns_leaves:
  "returns (visit_type_size V t) (\<lambda>(_, e). expr_shape e = expr_shape (TypeSizeExpression t))"
  "returns (visit_type_align V t) (\<lambda>(_, e). expr_shape e = expr_shape (TypeAlignExpression t))"
  "returns (visit_value_size V x) (\<lambda>(_, e). expr_shape e = expr_shape (ValueSizeExpression x))"
  "returns (visit_literal name c) (\<lambda>(_, e). expr_shape e = expr_shape (LiteralExpression name n c'))"
  "returns (visit_number v n) (\<lambda>(_, e). expr_shape e = expr_shape (NumberExpression v n))"
  "returns (visit_typed_node x) (\<lambda>(_, e). expr_shape e = expr_shape x)"
  "returns (visit_vector a) (\<lambda>(_, e). expr_shape e = expr_shape (VectorExpression a))"
  unfolding visit_type_size_def visit_type_align_def visit_value_size_def visit_literal_def visit_number_def
    visit_typed_node_def visit_vector_def Let_def
  by (intro returns; simp)+

lemma returns_accesses:
  "returns (visit_dot V i c d e f) (\<lambda>(_, e'). expr_shape e' = expr_shape (DotExpression i c d e f n))"
  "returns (visit_cast V pos t e) (\<lambda>(_, e'). expr_shape e' = expr_shape (CastExpression pos t e))"
  "returns (visit_index V pos e x) (\<lambda>(_, e'). expr_shape e' = expr_shape (IndexExpression pos e x n))"
  unfolding visit_dot_def visit_cast_def visit_index_def struct_field_def constant_index_t_def Let_def
  by (intro returns; simp)+

lemma returns_if_expression:
  "returns (visit_if_expression V ts cs vs) (\<lambda>(_, e). expr_shape e = expr_shape (IfExpression ts cs vs n))"
proof -
  define P where "P xs b \<longleftrightarrow> length xs \<le> length cs \<and> length xs \<le> length vs
      \<and> map expr_shape (fst (snd b)) = map expr_shape (take (length xs) cs)
      \<and> map expr_shape (snd (snd b)) = map expr_shape (take (length xs) vs)"
    for xs :: "nat list" and b :: "ty \<times> expression list \<times> expression list"
  have "returns (if_expression_branch V ts cs vs i b) (P (xs @ [i]))"
    if "[0 ..< length ts] = xs @ i # ys" "P xs b" for i b xs ys
  proof -
    show ?thesis
      using that(2) upt_split [OF that(1)] unfolding if_expression_branch_def P_def
      by (intro returns; simp add: take_Suc_conv_app_nth Suc_le_eq)
  qed
  then show ?thesis
    unfolding visit_if_expression_def
    by (intro returns returns_fold_inv [where P = P])
      (auto simp: P_def simp del: map_append intro: map_append_rest)
qed

lemma returns_switch_parts:
  "returns (switch_expression_case V loc t c) (\<lambda>e. expr_shape e = expr_shape (snd c))"
  "returns (switch_expression_value V loc t v) (\<lambda>e. expr_shape e = expr_shape v)"
  "returns (switch_expression_default V loc t d) (\<lambda>d'. map_option expr_shape d' = map_option expr_shape d)"
  unfolding switch_expression_case_def switch_expression_value_def switch_expression_default_def
  by (intro returns; simp)+

lemma returns_switch_expression:
  "returns (visit_switch_expression V k a cs vs d op)
     (\<lambda>(_, e). expr_shape e = expr_shape (SwitchExpression k a cs vs d n op))"
  unfolding visit_switch_expression_def Let_def
  by (intro returns returns_map_same [where g = expr_shape and h = "expr_shape \<circ> snd"]
      returns_map_nth [where g = expr_shape and h = expr_shape and xs = vs]
      returns_mono [OF returns_switch_parts(1)] returns_mono [OF returns_switch_parts(2)]
      returns_mono [OF returns_switch_parts(3)])
    (auto simp: map_switch_values simp del: list.map map_append simp flip: map_map dest: map_eq_imp_length_eq)

lemma returns_argument: "returns (visit_argument V e) (\<lambda>x. expr_shape (snd x) = expr_shape e)"
  unfolding visit_argument_def by (intro returns; simp)

lemma returns_check_argument: "returns (check_argument loc p t e) (\<lambda>e'. expr_shape e' = expr_shape e)"
  unfolding check_argument_def
  by (rule returns_if, simp add: returns, rule returns_if, simp add: returns_set_null, cases e)
    (auto intro!: returns split: ty.split type_node.split)

lemma returns_check_parameters:
  "returns (check_parameters_types V loc es ps va vt i) (\<lambda>es'. map expr_shape es' = map expr_shape es)"
  unfolding check_parameters_types_def Let_def
proof (intro returns returns_map_same [where g = "expr_shape \<circ> snd" and h = expr_shape],
    goal_cases argument parameters)
  case (argument e)
  then show ?case using returns_argument [of e] by simp
next
  case (parameters visited)
  show ?case
    by (rule returns_any, intro returns returns_map_nth [where g = expr_shape and h = "expr_shape \<circ> snd"
        and xs = visited] returns_mono [OF returns_check_argument])
      (use parameters in \<open>auto simp: map_append_snd simp del: map_append\<close>)
qed

lemma returns_call_function:
  assumes "\<And>e. returns (visit e) (\<lambda>e'. expr_shape e' = expr_shape e)" and "expr_shape c' = expr_shape c"
  shows "returns (call_function V visit pos c' args gargs t)
    (\<lambda>(_, e). expr_shape e = expr_shape (CallExpression pos c args n g))"
  unfolding call_function_def
  by (intro returns returns_map_same [where g = expr_shape and h = expr_shape] assms(1)
      returns_mono [OF returns_check_parameters]) (simp add: assms(2))

lemma returns_visit_and_set: "returns (visit_and_set_type V e) (\<lambda>e'. expr_shape e' = expr_shape e)"
  unfolding visit_and_set_type_def by (intro returns; simp)

lemma returns_call_defined:
  "returns (call_defined_name V pos name c args gargs)
    (\<lambda>(_, e). expr_shape e = expr_shape (CallExpression pos c args n g))"
  unfolding call_defined_name_def Let_def by (intro returns returns_call_function returns_visit_and_set refl)

lemma returns_infer:
  assumes "length ps = length args"
  shows "returns (infer_generic_arguments V loc names ps args) (\<lambda>x. map expr_shape (snd x) = map expr_shape args)"
proof -
  have "returns (infer_generic_argument V loc names x b)
      (\<lambda>b. map expr_shape (snd b) = map expr_shape (map snd (xs @ [x])))"
    if "map expr_shape (snd b) = map expr_shape (map snd xs)" for x b xs
    using that unfolding infer_generic_argument_def
    by (intro returns returns_any [where m = "fold_t f ys z" for f ys z]; simp)
  then show ?thesis
    unfolding infer_generic_arguments_def
    by (intro returns returns_fold_inv [where P = "\<lambda>xs b. map expr_shape (snd b) = map expr_shape (map snd xs)"])
      (auto simp: assms simp del: map_map)
qed

lemma returns_call_generic:
  "returns (call_generic_function V pos name c args t gargs)
    (\<lambda>(_, e). expr_shape e = expr_shape (CallExpression pos c args n g))"
proof -
  have args: "returns (then_t (error_if (length ps \<noteq> length args) loc msg)
      (bind_t (if gs = [] then infer_generic_arguments V loc names (map parameter_type ps) args
         else return_t (gs, args)) f)) Q"
    if "\<And>gs es. map expr_shape es = map expr_shape args \<Longrightarrow> returns (f (gs, es)) Q"
    for ps :: "parameter list" and loc msg gs names and f :: "ty list \<times> expression list \<Rightarrow> 'b check" and Q
  proof (cases "length ps = length args")
    case True
    then show ?thesis
      using that by (intro returns returns_mono [OF returns_infer]) (auto split: prod.splits)
  qed (simp add: returns_def error_if_def then_t_def bind_t_def throw_error_def)
  have resolve: "returns (resolve_argument V e) (\<lambda>e'. expr_shape e' = expr_shape e)" for e
    unfolding resolve_argument_def by (intro returns; simp)
  show ?thesis
    unfolding call_generic_function_def Let_def
    by (intro returns returns_any [where m = "generic_declaration x" for x]
        returns_any [where m = "resolve_return_type V a b d e" for a b d e] args
        returns_any [where m = "map_t (resolve_parameter V x y z) ys" for x y z ys]
        returns_map_same [where f = "resolve_argument V" and g = expr_shape and h = expr_shape] resolve
        returns_mono [OF returns_check_parameters]) auto
qed

lemma returns_call:
  "returns (visit_call V pos c args t gargs)
    (\<lambda>(_, e). expr_shape e = expr_shape (CallExpression pos c args n g))"
  unfolding visit_call_def Let_def
  by (cases c; simp only: expression.case)
    (intro returns returns_call_function returns_visit_and_set returns_call_defined returns_call_generic; simp)+

lemma returns_initialize:
  "returns (visit_initialize V pos t args) (\<lambda>(_, e). expr_shape e = expr_shape (InitializeExpression pos t args))"
  unfolding visit_initialize_def by (intro returns returns_mono [OF returns_check_parameters]) simp

lemma returns_in_new_scope: "returns m Q \<Longrightarrow> returns (in_new_scope m) Q"
  unfolding in_new_scope_def by (intro returns) (auto elim!: returns_mono intro: returns)

lemma returns_collect: "returns m (\<lambda>x. \<forall>pairs. Q (x, pairs)) \<Longrightarrow> returns (collect_captures m) Q"
  unfolding collect_captures_def
  by (rule returns_then, rule returns_bind, erule returns_mono, rule returns_then, rule returns_bind,
      rule returns_any) (simp add: returns_return)

lemma returns_lambda:
  "returns (visit_lambda V pos ps ns ts r body t)
    (\<lambda>(_, e). expr_shape e = expr_shape (LambdaExpression pos ps ns' ts' r body n))"
proof -
  have parameter: "returns (lambda_parameter V p) (\<lambda>q. q\<lparr>parameter_type := NoneType\<rparr> = p\<lparr>parameter_type := NoneType\<rparr>)" for p
    unfolding lambda_parameter_def by (intro returns; simp)
  show ?thesis
    unfolding visit_lambda_def Let_def
    by (intro returns returns_collect returns_in_new_scope parameter
        returns_map_same [where g = "\<lambda>q. q\<lparr>parameter_type := NoneType\<rparr>" and h = "\<lambda>q. q\<lparr>parameter_type := NoneType\<rparr>"])
      (auto intro!: returns split: statement.splits)
qed

lemma returns_array:
  "returns (visit_array V pos vs t c) (\<lambda>(_, e). expr_shape e = expr_shape (ArrayExpression pos vs n c))"
proof -
  have element: "returns (array_element V pos x b)
      (\<lambda>b. map expr_shape (snd b) = expr_shape v # map (expr_shape \<circ> snd) (xs @ [x]))"
    if "map expr_shape (snd b) = expr_shape v # map (expr_shape \<circ> snd) xs" for x b xs v
    using that unfolding array_element_def by (intro returns; simp)
  show ?thesis
  proof (cases vs)
    case (Cons v others)
    show ?thesis
      unfolding visit_array_def Let_def Cons list.case
      by (intro returns returns_fold_inv [where P = "\<lambda>xs b. map expr_shape (snd b) = expr_shape v # map (expr_shape \<circ> snd) xs"]
          element) (auto simp flip: map_map)
  qed (simp add: visit_array_def; intro returns; simp)
qed

lemma shaped_visit_expression: "returns (visit_expression V e) (\<lambda>(_, e'). expr_shape e' = expr_shape e)"
  unfolding visit_expression_def
  by (cases e; simp only: expression.case)
    (rule returns_if_expression returns_switch_expression returns_tuple returns_operators returns_unary
      returns_call returns_initialize returns_lambda returns_accesses returns_leaves returns_array)+

lemma returns_field:
  "returns (visit_field V name t v g x) (\<lambda>st. stmt_shape st = stmt_shape (FieldDeclaration name t' v g x))"
proof -
  have unify: "returns (unify_field_types loc u n l r e) (\<lambda>(_, _, e'). expr_shape e' = expr_shape e)" for loc u n l r e
    unfolding unify_field_types_def Let_def by (intro returns) auto
  have initializer: "returns (visit_field_initializer V name g n l e) (\<lambda>(_, _, e', _). expr_shape e' = expr_shape e)"
    for n l e
    unfolding visit_field_initializer_def Let_def
    by (intro returns returns_any [where m = "visited_origin z" for z] returns_mono [OF unify]) auto
  show ?thesis
    unfolding visit_field_def Let_def
    by (intro returns returns_mono [OF initializer]) auto
qed

lemma returns_destructuring:
  "returns (visit_destructuring V ns ts e k g)
    (\<lambda>st. stmt_shape st = stmt_shape (DestructuringDeclaraion ns ts e k g))"
proof -
  have "returns (destructured_field V ns ts us i) (\<lambda>_. i < length ts \<and> NoneType = NoneType)" for us i
    unfolding destructured_field_def by (intro returns; auto)
  then show ?thesis
    unfolding visit_destructuring_def Let_def
    by (intro returns returns_map_nth [where g = "\<lambda>_. NoneType" and h = "\<lambda>_. NoneType" and xs = ts])
      (auto simp: map_replicate_const simp flip: replicate_add)
qed

lemma returns_function:
  "returns (visit_function V p b) (\<lambda>(p', b'). p' = p \<and> stmt_shape b' = stmt_shape b)"
  unfolding visit_function_def
  by (intro returns returns_in_new_scope returns_any [where m = "visit_prototype x" for x]) auto

lemma returns_loops:
  "returns (visit_block V ss) (\<lambda>st. stmt_shape st = stmt_shape (BlockStatement ss))"
  "returns (visit_for_range V pos x a z step b) (\<lambda>st. stmt_shape st = stmt_shape (ForRangeStatement pos x a z step b))"
  "returns (visit_for_each V pos x i c b) (\<lambda>st. stmt_shape st = stmt_shape (ForEachStatement pos x i c b))"
  "returns (visit_forever V pos b) (\<lambda>st. stmt_shape st = stmt_shape (ForeverStatement pos b))"
  "returns (visit_while V k c b) (\<lambda>st. stmt_shape st = stmt_shape (WhileStatement k c b))"
  unfolding visit_block_def visit_for_range_def visit_step_def visit_for_each_def visit_forever_def visit_while_def
  by (intro returns returns_in_new_scope returns_map_same [where g = stmt_shape and h = stmt_shape]; simp)+

lemma returns_if_statement:
  "returns (visit_if V bs e) (\<lambda>st. stmt_shape st = stmt_shape (IfStatement bs e))"
proof -
  have "returns (visit_conditional_block V b) (\<lambda>b'. block_shape b' = block_shape b)" for b
    unfolding visit_conditional_block_def by (cases b; simp; intro returns returns_in_new_scope; simp)
  then show ?thesis
    unfolding visit_if_def
    by (intro returns returns_map_same [where g = block_shape and h = block_shape]) simp_all
qed

lemma returns_switch:
  "returns (visit_switch V k a cs op d f) (\<lambda>st. stmt_shape st = stmt_shape (SwitchStatement k a cs op d f))"
proof -
  have label: "returns (switch_case_value V loc t e b)
      (\<lambda>b'. map expr_shape (snd b') = map expr_shape (xs @ [e]))"
    if "map expr_shape (snd b) = map expr_shape xs" for loc t e b xs
    using that unfolding switch_case_value_def
    by (cases e; cases b; simp only: expression.case prod.case)
      (intro returns returns_any [where m = "add_case_value x y z" for x y z]; simp)+
  have "returns (visit_switch_case V t d n c b)
      (\<lambda>b'. map case_shape (snd b') = map (case_shape \<circ> snd) (xs @ [c]))"
    if "map case_shape (snd b) = map (case_shape \<circ> snd) xs" for t d n c b xs
  proof -
    obtain i pos vs body where c: "c = (i, SwitchCase pos vs body)"
      by (metis prod.exhaust switch_case.exhaust)
    obtain seen bs where b: "b = (seen, bs)" by fastforce
    show ?thesis
      using that label unfolding visit_switch_case_def c b prod.case switch_case.case
      by (intro returns returns_in_new_scope
          returns_fold_inv [where P = "\<lambda>xs b. map expr_shape (snd b) = map expr_shape xs"]) auto
  qed
  then show ?thesis
    unfolding visit_switch_def Let_def
    by (intro returns returns_fold_inv [where P = "\<lambda>xs b. map case_shape (snd b) = map (case_shape \<circ> snd) xs"])
      (auto simp flip: map_map)
qed

lemma returns_return_statement:
  "returns (visit_return V k v h) (\<lambda>st. stmt_shape st = stmt_shape (ReturnStatement k v h))"
  unfolding visit_return_def Let_def by (intro returns) auto

lemma returns_simple_statements:
  "returns (visit_const V name e) (\<lambda>st. stmt_shape st = stmt_shape (ConstDeclaration name e))"
  "returns (visit_operator_function V opk p b) (\<lambda>st. stmt_shape st = stmt_shape (OperatorFunctionDeclaraion opk p b))"
  "returns (visit_struct n) (\<lambda>st. stmt_shape st = stmt_shape (StructDeclaration n))"
  "returns (visit_enum name enum) (\<lambda>st. stmt_shape st = stmt_shape (EnumDeclaration name enum))"
  unfolding visit_const_def visit_operator_function_def visit_struct_def visit_enum_def Let_def
  by (intro returns returns_mono [OF returns_function]; auto)+

lemma shaped_visit_statement: "returns (visit_statement V st) (\<lambda>st'. stmt_shape st' = stmt_shape st)"
  unfolding visit_statement_def
  by (cases st; simp only: statement.case)
    (rule returns_loops returns_if_statement returns_switch returns_return_statement returns_simple_statements
      returns_field returns_destructuring
     | (intro returns returns_mono [OF returns_function]
          returns_any [where m = "visit_prototype x" for x] returns_any [where m = "define_prototype a b c d e f" for a b c d e f];
        simp))+

lemma shaping_step: "shaping_visitors (visitors_step V)"
  by (rule shaping_visitors.intro)
    (simp_all add: visitors_step_def shaped_visit_expression shaped_visit_statement)

end

lemma shaping_visitors_at: "shaping_visitors (visitors_at n)"
proof (induction n)
  case 0
  show ?case by (rule shaping_visitors.intro) (simp_all add: returns)
next
  case (Suc n)
  then show ?case by (simp add: shaping_visitors.shaping_step)
qed

interpretation shape: shaping_visitors "visitors_at n" for n
  by (rule shaping_visitors_at)

end
