(* ===== verification/Checker_Guarantees.thy ===== *)
theory Checker_Guarantees
  imports Checker_Frames Checker_Fuel Checker_Shape Parser_Eval
begin

text \<open>
  The properties of the type checker that hold for every tree: the discipline of its scopes and stacks,
  and how it reports errors.
\<close>

subsection \<open>Examples\<close>

text \<open>Tokens that differ in their text only, and a block that declares a variable.\<close>

abbreviation name_tok :: "string \<Rightarrow> token" where
  "name_tok name \<equiv> tok_on TOKEN_IDENTIFIER name 0 0"

definition number_example :: "string \<Rightarrow> expression" where
  "number_example digits = mk_number (tok_on TOKEN_INT digits 0 0) i32_type"

definition field_example :: "string \<Rightarrow> expression \<Rightarrow> statement" where
  "field_example name e = FieldDeclaration (name_tok name) none_type (Some e) True False"

definition block_example :: statement where
  "block_example = BlockStatement
     [field_example ''x'' (number_example ''1''), ExpressionStatement (mk_literal (name_tok ''x''))]"

definition first_checker :: checker where
  "first_checker = new_checker False (new_context default_options)"

definition is_done :: "'a checked \<Rightarrow> bool" where
  "is_done r = (case r of Done _ _ \<Rightarrow> True | _ \<Rightarrow> False)"

lemma is_doneE:
  assumes "is_done r"
  obtains x s where "r = Done x s"
  using assms by (cases r) (auto simp: is_done_def)

lemma block_checks: "is_done (v_statement (visitors_at 9) block_example first_checker)"
  by code_simp

lemma scoped_first_checker: "linked_scoped (types_table (new_checker memory ctx)) = [Map.empty]"
  by (simp add: new_checker_def push_new_scope_def)

lemma scopes_keep_length: "scopes_keep ms ms' \<Longrightarrow> ms \<noteq> [] \<Longrightarrow> length ms' = length ms"
  unfolding scopes_keep_def by (metis append_butlast_last_id length_append_singleton)

lemma captures_keep_length: "captures_keep ls ls' \<Longrightarrow> length ls' = length ls"
  by (auto simp: captures_keep_def split: list.splits)

subsection \<open>Scopes and stacks\<close>

text \<open>
  C24: a visitor leaves the scopes and the stacks as it found them.  Every scope that a statement opens
  is closed when the statement is accepted: the outer scopes are unchanged and the innermost keeps
  every definition it had; the return types, the number of lambdas that collect captures, the
  enumerations, the options and the reported errors are as before.
\<close>

theorem visit_statement_balanced:
  assumes "linked_scoped (types_table s) \<noteq> []" and "v_statement (visitors_at n) st s = Done st' s'"
  shows "butlast (linked_scoped (types_table s')) = butlast (linked_scoped (types_table s))
    \<and> length (linked_scoped (types_table s')) = length (linked_scoped (types_table s))
    \<and> last (linked_scoped (types_table s)) \<subseteq>\<^sub>m last (linked_scoped (types_table s'))
    \<and> return_types_stack s' = return_types_stack s
    \<and> length (lambda_implicit_parameters s') = length (lambda_implicit_parameters s)
    \<and> diagnostics (ctx_diagnostics (tcontext s')) ERROR_LEVEL
      = diagnostics (ctx_diagnostics (tcontext s)) ERROR_LEVEL
    \<and> ctx_enumerations (tcontext s') = ctx_enumerations (tcontext s)
    \<and> ctx_options (tcontext s') = ctx_options (tcontext s)"
proof -
  have "keeps s s'"
    using assms(1) by (intro frames_Done [OF checked.frames_statement _ assms(2)]) (simp add: scoped_def)
  then show ?thesis
    using assms(1) by (simp add: keeps_def scopes_keep_def errors_of_def scopes_keep_length captures_keep_length)
qed

theorem visit_statement_balanced_witness:
  "\<exists>st' s'. v_statement (visitors_at 9) block_example first_checker = Done st' s'
     \<and> length (linked_scoped (types_table s')) = 1"
  using visit_statement_balanced [of first_checker 9 block_example]
  by (metis block_checks first_checker_def is_doneE length_Cons list.distinct(1) list.size(3)
      One_nat_def scoped_first_checker)

subsection \<open>Errors\<close>

text \<open>
  C25: the type checker reports at most one error, and none for a unit it accepts.  When the loop over
  the top level nodes ends, no error was added and only the global scope is left open; when an
  exception ends it, at most one error was added.
\<close>

theorem check_compilation_unit_one_error:
  assumes "check_compilation_unit (visitors_at n) nodes (new_checker memory ctx) = Done r s"
  shows "\<exists>ds. diagnostics (ctx_diagnostics (tcontext s)) ERROR_LEVEL
      = diagnostics (ctx_diagnostics ctx) ERROR_LEVEL @ ds \<and> length ds \<le> 1
    \<and> (r \<noteq> None \<longrightarrow> ds = [] \<and> length (linked_scoped (types_table s)) = 1
        \<and> return_types_stack s = [] \<and> lambda_implicit_parameters s = [])"
proof -
  have frames: "frames (map_t (v_statement (visitors_at n)) nodes)"
    by (intro frames_map checked.frames_statement)
  have scoped: "scoped (new_checker memory ctx)"
    by (simp add: scoped_def scoped_first_checker)
  show ?thesis
  proof (cases "map_t (v_statement (visitors_at n)) nodes (new_checker memory ctx)")
    case (Done nodes' s')
    then have "keeps (new_checker memory ctx) s'" using frames scoped by (rule_tac frames_Done)
    then show ?thesis
      using assms Done scopes_keep_length [of "[Map.empty]" "linked_scoped (types_table s')"]
      by (simp add: check_compilation_unit_def keeps_def errors_of_def captures_keep_def
          new_checker_def push_new_scope_def)
  next
    case (Thrown s')
    then have "throws (new_checker memory ctx) s'" using frames scoped by (rule_tac frames_Thrown)
    then show ?thesis
      using assms Thrown
      by (auto simp: check_compilation_unit_def throws_def errors_of_def new_checker_def)
  qed (use assms in \<open>auto simp: check_compilation_unit_def\<close>)
qed

theorem check_compilation_unit_one_error_witness:
  "\<exists>s ds. check_compilation_unit (visitors_at 9) [field_example ''x'' (number_example ''300000000000'')]
      first_checker = Done None s
    \<and> diagnostics (ctx_diagnostics (tcontext s)) ERROR_LEVEL = ds \<and> length ds \<le> 1"
proof -
  have "case check_compilation_unit (visitors_at 9) [field_example ''x'' (number_example ''300000000000'')]
      first_checker of Done None _ \<Rightarrow> True | _ \<Rightarrow> False"
    by code_simp
  then obtain s where "check_compilation_unit (visitors_at 9)
      [field_example ''x'' (number_example ''300000000000'')] first_checker = Done None s"
    by (auto split: checked.splits option.splits)
  then show ?thesis
    using check_compilation_unit_one_error [of 9 _ False "new_context default_options" None s]
    by (simp add: first_checker_def new_context_def new_diagnostic_engine_def)
qed

subsection \<open>Fuel\<close>



subsection \<open>The program is kept\<close>

text \<open>
  C27: the type checker annotates the program and changes nothing else.  The tree that it leaves for an
  accepted unit has the shape of the tree it was given: the same nodes with the same names, literals,
  operators and subtrees in the same places.  Only types, captured variables, generic arguments,
  constant flags and the indices of members are written.
\<close>

theorem check_compilation_unit_keeps_program:
  assumes "check_compilation_unit (visitors_at n) nodes s = Done (Some nodes') s'"
  shows "map stmt_shape nodes' = map stmt_shape nodes"
proof -
  have "returns (map_t (v_statement (visitors_at n)) nodes) (\<lambda>ss. map stmt_shape ss = map stmt_shape nodes)"
    by (rule returns_map_same [OF shape.shaped_statement])
  then show ?thesis
    using assms by (auto simp: returns_def check_compilation_unit_def split: checked.splits)
qed

theorem check_compilation_unit_keeps_program_witness:
  "\<exists>nodes' s'. check_compilation_unit (visitors_at 9) [block_example] first_checker = Done (Some nodes') s'
     \<and> map stmt_shape nodes' = map stmt_shape [block_example]"
proof -
  have "case check_compilation_unit (visitors_at 9) [block_example] first_checker of
      Done (Some _) _ \<Rightarrow> True | _ \<Rightarrow> False"
    by code_simp
  then show ?thesis
    using check_compilation_unit_keeps_program [of 9 "[block_example]" first_checker]
    by (auto split: checked.splits option.splits)
qed

end
