(* ===== verification/Checker_Endless.thy ===== *)
theory Checker_Endless
  imports Checker_Guarantees
begin

text \<open>
  A generic function that calls itself.  \<open>visit(CallExpression)\<close> visits the body of the generic function
  at every call, also at the calls in the body itself, and no record of the instances that are already
  being checked stops it.
\<close>

subsection \<open>The program \<open>fun f<T>(x T) void { f(1); }\<close>\<close>





















end
