(* ===== verification/Checker_Collision.thy ===== *)
theory Checker_Collision
  imports Checker_Guarantees
begin

text \<open>
  The empty exception handler of \<open>check_compilation_unit\<close> together with the table that holds variables
  and instances of generic structures under one set of names.
\<close>







end
