(* ===== verification/Driver.thy ===== *)
theory Driver
  imports Front_End Checker_Statements
begin

text \<open>
  The compiler driver: \<open>src/main.cpp\<close>, \<open>src/amun_command.cpp\<close>, \<open>src/amun_compiler.cpp\<close> and
  \<open>src/amun_external_linker.cpp\<close>.  A command prints, creates directories and files, and runs the linker;
  these effects are a record.  What LLVM, the backend and the system do is the parameter \<open>toolchain\<close>.
\<close>

subsection \<open>Effects and outcomes\<close>

record effects =
  stdout :: string
  directories :: "string list"
  written :: "(string \<times> string) list"
  commands_run :: "string list"

definition no_effects :: effects where
  "no_effects = \<lparr>stdout = [], directories = [], written = [], commands_run = []\<rparr>"

text \<open>How the process ends: with an exit code, by an abort or undefined behaviour, or not at all.\<close>

datatype ending =
    Ends int
  | ParserAborts crash
  | CheckerFails fault
  | BackendFails
  | EscapedException
  | Hangs

type_synonym 'a driver = "effects \<Rightarrow> effects \<times> (ending + 'a)"

definition return_d :: "'a \<Rightarrow> 'a driver" where
  "return_d x e = (e, Inr x)"

definition end_d :: "ending \<Rightarrow> 'a driver" where
  "end_d r e = (e, Inl r)"

definition bind_d :: "'a driver \<Rightarrow> ('a \<Rightarrow> 'b driver) \<Rightarrow> 'b driver" where
  "bind_d m f e = (case m e of (e', Inl r) \<Rightarrow> (e', Inl r) | (e', Inr x) \<Rightarrow> f x e')"

definition then_d :: "unit driver \<Rightarrow> 'b driver \<Rightarrow> 'b driver" where
  "then_d m n = bind_d m (\<lambda>_. n)"

definition print_d :: "string \<Rightarrow> unit driver" where
  "print_d s e = (e\<lparr>stdout := stdout e @ s\<rparr>, Inr ())"

definition write_d :: "string \<Rightarrow> string \<Rightarrow> unit driver" where
  "write_d path content e = (e\<lparr>written := written e @ [(path, content)]\<rparr>, Inr ())"

text \<open>\<open>return code\<close> of a command and \<open>exit(code)\<close>, with a last line.\<close>

definition finish_d :: "string \<Rightarrow> int \<Rightarrow> 'a driver" where
  "finish_d s code = then_d (print_d s) (end_d (Ends code))"

definition exit_success :: int where
  "exit_success = 0"

definition newline :: string where
  "newline = [CHR 0x0A]"

text \<open>
  \<open>find_program\<close> is \<open>llvm::sys::findProgramByName\<close>, \<open>backend\<close> the constructor and \<open>compile\<close> of the backend
  (\<open>None\<close> when it does not return), \<open>open_error\<close> and \<open>lookup_error\<close> the error messages of
  \<open>raw_fd_ostream\<close> and \<open>lookupTarget\<close>, \<open>cannot_emit\<close> is \<open>addPassesToEmitFile\<close>, \<open>object_code\<close> what the pass
  manager writes for a processor and its features, \<open>run_system\<close> is \<open>std::system\<close>.
\<close>

record 'm toolchain =
  find_program :: "string \<Rightarrow> bool"
  backend :: "string \<Rightarrow> statement list option \<Rightarrow> 'm option"
  has_function :: "'m \<Rightarrow> string \<Rightarrow> bool"
  open_error :: "string \<Rightarrow> string"
  lookup_error :: string
  cannot_emit :: bool
  host_cpu_name :: string
  host_cpu_features :: "(string \<times> bool) list"
  object_code :: "'m \<Rightarrow> string \<Rightarrow> string \<Rightarrow> string"
  module_text :: "'m \<Rightarrow> string"
  run_system :: "string \<Rightarrow> int"

subsection \<open>The front half\<close>

definition diagnostics_text :: "file_system \<Rightarrow> diagnostic_level \<Rightarrow> compile_context \<Rightarrow> string" where
  "diagnostics_text fs l ctx =
     fst (report_diagnostics (file_content fs) l (ctx_diagnostics ctx) (ctx_source_manager ctx))"

text \<open>
  \<open>Compiler::parse_source_code\<close> with what it prints.  A path that does not exist is reported by the logger,
  whose colours, file name and line number are left out; the commands test the path before.
\<close>

definition parse_d :: "file_system \<Rightarrow> nat \<Rightarrow> string \<Rightarrow> compile_context
    \<Rightarrow> (statement list \<times> compile_context) driver" where
  "parse_d fs depth source_file ctx = (case parse_source_code fs depth source_file ctx of
     Continues nodes ctx' \<Rightarrow> return_d (nodes, ctx')
   | Exited code ctx' \<Rightarrow> finish_d
       (if file_exists fs source_file then diagnostics_text fs ERROR_LEVEL ctx'
        else ''Path '' @ source_file @ '' not exists'' @ newline) code
   | Aborted c \<Rightarrow> end_d (ParserAborts c)
   | Uncaught \<Rightarrow> end_d EscapedException
   | Endless \<Rightarrow> end_d Hangs)"

text \<open>
  The type checker, whose memory is initially \<open>memory\<close>.  The tree that an exception leaves half
  annotated is \<open>None\<close>.
\<close>

definition type_check_d :: "nat \<Rightarrow> bool \<Rightarrow> statement list \<Rightarrow> compile_context
    \<Rightarrow> (statement list option \<times> compile_context) driver" where
  "type_check_d fuel memory nodes ctx =
     (case check_compilation_unit (visitors_at fuel) nodes (new_checker memory ctx) of
        Done r s \<Rightarrow> return_d (r, tcontext s)
      | Thrown s \<Rightarrow> end_d EscapedException
      | Failed f \<Rightarrow> end_d (CheckerFails f)
      | NoFuel \<Rightarrow> end_d Hangs)"

text \<open>The reports and the two exits that follow the type checker in all four compilation functions.\<close>

definition report_d :: "file_system \<Rightarrow> compile_context \<Rightarrow> unit driver" where
  "report_d fs ctx =
     (let options = ctx_options ctx;
          warnings = level_count WARNING_LEVEL (ctx_diagnostics ctx) > 0
      in then_d (if should_report_warns options \<and> warnings
           then print_d (diagnostics_text fs WARNING_LEVEL ctx) else return_d ())
         (if level_count ERROR_LEVEL (ctx_diagnostics ctx) > 0
          then finish_d (diagnostics_text fs ERROR_LEVEL ctx) exit_failure
          else if convert_warns_to_errors options \<and> warnings then end_d (Ends exit_failure)
          else return_d ()))"

definition front_half :: "file_system \<Rightarrow> nat \<Rightarrow> nat \<Rightarrow> bool \<Rightarrow> string \<Rightarrow> compile_context
    \<Rightarrow> (statement list option \<times> compile_context) driver" where
  "front_half fs depth fuel memory source_file ctx =
     bind_d (parse_d fs depth source_file ctx) (\<lambda>(nodes, ctx).
     bind_d (type_check_d fuel memory nodes ctx) (\<lambda>(nodes, ctx).
     then_d (report_d fs ctx) (return_d (nodes, ctx))))"

definition check_source_code :: "file_system \<Rightarrow> nat \<Rightarrow> nat \<Rightarrow> bool \<Rightarrow> string \<Rightarrow> compile_context
    \<Rightarrow> unit driver" where
  "check_source_code fs depth fuel memory source_file ctx =
     bind_d (front_half fs depth fuel memory source_file ctx) (\<lambda>_.
     finish_d (''Source code in '' @ source_file @ '' is valid'' @ newline) exit_success)"

subsection \<open>The linker\<close>

definition potentials_linkes_names :: "string list" where
  "potentials_linkes_names = [''clang'', ''gcc'']"

text \<open>\<open>check_aviable_linker\<close>: the linker that is chosen.\<close>

definition check_aviable_linker :: "'m toolchain \<Rightarrow> string option" where
  "check_aviable_linker tools = find (find_program tools) potentials_linkes_names"

definition linker_command :: "string \<Rightarrow> string list \<Rightarrow> string \<Rightarrow> string" where
  "linker_command linker linker_flags object_file_path =
     linker @ concat (map (\<lambda>flag. '' '' @ flag) linker_flags) @ '' '' @ object_file_path @ '' -o ''
     @ take (length object_file_path - 2) object_file_path"

definition link_d :: "'m toolchain \<Rightarrow> string \<Rightarrow> int driver" where
  "link_d tools command e = (e\<lparr>commands_run := commands_run e @ [command]\<rparr>, Inr (run_system tools command))"

subsection \<open>Compilation\<close>

definition backend_d :: "'m toolchain \<Rightarrow> string \<Rightarrow> statement list option \<Rightarrow> 'm driver" where
  "backend_d tools source_file nodes = (case backend tools source_file nodes of
     Some m \<Rightarrow> return_d m | None \<Rightarrow> end_d BackendFails)"

text \<open>The part that writes the object file: opening the file truncates it before the other tests.\<close>

definition emit_object_d :: "'m toolchain \<Rightarrow> 'm \<Rightarrow> string \<Rightarrow> string \<Rightarrow> string \<Rightarrow> unit driver" where
  "emit_object_d tools llvm_ir_module object_file_path cpu_name features =
     (if open_error tools object_file_path \<noteq> ''Success''
      then finish_d (''Can't create output file '' @ open_error tools object_file_path @ newline) exit_failure
      else then_d (write_d object_file_path '''')
       (if lookup_error tools \<noteq> '''' then finish_d (lookup_error tools @ newline) exit_failure
        else if cannot_emit tools
        then finish_d (''Target machine can't emit a file of this type'' @ newline) exit_failure
        else write_d object_file_path (object_code tools llvm_ir_module cpu_name features)))"

text \<open>What follows the front half in \<open>compile_source_code\<close>.\<close>

definition build_executable_d :: "'m toolchain \<Rightarrow> string \<Rightarrow> string list \<Rightarrow> string
    \<Rightarrow> statement list option \<times> compile_context \<Rightarrow> unit driver" where
  "build_executable_d tools linker linker_flags source_file = (\<lambda>(nodes, ctx).
     bind_d (backend_d tools source_file nodes) (\<lambda>llvm_ir_module.
     if \<not> has_function tools llvm_ir_module ''main''
     then finish_d (''consider adding a `main` function to '' @ source_file @ newline) exit_failure
     else
       let object_file_path = output_file_name (ctx_options ctx) @ ''.o''
       in then_d (emit_object_d tools llvm_ir_module object_file_path ''generic'' '''')
         (bind_d (link_d tools (linker_command linker linker_flags object_file_path)) (\<lambda>result.
          finish_d (if result = 0
            then ''Successfully compiled '' @ source_file @ '' to executable'' @ newline
            else ''External Linker error'' @ newline) result))))"

definition compile_source_code :: "'m toolchain \<Rightarrow> file_system \<Rightarrow> nat \<Rightarrow> nat \<Rightarrow> bool \<Rightarrow> string
    \<Rightarrow> compile_context \<Rightarrow> unit driver" where
  "compile_source_code tools fs depth fuel memory source_file ctx =
     (let linker_flags = [''-no-pie'', ''-flto''] @ linker_extra_flags (ctx_options ctx)
      in case check_aviable_linker tools of
           None \<Rightarrow> finish_d (''No aviable linker please install one of thoses options'' @ newline
             @ concat (map (\<lambda>name. ''    -'' @ name @ newline) potentials_linkes_names)) exit_failure
         | Some linker \<Rightarrow> bind_d (front_half fs depth fuel memory source_file ctx)
             (build_executable_d tools linker linker_flags source_file))"

text \<open>The features of the processor, separated by commas.\<close>

definition cpu_features :: "(string \<times> bool) list \<Rightarrow> string" where
  "cpu_features host_features = fold (\<lambda>(name, enabled) features.
     features @ (if features \<noteq> '''' then '','' else '''') @ (if enabled then ''+'' else ''-'') @ name)
     host_features ''''"

definition build_object_d :: "'m toolchain \<Rightarrow> string \<Rightarrow> statement list option \<times> compile_context
    \<Rightarrow> unit driver" where
  "build_object_d tools source_file = (\<lambda>(nodes, ctx).
     bind_d (backend_d tools source_file nodes) (\<lambda>llvm_ir_module.
     let use = use_cpu_features (ctx_options ctx)
     in then_d (emit_object_d tools llvm_ir_module (output_file_name (ctx_options ctx) @ ''.o'')
          (if use then host_cpu_name tools else ''generic'')
          (if use then cpu_features (host_cpu_features tools) else ''''))
        (finish_d (''Successfully compiled '' @ source_file @ '' to object file'' @ newline) exit_success)))"

definition compile_to_object_file_from_source_code :: "'m toolchain \<Rightarrow> file_system \<Rightarrow> nat \<Rightarrow> nat \<Rightarrow> bool
    \<Rightarrow> string \<Rightarrow> compile_context \<Rightarrow> unit driver" where
  "compile_to_object_file_from_source_code tools fs depth fuel memory source_file ctx =
     bind_d (front_half fs depth fuel memory source_file ctx) (build_object_d tools source_file)"

definition build_ir_d :: "'m toolchain \<Rightarrow> string \<Rightarrow> statement list option \<times> compile_context
    \<Rightarrow> unit driver" where
  "build_ir_d tools source_file = (\<lambda>(nodes, ctx).
     bind_d (backend_d tools source_file nodes) (\<lambda>llvm_ir_module.
     let ir_file_name = output_file_name (ctx_options ctx) @ ''.ll''
     in if open_error tools ir_file_name \<noteq> ''Success''
        then finish_d (''Can't create output file '' @ open_error tools ir_file_name @ newline) exit_failure
        else then_d (write_d ir_file_name (module_text tools llvm_ir_module))
          (finish_d (''Successfully compiled '' @ source_file @ '' to '' @ ir_file_name @ newline)
            exit_success)))"

definition emit_llvm_ir_from_source_code :: "'m toolchain \<Rightarrow> file_system \<Rightarrow> nat \<Rightarrow> nat \<Rightarrow> bool
    \<Rightarrow> string \<Rightarrow> compile_context \<Rightarrow> unit driver" where
  "emit_llvm_ir_from_source_code tools fs depth fuel memory source_file ctx =
     bind_d (front_half fs depth fuel memory source_file ctx) (build_ir_d tools source_file)"

subsection \<open>The commands of \<open>main.cpp\<close>\<close>

text \<open>What \<open>create_new_directory\<close> and \<open>create_file_with_content\<close> do.\<close>

definition create_new_directory :: "string \<Rightarrow> unit driver" where
  "create_new_directory path e = (e\<lparr>directories := directories e @ [path]\<rparr>, Inr ())"

definition hello_source :: string where
  "hello_source = ''import '' @ [CHR 0x22] @ ''cstdio'' @ [CHR 0x22] @ newline @ newline
     @ ''fun main() {'' @ newline
     @ ''    printf('' @ [CHR 0x22] @ ''Hello, World!'' @ [CHR 0x5C] @ ''n'' @ [CHR 0x22] @ '');'' @ newline @ ''}''"

text \<open>
  \<open>argv\<close> is the list of the arguments, the name of the program first, and \<open>argc\<close> its length.
\<close>

definition execute_create_command :: "file_system \<Rightarrow> string list \<Rightarrow> unit driver" where
  "execute_create_command fs argv =
     (if length argv < 3
      then finish_d (''Invalid number of arguments for create command expect 3 but got ''
        @ to_string (int (length argv)) @ newline @ ''Usage : '' @ argv ! 0 @ '' create <project name>'' @ newline)
        exit_failure
      else
        let project_name = argv ! 2
        in if file_exists fs project_name
           then finish_d (''Directory with name '' @ project_name @ '' is already exists.'' @ newline) exit_failure
           else then_d (create_new_directory project_name)
             (then_d (write_d (project_name @ ''/main.amun'') hello_source)
             (finish_d (''New Project '' @ project_name @ '' is created'' @ newline) exit_success)))"

definition language_extension :: string where
  "language_extension = ''.amun''"

text \<open>The checks on the arguments that the commands with a source file share.\<close>

definition source_command :: "file_system \<Rightarrow> string list \<Rightarrow> string \<Rightarrow> string \<Rightarrow> (string \<Rightarrow> unit driver)
    \<Rightarrow> unit driver" where
  "source_command fs argv invalid usage run =
     (if length argv < 3
      then finish_d (invalid @ to_string (int (length argv)) @ newline @ ''Usage : '' @ argv ! 0 @ usage @ newline)
        exit_failure
      else
        let source_file = argv ! 2
        in if \<not> file_exists fs source_file
           then finish_d (''Path '' @ source_file @ '' not exists'' @ newline) exit_failure
           else if \<not> is_ends_with source_file language_extension
           then finish_d (''Invalid source file extension, file must end with `'' @ language_extension @ ''`''
             @ newline) exit_failure
           else run source_file)"

definition compile_usage :: "file_system \<Rightarrow> string list \<Rightarrow> (string \<Rightarrow> unit driver) \<Rightarrow> unit driver" where
  "compile_usage fs argv = source_command fs argv
     ''Invalid number of arguments for `compile` command expect at last 3 but got '' '' compile <file> <options>''"

text \<open>The context of a command with options: \<open>parse_compiler_options\<close> exits on a wrong option.\<close>

definition with_options :: "string list \<Rightarrow> (compile_context \<Rightarrow> unit driver) \<Rightarrow> unit driver" where
  "with_options argv run = (case parse_compiler_options argv default_options of
     Inl text \<Rightarrow> finish_d text exit_failure
   | Inr options \<Rightarrow> run (new_context options))"

definition execute_compile_command :: "'m toolchain \<Rightarrow> file_system \<Rightarrow> nat \<Rightarrow> nat \<Rightarrow> bool
    \<Rightarrow> string list \<Rightarrow> unit driver" where
  "execute_compile_command tools fs depth fuel memory argv = compile_usage fs argv
     (\<lambda>source_file. with_options argv (compile_source_code tools fs depth fuel memory source_file))"

definition execute_object_command :: "'m toolchain \<Rightarrow> file_system \<Rightarrow> nat \<Rightarrow> nat \<Rightarrow> bool
    \<Rightarrow> string list \<Rightarrow> unit driver" where
  "execute_object_command tools fs depth fuel memory argv = compile_usage fs argv (\<lambda>source_file.
     with_options argv (compile_to_object_file_from_source_code tools fs depth fuel memory source_file))"

definition emit_llvm_ir_coomand :: "'m toolchain \<Rightarrow> file_system \<Rightarrow> nat \<Rightarrow> nat \<Rightarrow> bool
    \<Rightarrow> string list \<Rightarrow> unit driver" where
  "emit_llvm_ir_coomand tools fs depth fuel memory argv = compile_usage fs argv (\<lambda>source_file.
     with_options argv (emit_llvm_ir_from_source_code tools fs depth fuel memory source_file))"

definition execute_check_command :: "file_system \<Rightarrow> nat \<Rightarrow> nat \<Rightarrow> bool \<Rightarrow> string list \<Rightarrow> unit driver" where
  "execute_check_command fs depth fuel memory argv = source_command fs argv
     ''Invalid number of arguments for `check` command expect 3 but got '' '' check <file>''
     (\<lambda>source_file. check_source_code fs depth fuel memory source_file (new_context default_options))"

definition execute_version_command :: "unit driver" where
  "execute_version_command = finish_d (''Language version is 0.0.1'' @ newline) exit_success"

definition execute_help_command :: "string list \<Rightarrow> unit driver" where
  "execute_help_command argv = finish_d (''Usage: '' @ argv ! 0 @ '' <command> <options>'' @ newline
     @ concat (map (\<lambda>line. line @ newline)
      [''Commands:'',
       ''    - create  <name>           : Create a new project with Hello world code.'',
       ''    - compile <file> <options> : Compile source files to executables with options.'',
       ''    - object  <file> <options> : Compile source files to object file with options.'',
       ''    - emit-ir <file> <options> : Compile source to llvm ir files with options.'',
       ''    - check   <file>           : Check if the source code is valid.'',
       ''    - version                  : Print the current compiler version.'',
       ''    - help                     : Print how to use and list of commands.'',
       ''Options:'',
       ''    -o  <name>                 : Set the output exeutable name.'',
       ''    -w                         : Enable reporting warns, disabled by default.'',
       ''    -werr                      : Convert warns to erros.'']) ) exit_success"

subsection \<open>\<open>CommandMap\<close>\<close>

type_synonym command_map = "string \<rightharpoonup> (string list \<Rightarrow> unit driver)"

definition registerCommand :: "string \<Rightarrow> (string list \<Rightarrow> unit driver) \<Rightarrow> command_map \<Rightarrow> command_map" where
  "registerCommand name command commands_map = commands_map(name \<mapsto> command)"

definition executeCommand :: "command_map \<Rightarrow> string list \<Rightarrow> unit driver" where
  "executeCommand commands_map argv =
     (if length argv < 2
      then finish_d (''Usage: '' @ argv ! 0 @ '' <command> <options>'' @ newline) exit_failure
      else case commands_map (argv ! 1) of
        None \<Rightarrow> finish_d (''Can't find command with name '' @ argv ! 1 @ newline
          @ ''Please run amun help to get the list of available commands'' @ newline) exit_failure
      | Some command \<Rightarrow> command argv)"

text \<open>\<open>main\<close>; the system keeps the low byte of what it returns.\<close>

definition exit_status :: "int \<Rightarrow> int" where
  "exit_status code = code mod 256"

definition amun_main :: "'m toolchain \<Rightarrow> file_system \<Rightarrow> nat \<Rightarrow> nat \<Rightarrow> bool \<Rightarrow> string list \<Rightarrow> unit driver" where
  "amun_main tools fs depth fuel memory argv = executeCommand
     (registerCommand ''help'' execute_help_command
     (registerCommand ''version'' (\<lambda>_. execute_version_command)
     (registerCommand ''check'' (execute_check_command fs depth fuel memory)
     (registerCommand ''emit-ir'' (emit_llvm_ir_coomand tools fs depth fuel memory)
     (registerCommand ''object'' (execute_object_command tools fs depth fuel memory)
     (registerCommand ''compile'' (execute_compile_command tools fs depth fuel memory)
     (registerCommand ''create'' (execute_create_command fs) Map.empty))))))) argv"

end
