(* ===== verification/Checker_Termination.thy ===== *)
theory Checker_Termination
  imports Checker_Shape
begin

text \<open>
  The type checker comes back.  \<open>ends I f\<close>: from every state with \<open>I\<close>, the visitor \<open>f\<close>, a function of the
  fuel, gives one and the same outcome other than \<open>NoFuel\<close> from some fuel on, and keeps \<open>I\<close>.  The
  relation is closed under the constructions the visitors are made of.  The recursion of the visitors
  follows the size of the tree, which visiting does not change, and the recursion of
  \<open>resolve_generic_type\<close> the order of the declarations of generic structures.
\<close>

subsection \<open>Coming back\<close>

named_theorems ends

definition ends :: "(checker \<Rightarrow> bool) \<Rightarrow> (nat \<Rightarrow> 'a check) \<Rightarrow> bool" where
  "ends I f \<longleftrightarrow> (\<forall>s. I s \<longrightarrow> (\<exists>r. (\<exists>n\<^sub>0. \<forall>n\<ge>n\<^sub>0. f n s = r) \<and> r \<noteq> NoFuel
     \<and> (\<forall>x s'. r = Done x s' \<longrightarrow> I s')))"

lemma endsE:
  assumes "ends I f" and "I s"
  obtains m r where "\<And>n. m \<le> n \<Longrightarrow> f n s = r" and "r \<noteq> NoFuel" and "\<And>x s'. r = Done x s' \<Longrightarrow> I s'"
  using assms unfolding ends_def by blast

lemma endsI:
  "(\<And>s. I s \<Longrightarrow> \<exists>r m. (\<forall>n\<ge>m. f n s = r) \<and> r \<noteq> NoFuel \<and> (\<forall>x s'. r = Done x s' \<longrightarrow> I s')) \<Longrightarrow> ends I f"
  by (auto simp: ends_def)

lemma ends_const:
  "(\<And>s. I s \<Longrightarrow> m s \<noteq> NoFuel \<and> (\<forall>x s'. m s = Done x s' \<longrightarrow> I s')) \<Longrightarrow> ends I (\<lambda>_. m)"
  unfolding ends_def by blast

lemma ends_bind_returns:
  assumes "ends I m" and "\<And>n. returns (m n) Q" and "\<And>x. Q x \<Longrightarrow> ends I (\<lambda>n. k n x)"
  shows "ends I (\<lambda>n. bind_t (m n) (k n))"
proof (rule endsI)
  fix s
  assume "I s"
  with assms(1) obtain a r where a: "\<And>n. a \<le> n \<Longrightarrow> m n s = r" "r \<noteq> NoFuel"
    and I: "\<And>x s'. r = Done x s' \<Longrightarrow> I s'"
    by (rule endsE) blast
  show "\<exists>r m'. (\<forall>n\<ge>m'. bind_t (m n) (k n) s = r) \<and> r \<noteq> NoFuel \<and> (\<forall>x s'. r = Done x s' \<longrightarrow> I s')"
  proof (cases r)
    case (Done x s1)
    then have "Q x" using assms(2) [of a] a(1) [of a] by (auto simp: returns_def)
    from assms(3) [OF this] obtain b r' where b: "\<And>n. b \<le> n \<Longrightarrow> k n x s1 = r'" "r' \<noteq> NoFuel"
      "\<And>y s'. r' = Done y s' \<Longrightarrow> I s'"
      using I [OF Done] by (rule endsE) blast
    show ?thesis
      using a b Done by (intro exI [of _ r'] exI [of _ "max a b"]) (auto simp: bind_t_def)
  next
    case (Thrown s1)
    then show ?thesis using a by (intro exI [of _ "Thrown s1"] exI [of _ a]) (auto simp: bind_t_def)
  next
    case (Failed c)
    then show ?thesis using a by (intro exI [of _ "Failed c"] exI [of _ a]) (auto simp: bind_t_def)
  qed (use a in simp)
qed

lemma ends_bind [ends]: "ends I m \<Longrightarrow> (\<And>x. ends I (\<lambda>n. k n x)) \<Longrightarrow> ends I (\<lambda>n. bind_t (m n) (k n))"
  by (rule ends_bind_returns [where Q = "\<lambda>_. True"]) (simp_all add: returns_def)

lemma ends_then [ends]: "ends I m \<Longrightarrow> ends I k \<Longrightarrow> ends I (\<lambda>n. then_t (m n) (k n))"
  unfolding then_t_def by (rule ends_bind)

lemma ends_return [ends]: "ends I (\<lambda>_. return_t x)"
  by (rule ends_const) (simp add: return_t_def)

lemma ends_fail [ends]: "ends I (\<lambda>_. fail_t c)" "ends I (\<lambda>_. throw_error loc msg)" "ends I (\<lambda>_. bad_any_cast)"
  by (rule ends_const; simp add: fail_t_def throw_error_def bad_any_cast_def)+

lemma ends_read [ends]: "ends I (\<lambda>_. read_t f)"
  by (rule ends_const) (simp add: read_t_def)

lemma ends_read_state:
  assumes "\<And>s. I s \<Longrightarrow> ends I (\<lambda>n. k n (f s))"
  shows "ends I (\<lambda>n. bind_t (read_t f) (k n))"
proof (rule endsI)
  fix s
  assume "I s"
  from assms [OF this] obtain a r where "\<And>n. a \<le> n \<Longrightarrow> k n (f s) s = r" "r \<noteq> NoFuel"
    "\<And>x s'. r = Done x s' \<Longrightarrow> I s'"
    using \<open>I s\<close> by (rule endsE) blast
  then show "\<exists>r m'. (\<forall>n\<ge>m'. bind_t (read_t f) (k n) s = r) \<and> r \<noteq> NoFuel \<and> (\<forall>x s'. r = Done x s' \<longrightarrow> I s')"
    by (auto simp: bind_t_def read_t_def)
qed

lemma ends_modify: "(\<And>s. I s \<Longrightarrow> I (f s)) \<Longrightarrow> ends I (\<lambda>_. modify_t f)"
  by (rule ends_const) (simp add: modify_t_def)

lemma ends_if [ends]:
  "(b \<Longrightarrow> ends I m) \<Longrightarrow> (\<not> b \<Longrightarrow> ends I k) \<Longrightarrow> ends I (\<lambda>n. if b then m n else k n)"
  by (cases b) simp_all

lemma ends_prod [ends]: "(\<And>a b. p = (a, b) \<Longrightarrow> ends I (\<lambda>n. f n a b)) \<Longrightarrow> ends I (\<lambda>n. case_prod (f n) p)"
  by (cases p) simp

lemma ends_prod2 [ends]:
  "(\<And>a b. p = (a, b) \<Longrightarrow> ends I (\<lambda>n. f n a b x)) \<Longrightarrow> ends I (\<lambda>n. case_prod (f n) p x)"
  by (cases p) simp

lemma ends_option [ends]:
  "(v = None \<Longrightarrow> ends I m) \<Longrightarrow> (\<And>x. v = Some x \<Longrightarrow> ends I (\<lambda>n. f n x)) \<Longrightarrow>
   ends I (\<lambda>n. case_option (m n) (f n) v)"
  by (cases v) simp_all

lemma ends_list [ends]:
  "(v = [] \<Longrightarrow> ends I m) \<Longrightarrow> (\<And>x xs. v = x # xs \<Longrightarrow> ends I (\<lambda>n. f n x xs)) \<Longrightarrow>
   ends I (\<lambda>n. case_list (m n) (f n) v)"
  by (cases v) simp_all

lemma ends_type_node [ends]:
  "ends I f1 \<Longrightarrow> (\<And>t. ends I (\<lambda>n. f2 n t)) \<Longrightarrow> (\<And>t k. ends I (\<lambda>n. f3 n t k)) \<Longrightarrow>
   (\<And>t k. ends I (\<lambda>n. f4 n t k)) \<Longrightarrow> ends I (\<lambda>n. case_type_node (f1 n) (f2 n) (f3 n) (f4 n) t)"
  by (cases t) simp_all

lemma ends_any_type [ends]:
  "(\<And>t. ends I (\<lambda>n. f1 n t)) \<Longrightarrow> (\<And>x. ends I (\<lambda>n. f2 n x)) \<Longrightarrow> ends I (\<lambda>n. case_any_type (f1 n) (f2 n) t)"
  by (cases t) simp_all

lemma ends_ty [ends]:
  assumes "\<And>k. ends I (\<lambda>n. f1 n k)" "\<And>b. ends I (\<lambda>n. f2 n b)"
    "\<And>c p r i v w x g y. ends I (\<lambda>n. f3 n c p r i v w x g y)"
    "\<And>e k. ends I (\<lambda>n. f4 n e k)" "\<And>e k. ends I (\<lambda>n. f5 n e k)" "\<And>c. ends I (\<lambda>n. f6 n c)"
    "\<And>c ts. ends I (\<lambda>n. f7 n c ts)" "\<And>c vs e. ends I (\<lambda>n. f8 n c vs e)"
    "\<And>c e. ends I (\<lambda>n. f9 n c e)" "\<And>c. ends I (\<lambda>n. f10 n c)" "\<And>c ps. ends I (\<lambda>n. f11 n c ps)"
    "ends I f12" "ends I f13" "ends I f14"
  shows "ends I (\<lambda>n. case_ty (f1 n) (f2 n) (f3 n) (f4 n) (f5 n) (f6 n) (f7 n) (f8 n) (f9 n) (f10 n)
    (f11 n) (f12 n) (f13 n) (f14 n) t)"
  using assms by (cases t) simp_all

lemma ends_case_expression [ends]:
  assumes "\<And>a b c d. ends I (\<lambda>n. f1 n a b c d)"
    "\<And>a b c d e f g. ends I (\<lambda>n. f2 n a b c d e f g)" "\<And>a b c. ends I (\<lambda>n. f3 n a b c)"
    "\<And>a b c d. ends I (\<lambda>n. f4 n a b c d)" "\<And>a b c d. ends I (\<lambda>n. f5 n a b c d)"
    "\<And>a b c d. ends I (\<lambda>n. f6 n a b c d)" "\<And>a b c d. ends I (\<lambda>n. f7 n a b c d)"
    "\<And>a b c d. ends I (\<lambda>n. f8 n a b c d)" "\<And>a b c. ends I (\<lambda>n. f9 n a b c)"
    "\<And>a b c. ends I (\<lambda>n. f10 n a b c)" "\<And>a b c d e. ends I (\<lambda>n. f11 n a b c d e)"
    "\<And>a b c. ends I (\<lambda>n. f12 n a b c)"
    "\<And>a b c d e f g. ends I (\<lambda>n. f13 n a b c d e f g)"
    "\<And>a b c d e f. ends I (\<lambda>n. f14 n a b c d e f)" "\<And>a b c. ends I (\<lambda>n. f15 n a b c)"
    "\<And>a. ends I (\<lambda>n. f16 n a)" "\<And>a. ends I (\<lambda>n. f17 n a)" "\<And>a. ends I (\<lambda>n. f18 n a)"
    "\<And>a b c d. ends I (\<lambda>n. f19 n a b c d)" "\<And>a b c d. ends I (\<lambda>n. f20 n a b c d)"
    "\<And>a b c d. ends I (\<lambda>n. f21 n a b c d)" "\<And>a. ends I (\<lambda>n. f22 n a)"
    "\<And>a b. ends I (\<lambda>n. f23 n a b)" "\<And>a b c. ends I (\<lambda>n. f24 n a b c)"
    "\<And>a b. ends I (\<lambda>n. f25 n a b)" "\<And>a b. ends I (\<lambda>n. f26 n a b)"
    "\<And>a b. ends I (\<lambda>n. f27 n a b)" "\<And>a b c. ends I (\<lambda>n. f28 n a b c)"
    "\<And>a b. ends I (\<lambda>n. f29 n a b)" "\<And>a. ends I (\<lambda>n. f30 n a)"
  shows "ends I (\<lambda>n. case_expression (f1 n) (f2 n) (f3 n) (f4 n) (f5 n) (f6 n) (f7 n) (f8 n) (f9 n) (f10 n) (f11 n) (f12 n) (f13 n)
    (f14 n) (f15 n) (f16 n) (f17 n) (f18 n) (f19 n) (f20 n) (f21 n) (f22 n) (f23 n) (f24 n) (f25 n) (f26 n) (f27 n)
    (f28 n) (f29 n) (f30 n) e)"
  using assms by (cases e) simp_all

lemma ends_some [ends]: "ends I (\<lambda>_. some_t c v)"
  unfolding some_t_def by (intro ends)

lemma ends_nth [ends]: "ends I (\<lambda>_. nth_t xs i)"
  unfolding nth_t_def by (intro ends)

lemma ends_error_if [ends]: "ends I (\<lambda>_. error_if b loc msg)"
  unfolding error_if_def by (intro ends)

lemma ends_map [ends]: "(\<And>x. x \<in> set xs \<Longrightarrow> ends I (\<lambda>n. f n x)) \<Longrightarrow> ends I (\<lambda>n. map_t (f n) xs)"
  by (induction xs) (auto intro!: ends)

lemma ends_each [ends]: "(\<And>x. x \<in> set xs \<Longrightarrow> ends I (\<lambda>n. f n x)) \<Longrightarrow> ends I (\<lambda>n. each_t (f n) xs)"
  by (induction xs) (auto intro!: ends)

lemma ends_fold [ends]:
  "(\<And>x b. x \<in> set xs \<Longrightarrow> ends I (\<lambda>n. f n x b)) \<Longrightarrow> ends I (\<lambda>n. fold_t (f n) xs b)"
  by (induction xs arbitrary: b) (auto intro!: ends)

lemma ends_shift: "ends I (\<lambda>n. f (Suc n)) \<Longrightarrow> ends I f"
  unfolding ends_def by (metis Suc_le_D Suc_le_mono)

lemma ends_nth_bind:
  "(\<And>x. x \<in> set xs \<Longrightarrow> ends I (\<lambda>n. k n x)) \<Longrightarrow> ends I (\<lambda>n. bind_t (nth_t xs i) (k n))"
  by (rule ends_bind_returns [where Q = "\<lambda>x. x \<in> set xs"]) (auto intro: ends returns)

lemma ends_some_bind:
  "(\<And>x. v = Some x \<Longrightarrow> ends I (\<lambda>n. k n x)) \<Longrightarrow> ends I (\<lambda>n. bind_t (some_t c v) (k n))"
  by (rule ends_bind_returns [where Q = "\<lambda>x. v = Some x"]) (auto intro: ends returns)

subsection \<open>Generic structures\<close>

text \<open>
  The generic structures are ordered by a rank: a field of a structure mentions structures of lower
  rank only.  A function type is changed in place when it is resolved, so the function types of fields
  mention neither parameters nor generic structures.
\<close>

primrec generic_rank :: "(string \<Rightarrow> nat) \<Rightarrow> ty \<Rightarrow> nat" where
  "generic_rank R (NumberType _) = 0"
| "generic_rank R (PointerType b) = generic_rank R b"
| "generic_rank R (FunctionType _ ps r _ _ _ _ _ _) = foldr max (map (generic_rank R) ps) (generic_rank R r)"
| "generic_rank R (StaticArrayType e _) = generic_rank R e"
| "generic_rank R (StaticVectorType _ _) = 0"
| "generic_rank R (StructType _) = 0"
| "generic_rank R (TupleType _ ts) = foldr max (map (generic_rank R) ts) 0"
| "generic_rank R (EnumType _ _ _) = 0"
| "generic_rank R (EnumElementType _ _) = 0"
| "generic_rank R (GenericParameterType _) = 0"
| "generic_rank R (GenericStructType name _) = Suc (R name)"
| "generic_rank R NoneType = 0"
| "generic_rank R VoidType = 0"
| "generic_rank R NullType = 0"

primrec ground :: "ty \<Rightarrow> bool" where
  "ground (NumberType _) = True"
| "ground (PointerType b) = ground b"
| "ground (FunctionType _ ps r _ _ _ _ _ _) = (list_all id (map ground ps) \<and> ground r)"
| "ground (StaticArrayType e _) = ground e"
| "ground (StaticVectorType _ _) = True"
| "ground (StructType _) = True"
| "ground (TupleType _ ts) = list_all id (map ground ts)"
| "ground (EnumType _ _ _) = True"
| "ground (EnumElementType _ _) = True"
| "ground (GenericParameterType _) = False"
| "ground (GenericStructType _ _) = False"
| "ground NoneType = True"
| "ground VoidType = True"
| "ground NullType = True"

primrec field_ok :: "(string \<Rightarrow> nat) \<Rightarrow> nat \<Rightarrow> ty \<Rightarrow> bool" where
  "field_ok R k (NumberType _) = True"
| "field_ok R k (PointerType b) = field_ok R k b"
| "field_ok R k (FunctionType _ ps r _ _ _ _ _ _) = (list_all ground ps \<and> ground r)"
| "field_ok R k (StaticArrayType e _) = field_ok R k e"
| "field_ok R k (StaticVectorType _ _) = True"
| "field_ok R k (StructType _) = True"
| "field_ok R k (TupleType _ ts) = list_all id (map (field_ok R k) ts)"
| "field_ok R k (EnumType _ _ _) = True"
| "field_ok R k (EnumElementType _ _) = True"
| "field_ok R k (GenericParameterType _) = True"
| "field_ok R k (GenericStructType name _) = (R name < k)"
| "field_ok R k NoneType = True"
| "field_ok R k VoidType = True"
| "field_ok R k NullType = True"

lemma foldr_max_le: "foldr max ks (a :: nat) \<le> k \<longleftrightarrow> (\<forall>x \<in> set ks. x \<le> k) \<and> a \<le> k"
  by (induction ks) auto

lemma ground_rank: "ground t \<Longrightarrow> generic_rank R t = 0"
proof (induction t)
  case (FunctionType c ps r i v w x g y)
  then have "generic_rank R (FunctionType c ps r i v w x g y) \<le> 0"
    by (auto simp: foldr_max_le list_all_iff simp del: le_zero_eq)
  then show ?case by simp
next
  case (TupleType c ts)
  then have "generic_rank R (TupleType c ts) \<le> 0"
    by (auto simp: foldr_max_le list_all_iff simp del: le_zero_eq)
  then show ?case by simp
qed simp_all

lemma field_ok_rank: "field_ok R k t \<Longrightarrow> generic_rank R t \<le> k"
  by (induction t) (auto simp: foldr_max_le list_all_iff ground_rank)

definition simple_state :: "(string \<Rightarrow> nat) \<Rightarrow> checker \<Rightarrow> bool" where
  "simple_state R s \<longleftrightarrow> generic_functions s = Map.empty
     \<and> (\<forall>name st. ctx_structures (tcontext s) name = Some st
          \<longrightarrow> list_all (field_ok R (R name)) (fields_types st))"

lemma ends_updates [ends]:
  "ends (simple_state R) (\<lambda>_. modify_t (\<lambda>s. s\<lparr>types_table := f1 s\<rparr>))"
  "ends (simple_state R) (\<lambda>_. modify_t (\<lambda>s. s\<lparr>return_types_stack := f2 s\<rparr>))"
  "ends (simple_state R) (\<lambda>_. modify_t (\<lambda>s. s\<lparr>generic_types := f3 s\<rparr>))"
  "ends (simple_state R) (\<lambda>_. modify_t (\<lambda>s. s\<lparr>struct_instances := f4 s\<rparr>))"
  "ends (simple_state R) (\<lambda>_. modify_t (\<lambda>s. s\<lparr>is_inside_lambda_body := f5 s\<rparr>))"
  "ends (simple_state R) (\<lambda>_. modify_t (\<lambda>s. s\<lparr>lambda_implicit_parameters := f6 s\<rparr>))"
  "ends (simple_state R) (\<lambda>_. modify_t (\<lambda>s. s\<lparr>is_inside_lambda_body := f7 s, lambda_implicit_parameters := f8 s\<rparr>))"
  "ends (simple_state R) (\<lambda>_. modify_t (update_diagnostics g))"
  by (rule ends_modify; simp add: simple_state_def update_diagnostics_def)+

lemma ends_declared:
  assumes "\<And>st. list_all (field_ok R (R name)) (fields_types st) \<Longrightarrow> ends (simple_state R) (\<lambda>n. k n st)"
  shows "ends (simple_state R) (\<lambda>n. bind_t (declared_structure_t name) (k n))"
proof (rule endsI)
  fix s
  assume I: "simple_state R s"
  show "\<exists>r m. (\<forall>n\<ge>m. bind_t (declared_structure_t name) (k n) s = r) \<and> r \<noteq> NoFuel
      \<and> (\<forall>x s'. r = Done x s' \<longrightarrow> simple_state R s')"
  proof (cases "ctx_structures (tcontext s) name")
    case None
    then show ?thesis
      by (auto simp: declared_structure_t_def bind_t_def read_t_def some_t_def fail_t_def)
  next
    case (Some st)
    with I have "list_all (field_ok R (R name)) (fields_types st)" by (simp add: simple_state_def)
    from assms [OF this] obtain a r where "\<And>n. a \<le> n \<Longrightarrow> k n st s = r" "r \<noteq> NoFuel"
      "\<And>x s'. r = Done x s' \<Longrightarrow> simple_state R s'"
      using I by (rule endsE) blast
    then show ?thesis
      using Some by (auto simp: declared_structure_t_def bind_t_def read_t_def some_t_def return_t_def)
  qed
qed

subsection \<open>\<open>resolve_generic_type\<close>\<close>

text \<open>The type that is changed in place stays in its place in the order.\<close>

definition resolves_in_order :: "ty \<Rightarrow> ty \<times> ty \<Rightarrow> bool" where
  "resolves_in_order t x \<longleftrightarrow> (ground t \<longrightarrow> ground (fst x) \<and> ground (snd x))
     \<and> (\<forall>R k. field_ok R k t \<longrightarrow> field_ok R k (fst x))"

lemma resolve_in_order: "returns (v_resolve (visitors_at n) t names params) (resolves_in_order t)"
proof (induction n arbitrary: t)
  case 0
  show ?case by (simp add: returns)
next
  case (Suc n)
  note IH = returns_mono [OF Suc.IH] returns_mono [OF returns_map_all [OF Suc.IH]]
  have "returns (resolve_generic_type (visitors_at n) t names params) (resolves_in_order t)"
  proof (cases t)
    case (FunctionType c ps r i v w x g y)
    then show ?thesis
      unfolding resolve_generic_type_def Let_def
      by (simp only: ty.case)
        (intro returns IH; auto simp: resolves_in_order_def list_all_length list_all2_conv_all_nth)
  next
    case (TupleType c ts)
    then show ?thesis
      unfolding resolve_generic_type_def Let_def
      by (simp only: ty.case)
        (intro returns IH; auto simp: resolves_in_order_def list_all_length list_all2_conv_all_nth)
  next
    case (GenericStructType c ps)
    then show ?thesis
      unfolding resolve_generic_type_def resolve_generic_struct_def Let_def
      by (simp only: ty.case)
        (intro returns returns_any [where m = "declared_structure_t c"]
          returns_any [where m = "map_t f xs" for f :: "ty \<Rightarrow> ty check" and xs]
          returns_any [where m = "map_t f xs" for f :: "nat \<Rightarrow> ty check" and xs] returns_any [where m = "read_t f" for f];
         auto simp: resolves_in_order_def intro!: returns split: any_type.split)
  qed (simp only: resolve_generic_type_def Let_def ty.case;
       intro returns IH returns_any [where m = "read_t f" for f] returns_any [where m = "generic_type_t g" for g];
       auto simp: resolves_in_order_def intro!: returns returns_any)+
  then show ?case by (simp add: visitors_step_def)
qed

lemma ends_lookups [ends]:
  "ends I (\<lambda>_. type_of_node x)" "ends I (\<lambda>_. structure_t name)" "ends I (\<lambda>_. enumeration_t name)"
  "ends I (\<lambda>_. generic_type_t name)" "ends I (\<lambda>_. is_type_defined name)" "ends I (\<lambda>_. lookup_type name)"
  "ends I (\<lambda>_. top_return_type)" "ends I (\<lambda>_. function_pointer_t t)" "ends I (\<lambda>_. instance_name_free name)"
  unfolding type_of_node_def structure_t_def enumeration_t_def generic_type_t_def is_type_defined_def
    lookup_type_def top_return_type_def function_pointer_t_def instance_name_free_def
  by (intro ends)+

lemma ends_tables [ends]:
  "ends (simple_state R) (\<lambda>_. define_type name v)" "ends (simple_state R) (\<lambda>_. define_any name v)"
  "ends (simple_state R) (\<lambda>_. define_once name v loc msg)" "ends (simple_state R) (\<lambda>_. push_return_type t)"
  "ends (simple_state R) (\<lambda>_. pop_return_type)" "ends (simple_state R) (\<lambda>_. warn_t loc msg)"
  unfolding define_any_def define_once_def define_type_def push_return_type_def pop_return_type_def warn_t_def
  by (intro ends)+

lemma ends_in_new_scope [ends]:
  "ends (simple_state R) m \<Longrightarrow> ends (simple_state R) (\<lambda>n. in_new_scope (m n))"
  unfolding in_new_scope_def push_new_scope_t_def pop_current_scope_t_def by (intro ends)

lemma simple_state_update:
  assumes "simple_state R s" and "field_ok R (R name) t"
  shows "simple_state R (s\<lparr>tcontext := (tcontext s)\<lparr>ctx_structures := (ctx_structures (tcontext s))
    (name := map_option (\<lambda>st. st\<lparr>fields_types := (fields_types st)[i := t]\<rparr>)
      (ctx_structures (tcontext s) name))\<rparr>\<rparr>)"
proof -
  have "list_all (field_ok R (R name)) (ts[i := t])" if "list_all (field_ok R (R name)) ts" for ts
    using that assms(2) set_update_subset_insert [of ts i t] by (auto simp: list_all_iff)
  then show ?thesis using assms(1) by (auto simp: simple_state_def)
qed

lemma ends_resolve_struct:
  assumes "\<And>t names params. generic_rank R t \<le> R name \<Longrightarrow> ends (simple_state R) (\<lambda>n. v_resolve (visitors_at n) t names params)"
  shows "ends (simple_state R) (\<lambda>n. resolve_generic_struct (visitors_at n) name ps names params)"
proof -
  have "ends (simple_state R) (\<lambda>n. resolve_field (visitors_at n) name st0 ts i)" for st0 ts i
    unfolding resolve_field_def
  proof (rule ends_declared, rule ends_nth_bind)
    fix st field
    assume "list_all (field_ok R (R name)) (fields_types st)" and "field \<in> set (fields_types st)"
    then have field: "field_ok R (R name) field" by (simp add: list_all_iff)
    show "ends (simple_state R) (\<lambda>n. bind_t (v_resolve (visitors_at n) field (generic_parameters st0) ts)
      (\<lambda>(changed, resolved). then_t (modify_t (\<lambda>s. s\<lparr>tcontext := (tcontext s)\<lparr>ctx_structures :=
         (ctx_structures (tcontext s))(name := map_option
            (\<lambda>st. st\<lparr>fields_types := (fields_types st)[i := changed]\<rparr>)
            (ctx_structures (tcontext s) name))\<rparr>\<rparr>)) (return_t resolved)))"
    proof (rule ends_bind_returns [OF assms resolve_in_order])
      fix x
      assume "resolves_in_order field x"
      with field have "field_ok R (R name) (fst x)" by (simp add: resolves_in_order_def)
      then show "ends (simple_state R) (\<lambda>n. case x of (changed, resolved) \<Rightarrow>
        then_t (modify_t (\<lambda>s. s\<lparr>tcontext := (tcontext s)\<lparr>ctx_structures :=
         (ctx_structures (tcontext s))(name := map_option
            (\<lambda>st. st\<lparr>fields_types := (fields_types st)[i := changed]\<rparr>)
            (ctx_structures (tcontext s) name))\<rparr>\<rparr>)) (return_t resolved))"
        by (cases x) (auto intro!: ends_then ends_modify simple_state_update ends_return)
    qed (use field in \<open>simp add: field_ok_rank\<close>)
  qed
  then show ?thesis
    unfolding resolve_generic_struct_def resolve_generic_parameter_def Let_def
    by (intro ends_declared ends)
qed

lemma ends_resolve [ends]: "ends (simple_state R) (\<lambda>n. v_resolve (visitors_at n) t names params)"
proof (induction "generic_rank R t" arbitrary: t names params rule: less_induct)
  case less
  have "ends (simple_state R) (\<lambda>n. v_resolve (visitors_at n) u names params)" if "generic_rank R u \<le> generic_rank R t" for u
    using that
  proof (induction u)
    case (GenericStructType name ps)
    then have "ends (simple_state R) (\<lambda>n. v_resolve (visitors_at n) v names params)" if "generic_rank R v \<le> R name"
      for v names params using that by (intro less) simp
    then show ?case
      by (rule_tac ends_shift) (simp add: visitors_step_def resolve_generic_type_def ends_resolve_struct)
  next
    case (FunctionType c ps r i v w x g y)
    then have "ends (simple_state R) (\<lambda>n. v_resolve (visitors_at n) p names params)" if "p \<in> set ps" for p
      using that by (simp add: foldr_max_le)
    moreover have "ends (simple_state R) (\<lambda>n. v_resolve (visitors_at n) r names params)"
      using FunctionType by (simp add: foldr_max_le)
    ultimately show ?case
      by (rule_tac ends_shift) (simp add: visitors_step_def resolve_generic_type_def Let_def, intro ends)
  next
    case (TupleType c ts)
    then have "ends (simple_state R) (\<lambda>n. v_resolve (visitors_at n) p names params)" if "p \<in> set ts" for p
      using that by (simp add: foldr_max_le)
    then show ?case
      by (rule_tac ends_shift) (simp add: visitors_step_def resolve_generic_type_def Let_def, intro ends)
  qed (rule ends_shift; simp only: visitors_at.simps visitors_step_def visitors.simps resolve_generic_type_def
       ty.case Let_def; intro ends; simp)+
  then show ?case by simp
qed

subsection \<open>Programs without generic functions\<close>

primrec monomorphic_expr :: "expression \<Rightarrow> bool"
  and monomorphic_stmt :: "statement \<Rightarrow> bool"
  and monomorphic_block :: "conditional_block \<Rightarrow> bool"
  and monomorphic_case :: "switch_case \<Rightarrow> bool" where
  "monomorphic_expr (IfExpression ts cs vs n) =
     (list_all id (map monomorphic_expr cs) \<and> list_all id (map monomorphic_expr vs))"
| "monomorphic_expr (SwitchExpression k a cs vs d n op) =
     (monomorphic_expr a \<and> list_all id (map monomorphic_expr cs) \<and> list_all id (map monomorphic_expr vs)
      \<and> pred_option id (map_option monomorphic_expr d))"
| "monomorphic_expr (TupleExpression p vs n) = list_all id (map monomorphic_expr vs)"
| "monomorphic_expr (AssignExpression l t r n) = (monomorphic_expr l \<and> monomorphic_expr r)"
| "monomorphic_expr (BinaryExpression l t r n) = (monomorphic_expr l \<and> monomorphic_expr r)"
| "monomorphic_expr (BitwiseExpression l t r n) = (monomorphic_expr l \<and> monomorphic_expr r)"
| "monomorphic_expr (ComparisonExpression l t r n) = (monomorphic_expr l \<and> monomorphic_expr r)"
| "monomorphic_expr (LogicalExpression l t r n) = (monomorphic_expr l \<and> monomorphic_expr r)"
| "monomorphic_expr (PrefixUnaryExpression t r n) = monomorphic_expr r"
| "monomorphic_expr (PostfixUnaryExpression t r n) = monomorphic_expr r"
| "monomorphic_expr (CallExpression p c args n gs) =
     (monomorphic_expr c \<and> list_all id (map monomorphic_expr args))"
| "monomorphic_expr (InitializeExpression p n args) = list_all id (map monomorphic_expr args)"
| "monomorphic_expr (LambdaExpression p ps ns ts r body n) = list_all id (map monomorphic_stmt body)"
| "monomorphic_expr (DotExpression i c d e f n) = monomorphic_expr e"
| "monomorphic_expr (CastExpression p n v) = monomorphic_expr v"
| "monomorphic_expr (TypeSizeExpression t) = True"
| "monomorphic_expr (TypeAlignExpression t) = True"
| "monomorphic_expr (ValueSizeExpression v) = monomorphic_expr v"
| "monomorphic_expr (IndexExpression p v i n) = (monomorphic_expr v \<and> monomorphic_expr i)"
| "monomorphic_expr (EnumAccessExpression n e i t) = True"
| "monomorphic_expr (ArrayExpression p vs n c) = list_all id (map monomorphic_expr vs)"
| "monomorphic_expr (VectorExpression a) = monomorphic_expr a"
| "monomorphic_expr (StringExpression v n) = True"
| "monomorphic_expr (LiteralExpression t n c) = True"
| "monomorphic_expr (NumberExpression v n) = True"
| "monomorphic_expr (CharacterExpression v n) = True"
| "monomorphic_expr (BooleanExpression v n) = True"
| "monomorphic_expr (NullExpression v n b) = True"
| "monomorphic_expr (UndefinedExpression k n) = True"
| "monomorphic_expr (InfinityExpression n) = True"
| "monomorphic_stmt (BlockStatement ss) = list_all id (map monomorphic_stmt ss)"
| "monomorphic_stmt (FieldDeclaration n t v g x) = pred_option id (map_option monomorphic_expr v)"
| "monomorphic_stmt (DestructuringDeclaraion ns ts v k g) = monomorphic_expr v"
| "monomorphic_stmt (ConstDeclaration n v) = monomorphic_expr v"
| "monomorphic_stmt (FunctionPrototype p) = True"
| "monomorphic_stmt (IntrinsicPrototype n i ps t va vt) = True"
| "monomorphic_stmt (FunctionDeclaration p body) = (\<not> prototype_is_generic p \<and> monomorphic_stmt body)"
| "monomorphic_stmt (OperatorFunctionDeclaraion op p body) = (\<not> prototype_is_generic p \<and> monomorphic_stmt body)"
| "monomorphic_stmt (StructDeclaration n) = True"
| "monomorphic_stmt (EnumDeclaration n t) = True"
| "monomorphic_stmt (IfStatement bs e) = list_all id (map monomorphic_block bs)"
| "monomorphic_stmt (ForRangeStatement p x a b step body) = (monomorphic_expr a \<and> monomorphic_expr b
     \<and> pred_option id (map_option monomorphic_expr step) \<and> monomorphic_stmt body)"
| "monomorphic_stmt (ForEachStatement p x i c body) = (monomorphic_expr c \<and> monomorphic_stmt body)"
| "monomorphic_stmt (ForeverStatement p body) = monomorphic_stmt body"
| "monomorphic_stmt (WhileStatement k c body) = (monomorphic_expr c \<and> monomorphic_stmt body)"
| "monomorphic_stmt (SwitchStatement k a cs op d f) =
     (monomorphic_expr a \<and> list_all id (map monomorphic_case cs))"
| "monomorphic_stmt (ReturnStatement k v h) = pred_option id (map_option monomorphic_expr v)"
| "monomorphic_stmt (DeferStatement c) = monomorphic_expr c"
| "monomorphic_stmt (BreakStatement k h n) = True"
| "monomorphic_stmt (ContinueStatement k h n) = True"
| "monomorphic_stmt (ExpressionStatement e) = monomorphic_expr e"
| "monomorphic_block (ConditionalBlock p c body) = (monomorphic_expr c \<and> monomorphic_stmt body)"
| "monomorphic_case (SwitchCase p vs body) =
     (list_all id (map monomorphic_expr vs) \<and> monomorphic_stmt body)"

lemma option_same:
  "(\<And>x. v = Some x \<Longrightarrow> size (g x) = size x) \<Longrightarrow> size_option size (map_option g v) = size_option size v"
  "(\<And>x. v = Some x \<Longrightarrow> f (g x) = f x) \<Longrightarrow>
   pred_option id (map_option f (map_option g v)) = pred_option id (map_option f v)"
  by (cases v; simp)+

lemma shape_monomorphic:
  "monomorphic_expr (expr_shape e) = monomorphic_expr e \<and> size (expr_shape e) = size e"
  "monomorphic_stmt (stmt_shape st) = monomorphic_stmt st \<and> size (stmt_shape st) = size st"
  "monomorphic_block (block_shape bl) = monomorphic_block bl \<and> size (block_shape bl) = size bl"
  "monomorphic_case (case_shape sc) = monomorphic_case sc \<and> size (case_shape sc) = size sc"
  by (induction e and st and bl and sc)
    (simp_all add: option_same list_all_iff size_list_conv_sum_list o_def cong: map_cong)

text \<open>
  The measure of the recursion: a lambda has the size of the block that the visitor makes of its body.
\<close>

definition small_expr :: "nat \<Rightarrow> expression \<Rightarrow> bool" where
  "small_expr h e \<longleftrightarrow> 2 * size e + 1 < h \<and> monomorphic_expr e"

definition small_stmt :: "nat \<Rightarrow> statement \<Rightarrow> bool" where
  "small_stmt h st \<longleftrightarrow> 2 * size st < h \<and> monomorphic_stmt st"

lemma small_shape: "expr_shape e' = expr_shape e \<Longrightarrow> small_expr h e' = small_expr h e"
  unfolding small_expr_def by (metis shape_monomorphic(1))

lemma small_shapes:
  assumes "map expr_shape es' = map expr_shape es"
  shows "list_all (small_expr h) es' = list_all (small_expr h) es"
proof -
  have "list_all (small_expr h) es = list_all (\<lambda>e. small_expr h (expr_shape e)) es" for es
    using shape_monomorphic(1) by (simp add: small_expr_def [abs_def])
  then show ?thesis
    using assms by (metis (mono_tags, lifting) list.pred_map list_all_cong comp_def)
qed

lemma size_member: "x \<in> set xs \<Longrightarrow> size x < size_list size xs"
  by (induction xs) auto

lemma smallI:
  "2 * size e + 1 < h \<Longrightarrow> monomorphic_expr e \<Longrightarrow> small_expr h e"
  "2 * size st < h \<Longrightarrow> monomorphic_stmt st \<Longrightarrow> small_stmt h st"
  "2 * size_list size es \<le> h \<Longrightarrow> list_all monomorphic_expr es \<Longrightarrow> list_all (small_expr h) es"
  "2 * size_list size ss \<le> h \<Longrightarrow> list_all monomorphic_stmt ss \<Longrightarrow> list_all (small_stmt h) ss"
  "2 * size_option size d \<le> h \<Longrightarrow> pred_option id (map_option monomorphic_expr d) \<Longrightarrow> pred_option (small_expr h) d"
  using size_member [of _ es] size_member [of _ ss]
  by (cases d; fastforce simp: small_expr_def small_stmt_def list_all_iff)+

subsection \<open>The visitors\<close>

lemma ends_checks [ends]:
  "ends I (\<lambda>_. set_null_base_type e t)" "ends I (\<lambda>_. infix_overloading op l r)"
  "ends I (\<lambda>_. same_numbers op l r)" "ends I (\<lambda>_. same_vectors op l r)" "ends I (\<lambda>_. expect_same msg op l r)"
  "ends I (\<lambda>_. check_lambda_has_invalid_capturing e)" "ends I (\<lambda>_. check_argument loc t t' e)"
  "ends I (\<lambda>_. check_valid_assignment_right_side e loc)" "ends I (\<lambda>_. check_shift op t e)"
  unfolding set_null_base_type_def infix_overloading_def overloaded_operator_def same_numbers_def same_vectors_def
    expect_same_def check_lambda_has_invalid_capturing_def check_argument_def
    check_valid_assignment_right_side_def check_shift_def Let_def
  by (intro ends)+

lemma ends_overloaded [ends]: "ends I m \<Longrightarrow> ends I (\<lambda>n. overloaded_operator f (m n))"
  unfolding overloaded_operator_def by (intro ends)

lemma ends_resolve_calls [ends]:
  "ends (simple_state R) (\<lambda>n. resolve_in_place (visitors_at n) t)"
  "ends (simple_state R) (\<lambda>n. resolve_shared (visitors_at n) t)"
  unfolding resolve_in_place_def resolve_shared_def by (intro ends)+

text \<open>The contract of the visitors on the trees smaller than \<open>h\<close>.\<close>

locale ending_visitors =
  fixes R :: "string \<Rightarrow> nat" and h :: nat
  assumes ends_expression [ends]:
      "small_expr h e \<Longrightarrow> ends (simple_state R) (\<lambda>n. v_expression (visitors_at n) e)"
    and ends_statement [ends]:
      "small_stmt h st \<Longrightarrow> ends (simple_state R) (\<lambda>n. v_statement (visitors_at n) st)"
begin

lemma ends_operators:
  assumes "small_expr h l" and "small_expr h r"
  shows "ends (simple_state R) (\<lambda>n. visit_assign (visitors_at n) l op r t)"
    and "ends (simple_state R) (\<lambda>n. visit_binary (visitors_at n) l op r t)"
    and "ends (simple_state R) (\<lambda>n. visit_bitwise (visitors_at n) l op r t)"
    and "ends (simple_state R) (\<lambda>n. visit_logical (visitors_at n) l op r t)"
    and "ends (simple_state R) (\<lambda>n. visit_comparison (visitors_at n) l op r t)"
  unfolding visit_assign_def visit_binary_def visit_bitwise_def visit_logical_def visit_comparison_def
    visit_operands_def Let_def
  by (intro ends assms)+

lemma ends_unary:
  assumes "small_expr h e"
  shows "ends (simple_state R) (\<lambda>n. visit_prefix_unary (visitors_at n) op e t)"
    and "ends (simple_state R) (\<lambda>n. visit_postfix_unary (visitors_at n) op e t)"
    and "ends (simple_state R) (\<lambda>n. visit_dot (visitors_at n) i c d e f)"
    and "ends (simple_state R) (\<lambda>n. visit_cast (visitors_at n) pos t e)"
    and "ends (simple_state R) (\<lambda>n. visit_value_size (visitors_at n) e)"
    and "small_expr h e' \<Longrightarrow> ends (simple_state R) (\<lambda>n. visit_index (visitors_at n) pos e e')"
  unfolding visit_prefix_unary_def visit_postfix_unary_def number_or_overloaded_def visit_dot_def struct_field_def
    count_attribute_def visit_cast_def visit_value_size_def visit_index_def constant_index_t_def
    check_index_bound_def Let_def
  by (intro ends assms; assumption?)+

lemma ends_expressions [ends]:
  "list_all (small_expr h) es \<Longrightarrow> ends (simple_state R) (\<lambda>n. visit_expressions (visitors_at n) es)"
  unfolding visit_expressions_def by (intro ends) (auto simp: list_all_iff)

lemma ends_tuple:
  "list_all (small_expr h) vs \<Longrightarrow> ends (simple_state R) (\<lambda>n. visit_tuple (visitors_at n) pos vs)"
  unfolding visit_tuple_def Let_def by (intro ends)

lemma ends_if_expression:
  assumes "list_all (small_expr h) cs" and "list_all (small_expr h) vs"
  shows "ends (simple_state R) (\<lambda>n. visit_if_expression (visitors_at n) ts cs vs)"
  unfolding visit_if_expression_def if_expression_branch_def
  by (intro ends ends_nth_bind) (use assms in \<open>auto simp: list_all_iff\<close>)

lemma ends_switch_expression:
  assumes "small_expr h a" and "list_all (small_expr h) cs" and "list_all (small_expr h) vs"
    and "pred_option (small_expr h) d"
  shows "ends (simple_state R) (\<lambda>n. visit_switch_expression (visitors_at n) k a cs vs d op)"
proof -
  have "ends (simple_state R) (\<lambda>_. check_complete_switch_expression loc t c d')" for loc t c d'
    unfolding check_complete_switch_expression_def by (intro ends)
  then show ?thesis
    unfolding visit_switch_expression_def switch_expression_case_def switch_expression_value_def
      switch_expression_default_def Let_def
    by (intro ends ends_nth_bind) (use assms in \<open>auto simp: list_all_iff in_set_enumerate_eq\<close>)
qed

lemma ends_array:
  assumes "list_all (small_expr h) vs"
  shows "ends (simple_state R) (\<lambda>n. visit_array (visitors_at n) pos vs t c)"
  unfolding visit_array_def array_element_def Let_def
  by (intro ends) (use assms in \<open>auto simp: list_all_iff in_set_enumerate_eq\<close>)

lemma ends_check_parameters [ends]:
  assumes "list_all (small_expr h) es"
  shows "ends (simple_state R) (\<lambda>n. check_parameters_types (visitors_at n) loc es ps va vt i)"
  unfolding check_parameters_types_def visit_argument_def Let_def
  by (intro ends) (use assms in \<open>auto simp: list_all_iff\<close>)

lemma ends_call_function:
  assumes "list_all (small_expr h) args"
    and "\<And>n e. returns (visit n e) (\<lambda>e'. expr_shape e' = expr_shape e)"
    and "\<And>e. small_expr h e \<Longrightarrow> ends (simple_state R) (\<lambda>n. visit n e)"
  shows "ends (simple_state R) (\<lambda>n. call_function (visitors_at n) (visit n) pos c args gargs t)"
proof -
  have "returns (map_t (visit n) args) (\<lambda>es. map expr_shape es = map expr_shape args)" for n
    by (rule returns_map_same [OF assms(2)])
  moreover have "ends (simple_state R) (\<lambda>n. map_t (visit n) args)"
    using assms(1,3) by (intro ends) (simp add: list_all_iff)
  moreover have "list_all (small_expr h) es" if "map expr_shape es = map expr_shape args" for es
    using assms(1) small_shapes [OF that] by simp
  ultimately show ?thesis
    unfolding call_function_def by (rule_tac ends_bind_returns) (blast, blast, intro ends, blast)
qed

lemma ends_call:
  assumes "list_all (small_expr h) args" and "small_expr h c"
  shows "ends (simple_state R) (\<lambda>n. visit_call (visitors_at n) pos c args t gargs)"
proof -
  have visit: "ends (simple_state R) (\<lambda>n. call_function (visitors_at n) (visit_and_set_type (visitors_at n)) pos c args gargs t)"
    for c t
    unfolding visit_and_set_type_def [symmetric]
    by (rule ends_call_function [OF assms(1) shape.returns_visit_and_set])
      (auto simp: visit_and_set_type_def intro!: ends)
  have returned: "ends (simple_state R) (\<lambda>n. call_function (visitors_at n) return_t pos c args gargs t)" for c t
    by (rule ends_call_function [OF assms(1)]) (auto intro!: ends returns)
  have generic: "ends (simple_state R) (\<lambda>n. bind_t (read_t (\<lambda>s. generic_functions s name \<noteq> None)) (\<lambda>generic.
      if generic then call_generic_function (visitors_at n) pos name c args t gargs
      else throw_error (position pos) msg))" for name msg c
    by (rule ends_read_state) (simp add: simple_state_def ends)
  show ?thesis
    using assms(2) unfolding visit_call_def call_defined_name_def Let_def
    by (cases c; simp only: expression.case) (intro generic visit returned ends; simp)+
qed

lemma ends_initialize:
  "list_all (small_expr h) args \<Longrightarrow> ends (simple_state R) (\<lambda>n. visit_initialize (visitors_at n) pos t args)"
  unfolding visit_initialize_def by (intro ends)

lemma ends_lambda:
  assumes "small_stmt h (BlockStatement body)"
  shows "ends (simple_state R) (\<lambda>n. visit_lambda (visitors_at n) pos ps ns ts r body t)"
  unfolding visit_lambda_def lambda_parameter_def collect_captures_def enter_lambda_def leave_lambda_body_def
    take_implicit_parameters_def Let_def
  by (intro ends assms)

lemma ends_leaves:
  "ends (simple_state R) (\<lambda>n. visit_type_size (visitors_at n) u)"
  "ends (simple_state R) (\<lambda>n. visit_type_align (visitors_at n) u)"
  "ends (simple_state R) (\<lambda>_. visit_literal name c)" "ends (simple_state R) (\<lambda>_. visit_number v t)"
  "ends (simple_state R) (\<lambda>_. visit_vector a)" "ends (simple_state R) (\<lambda>_. visit_typed_node e)"
  unfolding visit_type_size_def visit_type_align_def visit_literal_def capture_type_def add_implicit_parameter_def
    visit_number_def visit_vector_def visit_typed_node_def Let_def
  by (intro ends)+

lemma ends_visit_expression:
  assumes "small_expr (Suc h) e"
  shows "ends (simple_state R) (\<lambda>n. visit_expression (visitors_at n) e)"
  using assms unfolding visit_expression_def
  by (cases e)
    (auto simp: small_expr_def [of "Suc h"] list.pred_map intro!: smallI ends_if_expression ends_switch_expression
      ends_tuple ends_operators ends_unary ends_call ends_initialize ends_lambda ends_leaves ends_array)

lemma ends_field:
  assumes "pred_option (small_expr h) v"
  shows "ends (simple_state R) (\<lambda>n. visit_field (visitors_at n) name t v g x)"
proof -
  have "ends (simple_state R) (\<lambda>_. unify_field_types loc u a l r e)" "ends (simple_state R) (\<lambda>_. visited_origin t)"
    "ends (simple_state R) (\<lambda>_. check_field_types loc g e l r)" for loc u a l r e t
    unfolding unify_field_types_def visited_origin_def check_field_types_def Let_def by (intro ends)+
  then show ?thesis
    unfolding visit_field_def visit_field_initializer_def Let_def by (intro ends) (use assms in auto)
qed

lemma ends_destructuring:
  "small_expr h e \<Longrightarrow> ends (simple_state R) (\<lambda>n. visit_destructuring (visitors_at n) ns ts e k g)"
  unfolding visit_destructuring_def destructured_field_def Let_def by (intro ends)

lemma ends_const_declaration: "small_expr h e \<Longrightarrow> ends (simple_state R) (\<lambda>n. visit_const (visitors_at n) name e)"
  unfolding visit_const_def by (intro ends)

lemma ends_prototype [ends]:
  "ends (simple_state R) (\<lambda>_. visit_prototype p)" "ends (simple_state R) (\<lambda>_. define_prototype a b c d e f)"
  unfolding visit_prototype_def define_prototype_def Let_def by (intro ends)+

lemma ends_function [ends]:
  assumes "\<not> prototype_is_generic p" and "small_stmt h b"
  shows "ends (simple_state R) (\<lambda>n. visit_function (visitors_at n) p b)"
  unfolding visit_function_def using assms by (simp, intro ends)

lemma ends_declarations:
  "ends (simple_state R) (\<lambda>_. visit_struct n)" "ends (simple_state R) (\<lambda>_. visit_enum name enum)"
  "ends (simple_state R) (\<lambda>_. visit_jump txt k b i)"
  "\<not> prototype_is_generic p \<Longrightarrow> small_stmt h body \<Longrightarrow>
     ends (simple_state R) (\<lambda>n. visit_operator_function (visitors_at n) op p body)"
  unfolding visit_struct_def visit_enum_def visit_jump_def visit_operator_function_def Let_def
  by (intro ends; assumption?)+

lemma ends_block: "list_all (small_stmt h) ss \<Longrightarrow> ends (simple_state R) (\<lambda>n. visit_block (visitors_at n) ss)"
  unfolding visit_block_def by (intro ends) (auto simp: list_all_iff)

lemma ends_if_statement:
  assumes "2 * size_list size bs \<le> h" and "list_all monomorphic_block bs"
  shows "ends (simple_state R) (\<lambda>n. visit_if (visitors_at n) bs e)"
proof -
  have "ends (simple_state R) (\<lambda>n. visit_conditional_block (visitors_at n) b)" if "b \<in> set bs" for b
  proof -
    obtain pos c body where b: "b = ConditionalBlock pos c body" by (cases b)
    then show ?thesis
      using that assms size_member [OF that] unfolding visit_conditional_block_def
      by (auto simp: list_all_iff intro!: ends smallI)
  qed
  then show ?thesis unfolding visit_if_def by (intro ends)
qed

lemma ends_loops:
  assumes "small_expr h a" and "small_stmt h body"
  shows "small_expr h b \<Longrightarrow> pred_option (small_expr h) step \<Longrightarrow>
       ends (simple_state R) (\<lambda>n. visit_for_range (visitors_at n) pos x a b step body)"
    and "ends (simple_state R) (\<lambda>n. visit_for_each (visitors_at n) pos x i a body)"
    and "ends (simple_state R) (\<lambda>n. visit_while (visitors_at n) pos a body)"
  unfolding visit_for_range_def visit_operands_def visit_step_def visit_for_each_def define_unless_blank_def
    visit_while_def
  by (intro ends assms; simp)+

lemma ends_forever: "small_stmt h body \<Longrightarrow> ends (simple_state R) (\<lambda>n. visit_forever (visitors_at n) pos body)"
  unfolding visit_forever_def by (intro ends)

lemma ends_switch:
  assumes "small_expr h a" and "2 * size_list size cs \<le> h" and "list_all monomorphic_case cs"
  shows "ends (simple_state R) (\<lambda>n. visit_switch (visitors_at n) k a cs op d f)"
proof -
  have label: "ends (simple_state R) (\<lambda>n. switch_case_value (visitors_at n) loc t e b)" if "small_expr h e" for loc t e b
    using that unfolding switch_case_value_def add_case_value_def
    by (cases e; cases b) (auto intro!: ends)
  have "ends (simple_state R) (\<lambda>n. visit_switch_case (visitors_at n) t d m (i, c) b)" if "c \<in> set cs" for t d m i c b
  proof -
    obtain pos vs body where c: "c = SwitchCase pos vs body" by (cases c)
    have "monomorphic_case c" using that assms(3) by (simp add: list_all_iff)
    then have "list_all (small_expr h) vs" "small_stmt h body"
      using assms(2) size_member [OF that] c by (auto simp: list.pred_map intro!: smallI)
    then show ?thesis
      unfolding visit_switch_case_def c
      by (cases b) (auto simp: list_all_iff intro!: ends label)
  qed
  then have "ends (simple_state R) (\<lambda>n. visit_switch_case (visitors_at n) t d m x b)" if "x \<in> set (enumerate 0 cs)"
    for t d m x b using that by (cases x) (auto simp: in_set_enumerate_eq)
  then show ?thesis
    unfolding visit_switch_def check_complete_switch_cases_def Let_def using assms(1) by (intro ends)
qed

lemma ends_return_statement:
  "pred_option (small_expr h) v \<Longrightarrow> ends (simple_state R) (\<lambda>n. visit_return (visitors_at n) k v b)"
  unfolding visit_return_def check_return_capturing_def Let_def
  by (intro ends ends_some_bind) auto

lemma ends_visit_statement:
  assumes "small_stmt (Suc h) st"
  shows "ends (simple_state R) (\<lambda>n. visit_statement (visitors_at n) st)"
  using assms unfolding visit_statement_def
  by (cases st)
    (auto simp: small_stmt_def [of "Suc h"] list.pred_map intro!: smallI ends ends_field ends_destructuring ends_const_declaration
      ends_declarations ends_block ends_if_statement ends_loops ends_forever ends_switch ends_return_statement)

lemma ending_step: "ending_visitors R (Suc h)"
  by (rule ending_visitors.intro; rule ends_shift)
    (simp_all add: visitors_step_def ends_visit_expression ends_visit_statement)

end

lemma ending_visitors_at: "ending_visitors R h"
proof (induction h)
  case 0
  show ?case by (rule ending_visitors.intro) (simp_all add: small_expr_def small_stmt_def)
next
  case (Suc h)
  then show ?case by (rule ending_visitors.ending_step)
qed

interpretation ending: ending_visitors R h for R h
  by (rule ending_visitors_at)

lemma ends_monomorphic:
  assumes "list_all monomorphic_stmt nodes"
  shows "ends (simple_state R) (\<lambda>n. map_t (v_statement (visitors_at n)) nodes)"
proof (rule ends_map)
  fix st
  assume "st \<in> set nodes"
  then show "ends (simple_state R) (\<lambda>n. v_statement (visitors_at n) st)"
    using assms
    by (intro ending.ends_statement [where h = "Suc (2 * size st)"]) (simp add: small_stmt_def list_all_iff)
qed

subsection \<open>The guarantee\<close>

lemma check_unit_ends:
  assumes "list_all monomorphic_stmt nodes"
    and "\<And>name st. ctx_structures ctx name = Some st \<Longrightarrow> list_all (field_ok R (R name)) (fields_types st)"
  shows "\<exists>r m. r \<noteq> NoFuel
    \<and> (\<forall>n\<ge>m. check_compilation_unit (visitors_at n) nodes (new_checker memory ctx) = r)"
proof -
  have "simple_state R (new_checker memory ctx)"
    using assms(2) by (simp add: simple_state_def new_checker_def)
  with ends_monomorphic [OF assms(1)] obtain m r
    where "\<And>n. m \<le> n \<Longrightarrow> map_t (v_statement (visitors_at n)) nodes (new_checker memory ctx) = r"
      and "r \<noteq> NoFuel" and "\<And>x s'. r = Done x s' \<Longrightarrow> simple_state R s'"
    by (rule endsE) blast
  then show ?thesis
    by (intro exI [of _ "case r of Done ns s \<Rightarrow> Done (Some ns) s | Thrown s \<Rightarrow> Done None s
        | Failed c \<Rightarrow> Failed c | NoFuel \<Rightarrow> NoFuel"] exI [of _ m])
      (auto simp: check_compilation_unit_def split: checked.splits)
qed

text \<open>
  C28: the type checker comes back.  For a unit without generic functions, where the fields of a
  structure mention only generic structures of lower rank, there is an answer that every large enough
  fuel gives, and it is not \<open>NoFuel\<close>.
\<close>

theorem check_compilation_unit_terminates:
  assumes "list_all monomorphic_stmt nodes"
    and "\<And>name st. ctx_structures ctx name = Some st \<Longrightarrow> list_all (field_ok R (R name)) (fields_types st)"
  shows "\<exists>r m. r \<noteq> NoFuel
    \<and> (\<forall>n\<ge>m. check_compilation_unit (visitors_at n) nodes (new_checker memory ctx) = r)"
  using assms by (rule check_unit_ends)

text \<open>A unit with a generic structure whose field is another one.\<close>

definition box_structures :: "string \<rightharpoonup> struct_type" where
  "box_structures = [
     ''Box'' \<mapsto> \<lparr>struct_name = ''Box'', fields_names = [''v''], fields_types = [GenericParameterType ''T''],
        generic_parameters = [''T''], generic_parameters_types = [], struct_is_packed = False,
        struct_is_generic = True, struct_is_extern = False\<rparr>,
     ''Pair'' \<mapsto> \<lparr>struct_name = ''Pair'', fields_names = [''b''],
        fields_types = [PointerType (GenericStructType ''Box'' [GenericParameterType ''T''])],
        generic_parameters = [''T''], generic_parameters_types = [], struct_is_packed = False,
        struct_is_generic = True, struct_is_extern = False\<rparr>]"

theorem check_compilation_unit_terminates_witness:
  "\<exists>r m. r \<noteq> NoFuel \<and> (\<forall>n\<ge>m. check_compilation_unit (visitors_at n)
       [FieldDeclaration (example_token TOKEN_IDENTIFIER ''p'') (GenericStructType ''Pair'' [NumberType INTEGER_32]) None True True]
       (new_checker False ((new_context default_options)\<lparr>ctx_structures := box_structures\<rparr>)) = r)"
  by (rule check_compilation_unit_terminates [where R = "\<lambda>name. if name = ''Pair'' then 1 else 0"])
    (auto simp: box_structures_def split: if_splits)

end
