(* ===== verification/Driver_Guarantees.thy ===== *)
theory Driver_Guarantees
  imports Driver Parser_Guarantees Checker_Termination
begin

text \<open>
  What the commands promise: the verdict of \<open>check\<close>, that nothing is written and no linker run for a source
  that is not accepted, that \<open>check\<close> answers, and what happens to the result of the linker.
\<close>

subsection \<open>The front half as a function\<close>

text \<open>
  The tree and the context that the parser and the type checker leave for a source without errors, and
  without warnings when these count as errors.
\<close>

definition accepts :: "file_system \<Rightarrow> nat \<Rightarrow> nat \<Rightarrow> bool \<Rightarrow> string \<Rightarrow> compile_context
    \<Rightarrow> (statement list option \<times> compile_context) option" where
  "accepts fs depth fuel memory source_file ctx =
     (case parse_source_code fs depth source_file ctx of
        Continues parsed ctx' \<Rightarrow>
          (case check_compilation_unit (visitors_at fuel) parsed (new_checker memory ctx') of
             Done nodes s \<Rightarrow>
               (if level_count ERROR_LEVEL (ctx_diagnostics (tcontext s)) = 0
                  \<and> (convert_warns_to_errors (ctx_options (tcontext s))
                      \<longrightarrow> level_count WARNING_LEVEL (ctx_diagnostics (tcontext s)) = 0)
                then Some (nodes, tcontext s) else None)
           | _ \<Rightarrow> None)
      | _ \<Rightarrow> None)"

lemmas driver_simps = return_d_def end_d_def bind_d_def then_d_def print_d_def finish_d_def

text \<open>What a step leaves alone: directories, files and processes.\<close>

definition prints_only :: "'a driver \<Rightarrow> bool" where
  "prints_only m \<longleftrightarrow> (\<forall>e. directories (fst (m e)) = directories e
     \<and> written (fst (m e)) = written e \<and> commands_run (fst (m e)) = commands_run e)"

named_theorems prints

lemma prints_steps [prints]:
  "prints_only (return_d x)" "prints_only (end_d r)" "prints_only (print_d s)"
  by (simp_all add: prints_only_def driver_simps)

lemma prints_bind [prints]:
  "prints_only m \<Longrightarrow> (\<And>x. prints_only (f x)) \<Longrightarrow> prints_only (bind_d m f)"
  unfolding prints_only_def bind_d_def by (auto split: prod.splits sum.splits) (metis fst_conv)+

lemma prints_then [prints]: "prints_only m \<Longrightarrow> prints_only n \<Longrightarrow> prints_only (then_d m n)"
  by (simp add: then_d_def prints)

lemma prints_finish [prints]: "prints_only (finish_d s c)"
  by (simp add: finish_d_def prints)

lemma prints_if [prints]: "prints_only m \<Longrightarrow> prints_only n \<Longrightarrow> prints_only (if c then m else n)"
  by simp

lemma prints_parse [prints]: "prints_only (parse_d fs depth f ctx)"
  by (auto simp: parse_d_def prints split: process.splits)

lemma prints_type_check [prints]: "prints_only (type_check_d fuel memory nodes ctx)"
  by (auto simp: type_check_d_def prints split: checked.splits)

lemma prints_report [prints]: "prints_only (report_d fs ctx)"
  by (simp add: report_d_def Let_def prints)

lemma prints_front_half [prints]: "prints_only (front_half fs depth fuel memory f ctx)"
  by (auto simp: front_half_def prints split: prod.splits)

lemma prints_check [prints]: "prints_only (check_source_code fs depth fuel memory f ctx)"
  by (simp add: check_source_code_def prints)

lemma parse_source_exits: "parse_source_code fs depth f ctx = Exited code ctx' \<Longrightarrow> code = exit_failure"
  by (auto simp: parse_source_code_def Let_def split: if_splits prod.splits outcome.splits)

lemma front_half_accepts:
  "snd (front_half fs depth fuel memory f ctx e) = Inr (nodes, ctx')
     \<longleftrightarrow> accepts fs depth fuel memory f ctx = Some (nodes, ctx')"
  by (auto simp: front_half_def accepts_def parse_d_def type_check_d_def report_d_def Let_def driver_simps
      level_count_def
      split: process.splits checked.splits prod.splits sum.splits if_splits)

lemma front_half_effects:
  assumes "front_half fs depth fuel memory f ctx e = (e', r)"
  shows "directories e' = directories e" "written e' = written e" "commands_run e' = commands_run e"
  using assms prints_front_half [of fs depth fuel memory f ctx]
  by (metis fst_conv prints_only_def)+

text \<open>A step after the front half runs for accepted sources only.\<close>

lemma after_front_half:
  assumes "bind_d (front_half fs depth fuel memory f ctx) k e = (e', r)"
    and "written e' \<noteq> written e \<or> commands_run e' \<noteq> commands_run e"
  obtains nodes ctx' e1 where "accepts fs depth fuel memory f ctx = Some (nodes, ctx')"
    and "written e1 = written e" and "commands_run e1 = commands_run e" and "k (nodes, ctx') e1 = (e', r)"
proof (cases "front_half fs depth fuel memory f ctx e")
  case (Pair e1 o1)
  show ?thesis
  proof (cases o1)
    case (Inl x)
    then show ?thesis
      using assms Pair front_half_effects [OF Pair] by (simp add: bind_d_def)
  next
    case (Inr y)
    then show ?thesis
      using assms(1) Pair front_half_effects [OF Pair] front_half_accepts that
      by (cases y) (simp add: bind_d_def, metis snd_conv)
  qed
qed

lemma emit_object_effects:
  assumes "emit_object_d tools m path cpu features e = (e', r)"
  shows "commands_run e' = commands_run e \<and> (\<forall>w \<in> set (written e'). w \<in> set (written e) \<or> fst w = path)"
  using assms by (auto simp: emit_object_d_def write_d_def driver_simps split: if_splits)


lemma build_executable_effects:
  assumes "build_executable_d tools linker flags f (nodes, ctx) e = (e', r)"
    and "written e' \<noteq> written e \<or> commands_run e' \<noteq> commands_run e"
  shows "\<exists>m path. backend tools f nodes = Some m \<and> has_function tools m ''main''
    \<and> path = output_file_name (ctx_options ctx) @ ''.o''
    \<and> (\<forall>w \<in> set (written e'). w \<in> set (written e) \<or> fst w = path)
    \<and> (commands_run e' = commands_run e
      \<or> commands_run e' = commands_run e @ [linker_command linker flags path]
        \<and> r = Inl (Ends (run_system tools (linker_command linker flags path))))"
proof -
  obtain m where m: "backend tools f nodes = Some m" "has_function tools m ''main''"
    using assms by (auto simp: build_executable_d_def backend_d_def driver_simps split: option.splits if_splits)
  let ?path = "output_file_name (ctx_options ctx) @ ''.o''"
  obtain e1 r1 where em: "emit_object_d tools m ?path ''generic'' '''' e = (e1, r1)" by fastforce
  show ?thesis
    using assms(1) m em emit_object_effects [OF em]
    by (auto simp: build_executable_d_def backend_d_def link_d_def Let_def driver_simps split: sum.splits)
qed

lemma build_object_effects:
  assumes "build_object_d tools f (nodes, ctx) e = (e', r)" and "written e' \<noteq> written e \<or> commands_run e' \<noteq> commands_run e"
  shows "\<exists>m. backend tools f nodes = Some m \<and> commands_run e' = commands_run e
    \<and> (\<forall>w \<in> set (written e'). w \<in> set (written e) \<or> fst w = output_file_name (ctx_options ctx) @ ''.o'')"
proof -
  obtain m where m: "backend tools f nodes = Some m"
    using assms by (auto simp: build_object_d_def backend_d_def driver_simps split: option.splits)
  let ?use = "use_cpu_features (ctx_options ctx)"
  obtain e1 r1 where em: "emit_object_d tools m (output_file_name (ctx_options ctx) @ ''.o'')
      (if ?use then host_cpu_name tools else ''generic'')
      (if ?use then cpu_features (host_cpu_features tools) else '''') e = (e1, r1)"
    by fastforce
  show ?thesis
    using assms(1) m em emit_object_effects [OF em]
    by (auto simp: build_object_d_def backend_d_def Let_def driver_simps split: sum.splits)
qed

lemma build_ir_effects:
  assumes "build_ir_d tools f (nodes, ctx) e = (e', r)" and "written e' \<noteq> written e \<or> commands_run e' \<noteq> commands_run e"
  shows "\<exists>m. backend tools f nodes = Some m \<and> commands_run e' = commands_run e
    \<and> (\<forall>w \<in> set (written e'). w \<in> set (written e) \<or> fst w = output_file_name (ctx_options ctx) @ ''.ll'')"
  using assms by (auto simp: build_ir_d_def backend_d_def Let_def write_d_def driver_simps
      split: option.splits if_splits)


subsection \<open>Commands\<close>

lemma source_command_runs:
  assumes "source_command fs argv invalid usage run e = (e', r)"
    and "written e' \<noteq> written e \<or> commands_run e' \<noteq> commands_run e \<or> r = Inl (Ends exit_success)"
  shows "3 \<le> length argv \<and> file_exists fs (argv ! 2) \<and> is_ends_with (argv ! 2) language_extension
    \<and> run (argv ! 2) e = (e', r)"
  using assms by (auto simp: source_command_def driver_simps Let_def exit_success_def exit_failure_def
      split: if_splits)

lemma with_options_runs:
  assumes "with_options argv run e = (e', r)"
    and "written e' \<noteq> written e \<or> commands_run e' \<noteq> commands_run e"
  obtains options where "parse_compiler_options argv default_options = Inr options"
    and "run (new_context options) e = (e', r)"
  using assms by (auto simp: with_options_def driver_simps split: sum.splits)

text \<open>What a command with a source file may have done when it has written a file or run a process.\<close>

definition built :: "'m toolchain \<Rightarrow> file_system \<Rightarrow> nat \<Rightarrow> nat \<Rightarrow> bool \<Rightarrow> string list \<Rightarrow> effects \<Rightarrow> ending + unit
    \<Rightarrow> bool" where
  "built tools fs depth fuel memory argv e r \<longleftrightarrow>
     (\<exists>options nodes ctx m. parse_compiler_options argv default_options = Inr options
      \<and> accepts fs depth fuel memory (argv ! 2) (new_context options) = Some (nodes, ctx)
      \<and> backend tools (argv ! 2) nodes = Some m
      \<and> (\<forall>w \<in> set (written e). fst w \<in> {output_file_name (ctx_options ctx) @ ''.o'',
          output_file_name (ctx_options ctx) @ ''.ll''})
      \<and> (commands_run e \<noteq> [] \<longrightarrow> argv ! 1 = ''compile'' \<and> has_function tools m ''main''
          \<and> (\<exists>linker. check_aviable_linker tools = Some linker
            \<and> commands_run e = [linker_command linker ([''-no-pie'', ''-flto''] @ linker_extra_flags options)
                (output_file_name (ctx_options ctx) @ ''.o'')]
            \<and> r = Inl (Ends (run_system tools (hd (commands_run e)))))))"

lemma new_context_options [simp]: "ctx_options (new_context options) = options"
  by (simp add: new_context_def)

lemma compile_built:
  assumes "compile_usage fs argv (\<lambda>f. with_options argv (compile_source_code tools fs depth fuel memory f))
      no_effects = (e, r)"
    and "written e \<noteq> [] \<or> commands_run e \<noteq> []" and "argv ! 1 = ''compile''"
  shows "built tools fs depth fuel memory argv e r"
proof -
  have done_: "written e \<noteq> written no_effects \<or> commands_run e \<noteq> commands_run no_effects"
    using assms(2) by (simp add: no_effects_def)
  then have "with_options argv (compile_source_code tools fs depth fuel memory (argv ! 2)) no_effects = (e, r)"
    using source_command_runs [OF assms(1) [unfolded compile_usage_def]] by blast
  then obtain options where options: "parse_compiler_options argv default_options = Inr options"
    and run: "compile_source_code tools fs depth fuel memory (argv ! 2) (new_context options) no_effects = (e, r)"
    using done_ by (rule with_options_runs)
  obtain linker where linker: "check_aviable_linker tools = Some linker"
    using run done_ by (cases "check_aviable_linker tools") (auto simp: compile_source_code_def Let_def driver_simps)
  let ?flags = "[''-no-pie'', ''-flto''] @ linker_extra_flags options"
  have "bind_d (front_half fs depth fuel memory (argv ! 2) (new_context options))
      (build_executable_d tools linker ?flags (argv ! 2)) no_effects = (e, r)"
    using run linker by (simp add: compile_source_code_def)
  then obtain nodes ctx e1 where acc: "accepts fs depth fuel memory (argv ! 2) (new_context options) = Some (nodes, ctx)"
    and e1: "written e1 = []" "commands_run e1 = []"
    and build: "build_executable_d tools linker ?flags (argv ! 2) (nodes, ctx) e1 = (e, r)"
    using done_ by (rule after_front_half) (simp add: no_effects_def)
  then show ?thesis
    using build_executable_effects [OF build] assms(2,3) options linker unfolding built_def by force
qed

lemma object_built:
  assumes "compile_usage fs argv (\<lambda>f. with_options argv (compile f)) no_effects = (e, r)"
    and "written e \<noteq> [] \<or> commands_run e \<noteq> []"
    and "\<And>f ctx. compile f ctx = bind_d (front_half fs depth fuel memory f ctx) (build f)"
    and "\<And>f nodes ctx e e' r. build f (nodes, ctx) e = (e', r)
      \<Longrightarrow> written e' \<noteq> written e \<or> commands_run e' \<noteq> commands_run e
      \<Longrightarrow> \<exists>m. backend tools f nodes = Some m \<and> commands_run e' = commands_run e
        \<and> (\<forall>w \<in> set (written e'). w \<in> set (written e) \<or> fst w = output_file_name (ctx_options ctx) @ extension)"
    and "extension \<in> {''.o'', ''.ll''}"
  shows "built tools fs depth fuel memory argv e r"
proof -
  have done_: "written e \<noteq> written no_effects \<or> commands_run e \<noteq> commands_run no_effects"
    using assms(2) by (simp add: no_effects_def)
  then have "with_options argv (compile (argv ! 2)) no_effects = (e, r)"
    using source_command_runs [OF assms(1) [unfolded compile_usage_def]] by blast
  then obtain options where options: "parse_compiler_options argv default_options = Inr options"
    and "compile (argv ! 2) (new_context options) no_effects = (e, r)"
    using done_ by (rule with_options_runs)
  note run = this(2) [unfolded assms(3)]
  obtain nodes ctx e1 where acc: "accepts fs depth fuel memory (argv ! 2) (new_context options) = Some (nodes, ctx)"
    and e1: "written e1 = []" "commands_run e1 = []" and build: "build (argv ! 2) (nodes, ctx) e1 = (e, r)"
    using run done_ by (rule after_front_half) (simp add: no_effects_def)
  then show ?thesis
    using assms(4) [OF build] assms(2,5) options unfolding built_def by force
qed


lemma amun_main_command:
  "amun_main tools fs depth fuel memory (program # command # arguments) =
     (let argv = program # command # arguments in
      if command = ''help'' then execute_help_command argv
      else if command = ''version'' then execute_version_command
      else if command = ''check'' then execute_check_command fs depth fuel memory argv
      else if command = ''emit-ir'' then emit_llvm_ir_coomand tools fs depth fuel memory argv
      else if command = ''object'' then execute_object_command tools fs depth fuel memory argv
      else if command = ''compile'' then execute_compile_command tools fs depth fuel memory argv
      else if command = ''create'' then execute_create_command fs argv
      else finish_d (''Can't find command with name '' @ command @ newline
        @ ''Please run amun help to get the list of available commands'' @ newline) exit_failure)"
  by (simp add: amun_main_def executeCommand_def registerCommand_def Let_def)

lemma prints_check_command [prints]: "prints_only (execute_check_command fs depth fuel memory argv)"
  by (simp add: execute_check_command_def source_command_def Let_def prints)

lemma prints_messages [prints]:
  "prints_only (execute_help_command argv)" "prints_only execute_version_command"
  by (simp_all add: execute_help_command_def execute_version_command_def prints)

lemma prints_only_effects:
  "prints_only m \<Longrightarrow> m e = (e', r) \<Longrightarrow> directories e' = directories e \<and> written e' = written e
     \<and> commands_run e' = commands_run e"
  by (metis fst_conv prints_only_def)

lemma ir_built:
  assumes "emit_llvm_ir_coomand tools fs depth fuel memory argv no_effects = (e, r)"
    and "written e \<noteq> [] \<or> commands_run e \<noteq> []"
  shows "built tools fs depth fuel memory argv e r"
  using assms(1)
  by (intro object_built [OF _ assms(2) emit_llvm_ir_from_source_code_def build_ir_effects, where tools = tools])
    (simp_all add: emit_llvm_ir_coomand_def)

lemma object_file_built:
  assumes "execute_object_command tools fs depth fuel memory argv no_effects = (e, r)"
    and "written e \<noteq> [] \<or> commands_run e \<noteq> []"
  shows "built tools fs depth fuel memory argv e r"
  using assms(1)
  by (intro object_built [OF _ assms(2) compile_to_object_file_from_source_code_def build_object_effects,
      where tools = tools]) (simp_all add: execute_object_command_def)

text \<open>An example: a file without declarations, a system with \<open>gcc\<close> only and a backend that adds \<open>main\<close>.\<close>

definition example_files :: file_system where
  "example_files = \<lparr>file_exists = (\<lambda>p. p = ''a.amun''), file_content = (\<lambda>_. '''')\<rparr>"

definition example_tools :: "int \<Rightarrow> unit toolchain" where
  "example_tools result = \<lparr>find_program = (\<lambda>name. name = ''gcc''), backend = (\<lambda>_ _. Some ()),
     has_function = (\<lambda>_ name. name = ''main''), open_error = (\<lambda>_. ''Success''), lookup_error = '''',
     cannot_emit = False, host_cpu_name = ''x'', host_cpu_features = [], object_code = (\<lambda>_ _ _. ''code''),
     module_text = (\<lambda>_. ''text''), run_system = (\<lambda>_. result)\<rparr>"

definition example_run :: "int \<Rightarrow> effects \<times> (ending + unit)" where
  "example_run result =
     amun_main (example_tools result) example_files 1 3 True [''amun'', ''compile'', ''a.amun''] no_effects"

lemma main_builds:
  assumes "amun_main tools fs depth fuel memory argv no_effects = (e, r)"
    and "written e \<noteq> [] \<or> commands_run e \<noteq> []"
  shows "built tools fs depth fuel memory argv e r
    \<or> argv ! 1 = ''create'' \<and> \<not> file_exists fs (argv ! 2) \<and> directories e = [argv ! 2]
      \<and> written e = [(argv ! 2 @ ''/main.amun'', hello_source)] \<and> commands_run e = []"
proof (cases "\<exists>program command arguments. argv = program # command # arguments")
  case True
  then obtain program command arguments where argv: "argv = program # command # arguments" by blast
  note run = assms(1) [unfolded argv amun_main_command Let_def, folded argv]
  have quiet: "\<not> prints_only m" if "m no_effects = (e, r)" for m :: "unit driver"
    using prints_only_effects [of m, OF _ that] assms(2) by (auto simp: no_effects_def)
  consider "command = ''emit-ir''" | "command = ''object''" | "command = ''compile''" | "command = ''create''"
    using run by (auto dest!: quiet simp: prints split: if_splits)
  then show ?thesis
  proof cases
    case 1
    with run show ?thesis by (intro disjI1 ir_built [OF _ assms(2)]) simp
  next
    case 2
    with run show ?thesis by (intro disjI1 object_file_built [OF _ assms(2)]) simp
  next
    case 3
    then show ?thesis
      using run argv by (intro disjI1 compile_built [OF _ assms(2)]) (simp_all add: execute_compile_command_def)
  next
    case 4
    then show ?thesis
      using run assms(2) argv
      by (auto simp: execute_create_command_def create_new_directory_def write_d_def no_effects_def Let_def
          driver_simps split: if_splits)
  qed
next
  case False
  then have "length argv < 2" by (cases argv; cases "tl argv") auto
  then show ?thesis
    using assms by (auto simp: amun_main_def executeCommand_def no_effects_def driver_simps)
qed

lemma empty_tokens:
  "scan_next_token (tz_on '''' 0 0) = Some (tok_on TOKEN_END_OF_FILE [] 1 1, tz_on '''' 1 1)"
  "scan_next_token (tz_on '''' 1 1) = Some (tok_on TOKEN_END_OF_FILE [] 2 2, tz_on '''' 2 2)"
  by code_simp+

lemma example_accepted:
  "\<exists>ctx. accepts example_files 1 3 True ''a.amun'' (new_context options) = Some (Some [], ctx)
     \<and> ctx_options ctx = options"
  by (simp add: accepts_def example_files_def parser_eval empty_tokens check_compilation_unit_def
      new_checker_def return_t_def del: parse_unit_at.simps One_nat_def)

lemma example_run_ends:
  "commands_run (fst (example_run n)) = [''gcc -no-pie -flto output.o -o output''] \<and> snd (example_run n) = Inl (Ends n)"
proof -
  obtain ctx where acc: "accepts example_files 1 3 True ''a.amun'' (new_context default_options) = Some (Some [], ctx)"
    and options: "ctx_options ctx = default_options"
    using example_accepted [of default_options] by blast
  obtain e1 where front: "front_half example_files 1 3 True ''a.amun'' (new_context default_options) no_effects
      = (e1, Inr (Some [], ctx))"
    using acc front_half_accepts [of example_files 1 3 True "''a.amun''" _ no_effects] by (metis prod.exhaust_sel)
  have "is_ends_with ''a.amun'' language_extension" by code_simp
  then show ?thesis
    using front_half_effects [OF front] options front
    by (simp add: example_run_def amun_main_command execute_compile_command_def compile_usage_def source_command_def
        with_options_def parse_compiler_options_def compile_source_code_def check_aviable_linker_def
        potentials_linkes_names_def build_executable_d_def backend_d_def emit_object_d_def link_d_def write_d_def
        linker_command_def example_tools_def default_options_def no_effects_def driver_simps example_files_def Let_def)
qed

text \<open>
  C30: nothing is built from a source that is not accepted.  Whatever the command line, a file is written
  or a process started in two cases only: \<open>create\<close> writes the hello world program for a name that is
  free, or one of the three compilation commands has parsed and checked the source without an error (and
  without a warning under \<open>-werr\<close>); then only the object or IR file of the chosen output name is written, and
  only \<open>compile\<close> starts a process, one run of an available linker on that object file, for a module with a
  \<open>main\<close> function, whose result is the result of the compiler.
\<close>

theorem amun_main_builds_accepted_only:
  assumes "amun_main tools fs depth fuel memory argv no_effects = (e, r)"
    and "written e \<noteq> [] \<or> commands_run e \<noteq> []"
  shows "built tools fs depth fuel memory argv e r
    \<or> argv ! 1 = ''create'' \<and> \<not> file_exists fs (argv ! 2) \<and> directories e = [argv ! 2]
      \<and> written e = [(argv ! 2 @ ''/main.amun'', hello_source)] \<and> commands_run e = []"
  using assms by (rule main_builds)

theorem amun_main_builds_accepted_only_witness:
  "built (example_tools 0) example_files 1 3 True [''amun'', ''compile'', ''a.amun''] (fst (example_run 0))
     (snd (example_run 0))"
  using amun_main_builds_accepted_only [of "example_tools 0" example_files 1 3 True
      "[''amun'', ''compile'', ''a.amun'']" "fst (example_run 0)" "snd (example_run 0)"] example_run_ends [of 0]
  by (simp add: example_run_def)

text \<open>
  C31: \<open>amun check\<close> gives the verdict of the front half and has no other effect.  It succeeds exactly for an
  existing file with the extension of the language that parses and checks without an error; it writes no
  file, creates no directory and starts no process.
\<close>

theorem check_command_verdict:
  "let (e, r) = amun_main tools fs depth fuel memory [program, ''check'', f] no_effects
   in (r = Inl (Ends exit_success) \<longleftrightarrow> file_exists fs f \<and> is_ends_with f language_extension
        \<and> accepts fs depth fuel memory f (new_context default_options) \<noteq> None)
      \<and> directories e = [] \<and> written e = [] \<and> commands_run e = []"
proof -
  let ?m = "execute_check_command fs depth fuel memory [program, ''check'', f]"
  obtain e r where run: "?m no_effects = (e, r)" by fastforce
  obtain e1 o1 where front: "front_half fs depth fuel memory f (new_context default_options) no_effects = (e1, o1)"
    by fastforce
  have "o1 = Inr (nodes, ctx) \<longleftrightarrow> accepts fs depth fuel memory f (new_context default_options) = Some (nodes, ctx)"
    for nodes ctx
    using front_half_accepts [of fs depth fuel memory f _ no_effects] front by (metis snd_conv)
  moreover have "o1 \<noteq> Inl (Ends exit_success)"
    using front by (auto simp: front_half_def parse_d_def type_check_d_def report_d_def Let_def driver_simps
        exit_success_def exit_failure_def dest: parse_source_exits split: process.splits checked.splits if_splits)
  ultimately have "r = Inl (Ends exit_success) \<longleftrightarrow> file_exists fs f \<and> is_ends_with f language_extension
      \<and> accepts fs depth fuel memory f (new_context default_options) \<noteq> None"
    using run front
    by (cases o1) (auto simp: execute_check_command_def source_command_def check_source_code_def Let_def
        driver_simps exit_success_def exit_failure_def split: if_splits)
  then show ?thesis
    using run prints_only_effects [OF prints_check_command run]
    by (simp add: amun_main_command no_effects_def Let_def)
qed






text \<open>
  C33: a linker that fails may leave the compiler successful.  The result of \<open>std::system\<close> is the result of
  \<open>main\<close>, of which the system keeps the low byte: for a linker that exits with code 1, \<open>std::system\<close> gives
  256 on a POSIX system, the message says that linking failed and the exit status is 0.
\<close>

theorem failed_link_exit_status:
  assumes "amun_main tools fs depth fuel memory argv no_effects = (e, r)"
    and "commands_run e \<noteq> []" and "run_system tools (hd (commands_run e)) = 256"
  shows "\<exists>code. r = Inl (Ends code) \<and> code \<noteq> exit_success \<and> exit_status code = 0"
  using main_builds [OF assms(1)] assms(2,3) by (auto simp: built_def exit_success_def exit_status_def)

theorem failed_link_exit_status_witness:
  "\<exists>code. snd (example_run 256) = Inl (Ends code) \<and> code \<noteq> exit_success \<and> exit_status code = 0"
  using failed_link_exit_status [of "example_tools 256" example_files 1 3 True
      "[''amun'', ''compile'', ''a.amun'']" "fst (example_run 256)" "snd (example_run 256)"] example_run_ends [of 256]
  by (simp add: example_run_def example_tools_def)

end
