(* ===== verification/Backend_State.thy ===== *)
theory Backend_State
  imports Checker_State
begin

text \<open>
  The state of the code generator (\<open>include/amun_llvm_backend.hpp\<close>), its outcomes, and LLVM as a parameter.

  LLVM is not part of the repository.  The model does not say what it builds: a call of LLVM is a value of
  type \<open>llvm_call\<close>, every call that is not a mere observation is entered in the log of the backend, and what
  it returns is asked from a \<open>llvm_library\<close>, four functions of the log so far and the call, about which
  nothing is assumed.  Pointers to
  objects of LLVM are numbers; 0 is the null pointer.
\<close>

subsection \<open>Calls of LLVM\<close>

type_synonym handle = nat

datatype basic_type = INT1_TYPE | INT8_TYPE | INT16_TYPE | INT32_TYPE | INT64_TYPE | INT8_PTR_TYPE
  | FLOAT32_TYPE | FLOAT64_TYPE | LLVM_VOID_TYPE | LLVM_VOID_PTR_TYPE

datatype type_category = INTEGER_TY | FLOATING_POINT_TY | FLOAT_TY | VECTOR_TY | ARRAY_TY | POINTER_TY
  | STRUCT_TY | FUNCTION_TY

text \<open>The static type of a pointer, which \<open>std::any\<close> and \<open>dyn_cast\<close> test.\<close>

datatype value_class = VALUE | CALL_INST | ALLOCA_INST | CONSTANT | CONSTANT_INT | LOAD_INST | PHI_NODE
  | LLVM_FUNCTION | GLOBAL_VARIABLE | UNDEF_VALUE | GEP_INST | RETURN_INST | STRUCT_TYPE_POINTER
  | CONSTANT_ARRAY | CONSTANT_DATA_ARRAY

datatype binary_instruction = ADD | SUB | MUL | UDIV | UREM | FADD | FSUB | FMUL | FDIV | FREM
  | OR_BITS | AND_BITS | XOR_BITS | SHL | ASHR | LOGICAL_AND | LOGICAL_OR

datatype compare_instruction = ICMP_EQ | ICMP_NE | ICMP_SGT | ICMP_SGE | ICMP_SLT | ICMP_SLE
  | ICMP_UGT | ICMP_UGE | ICMP_ULT | ICMP_ULE | FCMP_OEQ | FCMP_ONE | FCMP_OGT | FCMP_OGE | FCMP_OLT | FCMP_OLE

datatype unary_instruction = NEG | FNEG | NOT

datatype cast_instruction = SIGNED_INT_CAST | FP_CAST | FP_TO_SI | SI_TO_FP | PTR_TO_INT | INT_TO_PTR | BIT_CAST

text \<open>
  The members and functions of LLVM that the backend calls.  \<open>Create_entry_alloca\<close> is the alloca at the front of
  the entry block of a function, \<open>Create_call_pointer\<close> the call with a function type and a callee.
\<close>

datatype (plugins only: code) llvm_call =
    Array_type handle nat | Vector_type handle nat | Pointer_type handle
  | Function_type handle "handle list" bool | New_struct_type string | Set_body handle "handle list" bool
  | Type_is type_category handle | Element_type handle | Return_type handle | Param_type handle nat
  | Param_count handle | Element_count handle | Alloc_size handle | Abi_align handle
  | Type_of handle | Is_a value_class handle | Allocated_type handle | Value_type handle
  | Initializer handle | Pointer_operand handle | Called_function handle | Function_type_of handle
  | Argument handle nat | Argument_count handle | Name_of handle | Set_name handle string
  | Get_function string | Named_global string | Intrinsic_declaration string "handle list"
  | New_function handle bool string | New_global handle bool handle string
  | Constant_int_of handle int | Constant_fp handle string | Infinity_of handle | Null_value handle
  | Undef_of handle | Constant_array_of handle "handle list" | Constant_struct_of handle "handle list"
  | Constant_data_vector number_kind "string list" | Constant_bit_cast handle handle | Global_string_ptr string
  | Element_as_constant handle nat | Aggregate_element handle handle | Limited_value handle
  | Is_one_value handle | Address_less handle handle
  | New_block string | New_entry_block handle | Push_block handle handle | Set_insert_point handle
  | Get_insert_block | Parent_of handle
  | Create_br handle | Create_cond_br handle handle handle | Create_ret handle | Create_ret_void
  | Create_unreachable | Create_alloca handle | Create_entry_alloca handle string handle
  | Create_load handle handle | Create_store handle handle | Create_gep handle handle "handle list"
  | Create_call handle "handle list" | Create_call_pointer handle handle "handle list"
  | Create_binary binary_instruction handle handle | Create_unary unary_instruction handle
  | Create_compare compare_instruction handle handle | Create_cast cast_instruction handle handle
  | Create_phi handle nat | Add_incoming handle handle handle | Verify_function handle

text \<open>\<open>false_value\<close>, \<open>zero_int32_value\<close> and the basic types are static objects.\<close>

record llvm_library =
  basic_type_of :: "basic_type \<Rightarrow> handle"
  false_value :: handle
  zero_int32_value :: handle
  pointer_answer :: "llvm_call list \<Rightarrow> llvm_call \<Rightarrow> handle"
  flag_answer :: "llvm_call list \<Rightarrow> llvm_call \<Rightarrow> bool"
  number_answer :: "llvm_call list \<Rightarrow> llvm_call \<Rightarrow> nat"
  text_answer :: "llvm_call list \<Rightarrow> llvm_call \<Rightarrow> string"

subsection \<open>State\<close>

text \<open>What \<open>std::any\<close> holds: a null pointer, an \<open>int\<close> or a pointer of a static type.\<close>

datatype llvm_any = AnyNothing | AnyInt | AnyPointer value_class handle

datatype defer_call =
    DeferFunctionCall handle "handle list"
  | DeferFunctionPtrCall handle handle "handle list"

text \<open>
  The heads of the stacks are their tops.  \<open>struct_objects\<close> are the structures that the types of the tree
  point to, by name.  The constructor does not initialise \<open>current_struct_type\<close>; \<open>None\<close> is that value.
\<close>

record backend =
  library :: llvm_library
  log :: "llvm_call list"
  struct_objects :: "string \<rightharpoonup> struct_type"
  functions_table :: "string \<rightharpoonup> function_prototype"
  llvm_functions :: "string \<rightharpoonup> handle"
  constants_string_pool :: "string \<rightharpoonup> handle"
  structures_types_map :: "string \<rightharpoonup> handle"
  functions_declaraions :: "string \<rightharpoonup> function_prototype \<times> statement"
  backend_generic_types :: "string \<rightharpoonup> ty"
  defer_calls_stack :: "defer_call scoped_list list"
  alloca_inst_table :: "(string, llvm_any) scoped_map"
  break_blocks_stack :: "handle list"
  continue_blocks_stack :: "handle list"
  current_struct_type :: "handle option"
  has_return_statement :: bool
  has_break_or_continue_statement :: bool
  is_on_global_scope :: bool
  lambda_unique_id :: nat
  lambda_extra_parameters :: "string \<rightharpoonup> string list"

definition new_backend :: "llvm_library \<Rightarrow> (string \<rightharpoonup> struct_type) \<Rightarrow> backend" where
  "new_backend L objects = \<lparr>library = L, log = [], struct_objects = objects, functions_table = Map.empty,
     llvm_functions = Map.empty, constants_string_pool = Map.empty, structures_types_map = Map.empty,
     functions_declaraions = Map.empty, backend_generic_types = Map.empty, defer_calls_stack = [],
     alloca_inst_table = push_new_scope \<lparr>linked_scoped = []\<rparr>, break_blocks_stack = [],
     continue_blocks_stack = [], current_struct_type = None, has_return_statement = False,
     has_break_or_continue_statement = False, is_on_global_scope = True, lambda_unique_id = 0,
     lambda_extra_parameters = Map.empty\<rparr>"

subsection \<open>Outcomes\<close>

text \<open>
  \<open>Raises\<close> is a C++ exception, which \<open>compile\<close> catches; \<open>Quits\<close> is \<open>internal_compiler_error\<close>, which ends the
  process; \<open>Breaks\<close> is undefined behaviour; \<open>TooDeep\<close> is recursion that is deeper than the fuel.
\<close>

datatype 'a emitted = Emits 'a backend | Raises backend | Quits | Breaks fault | TooDeep

type_synonym 'a emission = "backend \<Rightarrow> 'a emitted"

definition return_b :: "'a \<Rightarrow> 'a emission" where
  "return_b x s = Emits x s"

definition bind_b :: "'a emission \<Rightarrow> ('a \<Rightarrow> 'b emission) \<Rightarrow> 'b emission" where
  "bind_b m f s = (case m s of Emits x s' \<Rightarrow> f x s' | Raises s' \<Rightarrow> Raises s' | Quits \<Rightarrow> Quits
     | Breaks c \<Rightarrow> Breaks c | TooDeep \<Rightarrow> TooDeep)"

definition then_b :: "unit emission \<Rightarrow> 'b emission \<Rightarrow> 'b emission" where
  "then_b m n = bind_b m (\<lambda>_. n)"

definition fail_b :: "fault \<Rightarrow> 'a emission" where
  "fail_b c s = Breaks c"

definition raise_b :: "'a emission" where
  "raise_b s = Raises s"

definition internal_compiler_error :: "'a emission" where
  "internal_compiler_error s = Quits"

definition read_b :: "(backend \<Rightarrow> 'a) \<Rightarrow> 'a emission" where
  "read_b f s = Emits (f s) s"

definition modify_b :: "(backend \<Rightarrow> backend) \<Rightarrow> unit emission" where
  "modify_b f s = Emits () (f s)"

definition some_b :: "fault \<Rightarrow> 'a option \<Rightarrow> 'a emission" where
  "some_b c v = (case v of Some x \<Rightarrow> return_b x | None \<Rightarrow> fail_b c)"

definition nth_b :: "'a list \<Rightarrow> nat \<Rightarrow> 'a emission" where
  "nth_b xs i = (if i < length xs then return_b (xs ! i) else fail_b IndexOutOfRange)"

primrec map_b :: "('a \<Rightarrow> 'b emission) \<Rightarrow> 'a list \<Rightarrow> 'b list emission" where
  "map_b f [] = return_b []"
| "map_b f (x # xs) = bind_b (f x) (\<lambda>y. bind_b (map_b f xs) (\<lambda>ys. return_b (y # ys)))"

primrec each_b :: "('a \<Rightarrow> unit emission) \<Rightarrow> 'a list \<Rightarrow> unit emission" where
  "each_b f [] = return_b ()"
| "each_b f (x # xs) = then_b (f x) (each_b f xs)"

definition steps_b :: "unit emission list \<Rightarrow> unit emission" where
  "steps_b = each_b (\<lambda>m. m)"

definition ignore_b :: "'a emission \<Rightarrow> unit emission" where
  "ignore_b m = bind_b m (\<lambda>_. return_b ())"

subsection \<open>Calling LLVM\<close>

definition enter_b :: "llvm_call \<Rightarrow> unit emission" where
  "enter_b c = modify_b (\<lambda>s. s\<lparr>log := log s @ [c]\<rparr>)"

text \<open>The members that only read what was built; the log holds the other calls, and these answer by it.\<close>

definition observes :: "llvm_call \<Rightarrow> bool" where
  "observes c = (case c of
     Type_is _ _ \<Rightarrow> True | Element_type _ \<Rightarrow> True | Return_type _ \<Rightarrow> True | Param_type _ _ \<Rightarrow> True
   | Param_count _ \<Rightarrow> True | Element_count _ \<Rightarrow> True | Alloc_size _ \<Rightarrow> True | Abi_align _ \<Rightarrow> True
   | Type_of _ \<Rightarrow> True | Is_a _ _ \<Rightarrow> True | Allocated_type _ \<Rightarrow> True | Value_type _ \<Rightarrow> True
   | Initializer _ \<Rightarrow> True | Pointer_operand _ \<Rightarrow> True | Called_function _ \<Rightarrow> True
   | Function_type_of _ \<Rightarrow> True | Argument _ _ \<Rightarrow> True | Argument_count _ \<Rightarrow> True | Name_of _ \<Rightarrow> True
   | Get_function _ \<Rightarrow> True | Named_global _ \<Rightarrow> True | Element_as_constant _ _ \<Rightarrow> True
   | Aggregate_element _ _ \<Rightarrow> True | Limited_value _ \<Rightarrow> True | Is_one_value _ \<Rightarrow> True
   | Address_less _ _ \<Rightarrow> True | Get_insert_block \<Rightarrow> True | Parent_of _ \<Rightarrow> True
   | _ \<Rightarrow> False)"

definition answer_b :: "(llvm_library \<Rightarrow> llvm_call list \<Rightarrow> llvm_call \<Rightarrow> 'a) \<Rightarrow> llvm_call \<Rightarrow> 'a emission" where
  "answer_b f c = bind_b (read_b (\<lambda>s. f (library s) (log s) c)) (\<lambda>x.
     then_b (if observes c then return_b () else enter_b c) (return_b x))"

definition ask :: "llvm_call \<Rightarrow> handle emission" where
  "ask = answer_b pointer_answer"

definition ask_flag :: "llvm_call \<Rightarrow> bool emission" where
  "ask_flag = answer_b flag_answer"

definition ask_number :: "llvm_call \<Rightarrow> nat emission" where
  "ask_number = answer_b number_answer"

definition ask_text :: "llvm_call \<Rightarrow> string emission" where
  "ask_text = answer_b text_answer"

text \<open>A member function is called through a pointer.\<close>

definition through :: "handle \<Rightarrow> 'a emission \<Rightarrow> 'a emission" where
  "through h m = (if h = 0 then fail_b NullAccess else m)"

definition basic :: "basic_type \<Rightarrow> handle emission" where
  "basic t = read_b (\<lambda>s. basic_type_of (library s) t)"

definition type_of :: "handle \<Rightarrow> handle emission" where
  "type_of v = through v (ask (Type_of v))"

definition type_is :: "type_category \<Rightarrow> handle \<Rightarrow> bool emission" where
  "type_is c t = through t (ask_flag (Type_is c t))"

definition value_type_is :: "type_category \<Rightarrow> handle \<Rightarrow> bool emission" where
  "value_type_is c v = bind_b (type_of v) (type_is c)"

text \<open>The condition \<open>l->getType()->is..() && r->getType()->is..()\<close>.\<close>

definition both_types_are :: "type_category \<Rightarrow> handle \<Rightarrow> handle \<Rightarrow> bool emission" where
  "both_types_are c l r = bind_b (value_type_is c l) (\<lambda>b. if b then value_type_is c r else return_b False)"

text \<open>\<open>llvm::dyn_cast\<close>: the pointer or null; a null pointer is no argument for it.\<close>

definition cast_to :: "value_class \<Rightarrow> handle \<Rightarrow> handle emission" where
  "cast_to c v = through v (bind_b (ask_flag (Is_a c v)) (\<lambda>b. return_b (if b then v else 0)))"

definition type_cast_to :: "type_category \<Rightarrow> handle \<Rightarrow> handle emission" where
  "type_cast_to c t = bind_b (type_is c t) (\<lambda>b. return_b (if b then t else 0))"

text \<open>\<open>derefernecs_llvm_pointer\<close> of \<open>include/amun_llvm_builder.hpp\<close>.\<close>

definition derefernecs_llvm_pointer :: "handle \<Rightarrow> handle emission" where
  "derefernecs_llvm_pointer pointer =
     bind_b (value_type_is POINTER_TY pointer) (\<lambda>is_pointer.
     if \<not> is_pointer then fail_b AssertFailure
     else bind_b (type_of pointer) (\<lambda>t. bind_b (ask (Element_type t)) (\<lambda>pointer_element_type.
       ask (Create_load pointer_element_type pointer))))"

text \<open>\<open>create_llvm_int64\<close> and its siblings.\<close>

definition create_llvm_int :: "basic_type \<Rightarrow> int \<Rightarrow> handle emission" where
  "create_llvm_int t n = bind_b (basic t) (\<lambda>t. ask (Constant_int_of t n))"

definition current_function :: "handle emission" where
  "current_function = bind_b (ask Get_insert_block) (\<lambda>b. through b (ask (Parent_of b)))"

definition push_block :: "handle \<Rightarrow> handle \<Rightarrow> unit emission" where
  "push_block f b = through f (enter_b (Push_block f b))"

definition set_insert_point :: "handle \<Rightarrow> unit emission" where
  "set_insert_point b = through b (enter_b (Set_insert_point b))"

text \<open>\<open>getBasicBlockList().push_back(block); Builder.SetInsertPoint(block)\<close>.\<close>

definition start_block_b :: "handle \<Rightarrow> handle \<Rightarrow> unit emission" where
  "start_block_b f b = then_b (push_block f b) (enter_b (Set_insert_point b))"

text \<open>\<open>create_entry_block_alloca\<close>: the entry block of the function and its front.\<close>

definition create_entry_block_alloca :: "handle \<Rightarrow> string \<Rightarrow> handle \<Rightarrow> handle emission" where
  "create_entry_block_alloca function var_name t = through function (ask (Create_entry_alloca function var_name t))"

subsection \<open>Scopes and stacks\<close>

definition push_alloca_inst_scope :: "unit emission" where
  "push_alloca_inst_scope = modify_b (\<lambda>s. s\<lparr>alloca_inst_table := push_new_scope (alloca_inst_table s)\<rparr>)"

definition pop_alloca_inst_scope :: "unit emission" where
  "pop_alloca_inst_scope = bind_b (read_b alloca_inst_table) (\<lambda>table.
     bind_b (some_b EmptyContainer (pop_current_scope table)) (\<lambda>table'.
     modify_b (\<lambda>s. s\<lparr>alloca_inst_table := table'\<rparr>)))"

definition define_alloca :: "string \<Rightarrow> llvm_any \<Rightarrow> unit emission" where
  "define_alloca name v = bind_b (read_b alloca_inst_table) (\<lambda>table.
     bind_b (some_b EmptyContainer (define_symbol name v table)) (\<lambda>(_, table').
     modify_b (\<lambda>s. s\<lparr>alloca_inst_table := table'\<rparr>)))"

definition lookup_alloca :: "string \<Rightarrow> llvm_any emission" where
  "lookup_alloca name = read_b (\<lambda>s. case lookup (alloca_inst_table s) name of Some v \<Rightarrow> v | None \<Rightarrow> AnyNothing)"

text \<open>The member functions of the top of the stack of deferred calls.\<close>

definition top_defer_calls :: "defer_call scoped_list emission" where
  "top_defer_calls = bind_b (read_b defer_calls_stack) (\<lambda>st. case st of
     [] \<Rightarrow> fail_b EmptyContainer | calls # _ \<Rightarrow> return_b calls)"

definition change_top_defer_calls :: "(defer_call scoped_list \<Rightarrow> defer_call scoped_list option) \<Rightarrow> unit emission" where
  "change_top_defer_calls f = bind_b (read_b defer_calls_stack) (\<lambda>st. case st of
     [] \<Rightarrow> fail_b EmptyContainer
   | calls # rest \<Rightarrow> bind_b (some_b EmptyContainer (f calls)) (\<lambda>calls'.
       modify_b (\<lambda>s. s\<lparr>defer_calls_stack := calls' # rest\<rparr>)))"

definition push_defer_stack :: "unit emission" where
  "push_defer_stack = modify_b (\<lambda>s. s\<lparr>defer_calls_stack := \<lparr>linked_scopes = []\<rparr> # defer_calls_stack s\<rparr>)"

definition pop_defer_stack :: "unit emission" where
  "pop_defer_stack = bind_b (read_b defer_calls_stack) (\<lambda>st. case st of
     [] \<Rightarrow> fail_b EmptyContainer | _ # rest \<Rightarrow> modify_b (\<lambda>s. s\<lparr>defer_calls_stack := rest\<rparr>))"

definition push_loop_blocks :: "handle \<Rightarrow> handle \<Rightarrow> unit emission" where
  "push_loop_blocks end_block condition_block = modify_b (\<lambda>s. s
     \<lparr>break_blocks_stack := end_block # break_blocks_stack s,
      continue_blocks_stack := condition_block # continue_blocks_stack s\<rparr>)"

definition pop_break_block :: "unit emission" where
  "pop_break_block = bind_b (read_b break_blocks_stack) (\<lambda>st. case st of
     [] \<Rightarrow> fail_b EmptyContainer | _ # rest \<Rightarrow> modify_b (\<lambda>s. s\<lparr>break_blocks_stack := rest\<rparr>))"

definition pop_continue_block :: "unit emission" where
  "pop_continue_block = bind_b (read_b continue_blocks_stack) (\<lambda>st. case st of
     [] \<Rightarrow> fail_b EmptyContainer | _ # rest \<Rightarrow> modify_b (\<lambda>s. s\<lparr>continue_blocks_stack := rest\<rparr>))"

definition pop_loop_blocks :: "unit emission" where
  "pop_loop_blocks = then_b pop_break_block pop_continue_block"

subsection \<open>Deferred calls\<close>

text \<open>Both branches of \<open>execute_defer_call\<close> test for the same kind, so nothing is emitted for a call of a pointer.\<close>

definition execute_defer_call :: "defer_call \<Rightarrow> unit emission" where
  "execute_defer_call d = (case d of
     DeferFunctionCall function arguments \<Rightarrow> enter_b (Create_call function arguments)
   | DeferFunctionPtrCall _ _ _ \<Rightarrow> return_b ())"

definition execute_scope_defer_calls :: "unit emission" where
  "execute_scope_defer_calls = bind_b top_defer_calls (\<lambda>calls.
     bind_b (some_b EmptyContainer (get_scope_elements calls)) (each_b execute_defer_call))"

text \<open>From the innermost scope to the outermost.\<close>

definition execute_all_defer_calls :: "unit emission" where
  "execute_all_defer_calls = bind_b top_defer_calls (\<lambda>calls.
     each_b (each_b execute_defer_call) (rev (linked_scopes calls)))"

subsection \<open>The visitors as parameters\<close>

record emitters =
  e_expression :: "expression \<Rightarrow> llvm_any emission"
  e_statement :: "statement \<Rightarrow> llvm_any emission"
  e_type :: "ty \<Rightarrow> handle emission"

text \<open>A type the code follows a pointer to.\<close>

definition type_of_node_b :: "type_node \<Rightarrow> ty emission" where
  "type_of_node_b n = (case n of TypeNode t \<Rightarrow> return_b t | _ \<Rightarrow> fail_b NullAccess)"

definition node_type :: "expression \<Rightarrow> ty emission" where
  "node_type e = type_of_node_b (get_type_node e)"

definition struct_object_b :: "string \<Rightarrow> struct_type emission" where
  "struct_object_b name = bind_b (read_b (\<lambda>s. struct_objects s name)) (some_b NullAccess)"

text \<open>\<open>generic_types[name]\<close>, which the code then follows.\<close>

definition generic_type_b :: "string \<Rightarrow> ty emission" where
  "generic_type_b name = bind_b (read_b (\<lambda>s. backend_generic_types s name)) (some_b NullAccess)"

subsection \<open>Values\<close>

definition llvm_node_value :: "llvm_any \<Rightarrow> handle emission" where
  "llvm_node_value v = (case v of
     AnyPointer c h \<Rightarrow>
       if c \<in> {VALUE, CALL_INST, ALLOCA_INST, CONSTANT, CONSTANT_INT, LOAD_INST, PHI_NODE, LLVM_FUNCTION,
         GLOBAL_VARIABLE, UNDEF_VALUE}
       then return_b h else internal_compiler_error
   | _ \<Rightarrow> internal_compiler_error)"

definition llvm_resolve_value :: "llvm_any \<Rightarrow> handle emission" where
  "llvm_resolve_value v = bind_b (llvm_node_value v) (\<lambda>llvm_value.
     bind_b (cast_to ALLOCA_INST llvm_value) (\<lambda>alloca.
     if alloca \<noteq> 0 then
       bind_b (ask (Allocated_type alloca)) (\<lambda>t. ask (Create_load t alloca))
     else
       bind_b (cast_to GLOBAL_VARIABLE llvm_value) (\<lambda>variable.
       if variable \<noteq> 0 then ask (Initializer variable) else return_b llvm_value)))"

definition resolve_expression :: "emitters \<Rightarrow> expression \<Rightarrow> handle emission" where
  "resolve_expression E e = bind_b (e_expression E e) llvm_resolve_value"

definition node_value :: "emitters \<Rightarrow> expression \<Rightarrow> handle emission" where
  "node_value E e = bind_b (e_expression E e) llvm_node_value"

text \<open>\<open>std::any_cast\<close> to a pointer class throws for another class.\<close>

definition any_cast_to :: "value_class \<Rightarrow> llvm_any \<Rightarrow> handle emission" where
  "any_cast_to c v = (case v of AnyPointer c' h \<Rightarrow> if c' = c then return_b h else raise_b | _ \<Rightarrow> raise_b)"

definition llvm_resolve_variable :: "string \<Rightarrow> handle emission" where
  "llvm_resolve_variable name = bind_b (lookup_alloca name) (\<lambda>alloca_inst.
     if alloca_inst \<noteq> AnyNothing then llvm_node_value alloca_inst else ask (Named_global name))"

end
