(* ===== verification/Backend_Types.thy ===== *)
theory Backend_Types
  imports Backend_State Name_Mangle Support
begin

text \<open>
  The translation of types (\<open>llvm_type_from_amun_type\<close>, \<open>create_llvm_struct_type\<close>, \<open>resolve_generic_struct\<close>),
  of numbers and of the operators, in \<open>src/amun_llvm_backend.cpp\<close>.
\<close>

subsection \<open>Types\<close>

definition number_llvm_type :: "number_kind \<Rightarrow> basic_type" where
  "number_llvm_type number_kind = (case number_kind of
     INTEGER_1 \<Rightarrow> INT1_TYPE | INTEGER_8 \<Rightarrow> INT8_TYPE | INTEGER_16 \<Rightarrow> INT16_TYPE | INTEGER_32 \<Rightarrow> INT32_TYPE
   | INTEGER_64 \<Rightarrow> INT64_TYPE | U_INTEGER_8 \<Rightarrow> INT8_TYPE | U_INTEGER_16 \<Rightarrow> INT16_TYPE
   | U_INTEGER_32 \<Rightarrow> INT32_TYPE | U_INTEGER_64 \<Rightarrow> INT64_TYPE | FLOAT_32 \<Rightarrow> FLOAT32_TYPE
   | FLOAT_64 \<Rightarrow> FLOAT64_TYPE)"

definition current_struct :: "handle emission" where
  "current_struct = bind_b (read_b current_struct_type) (some_b NullAccess)"

definition remember_struct :: "string \<Rightarrow> handle \<Rightarrow> unit emission" where
  "remember_struct name t = modify_b (\<lambda>s. s\<lparr>structures_types_map := (structures_types_map s)(name \<mapsto> t)\<rparr>)"

text \<open>A pointer to the structure that is being declared, in the loop over the members.\<close>

definition struct_member_type :: "emitters \<Rightarrow> ty \<Rightarrow> handle emission" where
  "struct_member_type E field = (case field of
     PointerType (StructType name) \<Rightarrow>
       bind_b current_struct (\<lambda>current.
       if current = 0 then e_type E field
       else bind_b (ask_text (Name_of current)) (\<lambda>current_name.
         if current_name = name then ask (Pointer_type current) else e_type E field))
   | _ \<Rightarrow> e_type E field)"

definition create_llvm_struct_type :: "emitters \<Rightarrow> string \<Rightarrow> ty list \<Rightarrow> bool \<Rightarrow> bool \<Rightarrow> handle emission" where
  "create_llvm_struct_type E name members is_packed is_extern =
     bind_b (read_b (\<lambda>s. structures_types_map s name)) (\<lambda>known.
     case known of
       Some t \<Rightarrow> type_cast_to STRUCT_TY t
     | None \<Rightarrow>
         bind_b (ask (New_struct_type name)) (\<lambda>struct_llvm_type.
         then_b (if take 6 name \<noteq> ''_tuple''
           then modify_b (\<lambda>s. s\<lparr>current_struct_type := Some struct_llvm_type\<rparr>) else return_b ())
         (if is_extern then then_b (remember_struct name struct_llvm_type) (return_b struct_llvm_type)
          else bind_b (map_b (struct_member_type E) members) (\<lambda>struct_fields.
            then_b (through struct_llvm_type (enter_b (Set_body struct_llvm_type struct_fields is_packed)))
            (then_b (remember_struct name struct_llvm_type) (return_b struct_llvm_type))))))"

definition generic_member_type :: "emitters \<Rightarrow> struct_type \<Rightarrow> ty list \<Rightarrow> handle \<Rightarrow> ty \<Rightarrow> handle emission" where
  "generic_member_type E st parameters struct_llvm_type field = (case field of
     PointerType (StructType name) \<Rightarrow>
       if name = struct_name st then ask (Pointer_type struct_llvm_type) else e_type E field
   | StaticArrayType (PointerType (StructType name)) count \<Rightarrow>
       if name = struct_name st
       then bind_b (ask (Pointer_type struct_llvm_type)) (\<lambda>struct_ptr_ty. ask (Array_type struct_ptr_ty count))
       else e_type E field
   | GenericParameterType name \<Rightarrow>
       let position = index_of (generic_parameters st) name
       in if position < 0 then fail_b IndexOutOfRange
          else bind_b (nth_b parameters (nat position)) (e_type E)
   | _ \<Rightarrow> e_type E field)"

definition resolve_generic_struct_b :: "emitters \<Rightarrow> string \<Rightarrow> ty list \<Rightarrow> handle emission" where
  "resolve_generic_struct_b E name parameters =
     bind_b (struct_object_b name) (\<lambda>st.
     let mangled_name = struct_name st @ mangle_types parameters
     in bind_b (read_b (\<lambda>s. structures_types_map s mangled_name)) (\<lambda>known.
       case known of
         Some t \<Rightarrow> type_cast_to STRUCT_TY t
       | None \<Rightarrow>
           bind_b (ask (New_struct_type '''')) (\<lambda>struct_llvm_type.
           then_b (through struct_llvm_type (enter_b (Set_name struct_llvm_type mangled_name)))
           (bind_b (map_b (generic_member_type E st parameters struct_llvm_type) (fields_types st)) (\<lambda>struct_fields.
            then_b (enter_b (Set_body struct_llvm_type struct_fields (struct_is_packed st)))
            (then_b (remember_struct mangled_name struct_llvm_type) (return_b struct_llvm_type)))))))"

text \<open>A field of an unnamed tuple whose type is a known generic parameter is replaced.\<close>

definition tuple_field :: "(string \<rightharpoonup> ty) \<Rightarrow> ty \<Rightarrow> ty" where
  "tuple_field generics field = (case field of
     GenericParameterType name \<Rightarrow> (case generics name of Some t \<Rightarrow> t | None \<Rightarrow> field)
   | _ \<Rightarrow> field)"

definition pointer_llvm_type :: "emitters \<Rightarrow> ty \<Rightarrow> handle emission" where
  "pointer_llvm_type E pointer_base =
     (let plain = bind_b (e_type E pointer_base) (\<lambda>point_to_type. ask (Pointer_type point_to_type))
      in case pointer_base of
        VoidType \<Rightarrow> basic LLVM_VOID_PTR_TYPE
      | StructType name \<Rightarrow>
          bind_b current_struct (\<lambda>current. through current (bind_b (ask_text (Name_of current)) (\<lambda>current_name.
            if name = current_name then ask (Pointer_type current) else plain)))
      | _ \<Rightarrow> plain)"

definition llvm_type_from_amun_type :: "emitters \<Rightarrow> ty \<Rightarrow> handle emission" where
  "llvm_type_from_amun_type E t = (case t of
     NumberType number_kind \<Rightarrow> basic (number_llvm_type number_kind)
   | StaticArrayType element count \<Rightarrow>
       bind_b (e_type E element) (\<lambda>element_type. ask (Array_type element_type count))
   | StaticVectorType element count \<Rightarrow>
       bind_b (e_type E element) (\<lambda>llvm_element_type. ask (Vector_type llvm_element_type count))
   | PointerType pointer_base \<Rightarrow> pointer_llvm_type E pointer_base
   | FunctionType _ parameters return _ _ _ _ _ _ \<Rightarrow>
       bind_b (map_b (e_type E) parameters) (\<lambda>arguments.
       bind_b (e_type E return) (\<lambda>return_type. ask (Function_type return_type arguments False)))
   | StructType name \<Rightarrow>
       bind_b (read_b (\<lambda>s. structures_types_map s name)) (\<lambda>known.
       case known of
         Some h \<Rightarrow> return_b h
       | None \<Rightarrow> bind_b (struct_object_b name) (\<lambda>st.
           create_llvm_struct_type E name (fields_types st) (struct_is_packed st) (struct_is_extern st)))
   | TupleType name members \<Rightarrow>
       if name = ''_tuple_'' then
         bind_b (read_b backend_generic_types) (\<lambda>generics.
         let resolved_fileds = map (tuple_field generics) members
         in create_llvm_struct_type E (''_tuple_'' @ mangle_types resolved_fileds) resolved_fileds False False)
       else create_llvm_struct_type E name members False False
   | EnumElementType _ element_type \<Rightarrow> e_type E element_type
   | VoidType \<Rightarrow> basic LLVM_VOID_TYPE
   | GenericStructType name parameters \<Rightarrow> resolve_generic_struct_b E name parameters
   | GenericParameterType generic_name \<Rightarrow>
       bind_b (read_b (\<lambda>s. backend_generic_types s generic_name)) (\<lambda>known.
       case known of None \<Rightarrow> internal_compiler_error | Some amun_type \<Rightarrow> e_type E amun_type)
   | _ \<Rightarrow> internal_compiler_error)"

definition type_node_llvm :: "emitters \<Rightarrow> type_node \<Rightarrow> handle emission" where
  "type_node_llvm E n = bind_b (type_of_node_b n) (e_type E)"

definition expression_llvm_type :: "emitters \<Rightarrow> expression \<Rightarrow> handle emission" where
  "expression_llvm_type E e = type_node_llvm E (get_type_node e)"

subsection \<open>Numbers\<close>

text \<open>
  \<open>std::stoi\<close>: the decimal digits at the front, an exception without one or out of the range of \<open>int\<close>.
  \<open>strtol\<close>, \<open>strtoll\<close> and \<open>strtoull\<close> with base 0: a leading zero means octal; they stop at their limits.
  The value of a float literal is given by its text: \<open>std::stof\<close> and its exception are not modelled.
\<close>

definition leading_digits :: "int \<Rightarrow> string \<Rightarrow> string" where
  "leading_digits b s = takeWhile (\<lambda>c. 48 \<le> schar c \<and> schar c < 48 + b) s"

definition stoi_b :: "string \<Rightarrow> int emission" where
  "stoi_b s = (let digits = leading_digits 10 s; value = digits_value 10 digits
     in if digits = [] \<or> 2 ^ 31 \<le> value then raise_b else return_b value)"

definition strto :: "int \<Rightarrow> string \<Rightarrow> int" where
  "strto limit s = (let b = (if take 1 s = ''0'' then 8 else 10)
     in min limit (digits_value b (leading_digits b s)))"

definition llvm_number_value :: "string \<Rightarrow> number_kind \<Rightarrow> handle emission" where
  "llvm_number_value value_litearl number_kind =
     (let number = \<lambda>value. create_llvm_int (number_llvm_type number_kind) value;
          floating = bind_b (basic (number_llvm_type number_kind)) (\<lambda>t. ask (Constant_fp t value_litearl))
      in case number_kind of
        U_INTEGER_32 \<Rightarrow> number (strto (2 ^ 63 - 1) value_litearl)
      | INTEGER_64 \<Rightarrow> number (strto (2 ^ 63 - 1) value_litearl)
      | U_INTEGER_64 \<Rightarrow> number (strto (2 ^ 64 - 1) value_litearl)
      | FLOAT_32 \<Rightarrow> floating
      | FLOAT_64 \<Rightarrow> floating
      | _ \<Rightarrow> bind_b (stoi_b value_litearl) number)"

subsection \<open>Operators\<close>

definition integer_instruction :: "token_kind \<Rightarrow> binary_instruction option" where
  "integer_instruction op = (case op of
     TOKEN_PLUS \<Rightarrow> Some ADD | TOKEN_MINUS \<Rightarrow> Some SUB | TOKEN_STAR \<Rightarrow> Some MUL
   | TOKEN_SLASH \<Rightarrow> Some UDIV | TOKEN_PERCENT \<Rightarrow> Some UREM | _ \<Rightarrow> None)"

definition float_instruction :: "token_kind \<Rightarrow> binary_instruction option" where
  "float_instruction op = (case op of
     TOKEN_PLUS \<Rightarrow> Some FADD | TOKEN_MINUS \<Rightarrow> Some FSUB | TOKEN_STAR \<Rightarrow> Some FMUL
   | TOKEN_SLASH \<Rightarrow> Some FDIV | TOKEN_PERCENT \<Rightarrow> Some FREM | _ \<Rightarrow> None)"

definition create_binary :: "binary_instruction option \<Rightarrow> handle \<Rightarrow> handle \<Rightarrow> handle emission" where
  "create_binary instruction left right = (case instruction of
     Some i \<Rightarrow> ask (Create_binary i left right) | None \<Rightarrow> internal_compiler_error)"

definition create_llvm_integers_bianry :: "token_kind \<Rightarrow> handle \<Rightarrow> handle \<Rightarrow> handle emission" where
  "create_llvm_integers_bianry op = create_binary (integer_instruction op)"

definition create_llvm_floats_bianry :: "token_kind \<Rightarrow> handle \<Rightarrow> handle \<Rightarrow> handle emission" where
  "create_llvm_floats_bianry op = create_binary (float_instruction op)"

text \<open>The operators on vectors select the same instructions.\<close>

definition create_llvm_integers_vectors_bianry :: "token_kind \<Rightarrow> handle \<Rightarrow> handle \<Rightarrow> handle emission" where
  "create_llvm_integers_vectors_bianry op = create_binary (integer_instruction op)"

definition create_llvm_floats_vectors_bianry :: "token_kind \<Rightarrow> handle \<Rightarrow> handle \<Rightarrow> handle emission" where
  "create_llvm_floats_vectors_bianry op = create_binary (float_instruction op)"

definition by_number_type :: "(handle \<Rightarrow> handle \<Rightarrow> handle emission) \<Rightarrow> (handle \<Rightarrow> handle \<Rightarrow> handle emission)
    \<Rightarrow> handle \<Rightarrow> handle \<Rightarrow> handle emission" where
  "by_number_type integers floats left right =
     bind_b (both_types_are INTEGER_TY left right) (\<lambda>are_integers.
     if are_integers then integers left right
     else bind_b (both_types_are FLOATING_POINT_TY left right) (\<lambda>are_floats.
       if are_floats then floats left right else internal_compiler_error))"

definition create_llvm_numbers_bianry :: "token_kind \<Rightarrow> handle \<Rightarrow> handle \<Rightarrow> handle emission" where
  "create_llvm_numbers_bianry op =
     by_number_type (create_llvm_integers_bianry op) (create_llvm_floats_bianry op)"

definition signed_predicate :: "token_kind \<Rightarrow> compare_instruction option" where
  "signed_predicate op = (case op of
     TOKEN_EQUAL_EQUAL \<Rightarrow> Some ICMP_EQ | TOKEN_BANG_EQUAL \<Rightarrow> Some ICMP_NE | TOKEN_GREATER \<Rightarrow> Some ICMP_SGT
   | TOKEN_GREATER_EQUAL \<Rightarrow> Some ICMP_SGE | TOKEN_SMALLER \<Rightarrow> Some ICMP_SLT | TOKEN_SMALLER_EQUAL \<Rightarrow> Some ICMP_SLE
   | _ \<Rightarrow> None)"

definition unsigned_predicate :: "token_kind \<Rightarrow> compare_instruction option" where
  "unsigned_predicate op = (case op of
     TOKEN_EQUAL_EQUAL \<Rightarrow> Some ICMP_EQ | TOKEN_BANG_EQUAL \<Rightarrow> Some ICMP_NE | TOKEN_GREATER \<Rightarrow> Some ICMP_UGT
   | TOKEN_GREATER_EQUAL \<Rightarrow> Some ICMP_UGE | TOKEN_SMALLER \<Rightarrow> Some ICMP_ULT | TOKEN_SMALLER_EQUAL \<Rightarrow> Some ICMP_ULE
   | _ \<Rightarrow> None)"

definition float_predicate :: "token_kind \<Rightarrow> compare_instruction option" where
  "float_predicate op = (case op of
     TOKEN_EQUAL_EQUAL \<Rightarrow> Some FCMP_OEQ | TOKEN_BANG_EQUAL \<Rightarrow> Some FCMP_ONE | TOKEN_GREATER \<Rightarrow> Some FCMP_OGT
   | TOKEN_GREATER_EQUAL \<Rightarrow> Some FCMP_OGE | TOKEN_SMALLER \<Rightarrow> Some FCMP_OLT | TOKEN_SMALLER_EQUAL \<Rightarrow> Some FCMP_OLE
   | _ \<Rightarrow> None)"

definition create_compare :: "compare_instruction option \<Rightarrow> handle \<Rightarrow> handle \<Rightarrow> handle emission" where
  "create_compare predicate left right = (case predicate of
     Some p \<Rightarrow> ask (Create_compare p left right) | None \<Rightarrow> internal_compiler_error)"

definition create_llvm_integers_comparison :: "token_kind \<Rightarrow> handle \<Rightarrow> handle \<Rightarrow> handle emission" where
  "create_llvm_integers_comparison op = create_compare (signed_predicate op)"

definition create_llvm_unsigned_integers_comparison :: "token_kind \<Rightarrow> handle \<Rightarrow> handle \<Rightarrow> handle emission" where
  "create_llvm_unsigned_integers_comparison op = create_compare (unsigned_predicate op)"

definition create_llvm_floats_comparison :: "token_kind \<Rightarrow> handle \<Rightarrow> handle \<Rightarrow> handle emission" where
  "create_llvm_floats_comparison op = create_compare (float_predicate op)"

definition create_llvm_numbers_comparison :: "token_kind \<Rightarrow> handle \<Rightarrow> handle \<Rightarrow> handle emission" where
  "create_llvm_numbers_comparison op =
     by_number_type (create_llvm_integers_comparison op) (create_llvm_floats_comparison op)"

end
