(* ===== verification/Backend_Values.thy ===== *)
theory Backend_Values
  imports Backend_Types
begin

text \<open>
  Functions, members, array elements and constants in \<open>src/amun_llvm_backend.cpp\<close>: prototypes,
  \<open>lookup_function\<close>, \<open>access_struct_member_pointer\<close>, \<open>access_array_element\<close>, the \<open>resolve_constant\<close> family,
  increments and the calls of \<open>strcmp\<close> and \<open>strlen\<close>.
\<close>

subsection \<open>Functions\<close>

definition set_argument_names :: "handle \<Rightarrow> string list \<Rightarrow> unit emission" where
  "set_argument_names function names =
     through function (bind_b (ask_number (Argument_count function)) (\<lambda>count.
       each_b (\<lambda>i. bind_b (ask (Argument function i)) (\<lambda>argument. enter_b (Set_name argument (names ! i))))
         [0 ..< min count (length names)]))"

definition visit_prototype_b :: "emitters \<Rightarrow> function_prototype \<Rightarrow> handle emission" where
  "visit_prototype_b E node =
     bind_b (map_b (\<lambda>p. e_type E (parameter_type p)) (prototype_parameters node)) (\<lambda>arguments.
     bind_b (e_type E (prototype_return_type node)) (\<lambda>return_type.
     bind_b (ask (Function_type return_type arguments (prototype_has_varargs node))) (\<lambda>function_type.
     let function_name = literal (prototype_name node);
         is_external_linkage = prototype_is_external node \<or> function_name = ''main''
     in bind_b (ask (New_function function_type is_external_linkage function_name)) (\<lambda>function.
        then_b (set_argument_names function (map (\<lambda>p. literal (parameter_name p)) (prototype_parameters node)))
          (return_b function)))))"

definition visit_intrinsic_b :: "emitters \<Rightarrow> token \<Rightarrow> string \<Rightarrow> parameter list \<Rightarrow> handle emission" where
  "visit_intrinsic_b E name native_name parameters =
     bind_b (map_b (\<lambda>p. e_type E (parameter_type p)) parameters) (\<lambda>parameters_types.
     if native_name \<noteq> ''llvm.cos'' then internal_compiler_error
     else bind_b (ask (Intrinsic_declaration native_name parameters_types)) (\<lambda>function.
       then_b (modify_b (\<lambda>s. s\<lparr>llvm_functions := (llvm_functions s)(literal name \<mapsto> function)\<rparr>))
         (return_b function)))"

text \<open>A prototype that is found in the table declares its function again.\<close>

definition lookup_function :: "emitters \<Rightarrow> string \<Rightarrow> handle emission" where
  "lookup_function E name =
     bind_b (ask (Get_function name)) (\<lambda>function.
     if function \<noteq> 0 then return_b function
     else bind_b (read_b (\<lambda>s. functions_table s name)) (\<lambda>function_prototype.
       case function_prototype of
         Some prototype \<Rightarrow> visit_prototype_b E prototype
       | None \<Rightarrow> read_b (\<lambda>s. case llvm_functions s name of Some f \<Rightarrow> f | None \<Rightarrow> 0)))"

definition is_lambda_function_name :: "string \<Rightarrow> bool" where
  "is_lambda_function_name name = (take 7 name = ''_lambda'')"

definition create_overloading_function_call :: "emitters \<Rightarrow> string \<Rightarrow> handle list \<Rightarrow> handle emission" where
  "create_overloading_function_call E name args =
     bind_b (lookup_function E name) (\<lambda>function. through function (ask (Create_call function args)))"

text \<open>A function of the C library, declared when it is used first.\<close>

definition library_function :: "emitters \<Rightarrow> string \<Rightarrow> basic_type \<Rightarrow> basic_type list \<Rightarrow> handle emission" where
  "library_function E name return_type arguments =
     bind_b (lookup_function E name) (\<lambda>function.
     if function \<noteq> 0 then return_b function
     else bind_b (basic return_type) (\<lambda>return_type. bind_b (map_b basic arguments) (\<lambda>arguments.
       bind_b (ask (Function_type return_type arguments False)) (\<lambda>fun_type.
       ask (New_function fun_type True name)))))"

definition create_llvm_string_length :: "emitters \<Rightarrow> handle \<Rightarrow> handle emission" where
  "create_llvm_string_length E str =
     bind_b (library_function E ''strlen'' INT64_TYPE [INT8_PTR_TYPE]) (\<lambda>function.
     ask (Create_call function [str]))"

definition create_llvm_strings_comparison :: "emitters \<Rightarrow> token_kind \<Rightarrow> handle \<Rightarrow> handle \<Rightarrow> handle emission" where
  "create_llvm_strings_comparison E op left right =
     bind_b (library_function E ''strcmp'' INT32_TYPE [INT8_PTR_TYPE, INT8_PTR_TYPE]) (\<lambda>function.
     bind_b (ask (Create_call function [left, right])) (\<lambda>function_call.
     bind_b (read_b (\<lambda>s. zero_int32_value (library s))) (\<lambda>zero.
     create_compare (signed_predicate op) function_call zero)))"

subsection \<open>Members of structures\<close>

definition create_gep_element :: "handle \<Rightarrow> handle \<Rightarrow> handle \<Rightarrow> handle emission" where
  "create_gep_element t pointer index = bind_b (read_b (\<lambda>s. zero_int32_value (library s))) (\<lambda>zero.
     ask (Create_gep t pointer [zero, index]))"

text \<open>A value of structure type is stored first.\<close>

definition stored_member :: "handle \<Rightarrow> handle \<Rightarrow> handle emission" where
  "stored_member callee_value index =
     bind_b (type_of callee_value) (\<lambda>struct_type.
     bind_b (type_is STRUCT_TY struct_type) (\<lambda>is_struct.
     if \<not> is_struct then fail_b AssertFailure
     else bind_b (ask (Create_alloca struct_type)) (\<lambda>alloca.
       then_b (enter_b (Create_store callee_value alloca)) (create_gep_element struct_type alloca index))))"

text \<open>\<open>element.parent.value\<close>: the pointer that was loaded, when it is that of a member.\<close>

definition struct_member :: "handle \<Rightarrow> handle \<Rightarrow> handle \<Rightarrow> handle emission" where
  "struct_member callee_value callee_llvm_type index =
     bind_b (cast_to PHI_NODE callee_value) (\<lambda>phi_node.
     if phi_node \<noteq> 0 then stored_member callee_value index
     else bind_b (cast_to ALLOCA_INST callee_value) (\<lambda>alloca.
       if alloca \<noteq> 0 then create_gep_element callee_llvm_type alloca index
       else bind_b (cast_to LOAD_INST callee_value) (\<lambda>load.
         if load = 0 then create_gep_element callee_llvm_type callee_value index
         else bind_b (ask (Pointer_operand load)) (\<lambda>operand.
           bind_b (cast_to GEP_INST operand) (\<lambda>member.
           create_gep_element callee_llvm_type (if member \<noteq> 0 then operand else callee_value) index)))))"

definition access_struct_member_pointer :: "handle \<Rightarrow> handle \<Rightarrow> int \<Rightarrow> handle emission" where
  "access_struct_member_pointer callee_value callee_llvm_type field_index =
     bind_b (create_llvm_int INT32_TYPE field_index) (\<lambda>index.
     bind_b (type_is STRUCT_TY callee_llvm_type) (\<lambda>is_struct.
     if is_struct then struct_member callee_value callee_llvm_type index
     else bind_b (type_is POINTER_TY callee_llvm_type) (\<lambda>is_pointer.
       if is_pointer then
         bind_b (ask (Element_type callee_llvm_type)) (\<lambda>struct_type.
         bind_b (type_is STRUCT_TY struct_type) (\<lambda>points_to_struct.
         if \<not> points_to_struct then fail_b AssertFailure
         else bind_b (derefernecs_llvm_pointer callee_value) (\<lambda>struct_value.
           create_gep_element struct_type struct_value index)))
       else bind_b (type_is FUNCTION_TY callee_llvm_type) (\<lambda>is_function.
         if is_function then stored_member callee_value index else fail_b MissingReturn))))"

text \<open>The overloads for an expression and for a dot expression, given by its callee and index.\<close>

definition access_member_of :: "emitters \<Rightarrow> expression \<Rightarrow> int \<Rightarrow> handle emission" where
  "access_member_of E callee field_index =
     bind_b (node_value E callee) (\<lambda>callee_value.
     bind_b (expression_llvm_type E callee) (\<lambda>callee_type.
     access_struct_member_pointer callee_value callee_type field_index))"

subsection \<open>Elements of arrays\<close>

text \<open>An element of a constant array: by number for \<open>ConstantDataArray\<close>, else by a constant; \<open>None\<close> for no constant.\<close>

definition constant_element :: "handle \<Rightarrow> handle \<Rightarrow> handle option emission" where
  "constant_element array constants_index =
     bind_b (cast_to CONSTANT_DATA_ARRAY array) (\<lambda>data_array.
     if data_array \<noteq> 0 then
       through constants_index (bind_b (ask_number (Limited_value constants_index)) (\<lambda>i.
         bind_b (ask (Element_as_constant data_array i)) (\<lambda>element. return_b (Some element))))
     else bind_b (cast_to CONSTANT_ARRAY array) (\<lambda>constants_array.
       bind_b (if constants_array \<noteq> 0 then return_b constants_array else cast_to CONSTANT array) (\<lambda>constant.
       if constant \<noteq> 0 then
         bind_b (ask (Aggregate_element constant constants_index)) (\<lambda>element. return_b (Some element))
       else return_b None)))"

definition some_element :: "handle option \<Rightarrow> handle emission" where
  "some_element v = (case v of Some element \<Rightarrow> return_b element | None \<Rightarrow> internal_compiler_error)"

definition local_array_element :: "handle \<Rightarrow> handle \<Rightarrow> handle emission" where
  "local_array_element array index =
     bind_b (cast_to ALLOCA_INST array) (\<lambda>alloca. through alloca (
     bind_b (ask (Allocated_type alloca)) (\<lambda>alloca_type.
     bind_b (create_gep_element alloca_type alloca index) (\<lambda>ptr.
     bind_b (ask (Element_type alloca_type)) (\<lambda>element_type.
     bind_b (type_is POINTER_TY element_type) (\<lambda>is_pointer.
     bind_b (if is_pointer then return_b True else type_is STRUCT_TY element_type) (\<lambda>is_address.
     if is_address then return_b ptr else derefernecs_llvm_pointer ptr)))))))"

definition global_array_element :: "handle \<Rightarrow> handle \<Rightarrow> handle emission" where
  "global_array_element array index =
     bind_b (cast_to GLOBAL_VARIABLE array) (\<lambda>global_variable_array. through global_variable_array (
     bind_b (ask Get_insert_block) (\<lambda>local_insert_block.
     if local_insert_block \<noteq> 0 then
       bind_b (ask (Value_type global_variable_array)) (\<lambda>t.
       bind_b (create_gep_element t global_variable_array index) derefernecs_llvm_pointer)
     else
       bind_b (ask (Initializer global_variable_array)) (\<lambda>initalizer.
       bind_b (cast_to CONSTANT_INT index) (\<lambda>constants_index.
       bind_b (constant_element initalizer constants_index) some_element)))))"

text \<open>An element of a loaded or a constant array; null for another value.\<close>

definition value_array_element :: "handle \<Rightarrow> handle \<Rightarrow> handle option emission" where
  "value_array_element array index =
     bind_b (cast_to LOAD_INST array) (\<lambda>load_inst.
     if load_inst \<noteq> 0 then
       bind_b (type_of array) (\<lambda>t. bind_b (ask (Pointer_operand load_inst)) (\<lambda>operand.
       bind_b (create_gep_element t operand index) (\<lambda>ptr.
       bind_b (derefernecs_llvm_pointer ptr) (\<lambda>v. return_b (Some v)))))
     else bind_b (cast_to CONSTANT array) (\<lambda>constants_array.
       if constants_array \<noteq> 0 then
         bind_b (cast_to CONSTANT_INT index) (\<lambda>constants_index.
         bind_b (ask (Aggregate_element constants_array constants_index)) (\<lambda>v. return_b (Some v)))
       else return_b None))"

definition access_array_element :: "emitters \<Rightarrow> expression \<Rightarrow> handle \<Rightarrow> handle emission" where
  "access_array_element E value_node index =
     bind_b (node_type value_node) (\<lambda>values_type.
     case values_type of
       PointerType base_type \<Rightarrow>
         bind_b (e_type E base_type) (\<lambda>element_type.
         bind_b (resolve_expression E value_node) (\<lambda>pointer.
         bind_b (ask (Create_gep element_type pointer [index])) (\<lambda>ptr.
         ask (Create_load element_type ptr))))
     | _ \<Rightarrow> (case value_node of
         LiteralExpression _ _ _ \<Rightarrow> bind_b (e_expression E value_node) (\<lambda>array.
           case array of
             AnyPointer ALLOCA_INST h \<Rightarrow> local_array_element h index
           | AnyPointer GLOBAL_VARIABLE h \<Rightarrow> global_array_element h index
           | _ \<Rightarrow> internal_compiler_error)
       | IndexExpression _ _ _ _ \<Rightarrow> bind_b (node_value E value_node) (\<lambda>array.
           bind_b (value_array_element array index) some_element)
       | ArrayExpression _ _ _ _ \<Rightarrow> bind_b (node_value E value_node) (\<lambda>array.
           bind_b (value_array_element array index) some_element)
       | DotExpression _ _ _ _ _ _ \<Rightarrow> bind_b (e_expression E value_node) (\<lambda>struct_field.
           bind_b (any_cast_to LOAD_INST struct_field) (\<lambda>load_inst.
           if load_inst = 0 then internal_compiler_error
           else bind_b (type_of load_inst) (\<lambda>t. bind_b (ask (Pointer_operand load_inst)) (\<lambda>operand.
             bind_b (create_gep_element t operand index) derefernecs_llvm_pointer))))
       | _ \<Rightarrow> internal_compiler_error))"

subsection \<open>Constants\<close>

definition resolve_constant_index_expression :: "emitters \<Rightarrow> expression \<Rightarrow> expression \<Rightarrow> handle emission" where
  "resolve_constant_index_expression E array_expression index_expression =
     bind_b (node_value E array_expression) (\<lambda>llvm_array.
     bind_b (node_value E index_expression) (\<lambda>index_value.
     bind_b (cast_to CONSTANT_INT index_value) (\<lambda>constants_index.
     bind_b (cast_to GLOBAL_VARIABLE llvm_array) (\<lambda>global_variable_array.
     bind_b (if global_variable_array \<noteq> 0 then
         bind_b (ask (Initializer global_variable_array)) (\<lambda>initalizer.
         constant_element initalizer constants_index)
       else return_b None) (\<lambda>element.
     case element of
       Some e \<Rightarrow> return_b e
     | None \<Rightarrow> bind_b (constant_element llvm_array constants_index) some_element)))))"

definition constant_of :: "emitters \<Rightarrow> expression \<Rightarrow> handle emission" where
  "constant_of E e = bind_b (resolve_expression E e) (cast_to CONSTANT)"

text \<open>The conditions and the values are parallel vectors; the result is null when no condition is one.\<close>

fun resolve_constant_if_expression :: "emitters \<Rightarrow> nat \<Rightarrow> expression list \<Rightarrow> expression list \<Rightarrow> handle emission" where
  "resolve_constant_if_expression E 0 conditions if_values = return_b 0"
| "resolve_constant_if_expression E (Suc count) conditions if_values =
     (case conditions of
        [] \<Rightarrow> fail_b IndexOutOfRange
      | condition # conditions' \<Rightarrow>
          bind_b (constant_of E condition) (\<lambda>constant_condition. through constant_condition (
          bind_b (ask_flag (Is_one_value constant_condition)) (\<lambda>is_one.
          case if_values of
            [] \<Rightarrow> if is_one then fail_b IndexOutOfRange
              else resolve_constant_if_expression E count conditions' []
          | v # if_values' \<Rightarrow> if is_one then constant_of E v
              else resolve_constant_if_expression E count conditions' if_values'))))"

text \<open>
  The tests on the constants compare addresses.  \<open>TOKEN_SMALLER\<close> and \<open>TOKEN_SMALLER_EQUAL\<close> test \<open>>=\<close> as the code
  does; the order of addresses is asked from the library.
\<close>

definition constant_case_matches :: "token_kind \<Rightarrow> handle \<Rightarrow> handle \<Rightarrow> bool emission" where
  "constant_case_matches op argument constant_case =
     (let not_less = bind_b (ask_flag (Address_less argument constant_case)) (\<lambda>b. return_b (\<not> b))
      in if op = TOKEN_EQUAL_EQUAL then return_b (argument = constant_case)
         else if op = TOKEN_BANG_EQUAL then return_b (argument \<noteq> constant_case)
         else if op = TOKEN_GREATER then ask_flag (Address_less constant_case argument)
         else if op \<in> {TOKEN_GREATER_EQUAL, TOKEN_SMALLER, TOKEN_SMALLER_EQUAL} then not_less
         else return_b False)"

fun constant_switch_cases :: "emitters \<Rightarrow> token_kind \<Rightarrow> handle \<Rightarrow> expression list \<Rightarrow> expression list
    \<Rightarrow> expression option \<Rightarrow> handle emission" where
  "constant_switch_cases E op argument [] case_values default_value =
     (case default_value of None \<Rightarrow> fail_b NullAccess | Some e \<Rightarrow> constant_of E e)"
| "constant_switch_cases E op argument (switch_case # switch_cases) case_values default_value =
     bind_b (constant_of E switch_case) (\<lambda>constant_case.
     bind_b (constant_case_matches op argument constant_case) (\<lambda>matches.
     if matches then (case case_values of [] \<Rightarrow> fail_b IndexOutOfRange | v # _ \<Rightarrow> constant_of E v)
     else constant_switch_cases E op argument switch_cases (tl case_values) default_value))"

definition resolve_constant_switch_expression :: "emitters \<Rightarrow> token_kind \<Rightarrow> expression \<Rightarrow> expression list
    \<Rightarrow> expression list \<Rightarrow> expression option \<Rightarrow> handle emission" where
  "resolve_constant_switch_expression E op argument switch_cases case_values default_value =
     bind_b (constant_of E argument) (\<lambda>constant_argument.
     constant_switch_cases E op constant_argument switch_cases case_values default_value)"

definition resolve_constant_expression :: "emitters \<Rightarrow> expression \<Rightarrow> handle emission" where
  "resolve_constant_expression E e = (case e of
     IndexExpression _ array_expression index _ \<Rightarrow> resolve_constant_index_expression E array_expression index
   | IfExpression tokens conditions if_values _ \<Rightarrow>
       resolve_constant_if_expression E (length tokens) conditions if_values
   | _ \<Rightarrow> constant_of E e)"

definition remember_string :: "string \<Rightarrow> handle \<Rightarrow> unit emission" where
  "remember_string text h = modify_b (\<lambda>s. s\<lparr>constants_string_pool := (constants_string_pool s)(text \<mapsto> h)\<rparr>)"

definition resolve_constant_string_expression :: "string \<Rightarrow> handle emission" where
  "resolve_constant_string_expression text =
     bind_b (read_b (\<lambda>s. constants_string_pool s text)) (\<lambda>known.
     case known of
       Some h \<Rightarrow> return_b h
     | None \<Rightarrow>
         if text = [] then
           bind_b (ask (Global_string_ptr '''')) (\<lambda>str. then_b (remember_string '''' str) (return_b str))
         else
           bind_b (map_b (\<lambda>c. create_llvm_int INT8_TYPE (schar c)) text) (\<lambda>characters.
           bind_b (create_llvm_int INT8_TYPE 0) (\<lambda>end_character.
           bind_b (basic INT8_TYPE) (\<lambda>int8. bind_b (ask (Array_type int8 (length text + 1))) (\<lambda>array_type.
           bind_b (ask (Constant_array_of array_type (characters @ [end_character]))) (\<lambda>init.
           bind_b (type_of init) (\<lambda>init_type.
           bind_b (ask (New_global init_type True init text)) (\<lambda>variable.
           bind_b (ask (Pointer_type int8)) (\<lambda>pointer_type.
           bind_b (ask (Constant_bit_cast variable pointer_type)) (\<lambda>str.
           then_b (remember_string text str) (return_b str)))))))))))"

subsection \<open>Increments\<close>

text \<open>The new value is stored where the operand was loaded from; integers and floats use the same instruction.\<close>

definition store_step :: "token_kind \<Rightarrow> handle \<Rightarrow> bool \<Rightarrow> handle \<Rightarrow> handle \<Rightarrow> handle emission" where
  "store_step op constants_one is_prefix current_value pointer =
     bind_b (create_llvm_integers_bianry op current_value constants_one) (\<lambda>new_value.
     then_b (enter_b (Create_store new_value pointer))
       (return_b (if is_prefix then new_value else current_value)))"

definition create_llvm_value_step :: "token_kind \<Rightarrow> emitters \<Rightarrow> expression \<Rightarrow> bool \<Rightarrow> handle emission" where
  "create_llvm_value_step op E operand is_prefix =
     bind_b (node_type operand) (\<lambda>operand_type.
     case operand_type of
       NumberType number_kind \<Rightarrow>
         bind_b (llvm_number_value ''1'' number_kind) (\<lambda>constants_one.
         bind_b (case operand of
             DotExpression field_index _ _ callee _ _ \<Rightarrow>
               bind_b (access_member_of E callee field_index) (\<lambda>h. return_b (AnyPointer VALUE h))
           | _ \<Rightarrow> e_expression E operand) (\<lambda>right.
         case right of
           AnyPointer LOAD_INST current_value \<Rightarrow> through current_value (
             bind_b (create_llvm_integers_bianry op current_value constants_one) (\<lambda>new_value.
             bind_b (ask (Pointer_operand current_value)) (\<lambda>pointer.
             then_b (enter_b (Create_store new_value pointer))
               (return_b (if is_prefix then new_value else current_value)))))
         | AnyPointer ALLOCA_INST alloca \<Rightarrow> through alloca (
             bind_b (ask (Allocated_type alloca)) (\<lambda>t. bind_b (ask (Create_load t alloca)) (\<lambda>current_value.
             store_step op constants_one is_prefix current_value alloca)))
         | AnyPointer GLOBAL_VARIABLE global_variable \<Rightarrow> through global_variable (
             bind_b (ask (Value_type global_variable)) (\<lambda>t.
             bind_b (ask (Create_load t global_variable)) (\<lambda>current_value.
             store_step op constants_one is_prefix current_value global_variable)))
         | AnyPointer VALUE current_value_ptr \<Rightarrow>
             bind_b (e_type E operand_type) (\<lambda>number_llvm_type.
             bind_b (ask (Create_load number_llvm_type current_value_ptr)) (\<lambda>current_value.
             store_step op constants_one is_prefix current_value current_value_ptr))
         | _ \<Rightarrow> internal_compiler_error))
     | _ \<Rightarrow> fail_b BadCast)"

definition create_llvm_value_increment :: "emitters \<Rightarrow> expression \<Rightarrow> bool \<Rightarrow> handle emission" where
  "create_llvm_value_increment = create_llvm_value_step TOKEN_PLUS"

definition create_llvm_value_decrement :: "emitters \<Rightarrow> expression \<Rightarrow> bool \<Rightarrow> handle emission" where
  "create_llvm_value_decrement = create_llvm_value_step TOKEN_MINUS"

end
