(* ===== verification/Backend_Expressions.thy ===== *)
theory Backend_Expressions
  imports Backend_Values
begin

text \<open>
  The visitors of expressions other than calls and lambdas in \<open>src/amun_llvm_backend.cpp\<close>.  A visitor returns a
  \<open>std::any\<close>: the pointer with the static type it has where the code returns it.
\<close>

definition any_of :: "value_class \<Rightarrow> handle emission \<Rightarrow> llvm_any emission" where
  "any_of c m = bind_b m (\<lambda>h. return_b (AnyPointer c h))"

subsection \<open>Conditional expressions\<close>

text \<open>
  The chain of blocks of an if or switch expression: each condition, given with the block it falls through
  to, jumps to the merge block.
\<close>

definition condition_chain :: "handle \<Rightarrow> handle \<Rightarrow> (handle emission \<times> handle) list \<Rightarrow> unit emission" where
  "condition_chain function merge_branch steps =
     each_b (\<lambda>(condition, current_branch). bind_b condition (\<lambda>c.
       then_b (enter_b (Create_cond_br c merge_branch current_branch)) (start_block_b function current_branch))) steps"

definition merge_values :: "handle \<Rightarrow> handle \<Rightarrow> handle \<Rightarrow> (handle \<times> handle) list \<Rightarrow> llvm_any emission" where
  "merge_values function merge_branch value_type incoming =
     then_b (enter_b (Create_br merge_branch))
     (then_b (start_block_b function merge_branch)
     (bind_b (ask (Create_phi value_type (length incoming))) (\<lambda>phi_node.
      then_b (each_b (\<lambda>(v, b). through phi_node (enter_b (Add_incoming phi_node v b))) incoming)
        (return_b (AnyPointer PHI_NODE phi_node)))))"

text \<open>All values are resolved before the first branch.\<close>

definition visit_if_expression_b :: "emitters \<Rightarrow> token list \<Rightarrow> expression list \<Rightarrow> expression list \<Rightarrow> type_node
    \<Rightarrow> llvm_any emission" where
  "visit_if_expression_b E tokens conditions if_values t =
     bind_b (read_b is_on_global_scope) (\<lambda>is_global_block.
     if is_global_block \<and> is_constant (IfExpression tokens conditions if_values t)
     then any_of CONSTANT (resolve_constant_if_expression E (length tokens) conditions if_values)
     else
       bind_b (type_node_llvm E t) (\<lambda>value_type.
       bind_b (map_b (\<lambda>i. bind_b (ask (New_block '''')) (\<lambda>b.
           bind_b (nth_b if_values i) (\<lambda>e. bind_b (resolve_expression E e) (\<lambda>v. return_b (v, b)))))
         [0 ..< length tokens]) (\<lambda>incoming.
       bind_b current_function (\<lambda>function.
       bind_b (ask (New_block '''')) (\<lambda>merge_branch.
       case map snd incoming of
         [] \<Rightarrow> fail_b IndexOutOfRange
       | first_branch # branches \<Rightarrow>
           then_b (enter_b (Create_br first_branch)) (then_b (start_block_b function first_branch)
           (then_b (condition_chain function merge_branch (map (\<lambda>(i, b).
               (bind_b (nth_b conditions i) (resolve_expression E), b)) (zip [0 ..< length branches] branches)))
           (merge_values function merge_branch value_type incoming))))))))"

definition visit_switch_expression_b :: "emitters \<Rightarrow> token \<Rightarrow> expression \<Rightarrow> expression list \<Rightarrow> expression list
    \<Rightarrow> expression option \<Rightarrow> type_node \<Rightarrow> token_kind \<Rightarrow> llvm_any emission" where
  "visit_switch_expression_b E keyword argument switch_cases case_values else_branch t op =
     bind_b (read_b is_on_global_scope) (\<lambda>is_global_block.
     if is_global_block \<and> is_constant (SwitchExpression keyword argument switch_cases case_values else_branch t op)
     then any_of CONSTANT (resolve_constant_switch_expression E op argument switch_cases case_values else_branch)
     else
       bind_b (type_node_llvm E t) (\<lambda>value_type.
       bind_b current_function (\<lambda>function.
       bind_b (resolve_expression E argument) (\<lambda>llvm_argument.
       bind_b (map_b (\<lambda>i. bind_b (ask (New_block '''')) (\<lambda>b.
           bind_b (nth_b case_values i) (\<lambda>e. bind_b (resolve_expression E e) (\<lambda>v. return_b (v, b)))))
         [0 ..< length switch_cases]) (\<lambda>incoming.
       bind_b (case else_branch of
           None \<Rightarrow> return_b []
         | Some e \<Rightarrow> bind_b (resolve_expression E e) (\<lambda>v. bind_b (ask (New_block '''')) (\<lambda>b. return_b [(v, b)])))
         (\<lambda>default_incoming.
       bind_b (ask (New_block '''')) (\<lambda>merge_branch.
       case map snd (incoming @ default_incoming) of
         [] \<Rightarrow> fail_b IndexOutOfRange
       | first_branch # branches \<Rightarrow>
           then_b (enter_b (Create_br first_branch)) (then_b (start_block_b function first_branch)
           (then_b (condition_chain function merge_branch (map (\<lambda>(i, b).
               (bind_b (nth_b switch_cases i) (\<lambda>e. bind_b (node_value E e)
                  (create_llvm_integers_comparison op llvm_argument)), b)) (zip [0 ..< length branches] branches)))
           (merge_values function merge_branch value_type (incoming @ default_incoming)))))))))))"

subsection \<open>Aggregates\<close>

definition store_members :: "emitters \<Rightarrow> handle \<Rightarrow> handle \<Rightarrow> expression list \<Rightarrow> unit emission" where
  "store_members E struct_type alloc_inst arguments =
     each_b (\<lambda>(i, argument). bind_b (resolve_expression E argument) (\<lambda>argument_value.
       bind_b (create_llvm_int INT32_TYPE (int i)) (\<lambda>index.
       bind_b (create_gep_element struct_type alloc_inst index) (\<lambda>member_ptr.
       enter_b (Create_store argument_value member_ptr))))) (enumerate 0 arguments)"

definition visit_tuple_b :: "emitters \<Rightarrow> expression list \<Rightarrow> type_node \<Rightarrow> llvm_any emission" where
  "visit_tuple_b E tuple_values t =
     bind_b (type_node_llvm E t) (\<lambda>tuple_type. bind_b (ask (Create_alloca tuple_type)) (\<lambda>alloc_inst.
     then_b (store_members E tuple_type alloc_inst tuple_values) (return_b (AnyPointer ALLOCA_INST alloc_inst))))"

definition visit_initialize_b :: "emitters \<Rightarrow> type_node \<Rightarrow> expression list \<Rightarrow> llvm_any emission" where
  "visit_initialize_b E t arguments =
     bind_b (type_node_llvm E t) (\<lambda>struct_type.
     bind_b (read_b is_on_global_scope) (\<lambda>is_global_block.
     if is_global_block then
       bind_b (type_cast_to STRUCT_TY struct_type) (\<lambda>llvm_struct_type.
       bind_b (map_b (resolve_constant_expression E) arguments) (\<lambda>constants_arguments.
       any_of CONSTANT (ask (Constant_struct_of llvm_struct_type constants_arguments))))
     else
       bind_b (ask (Create_alloca struct_type)) (\<lambda>alloc_inst.
       then_b (store_members E struct_type alloc_inst arguments) (return_b (AnyPointer ALLOCA_INST alloc_inst)))))"

definition visit_array_b :: "emitters \<Rightarrow> expression list \<Rightarrow> type_node \<Rightarrow> bool \<Rightarrow> llvm_any emission" where
  "visit_array_b E node_values t constant =
     bind_b (type_node_llvm E t) (\<lambda>array_type.
     if constant then
       bind_b (type_cast_to ARRAY_TY array_type) (\<lambda>array_type.
       bind_b (map_b (constant_of E) node_values) (\<lambda>vs.
       any_of CONSTANT (ask (Constant_array_of array_type vs))))
     else
       bind_b (ask (Element_type array_type)) (\<lambda>array_element_type.
       bind_b (map_b (resolve_expression E) node_values) (\<lambda>vs.
       bind_b (ask (Create_alloca array_type)) (\<lambda>alloca.
       then_b (each_b (\<lambda>(i, v). bind_b (create_llvm_int INT32_TYPE (int i)) (\<lambda>index.
           bind_b (ask (Allocated_type alloca)) (\<lambda>alloca_type.
           bind_b (create_gep_element alloca_type alloca index) (\<lambda>ptr.
           bind_b (type_of v) (\<lambda>value_type. bind_b (type_of ptr) (\<lambda>ptr_type.
           bind_b (if value_type = ptr_type then ask (Create_load array_element_type v) else return_b v) (\<lambda>v.
           enter_b (Create_store v ptr))))))))
         (enumerate 0 vs))
       (return_b (AnyPointer ALLOCA_INST alloca))))))"

text \<open>The elements of a vector literal are number nodes; their values are given by their text.\<close>

definition number_literal_b :: "expression \<Rightarrow> string emission" where
  "number_literal_b e = (case e of NumberExpression v _ \<Rightarrow> return_b (literal v) | _ \<Rightarrow> fail_b NullAccess)"

definition visit_vector_b :: "expression \<Rightarrow> llvm_any emission" where
  "visit_vector_b array = (case array of
     ArrayExpression _ array_values t _ \<Rightarrow>
       bind_b (type_of_node_b t) (\<lambda>array_type. case array_type of
         StaticArrayType (NumberType number_kind) _ \<Rightarrow>
           if number_kind \<in> {U_INTEGER_8, U_INTEGER_16, U_INTEGER_32, U_INTEGER_64, FLOAT_32, FLOAT_64} then
             bind_b (map_b number_literal_b array_values) (\<lambda>literals.
             any_of CONSTANT (ask (Constant_data_vector number_kind literals)))
           else internal_compiler_error
       | _ \<Rightarrow> fail_b BadCast)
   | _ \<Rightarrow> fail_b BadCast)"

subsection \<open>Operators\<close>

definition call_overloaded :: "emitters \<Rightarrow> string \<Rightarrow> token_kind \<Rightarrow> expression list \<Rightarrow> handle list
    \<Rightarrow> llvm_any emission" where
  "call_overloaded E prefix op operands arguments =
     bind_b (map_b node_type operands) (\<lambda>types.
     any_of VALUE (create_overloading_function_call E (prefix @ mangle_operator_function op types) arguments))"

definition resolve_operands :: "emitters \<Rightarrow> expression \<Rightarrow> expression \<Rightarrow> (handle \<Rightarrow> handle \<Rightarrow> llvm_any emission)
    \<Rightarrow> llvm_any emission" where
  "resolve_operands E left right f =
     bind_b (resolve_expression E left) (\<lambda>lhs. bind_b (resolve_expression E right) (\<lambda>rhs. f lhs rhs))"

text \<open>The element type of the vector type of the node.\<close>

definition vector_element :: "type_node \<Rightarrow> ty emission" where
  "vector_element n = bind_b (type_of_node_b n) (\<lambda>t. case t of
     StaticVectorType element _ \<Rightarrow> return_b element | _ \<Rightarrow> fail_b BadCast)"

definition visit_binary_b :: "emitters \<Rightarrow> expression \<Rightarrow> token \<Rightarrow> expression \<Rightarrow> type_node \<Rightarrow> llvm_any emission" where
  "visit_binary_b E left operator_token right t = resolve_operands E left right (\<lambda>lhs rhs.
     let op = kind operator_token in
     bind_b (both_types_are INTEGER_TY lhs rhs) (\<lambda>integers.
     if integers then any_of VALUE (create_llvm_integers_bianry op lhs rhs)
     else bind_b (both_types_are FLOATING_POINT_TY lhs rhs) (\<lambda>floats.
     if floats then any_of VALUE (create_llvm_floats_bianry op lhs rhs)
     else bind_b (both_types_are VECTOR_TY lhs rhs) (\<lambda>vectors.
     if vectors then
       bind_b (vector_element t) (\<lambda>element_type.
       if is_unsigned_integer_type element_type
       then any_of VALUE (create_llvm_integers_vectors_bianry op lhs rhs)
       else any_of VALUE (create_llvm_floats_vectors_bianry op lhs rhs))
     else call_overloaded E '''' op [left, right] [lhs, rhs]))))"

definition bitwise_instruction :: "token_kind \<Rightarrow> binary_instruction option" where
  "bitwise_instruction op = (case op of
     TOKEN_OR \<Rightarrow> Some OR_BITS | TOKEN_AND \<Rightarrow> Some AND_BITS | TOKEN_XOR \<Rightarrow> Some XOR_BITS
   | TOKEN_LEFT_SHIFT \<Rightarrow> Some SHL | TOKEN_RIGHT_SHIFT \<Rightarrow> Some ASHR | _ \<Rightarrow> None)"

definition visit_bitwise_b :: "emitters \<Rightarrow> expression \<Rightarrow> token \<Rightarrow> expression \<Rightarrow> llvm_any emission" where
  "visit_bitwise_b E left operator_token right = resolve_operands E left right (\<lambda>lhs rhs.
     let op = kind operator_token in
     bind_b (node_type left) (\<lambda>lhs_type. bind_b (node_type right) (\<lambda>rhs_type.
     case (if is_integer_type lhs_type \<and> is_integer_type rhs_type
             \<or> is_vector_type lhs_type \<and> is_vector_type rhs_type then bitwise_instruction op else None) of
       Some i \<Rightarrow> any_of VALUE (ask (Create_binary i lhs rhs))
     | None \<Rightarrow> call_overloaded E '''' op [left, right] [lhs, rhs])))"

text \<open>Two string literals are compared by \<open>strcmp\<close> in the compiler; its result is modelled by its sign.\<close>

definition strcmp_sign :: "string \<Rightarrow> string \<Rightarrow> int" where
  "strcmp_sign a b = (let cut = \<lambda>s. map of_char (takeWhile (\<lambda>c. c \<noteq> CHR 0x00) s)
     in if cut a = (cut b :: nat list) then 0
        else if (cut a, cut b) \<in> lexord {(x, y). x < y} then -1 else 1)"

definition compare_pointers :: "emitters \<Rightarrow> token_kind \<Rightarrow> expression \<Rightarrow> expression \<Rightarrow> handle \<Rightarrow> handle
    \<Rightarrow> llvm_any emission" where
  "compare_pointers E op left right lhs rhs = (case (left, right) of
     (StringExpression a _, StringExpression b _) \<Rightarrow>
       bind_b (create_llvm_int INT32_TYPE (strcmp_sign (literal a) (literal b))) (\<lambda>result_llvm.
       bind_b (read_b (\<lambda>s. zero_int32_value (library s))) (\<lambda>zero.
       any_of VALUE (create_llvm_integers_comparison op result_llvm zero)))
   | _ \<Rightarrow>
       bind_b (node_type left) (\<lambda>left_type. bind_b (node_type right) (\<lambda>right_type.
       if is_types_equals left_type (PointerType i8_type) \<and> is_types_equals right_type (PointerType i8_type)
       then any_of VALUE (create_llvm_strings_comparison E op lhs rhs)
       else any_of VALUE (create_llvm_integers_comparison op lhs rhs))))"

definition visit_comparison_b :: "emitters \<Rightarrow> expression \<Rightarrow> token \<Rightarrow> expression \<Rightarrow> type_node \<Rightarrow> llvm_any emission" where
  "visit_comparison_b E left operator_token right t = resolve_operands E left right (\<lambda>lhs rhs.
     let op = kind operator_token in
     bind_b (both_types_are INTEGER_TY lhs rhs) (\<lambda>integers.
     if integers then
       bind_b (node_type left) (\<lambda>left_type.
       any_of VALUE (if is_unsigned_integer_type left_type
         then create_llvm_unsigned_integers_comparison op lhs rhs
         else create_llvm_integers_comparison op lhs rhs))
     else bind_b (both_types_are FLOATING_POINT_TY lhs rhs) (\<lambda>floats.
     if floats then any_of VALUE (create_llvm_floats_comparison op lhs rhs)
     else bind_b (both_types_are POINTER_TY lhs rhs) (\<lambda>pointers.
     if pointers then compare_pointers E op left right lhs rhs
     else bind_b (both_types_are VECTOR_TY lhs rhs) (\<lambda>vectors.
     if vectors then
       bind_b (vector_element t) (\<lambda>element_type.
       any_of VALUE (if is_unsigned_integer_type element_type
         then create_llvm_unsigned_integers_comparison op lhs rhs
         else create_llvm_floats_comparison op lhs rhs))
     else call_overloaded E '''' op [left, right] [lhs, rhs])))))"

definition logical_instruction :: "token_kind \<Rightarrow> binary_instruction option" where
  "logical_instruction op = (case op of
     TOKEN_AND_AND \<Rightarrow> Some LOGICAL_AND | TOKEN_OR_OR \<Rightarrow> Some LOGICAL_OR | _ \<Rightarrow> None)"

text \<open>Both operands are evaluated before the instruction.\<close>

definition visit_logical_b :: "emitters \<Rightarrow> expression \<Rightarrow> token \<Rightarrow> expression \<Rightarrow> llvm_any emission" where
  "visit_logical_b E left operator_token right = resolve_operands E left right (\<lambda>lhs rhs.
     let op = kind operator_token in
     bind_b (node_type left) (\<lambda>lhs_type. bind_b (node_type right) (\<lambda>rhs_type.
     case (if is_integer1_type lhs_type \<and> is_integer1_type rhs_type then logical_instruction op else None) of
       Some i \<Rightarrow> any_of VALUE (ask (Create_binary i lhs rhs))
     | None \<Rightarrow> call_overloaded E '''' op [left, right] [lhs, rhs])))"

definition is_number_node :: "ty \<Rightarrow> bool" where
  "is_number_node t = (case t of NumberType _ \<Rightarrow> True | _ \<Rightarrow> False)"

text \<open>\<open>++\<close> and \<open>--\<close>: a number is changed in place, another operand is passed to the overloaded operator.\<close>

definition visit_step_operator :: "emitters \<Rightarrow> string \<Rightarrow> bool \<Rightarrow> token_kind \<Rightarrow> expression \<Rightarrow> llvm_any emission" where
  "visit_step_operator E prefix is_prefix op operand =
     bind_b (node_type operand) (\<lambda>operand_type.
     if is_number_node operand_type then
       any_of VALUE (if op = TOKEN_PLUS_PLUS then create_llvm_value_increment E operand is_prefix
         else create_llvm_value_decrement E operand is_prefix)
     else bind_b (resolve_expression E operand) (\<lambda>llvm_rhs. call_overloaded E prefix op [operand] [llvm_rhs]))"

definition visit_prefix_unary_b :: "emitters \<Rightarrow> token \<Rightarrow> expression \<Rightarrow> type_node \<Rightarrow> llvm_any emission" where
  "visit_prefix_unary_b E operator_token operand t =
     (let op = kind operator_token;
          overloaded = \<lambda>rhs. call_overloaded E ''_prefix'' op [operand] [rhs]
      in if op = TOKEN_MINUS then
          bind_b (resolve_expression E operand) (\<lambda>rhs.
          bind_b (value_type_is FLOATING_POINT_TY rhs) (\<lambda>is_float.
          if is_float then any_of VALUE (ask (Create_unary FNEG rhs))
          else bind_b (value_type_is INTEGER_TY rhs) (\<lambda>is_integer.
            if is_integer then any_of VALUE (ask (Create_unary NEG rhs)) else overloaded rhs)))
      else if op = TOKEN_BANG then
          bind_b (resolve_expression E operand) (\<lambda>rhs.
          bind_b (type_of rhs) (\<lambda>rhs_type. bind_b (basic INT1_TYPE) (\<lambda>int1.
          if rhs_type = int1
          then bind_b (read_b (\<lambda>s. false_value (library s))) (\<lambda>f. any_of VALUE (ask (Create_compare ICMP_EQ rhs f)))
          else overloaded rhs)))
      else if op = TOKEN_STAR then
          bind_b (node_value E operand) (\<lambda>right.
          bind_b (type_of_node_b t) (\<lambda>node_t.
          bind_b (derefernecs_llvm_pointer right) (\<lambda>derefernce_right.
          case node_t of
            StructType _ \<Rightarrow> return_b (AnyPointer VALUE derefernce_right)
          | _ \<Rightarrow> any_of VALUE (derefernecs_llvm_pointer derefernce_right))))
      else if op = TOKEN_AND then
          bind_b (node_value E operand) (\<lambda>right.
          bind_b (type_of right) (\<lambda>right_type. bind_b (ask (Create_alloca right_type)) (\<lambda>ptr.
          then_b (enter_b (Create_store right ptr)) (return_b (AnyPointer ALLOCA_INST ptr)))))
      else if op = TOKEN_NOT then
          bind_b (resolve_expression E operand) (\<lambda>rhs. bind_b (node_type operand) (\<lambda>operand_type.
          if is_number_node operand_type then any_of VALUE (ask (Create_unary NOT rhs)) else overloaded rhs))
      else if op = TOKEN_PLUS_PLUS \<or> op = TOKEN_MINUS_MINUS then visit_step_operator E ''_prefix'' True op operand
      else internal_compiler_error)"

definition visit_postfix_unary_b :: "emitters \<Rightarrow> token \<Rightarrow> expression \<Rightarrow> llvm_any emission" where
  "visit_postfix_unary_b E operator_token operand =
     (let op = kind operator_token
      in if op = TOKEN_PLUS_PLUS \<or> op = TOKEN_MINUS_MINUS
         then visit_step_operator E ''_postfix'' False op operand else internal_compiler_error)"

end
