(* ===== verification/Backend_Calls.thy ===== *)
theory Backend_Calls
  imports Backend_Expressions
begin

text \<open>
  Functions, calls, lambdas, assignments and the remaining expressions of \<open>src/amun_llvm_backend.cpp\<close>.
\<close>

subsection \<open>Bodies of functions\<close>

text \<open>Each argument is stored in an alloca under its name.\<close>

definition define_argument :: "handle \<Rightarrow> handle \<Rightarrow> unit emission" where
  "define_argument function argument =
     bind_b (ask_text (Name_of argument)) (\<lambda>arg_name_str.
     bind_b (type_of argument) (\<lambda>t.
     bind_b (create_entry_block_alloca function arg_name_str t) (\<lambda>alloca_inst.
     steps_b [define_alloca arg_name_str (AnyPointer ALLOCA_INST alloca_inst),
       enter_b (Create_store argument alloca_inst)])))"

definition define_arguments :: "handle \<Rightarrow> unit emission" where
  "define_arguments function = bind_b (ask_number (Argument_count function)) (\<lambda>count.
     each_b (\<lambda>i. bind_b (ask (Argument function i)) (define_argument function)) [0 ..< count])"

definition end_of_body :: "statement \<Rightarrow> unit emission" where
  "end_of_body body = (case body of
     BlockStatement statements \<Rightarrow>
       if statements = [] \<or> get_statement_node_type (last statements) \<noteq> AST_RETURN
       then enter_b Create_unreachable else return_b ()
   | _ \<Rightarrow> return_b ())"

text \<open>From the entry block to the flags: what a declaration and an instance of a generic function share.\<close>

definition emit_function_body :: "emitters \<Rightarrow> string \<Rightarrow> handle \<Rightarrow> statement \<Rightarrow> unit emission" where
  "emit_function_body E name function body = through function (
     bind_b (ask (New_entry_block function)) (\<lambda>entry_block. steps_b [
       enter_b (Set_insert_point entry_block),
       push_defer_stack,
       push_alloca_inst_scope,
       define_arguments function,
       ignore_b (e_statement E body),
       pop_alloca_inst_scope,
       pop_defer_stack,
       define_alloca name (AnyPointer LLVM_FUNCTION function),
       end_of_body body,
       enter_b (Verify_function function),
       modify_b (\<lambda>s. s\<lparr>has_return_statement := False, is_on_global_scope := True\<rparr>)]))"

definition enter_function_table :: "string \<Rightarrow> function_prototype \<Rightarrow> unit emission" where
  "enter_function_table name prototype =
     modify_b (\<lambda>s. s\<lparr>functions_table := (functions_table s)(name \<mapsto> prototype)\<rparr>)"

definition visit_function_declaration_b :: "emitters \<Rightarrow> function_prototype \<Rightarrow> statement \<Rightarrow> llvm_any emission" where
  "visit_function_declaration_b E prototype body =
     then_b (modify_b (\<lambda>s. s\<lparr>is_on_global_scope := False\<rparr>))
     (let name = literal (prototype_name prototype)
      in if prototype_is_generic prototype then
           then_b (modify_b (\<lambda>s. s\<lparr>functions_declaraions := (functions_declaraions s)(name \<mapsto> (prototype, body))\<rparr>))
             (return_b AnyInt)
         else then_b (enter_function_table name prototype)
           (bind_b (visit_prototype_b E prototype) (\<lambda>function.
            then_b (emit_function_body E name function body) (return_b (AnyPointer LLVM_FUNCTION function)))))"

text \<open>\<open>generic_types[name]\<close> for a parameter, the type itself otherwise.\<close>

definition resolved_type :: "ty \<Rightarrow> ty emission" where
  "resolved_type t = (case t of GenericParameterType name \<Rightarrow> generic_type_b name | _ \<Rightarrow> return_b t)"

definition instance_type :: "emitters \<Rightarrow> ty \<Rightarrow> handle emission" where
  "instance_type E t = bind_b (resolved_type t) (e_type E)"

definition bind_generic_types :: "string list \<Rightarrow> ty list \<Rightarrow> unit emission" where
  "bind_generic_types names generic_arguments = each_b (\<lambda>(i, name).
     bind_b (nth_b generic_arguments i) (\<lambda>t.
     modify_b (\<lambda>s. s\<lparr>backend_generic_types := (backend_generic_types s)(name \<mapsto> t)\<rparr>))) (enumerate 0 names)"

definition resolve_generic_function :: "emitters \<Rightarrow> function_prototype \<Rightarrow> statement \<Rightarrow> ty list \<Rightarrow> handle emission" where
  "resolve_generic_function E prototype body generic_arguments =
     then_b (modify_b (\<lambda>s. s\<lparr>is_on_global_scope := False\<rparr>))
     (let name = literal (prototype_name prototype); mangled_name = name @ mangle_types generic_arguments
      in bind_b (read_b alloca_inst_table) (\<lambda>table.
         if is_defined table mangled_name then bind_b (lookup_alloca mangled_name) (any_cast_to LLVM_FUNCTION)
         else then_b (bind_generic_types (prototype_generic_parameters prototype) generic_arguments)
           (bind_b (map_b (\<lambda>p. instance_type E (parameter_type p)) (prototype_parameters prototype)) (\<lambda>arguments.
            then_b (enter_function_table mangled_name prototype)
            (bind_b (instance_type E (prototype_return_type prototype)) (\<lambda>return_type.
             bind_b (ask (Function_type return_type arguments False)) (\<lambda>function_type.
             bind_b (ask Get_insert_block) (\<lambda>previous_insert_block.
             bind_b (ask (New_function function_type (name = ''main'') mangled_name)) (\<lambda>function.
             then_b (steps_b [
               set_argument_names function (map (\<lambda>p. literal (parameter_name p)) (prototype_parameters prototype)),
               emit_function_body E mangled_name function body,
               set_insert_point previous_insert_block,
               modify_b (\<lambda>s. s\<lparr>backend_generic_types := Map.empty\<rparr>)])
             (return_b function))))))))))"

subsection \<open>Arguments of calls\<close>

text \<open>An argument whose type is not that of the parameter is loaded with the type of the parameter.\<close>

definition pass_checked :: "(nat \<Rightarrow> handle emission) \<Rightarrow> nat \<Rightarrow> handle \<Rightarrow> handle emission" where
  "pass_checked parameter_type_at i v =
     bind_b (parameter_type_at i) (\<lambda>expected_type. bind_b (type_of v) (\<lambda>t.
     if expected_type = t then return_b v else ask (Create_load expected_type v)))"

definition pass_all_checked :: "emitters \<Rightarrow> (nat \<Rightarrow> handle emission) \<Rightarrow> expression list \<Rightarrow> handle list emission" where
  "pass_all_checked E parameter_type_at arguments =
     map_b (\<lambda>(i, a). bind_b (node_value E a) (pass_checked parameter_type_at i)) (enumerate 0 arguments)"

definition is_literal_node :: "expression \<Rightarrow> bool" where
  "is_literal_node e = (case e of LiteralExpression _ _ _ \<Rightarrow> True | _ \<Rightarrow> False)"

text \<open>An argument beyond the parameters: a variable is loaded.\<close>

definition pass_extra :: "emitters \<Rightarrow> expression \<Rightarrow> handle \<Rightarrow> handle list emission" where
  "pass_extra E argument v =
     (if is_literal_node argument then
        bind_b (expression_llvm_type E argument) (\<lambda>argument_type.
        bind_b (ask (Create_load argument_type v)) (\<lambda>loaded_value. return_b [loaded_value]))
      else return_b [v])"

definition to_double :: "handle \<Rightarrow> handle emission" where
  "to_double v = bind_b (basic FLOAT64_TYPE) (\<lambda>t. ask (Create_cast FP_CAST v t))"

text \<open>
  In a call by name a \<open>float32\<close> is widened.  Without a \<open>continue\<close> after the second widening the argument is
  passed twice, once widened and once as it is.
\<close>

definition pass_extra_promoted :: "emitters \<Rightarrow> expression \<Rightarrow> handle \<Rightarrow> handle list emission" where
  "pass_extra_promoted E argument v =
     (if is_literal_node argument then
        bind_b (expression_llvm_type E argument) (\<lambda>argument_type.
        bind_b (ask (Create_load argument_type v)) (\<lambda>loaded_value.
        bind_b (value_type_is FLOAT_TY loaded_value) (\<lambda>is_float.
        if is_float then bind_b (to_double loaded_value) (\<lambda>double_value. return_b [double_value])
        else return_b [loaded_value])))
      else
        bind_b (value_type_is FLOAT_TY v) (\<lambda>is_float.
        if is_float then bind_b (to_double v) (\<lambda>double_value. return_b [double_value, v])
        else return_b [v]))"

definition pass_arguments :: "emitters \<Rightarrow> (emitters \<Rightarrow> expression \<Rightarrow> handle \<Rightarrow> handle list emission) \<Rightarrow> nat
    \<Rightarrow> (nat \<Rightarrow> handle emission) \<Rightarrow> expression list \<Rightarrow> handle list emission" where
  "pass_arguments E extra parameter_size parameter_type_at arguments =
     bind_b (map_b (\<lambda>(i, argument). bind_b (node_value E argument) (\<lambda>v.
       if parameter_size \<le> i then extra E argument v
       else bind_b (pass_checked parameter_type_at i v) (\<lambda>h. return_b [h]))) (enumerate 0 arguments))
     (\<lambda>vss. return_b (concat vss))"

text \<open>\<open>function->getArg(i)->getType()\<close> and \<open>getParamType(i)\<close>.\<close>

definition argument_type_of :: "handle \<Rightarrow> nat \<Rightarrow> handle emission" where
  "argument_type_of function i = through function (bind_b (ask (Argument function i)) type_of)"

definition parameter_type_of :: "handle \<Rightarrow> nat \<Rightarrow> handle emission" where
  "parameter_type_of function_type i = through function_type (ask (Param_type function_type i))"

subsection \<open>Calls\<close>

definition create_call :: "handle \<Rightarrow> handle list \<Rightarrow> llvm_any emission" where
  "create_call function arguments = through function (any_of CALL_INST (ask (Create_call function arguments)))"

text \<open>The callee is a call: its result is a pointer to a function.\<close>

definition call_result :: "emitters \<Rightarrow> expression \<Rightarrow> expression list \<Rightarrow> llvm_any emission" where
  "call_result E callee arguments =
     bind_b (node_value E callee) (\<lambda>callee_function.
     bind_b (cast_to CALL_INST callee_function) (\<lambda>call_instruction. through call_instruction (
     bind_b (ask (Called_function call_instruction)) (\<lambda>function. through function (
     bind_b (ask (Function_type_of function)) (\<lambda>callee_function_type.
     bind_b (ask (Return_type callee_function_type)) (\<lambda>return_type.
     bind_b (ask (Element_type return_type)) (\<lambda>return_ptr_type.
     bind_b (type_cast_to FUNCTION_TY return_ptr_type) (\<lambda>function_pointer_type.
     bind_b (pass_all_checked E (parameter_type_of function_pointer_type) arguments) (\<lambda>arguments_values.
     any_of CALL_INST (ask (Create_call_pointer function_pointer_type call_instruction arguments_values))))))))))))"

text \<open>
  A variable that holds a pointer to a function, for a call and for a deferred call: what to do with the
  loaded pointer and the arguments, with a pointer that has no function type, and with another variable.
\<close>

definition function_variable :: "emitters \<Rightarrow> string \<Rightarrow> type_node \<Rightarrow> expression list
    \<Rightarrow> (handle \<Rightarrow> handle \<Rightarrow> handle list \<Rightarrow> 'a emission) \<Rightarrow> (handle \<Rightarrow> 'a emission) \<Rightarrow> 'a emission \<Rightarrow> 'a emission" where
  "function_variable E name t arguments call no_function no_alloca =
     bind_b (lookup_alloca name) (\<lambda>entry. bind_b (llvm_node_value entry) (\<lambda>value.
     bind_b (cast_to ALLOCA_INST value) (\<lambda>alloca.
     if alloca = 0 then no_alloca
     else bind_b (ask (Allocated_type alloca)) (\<lambda>alloca_type.
       bind_b (ask (Create_load alloca_type alloca)) (\<lambda>loaded.
       bind_b (type_node_llvm E t) (\<lambda>function_type.
       bind_b (type_cast_to FUNCTION_TY function_type) (\<lambda>function_pointer.
       if function_pointer = 0 then no_function loaded
       else bind_b (pass_all_checked E (parameter_type_of function_pointer) arguments) (\<lambda>arguments_values.
         call function_pointer loaded arguments_values))))))))"

text \<open>
  The variables a lambda captured are loaded in front of the arguments.  A name without an entry has none; the
  empty entry that \<open>operator[]\<close> makes for it is not entered.
\<close>

definition implicit_arguments :: "string \<Rightarrow> handle list emission" where
  "implicit_arguments name =
     (if is_lambda_function_name name then
        bind_b (read_b (\<lambda>s. case lambda_extra_parameters s name of Some names \<Rightarrow> names | None \<Rightarrow> [])) (\<lambda>names.
        map_b (\<lambda>outer_variable_name. bind_b (llvm_resolve_variable outer_variable_name) (\<lambda>v.
          llvm_resolve_value (AnyPointer VALUE v))) names)
      else return_b [])"

definition create_function_call :: "emitters \<Rightarrow> handle \<Rightarrow> expression list \<Rightarrow> llvm_any emission" where
  "create_function_call E function arguments = through function (
     bind_b (ask_number (Argument_count function)) (\<lambda>parameter_size.
     bind_b (ask_text (Name_of function)) (\<lambda>name.
     bind_b (implicit_arguments name) (\<lambda>implicit_values.
     bind_b (pass_arguments E pass_extra_promoted parameter_size
         (\<lambda>i. argument_type_of function (i + length implicit_values)) arguments) (\<lambda>arguments_values.
     create_call function (implicit_values @ arguments_values))))))"

definition call_named :: "emitters \<Rightarrow> string \<Rightarrow> expression list \<Rightarrow> type_node \<Rightarrow> ty list \<Rightarrow> llvm_any emission" where
  "call_named E callee_literal arguments t generic_arguments =
     bind_b (lookup_function E callee_literal) (\<lambda>function.
     bind_b (read_b (\<lambda>s. functions_declaraions s callee_literal)) (\<lambda>declaraion.
     bind_b (case declaraion of
         Some (prototype, body) \<Rightarrow>
           if function \<noteq> 0 then return_b (function, callee_literal)
           else bind_b (resolve_generic_function E prototype body generic_arguments) (\<lambda>instance_function.
             return_b (instance_function, callee_literal @ mangle_types generic_arguments))
       | None \<Rightarrow> return_b (function, callee_literal)) (\<lambda>(function, name).
     if function \<noteq> 0 then create_function_call E function arguments
     else function_variable E name t arguments
       (\<lambda>function_pointer loaded arguments_values.
          any_of CALL_INST (ask (Create_call_pointer function_pointer loaded arguments_values)))
       (\<lambda>loaded. return_b (AnyPointer LOAD_INST loaded))
       (create_function_call E function arguments))))"

definition call_lambda :: "emitters \<Rightarrow> expression \<Rightarrow> expression list \<Rightarrow> llvm_any emission" where
  "call_lambda E lambda arguments =
     bind_b (node_value E lambda) (\<lambda>lambda_value.
     bind_b (cast_to LLVM_FUNCTION lambda_value) (\<lambda>function. through function (
     bind_b (ask_number (Argument_count function)) (\<lambda>parameter_size.
     bind_b (pass_arguments E pass_extra parameter_size (argument_type_of function) arguments) (\<lambda>arguments_values.
     create_call function arguments_values)))))"

definition pointer_base :: "ty \<Rightarrow> ty emission" where
  "pointer_base t = (case t of PointerType base_type \<Rightarrow> return_b base_type | _ \<Rightarrow> fail_b BadCast)"

definition call_member :: "emitters \<Rightarrow> expression \<Rightarrow> expression list \<Rightarrow> llvm_any emission" where
  "call_member E dot arguments =
     bind_b (node_value E dot) (\<lambda>struct_fun_ptr.
     bind_b (derefernecs_llvm_pointer struct_fun_ptr) (\<lambda>function_value.
     bind_b (node_type dot) (\<lambda>function_ptr_type.
     bind_b (pointer_base function_ptr_type) (\<lambda>base_type.
     bind_b (e_type E base_type) (\<lambda>llvm_type.
     bind_b (type_cast_to FUNCTION_TY llvm_type) (\<lambda>llvm_fun_type. through llvm_fun_type (
     bind_b (ask_number (Param_count llvm_fun_type)) (\<lambda>parameter_size.
     bind_b (pass_arguments E pass_extra parameter_size (parameter_type_of llvm_fun_type) arguments)
       (\<lambda>arguments_values.
     any_of CALL_INST (ask (Create_call_pointer llvm_fun_type function_value arguments_values)))))))))))"

definition visit_call_b :: "emitters \<Rightarrow> expression \<Rightarrow> expression list \<Rightarrow> type_node \<Rightarrow> ty list \<Rightarrow> llvm_any emission" where
  "visit_call_b E callee arguments t generic_arguments = (case callee of
     CallExpression _ _ _ _ _ \<Rightarrow> call_result E callee arguments
   | LiteralExpression name _ _ \<Rightarrow> call_named E (literal name) arguments t generic_arguments
   | LambdaExpression _ _ _ _ _ _ _ \<Rightarrow> call_lambda E callee arguments
   | DotExpression _ _ _ _ _ _ \<Rightarrow> call_member E callee arguments
   | _ \<Rightarrow> internal_compiler_error)"

end
