(* ===== verification/Backend_Nodes.thy ===== *)
theory Backend_Nodes
  imports Backend_Calls
begin

text \<open>
  Lambdas, members, casts, assignments and leaves in \<open>src/amun_llvm_backend.cpp\<close>, and the dispatch on the
  class of an expression.
\<close>

subsection \<open>Lambdas\<close>

text \<open>The first arguments are the captured variables.\<close>

definition define_lambda_arguments :: "handle \<Rightarrow> string list \<Rightarrow> parameter list \<Rightarrow> unit emission" where
  "define_lambda_arguments function implicit_names explicit_parameters =
     bind_b (ask_number (Argument_count function)) (\<lambda>count.
     each_b (\<lambda>i. bind_b (ask (Argument function i)) (\<lambda>argument.
       bind_b (if i < length implicit_names then return_b (implicit_names ! i)
         else bind_b (nth_b explicit_parameters (i - length implicit_names)) (\<lambda>p.
           return_b (literal (parameter_name p)))) (\<lambda>name.
       then_b (enter_b (Set_name argument name)) (define_argument function argument)))) [0 ..< count])"

text \<open>The flag \<open>has_return_statement\<close> is not reset after the body, unlike after that of a function.\<close>

definition visit_lambda_b :: "emitters \<Rightarrow> parameter list \<Rightarrow> string list \<Rightarrow> statement list \<Rightarrow> type_node
    \<Rightarrow> llvm_any emission" where
  "visit_lambda_b E explicit_parameters implicit_names body t =
     bind_b (read_b (\<lambda>s. ''_lambda'' @ to_string (int (lambda_unique_id s)))) (\<lambda>lambda_name.
     then_b (modify_b (\<lambda>s. s\<lparr>lambda_unique_id := lambda_unique_id s + 1\<rparr>))
     (bind_b (type_of_node_b t) (\<lambda>node_t.
      bind_b (pointer_base node_t) (\<lambda>base_type.
      bind_b (e_type E base_type) (\<lambda>node_llvm_type.
      bind_b (type_cast_to FUNCTION_TY node_llvm_type) (\<lambda>function_type.
      bind_b (ask (New_function function_type False lambda_name)) (\<lambda>function.
      bind_b (ask Get_insert_block) (\<lambda>previous_insert_block.
      bind_b (ask (New_entry_block function)) (\<lambda>entry_block.
      then_b (steps_b [
        enter_b (Set_insert_point entry_block),
        push_alloca_inst_scope,
        modify_b (\<lambda>s. s\<lparr>lambda_extra_parameters := (lambda_extra_parameters s)(lambda_name \<mapsto> implicit_names)\<rparr>),
        define_lambda_arguments function implicit_names explicit_parameters,
        push_defer_stack,
        ignore_b (e_statement E (BlockStatement body)),
        pop_defer_stack,
        pop_alloca_inst_scope,
        define_alloca lambda_name (AnyPointer LLVM_FUNCTION function),
        enter_b (Verify_function function),
        set_insert_point previous_insert_block])
      (return_b (AnyPointer LLVM_FUNCTION function)))))))))))"

subsection \<open>Members and attributes\<close>

definition count_constant :: "nat \<Rightarrow> llvm_any emission" where
  "count_constant n = any_of CONSTANT_INT (create_llvm_int INT64_TYPE (int n))"

definition string_count :: "emitters \<Rightarrow> expression \<Rightarrow> llvm_any emission" where
  "string_count E callee = (case callee of
     StringExpression v _ \<Rightarrow> count_constant (length (literal v))
   | _ \<Rightarrow>
       bind_b (node_value E callee) (\<lambda>string_ptr.
       bind_b (type_of string_ptr) (\<lambda>t. bind_b (basic INT8_PTR_TYPE) (\<lambda>int8_ptr.
       bind_b (if t \<noteq> int8_ptr then derefernecs_llvm_pointer string_ptr else return_b string_ptr)
         (\<lambda>string_ptr. any_of VALUE (create_llvm_string_length E string_ptr))))))"

definition visit_dot_b :: "emitters \<Rightarrow> int \<Rightarrow> expression \<Rightarrow> token \<Rightarrow> type_node \<Rightarrow> llvm_any emission" where
  "visit_dot_b E field_index callee field_name t =
     (let is_count = (literal field_name = ''count'')
      in bind_b (node_type callee) (\<lambda>callee_type.
         bind_b (e_type E callee_type) (\<lambda>callee_llvm_type.
         bind_b (type_node_llvm E t) (\<lambda>expected_llvm_type.
         bind_b (type_is ARRAY_TY callee_llvm_type) (\<lambda>is_array.
         if is_array then
           (if is_count then bind_b (ask_number (Element_count callee_llvm_type)) count_constant
            else internal_compiler_error)
         else bind_b (type_is VECTOR_TY callee_llvm_type) (\<lambda>is_vector.
         if is_vector then
           (if is_count then bind_b (ask_number (Element_count callee_llvm_type)) count_constant
            else internal_compiler_error)
         else if is_pointer_of_type callee_type i8_type then
           (if is_count then string_count E callee else internal_compiler_error)
         else bind_b (access_member_of E callee field_index) (\<lambda>member_ptr.
           bind_b (type_is POINTER_TY expected_llvm_type) (\<lambda>is_pointer.
           if is_pointer then return_b (AnyPointer VALUE member_ptr)
           else any_of LOAD_INST (ask (Create_load expected_llvm_type member_ptr))))))))))"

subsection \<open>Casts\<close>

text \<open>The categories of the target and of the value, in the order of the tests.\<close>

definition cast_table :: "(type_category \<times> type_category \<times> cast_instruction) list" where
  "cast_table = [
     (INTEGER_TY, INTEGER_TY, SIGNED_INT_CAST),
     (FLOATING_POINT_TY, FLOATING_POINT_TY, FP_CAST),
     (INTEGER_TY, FLOATING_POINT_TY, FP_TO_SI),
     (FLOATING_POINT_TY, INTEGER_TY, SI_TO_FP),
     (INTEGER_TY, POINTER_TY, PTR_TO_INT),
     (POINTER_TY, INTEGER_TY, INT_TO_PTR)]"

definition types_are :: "type_category \<Rightarrow> handle \<Rightarrow> type_category \<Rightarrow> handle \<Rightarrow> bool emission" where
  "types_are c target c' value_type =
     bind_b (type_is c target) (\<lambda>b. if b then type_is c' value_type else return_b False)"

fun select_cast :: "(type_category \<times> type_category \<times> cast_instruction) list \<Rightarrow> handle \<Rightarrow> handle
    \<Rightarrow> cast_instruction option emission" where
  "select_cast [] target value_type = return_b None"
| "select_cast ((c, c', i) # rest) target value_type =
     bind_b (types_are c target c' value_type) (\<lambda>b. if b then return_b (Some i) else select_cast rest target value_type)"

text \<open>The address of the first element of an array that was loaded, or is stored first.\<close>

definition array_address :: "handle \<Rightarrow> handle emission" where
  "array_address v =
     bind_b (type_of v) (\<lambda>value_type.
     bind_b (read_b (\<lambda>s. zero_int32_value (library s))) (\<lambda>zero.
     bind_b (cast_to LOAD_INST v) (\<lambda>load_inst.
     bind_b (if load_inst \<noteq> 0 then return_b load_inst
       else bind_b (ask (Create_alloca value_type)) (\<lambda>alloca. then_b (enter_b (Create_store v alloca))
         (bind_b (ask (Allocated_type alloca)) (\<lambda>t. bind_b (ask (Create_load t alloca)) (cast_to LOAD_INST)))))
       (\<lambda>load. through load (bind_b (ask (Pointer_operand load)) (\<lambda>ptr_operand.
          create_gep_element value_type ptr_operand zero))))))"

definition visit_cast_b :: "emitters \<Rightarrow> type_node \<Rightarrow> expression \<Rightarrow> llvm_any emission" where
  "visit_cast_b E t e = any_of VALUE (
     bind_b (resolve_expression E e) (\<lambda>v.
     bind_b (expression_llvm_type E e) (\<lambda>value_type.
     bind_b (type_node_llvm E t) (\<lambda>target_type.
     if value_type = target_type then return_b v
     else bind_b (select_cast cast_table target_type value_type) (\<lambda>selected.
       case selected of
         Some i \<Rightarrow> ask (Create_cast i v target_type)
       | None \<Rightarrow> bind_b (types_are POINTER_TY target_type ARRAY_TY value_type) (\<lambda>to_address.
           if to_address then array_address v else ask (Create_cast BIT_CAST v target_type)))))))"

subsection \<open>Assignments\<close>

definition store_value :: "handle \<Rightarrow> handle \<Rightarrow> llvm_any emission" where
  "store_value v pointer = then_b (enter_b (Create_store v pointer)) (return_b (AnyPointer VALUE v))"

definition assign_variable :: "emitters \<Rightarrow> string \<Rightarrow> expression \<Rightarrow> expression \<Rightarrow> llvm_any emission" where
  "assign_variable E name left right =
     bind_b (resolve_expression E right) (\<lambda>right_value.
     bind_b (e_expression E left) (\<lambda>left_value.
     case left_value of
       AnyPointer ALLOCA_INST alloca \<Rightarrow>
         bind_b (type_of alloca) (\<lambda>alloca_type. bind_b (type_of right_value) (\<lambda>right_type.
         bind_b (if alloca_type = right_type then derefernecs_llvm_pointer right_value else return_b right_value)
           (\<lambda>right_value.
         then_b (modify_b (\<lambda>s. s\<lparr>alloca_inst_table :=
             update_symbol name (AnyPointer ALLOCA_INST alloca) (alloca_inst_table s)\<rparr>))
           (store_value right_value alloca))))
     | AnyPointer GLOBAL_VARIABLE global_variable \<Rightarrow> store_value right_value global_variable
     | _ \<Rightarrow> internal_compiler_error))"

text \<open>The element is addressed in the type of the array; the position is resolved before the value.\<close>

definition assign_element :: "emitters \<Rightarrow> expression \<Rightarrow> expression \<Rightarrow> expression \<Rightarrow> llvm_any emission" where
  "assign_element E array_expression index_node right =
     bind_b (resolve_expression E index_node) (\<lambda>index.
     bind_b (node_value E right) (\<lambda>right_value.
     case array_expression of
       LiteralExpression name _ _ \<Rightarrow>
         bind_b (e_expression E array_expression) (\<lambda>array.
         case array of
           AnyPointer ALLOCA_INST _ \<Rightarrow>
             bind_b (lookup_alloca (literal name)) (\<lambda>entry. bind_b (llvm_node_value entry) (\<lambda>h.
             bind_b (cast_to ALLOCA_INST h) (\<lambda>alloca. through alloca (
             bind_b (ask (Allocated_type alloca)) (\<lambda>t.
             bind_b (create_gep_element t alloca index) (store_value right_value))))))
         | AnyPointer GLOBAL_VARIABLE h \<Rightarrow>
             bind_b (cast_to GLOBAL_VARIABLE h) (\<lambda>global_variable_array. through global_variable_array (
             bind_b (ask (Value_type global_variable_array)) (\<lambda>t.
             bind_b (create_gep_element t global_variable_array index) (store_value right_value))))
         | _ \<Rightarrow> internal_compiler_error)
     | IndexExpression _ _ _ _ \<Rightarrow>
         bind_b (node_value E array_expression) (\<lambda>array.
         bind_b (cast_to LOAD_INST array) (\<lambda>load_inst. through load_inst (
         bind_b (type_of array) (\<lambda>t. bind_b (ask (Pointer_operand load_inst)) (\<lambda>operand.
         bind_b (create_gep_element t operand index) (store_value right_value))))))
     | DotExpression _ _ _ _ _ _ \<Rightarrow>
         bind_b (e_expression E array_expression) (\<lambda>struct_field.
         bind_b (any_cast_to LOAD_INST struct_field) (\<lambda>load_inst.
         if load_inst = 0 then internal_compiler_error
         else bind_b (type_of load_inst) (\<lambda>t. bind_b (ask (Pointer_operand load_inst)) (\<lambda>operand.
           bind_b (create_gep_element t operand index) (\<lambda>ptr.
           bind_b (type_of right_value) (\<lambda>right_type. bind_b (type_of ptr) (\<lambda>ptr_type.
           bind_b (if right_type = ptr_type then derefernecs_llvm_pointer right_value else return_b right_value)
             (\<lambda>right_value. store_value right_value ptr))))))))
     | _ \<Rightarrow> internal_compiler_error))"

definition assign_through_pointer :: "emitters \<Rightarrow> expression \<Rightarrow> expression \<Rightarrow> llvm_any emission" where
  "assign_through_pointer E operand right =
     bind_b (resolve_expression E right) (\<lambda>rvalue.
     bind_b (node_type operand) (\<lambda>unary_right_type.
     bind_b (pointer_base unary_right_type) (\<lambda>base_type.
     bind_b (e_type E base_type) (\<lambda>pointer_base_type.
     bind_b (node_value E operand) (\<lambda>pointer.
     bind_b (ask (Create_load pointer_base_type pointer)) (store_value rvalue))))))"

definition visit_assign_b :: "emitters \<Rightarrow> expression \<Rightarrow> expression \<Rightarrow> llvm_any emission" where
  "visit_assign_b E left right = (case left of
     LiteralExpression name _ _ \<Rightarrow> assign_variable E (literal name) left right
   | IndexExpression _ array_expression index_node _ \<Rightarrow> assign_element E array_expression index_node right
   | DotExpression field_index _ _ callee _ _ \<Rightarrow>
       bind_b (access_member_of E callee field_index) (\<lambda>member_ptr.
       bind_b (resolve_expression E right) (\<lambda>rvalue. store_value rvalue member_ptr))
   | PrefixUnaryExpression operator_token operand _ \<Rightarrow>
       if kind operator_token = TOKEN_STAR then assign_through_pointer E operand right
       else internal_compiler_error
   | _ \<Rightarrow> internal_compiler_error)"

subsection \<open>Leaves\<close>

definition visit_literal_b :: "string \<Rightarrow> llvm_any emission" where
  "visit_literal_b name = bind_b (lookup_alloca name) (\<lambda>alloca_inst.
     if alloca_inst \<noteq> AnyNothing then return_b alloca_inst else any_of GLOBAL_VARIABLE (ask (Named_global name)))"

definition visit_number_b :: "token \<Rightarrow> type_node \<Rightarrow> llvm_any emission" where
  "visit_number_b v t = bind_b (type_of_node_b t) (\<lambda>number_type. case number_type of
     NumberType number_kind \<Rightarrow> any_of VALUE (llvm_number_value (literal v) number_kind)
   | _ \<Rightarrow> fail_b BadCast)"

definition visit_character_b :: "token \<Rightarrow> llvm_any emission" where
  "visit_character_b v = any_of CONSTANT_INT (create_llvm_int INT8_TYPE
     (case literal v of [] \<Rightarrow> 0 | char_asci_value # _ \<Rightarrow> schar char_asci_value))"

definition type_size :: "handle \<Rightarrow> llvm_any emission" where
  "type_size t = bind_b (ask_number (Alloc_size t)) count_constant"

subsection \<open>Dispatch\<close>

definition visit_expression_b :: "emitters \<Rightarrow> expression \<Rightarrow> llvm_any emission" where
  "visit_expression_b E e = (case e of
     IfExpression tokens conditions if_values t \<Rightarrow> visit_if_expression_b E tokens conditions if_values t
   | SwitchExpression keyword argument switch_cases case_values else_branch t op \<Rightarrow>
       visit_switch_expression_b E keyword argument switch_cases case_values else_branch t op
   | TupleExpression _ tuple_values t \<Rightarrow> visit_tuple_b E tuple_values t
   | AssignExpression left _ right _ \<Rightarrow> visit_assign_b E left right
   | BinaryExpression left operator_token right t \<Rightarrow> visit_binary_b E left operator_token right t
   | BitwiseExpression left operator_token right _ \<Rightarrow> visit_bitwise_b E left operator_token right
   | ComparisonExpression left operator_token right t \<Rightarrow> visit_comparison_b E left operator_token right t
   | LogicalExpression left operator_token right _ \<Rightarrow> visit_logical_b E left operator_token right
   | PrefixUnaryExpression operator_token operand t \<Rightarrow> visit_prefix_unary_b E operator_token operand t
   | PostfixUnaryExpression operator_token operand _ \<Rightarrow> visit_postfix_unary_b E operator_token operand
   | CallExpression _ callee arguments t generic_arguments \<Rightarrow> visit_call_b E callee arguments t generic_arguments
   | InitializeExpression _ t arguments \<Rightarrow> visit_initialize_b E t arguments
   | LambdaExpression _ explicit_parameters implicit_names _ _ body t \<Rightarrow>
       visit_lambda_b E explicit_parameters implicit_names body t
   | DotExpression field_index _ _ callee field_name t \<Rightarrow> visit_dot_b E field_index callee field_name t
   | CastExpression _ t v \<Rightarrow> visit_cast_b E t v
   | TypeSizeExpression t \<Rightarrow> bind_b (e_type E t) type_size
   | TypeAlignExpression t \<Rightarrow> bind_b (e_type E t) (\<lambda>h. bind_b (ask_number (Abi_align h)) count_constant)
   | ValueSizeExpression v \<Rightarrow> bind_b (expression_llvm_type E v) type_size
   | IndexExpression _ v index _ \<Rightarrow>
       bind_b (resolve_expression E index) (\<lambda>i. any_of VALUE (access_array_element E v i))
   | EnumAccessExpression _ _ enum_element_index t \<Rightarrow>
       bind_b (type_node_llvm E t) (\<lambda>element_type. any_of VALUE (ask (Constant_int_of element_type enum_element_index)))
   | ArrayExpression _ node_values t _ \<Rightarrow> visit_array_b E node_values t (is_constant e)
   | VectorExpression array \<Rightarrow> visit_vector_b array
   | StringExpression v _ \<Rightarrow> any_of CONSTANT (resolve_constant_string_expression (literal v))
   | LiteralExpression name _ _ \<Rightarrow> visit_literal_b (literal name)
   | NumberExpression v t \<Rightarrow> visit_number_b v t
   | CharacterExpression v _ \<Rightarrow> visit_character_b v
   | BooleanExpression v _ \<Rightarrow> any_of CONSTANT_INT (create_llvm_int INT1_TYPE (if kind v = TOKEN_TRUE then 1 else 0))
   | NullExpression _ _ null_base_type \<Rightarrow> bind_b (e_type E null_base_type) (\<lambda>t. any_of CONSTANT (ask (Null_value t)))
   | UndefinedExpression _ t \<Rightarrow> bind_b (type_node_llvm E t) (\<lambda>t. any_of UNDEF_VALUE (ask (Undef_of t)))
   | InfinityExpression t \<Rightarrow> bind_b (type_node_llvm E t) (\<lambda>t. any_of CONSTANT (ask (Infinity_of t))))"

end
