(* ===== verification/Backend_Statements.thy ===== *)
theory Backend_Statements
  imports Backend_Nodes
begin

text \<open>
  The visitors of statements in \<open>src/amun_llvm_backend.cpp\<close>, the recursion of the visitors by fuel, and
  \<open>compile\<close>.
\<close>

subsection \<open>Blocks and declarations\<close>

text \<open>
  The statements of a block up to the first return, break or continue; the result is \<open>should_execute_defers\<close>.
  The deferred calls of a return come before the statement itself.
\<close>

primrec block_statements :: "emitters \<Rightarrow> statement list \<Rightarrow> bool emission" where
  "block_statements E [] = return_b True"
| "block_statements E (s # rest) =
     (let ast_node_type = get_statement_node_type s
      in if ast_node_type = AST_RETURN then
           then_b execute_all_defer_calls (then_b (ignore_b (e_statement E s)) (return_b False))
         else then_b (ignore_b (e_statement E s))
           (if ast_node_type = AST_BREAK \<or> ast_node_type = AST_CONTINUE then return_b True
            else block_statements E rest))"

definition visit_block_b :: "emitters \<Rightarrow> statement list \<Rightarrow> llvm_any emission" where
  "visit_block_b E statements = then_b (steps_b [
     push_alloca_inst_scope,
     change_top_defer_calls (\<lambda>calls. Some (list_push_new_scope calls)),
     bind_b (block_statements E statements) (\<lambda>should_execute_defers.
       if should_execute_defers then execute_scope_defer_calls else return_b ()),
     change_top_defer_calls list_pop_current_scope,
     pop_alloca_inst_scope]) (return_b AnyInt)"

definition store_variable :: "handle \<Rightarrow> string \<Rightarrow> handle \<Rightarrow> handle \<Rightarrow> unit emission" where
  "store_variable function var_name t v =
     bind_b (create_entry_block_alloca function var_name t) (\<lambda>alloc_inst. steps_b [
       enter_b (Create_store v alloc_inst), define_alloca var_name (AnyPointer ALLOCA_INST alloc_inst)])"

text \<open>A local variable by the static type of its value; an alloca becomes the variable itself.\<close>

definition define_variable :: "handle \<Rightarrow> string \<Rightarrow> handle \<Rightarrow> llvm_any \<Rightarrow> unit emission" where
  "define_variable function var_name llvm_type value = (case value of
     AnyPointer VALUE init_value \<Rightarrow>
       bind_b (type_of init_value) (\<lambda>init_value_type.
       bind_b (if init_value_type = llvm_type then return_b init_value
         else bind_b (ask (Element_type init_value_type)) (\<lambda>element.
           if element = llvm_type then derefernecs_llvm_pointer init_value else return_b init_value))
         (store_variable function var_name llvm_type))
   | AnyPointer ALLOCA_INST init_value \<Rightarrow> through init_value (
       bind_b (ask (Allocated_type init_value)) (\<lambda>t. steps_b [
         enter_b (Create_load t init_value), define_alloca var_name (AnyPointer ALLOCA_INST init_value)]))
   | AnyPointer LLVM_FUNCTION node \<Rightarrow>
       then_b (modify_b (\<lambda>s. s\<lparr>llvm_functions := (llvm_functions s)(var_name \<mapsto> node)\<rparr>))
         (bind_b (type_of node) (\<lambda>t. store_variable function var_name t node))
   | AnyPointer c v \<Rightarrow>
       if c \<in> {CALL_INST, CONSTANT, CONSTANT_INT, LOAD_INST, PHI_NODE, UNDEF_VALUE}
       then store_variable function var_name llvm_type v else internal_compiler_error
   | _ \<Rightarrow> internal_compiler_error)"

definition visit_field_b :: "emitters \<Rightarrow> string \<Rightarrow> ty \<Rightarrow> expression option \<Rightarrow> bool \<Rightarrow> llvm_any emission" where
  "visit_field_b E var_name field_t value is_global =
     bind_b (resolved_type field_t) (\<lambda>field_type.
     bind_b (e_type E field_type) (\<lambda>llvm_type.
     let default_value = bind_b (e_type E field_type) (\<lambda>t. ask (Null_value t))
     in if is_global then
          bind_b (case value of None \<Rightarrow> default_value | Some e \<Rightarrow> resolve_constant_expression E e) (\<lambda>constants_value.
          then_b (enter_b (New_global llvm_type False constants_value var_name)) (return_b AnyInt))
        else
          bind_b (case value of None \<Rightarrow> any_of CONSTANT default_value | Some e \<Rightarrow> e_expression E e) (\<lambda>init.
          bind_b current_function (\<lambda>function.
          then_b (define_variable function var_name llvm_type init) (return_b AnyInt)))))"

definition visit_destructuring_b :: "emitters \<Rightarrow> token list \<Rightarrow> ty list \<Rightarrow> expression \<Rightarrow> llvm_any emission" where
  "visit_destructuring_b E names variable_types value =
     bind_b (node_value E value) (\<lambda>tuple_value.
     bind_b (expression_llvm_type E value) (\<lambda>tuple_type.
     bind_b current_function (\<lambda>function.
     then_b (each_b (\<lambda>(i, name).
         bind_b (nth_b variable_types i) (\<lambda>t. bind_b (e_type E t) (\<lambda>variable_type.
         bind_b (create_entry_block_alloca function (literal name) variable_type) (\<lambda>alloc_inst.
         bind_b (access_struct_member_pointer tuple_value tuple_type (int i)) (\<lambda>member.
         bind_b (derefernecs_llvm_pointer member) (\<lambda>loaded_value. steps_b [
           enter_b (Create_store loaded_value alloc_inst),
           define_alloca (literal name) (AnyPointer ALLOCA_INST alloc_inst)])))))) (enumerate 0 names))
       (return_b AnyInt))))"

definition visit_struct_b :: "emitters \<Rightarrow> string \<Rightarrow> llvm_any emission" where
  "visit_struct_b E name = bind_b (struct_object_b name) (\<lambda>st.
     if struct_is_generic st then return_b AnyInt
     else any_of STRUCT_TYPE_POINTER (create_llvm_struct_type E (struct_name st) (fields_types st)
       (struct_is_packed st) (struct_is_extern st)))"

subsection \<open>Conditional statements\<close>

text \<open>The body of a branch, and the jump to the end unless a flag says that the body has left.\<close>

definition branch_body :: "emitters \<Rightarrow> handle \<Rightarrow> statement \<Rightarrow> unit emission" where
  "branch_body E end_block body = steps_b [
     push_alloca_inst_scope,
     ignore_b (e_statement E body),
     pop_alloca_inst_scope,
     bind_b (read_b (\<lambda>s. \<not> has_break_or_continue_statement s \<and> \<not> has_return_statement s)) (\<lambda>falls_through.
       if falls_through then enter_b (Create_br end_block)
       else modify_b (\<lambda>s. s\<lparr>has_return_statement := False\<rparr>))]"

text \<open>One test: the block for true, the block for false, which is the end block for the last one.\<close>

definition branch_step :: "emitters \<Rightarrow> handle \<Rightarrow> handle \<Rightarrow> bool \<Rightarrow> handle emission \<Rightarrow> statement \<Rightarrow> unit emission" where
  "branch_step E function end_block is_last test body =
     bind_b (ask (New_block ''if.true'')) (\<lambda>true_block. then_b (push_block function true_block)
     (bind_b (if is_last then return_b end_block
        else bind_b (ask (New_block ''if.false'')) (\<lambda>b. then_b (push_block function b) (return_b b))) (\<lambda>false_branch.
      bind_b test (\<lambda>condition. steps_b [
        enter_b (Create_cond_br condition true_block false_branch),
        enter_b (Set_insert_point true_block),
        branch_body E end_block body,
        enter_b (Set_insert_point false_branch)]))))"

definition close_branches :: "handle \<Rightarrow> handle \<Rightarrow> unit emission" where
  "close_branches function end_block =
     then_b (push_block function end_block)
     (bind_b (read_b has_break_or_continue_statement) (\<lambda>has_left.
      if has_left then modify_b (\<lambda>s. s\<lparr>has_break_or_continue_statement := False\<rparr>)
      else enter_b (Set_insert_point end_block)))"

fun if_branches :: "emitters \<Rightarrow> handle \<Rightarrow> handle \<Rightarrow> conditional_block list \<Rightarrow> unit emission" where
  "if_branches E function end_block [] = return_b ()"
| "if_branches E function end_block (ConditionalBlock _ condition body # rest) =
     then_b (branch_step E function end_block (rest = []) (resolve_expression E condition) body)
       (if_branches E function end_block rest)"

definition visit_if_b :: "emitters \<Rightarrow> conditional_block list \<Rightarrow> llvm_any emission" where
  "visit_if_b E conditional_blocks =
     bind_b current_function (\<lambda>function.
     bind_b (ask (New_block ''if.start'')) (\<lambda>start_block.
     bind_b (ask (New_block ''if.end'')) (\<lambda>end_block.
     then_b (steps_b [
       enter_b (Create_br start_block),
       start_block_b function start_block,
       if_branches E function end_block conditional_blocks,
       close_branches function end_block]) (return_b AnyInt))))"

text \<open>Every value of every case is resolved first, with the body of its case and a block that stays unused.\<close>

fun switch_pairs :: "emitters \<Rightarrow> switch_case list \<Rightarrow> (handle \<times> statement) list emission" where
  "switch_pairs E [] = return_b []"
| "switch_pairs E (SwitchCase _ case_values body # rest) =
     bind_b (map_b (\<lambda>e. then_b (enter_b (New_block '''')) (bind_b (resolve_expression E e) (\<lambda>v. return_b (v, body))))
       case_values) (\<lambda>pairs. bind_b (switch_pairs E rest) (\<lambda>pairs'. return_b (pairs @ pairs')))"

text \<open>As many tests as there are cases, whatever the number of the values.\<close>

definition visit_switch_b :: "emitters \<Rightarrow> expression \<Rightarrow> switch_case list \<Rightarrow> token_kind \<Rightarrow> bool \<Rightarrow> llvm_any emission" where
  "visit_switch_b E argument cases op has_default_case =
     (let blocks_count = length cases
      in bind_b (switch_pairs E cases) (\<lambda>pairs.
         bind_b (ask (New_block ''if.start'')) (\<lambda>start_block.
         bind_b (ask (New_block ''if.end'')) (\<lambda>end_block.
         bind_b current_function (\<lambda>function.
         then_b (steps_b [enter_b (Create_br start_block), start_block_b function start_block])
         (bind_b (resolve_expression E argument) (\<lambda>argument.
          then_b (each_b (\<lambda>i. bind_b (nth_b pairs i) (\<lambda>(v, body).
              branch_step E function end_block (i + 1 = blocks_count)
                (if has_default_case \<and> i + 1 = blocks_count then create_llvm_int INT1_TYPE 1
                 else create_llvm_integers_comparison op argument v) body)) [0 ..< blocks_count])
          (then_b (close_branches function end_block) (return_b AnyInt)))))))))"

subsection \<open>Loops\<close>

text \<open>The end of every loop: the jump back unless a flag is set, the end block, the stacks.\<close>

definition close_loop :: "handle \<Rightarrow> handle \<Rightarrow> handle \<Rightarrow> unit emission" where
  "close_loop function back_block end_block = steps_b [
     bind_b (read_b has_break_or_continue_statement) (\<lambda>has_left.
       if has_left then modify_b (\<lambda>s. s\<lparr>has_break_or_continue_statement := False\<rparr>)
       else enter_b (Create_br back_block)),
     start_block_b function end_block,
     pop_loop_blocks]"

text \<open>The variable of a loop is incremented at the start of the body.\<close>

definition increment_variable :: "handle \<Rightarrow> handle \<Rightarrow> unit emission" where
  "increment_variable alloc_inst step =
     bind_b (ask (Allocated_type alloc_inst)) (\<lambda>t.
     bind_b (ask (Create_load t alloc_inst)) (\<lambda>value_ptr.
     bind_b (create_llvm_numbers_bianry TOKEN_PLUS value_ptr step) (\<lambda>new_value.
     enter_b (Create_store new_value alloc_inst))))"

definition range_step :: "emitters \<Rightarrow> expression \<Rightarrow> expression option \<Rightarrow> handle emission" where
  "range_step E range_start step_node = (case step_node of
     Some e \<Rightarrow> resolve_expression E e
   | None \<Rightarrow> bind_b (node_type range_start) (\<lambda>t. case t of
       NumberType number_kind \<Rightarrow> llvm_number_value ''1'' number_kind | _ \<Rightarrow> fail_b BadCast))"

text \<open>The test \<open>variable op end\<close> of a loop, in its condition block.\<close>

definition loop_condition :: "handle \<Rightarrow> handle \<Rightarrow> handle \<Rightarrow> handle \<Rightarrow> token_kind \<Rightarrow> handle \<Rightarrow> handle \<Rightarrow> unit emission" where
  "loop_condition function condition_block body_block end_block op alloc_inst end_value =
     then_b (start_block_b function condition_block)
     (bind_b (derefernecs_llvm_pointer alloc_inst) (\<lambda>variable.
      bind_b (create_llvm_numbers_comparison op variable end_value) (\<lambda>condition. steps_b [
        enter_b (Create_cond_br condition body_block end_block),
        start_block_b function body_block])))"

definition visit_for_range_b :: "emitters \<Rightarrow> string \<Rightarrow> expression \<Rightarrow> expression \<Rightarrow> expression option \<Rightarrow> statement
    \<Rightarrow> llvm_any emission" where
  "visit_for_range_b E var_name range_start range_end step_node body =
     bind_b (resolve_expression E range_start) (\<lambda>start_value.
     bind_b (resolve_expression E range_end) (\<lambda>end_value.
     bind_b (range_step E range_start step_node) (\<lambda>step.
     bind_b (create_llvm_numbers_bianry TOKEN_MINUS start_value step) (\<lambda>start_value.
     bind_b (create_llvm_numbers_bianry TOKEN_MINUS end_value step) (\<lambda>end_value.
     bind_b (type_of start_value) (\<lambda>element_llvm_type.
     bind_b (ask (New_block ''for.cond'')) (\<lambda>condition_block.
     bind_b (ask (New_block ''for'')) (\<lambda>body_block.
     bind_b (ask (New_block ''for.end'')) (\<lambda>end_block.
     then_b (push_loop_blocks end_block condition_block)
     (then_b push_alloca_inst_scope
     (bind_b current_function (\<lambda>function.
      bind_b (create_entry_block_alloca function var_name element_llvm_type) (\<lambda>alloc_inst.
      then_b (steps_b [
        enter_b (Create_store start_value alloc_inst),
        define_alloca var_name (AnyPointer ALLOCA_INST alloc_inst),
        enter_b (Create_br condition_block),
        loop_condition function condition_block body_block end_block TOKEN_SMALLER_EQUAL alloc_inst end_value,
        increment_variable alloc_inst step,
        ignore_b (e_statement E body),
        pop_alloca_inst_scope,
        close_loop function condition_block end_block]) (return_b AnyInt))))))))))))))"

text \<open>The length and the element type of a string, a vector or an array.\<close>

definition foreach_length :: "emitters \<Rightarrow> ty \<Rightarrow> handle \<Rightarrow> handle \<Rightarrow> handle emission" where
  "foreach_length E collection_exp_type collection collection_type =
     (if is_types_equals collection_exp_type i8_ptr_type then create_llvm_string_length E collection
      else bind_b (type_is VECTOR_TY collection_type) (\<lambda>is_vector.
        if is_vector then (case collection_exp_type of
            StaticVectorType _ array_count \<Rightarrow> create_llvm_int INT64_TYPE (int array_count)
          | _ \<Rightarrow> fail_b BadCast)
        else bind_b (ask_number (Element_count collection_type)) (\<lambda>n. create_llvm_int INT64_TYPE (int n))))"

definition foreach_element_type :: "emitters \<Rightarrow> ty \<Rightarrow> handle \<Rightarrow> handle emission" where
  "foreach_element_type E collection_exp_type collection_type = (case collection_exp_type of
     StaticVectorType element _ \<Rightarrow> e_type E element
   | _ \<Rightarrow> bind_b (type_is ARRAY_TY collection_type) (\<lambda>is_array.
       if is_array then ask (Element_type collection_type) else basic INT8_TYPE))"

text \<open>An array literal is stored under the name \<open>_temp\<close> and read through a literal node.\<close>

definition temp_node :: "expression \<Rightarrow> expression" where
  "temp_node collection = set_type_node
     (mk_literal \<lparr>kind = TOKEN_IDENTIFIER, position = \<lparr>file_id = 0, line_number = 0, column_start = 0, column_end = 0\<rparr>,
       literal = ''_temp''\<rparr>)
     (get_type_node collection)"

definition foreach_collection :: "handle \<Rightarrow> handle \<Rightarrow> handle \<Rightarrow> expression \<Rightarrow> expression emission" where
  "foreach_collection function collection collection_type node = (case node of
     ArrayExpression _ _ _ _ \<Rightarrow>
       bind_b (create_entry_block_alloca function ''_temp'' collection_type) (\<lambda>temp_alloca.
       then_b (steps_b [
         enter_b (Create_store collection temp_alloca),
         define_alloca ''_temp'' (AnyPointer ALLOCA_INST temp_alloca)]) (return_b (temp_node node)))
   | _ \<Rightarrow> return_b node)"

definition visit_for_each_b :: "emitters \<Rightarrow> string \<Rightarrow> string \<Rightarrow> expression \<Rightarrow> statement \<Rightarrow> llvm_any emission" where
  "visit_for_each_b E element_name index_name node body =
     bind_b (node_value E node) (\<lambda>collection_value.
     bind_b (llvm_resolve_value (AnyPointer VALUE collection_value)) (\<lambda>collection.
     bind_b (type_of collection) (\<lambda>collection_type.
     bind_b (bind_b (type_is ARRAY_TY collection_type) (\<lambda>is_array.
         if is_array then bind_b (ask_number (Element_count collection_type)) (\<lambda>n. return_b (n = 0))
         else return_b False)) (\<lambda>is_empty.
     if is_empty then return_b AnyInt
     else
     bind_b (node_type node) (\<lambda>collection_exp_type.
     bind_b (create_llvm_int INT64_TYPE (-1)) (\<lambda>zero_value.
     bind_b (create_llvm_int INT64_TYPE 1) (\<lambda>step.
     bind_b (foreach_length E collection_exp_type collection collection_type) (\<lambda>array_length.
     bind_b (create_llvm_integers_bianry TOKEN_MINUS array_length step) (\<lambda>end_value.
     bind_b (ask (New_block ''for.cond'')) (\<lambda>condition_block.
     bind_b (ask (New_block ''for'')) (\<lambda>body_block.
     bind_b (ask (New_block ''for.end'')) (\<lambda>end_block.
     then_b (push_loop_blocks end_block condition_block)
     (then_b push_alloca_inst_scope
     (bind_b current_function (\<lambda>function.
      bind_b (basic INT64_TYPE) (\<lambda>int64.
      bind_b (create_entry_block_alloca function index_name int64) (\<lambda>index_alloca.
      then_b (steps_b [
        enter_b (Create_store zero_value index_alloca),
        define_alloca index_name (AnyPointer ALLOCA_INST index_alloca)])
      (bind_b (foreach_element_type E collection_exp_type collection_type) (\<lambda>element_type.
       bind_b (if element_name \<noteq> ''_'' then create_entry_block_alloca function element_name element_type
         else return_b 0) (\<lambda>element_alloca.
       then_b (steps_b [
         enter_b (Create_br condition_block),
         loop_condition function condition_block body_block end_block TOKEN_SMALLER index_alloca end_value,
         increment_variable index_alloca step,
         bind_b (foreach_collection function collection collection_type node) (\<lambda>collection_expression.
           if element_name = ''_'' then return_b ()
           else bind_b (derefernecs_llvm_pointer index_alloca) (\<lambda>current_index.
             bind_b (access_array_element E collection_expression current_index) (\<lambda>v. steps_b [
               enter_b (Create_store v element_alloca),
               define_alloca element_name (AnyPointer ALLOCA_INST element_alloca)]))),
         ignore_b (e_statement E body),
         pop_alloca_inst_scope,
         close_loop function condition_block end_block]) (return_b AnyInt)))))))))))))))))))))"

definition visit_forever_b :: "emitters \<Rightarrow> statement \<Rightarrow> llvm_any emission" where
  "visit_forever_b E body =
     bind_b (ask (New_block ''forever'')) (\<lambda>body_block.
     bind_b (ask (New_block ''forever.end'')) (\<lambda>end_block.
     then_b (push_loop_blocks end_block body_block)
     (then_b push_alloca_inst_scope
     (bind_b current_function (\<lambda>function.
      then_b (steps_b [
        enter_b (Create_br body_block),
        start_block_b function body_block,
        ignore_b (e_statement E body),
        pop_alloca_inst_scope,
        close_loop function body_block end_block]) (return_b AnyInt))))))"

text \<open>The condition is not loaded: it is the value of the node.\<close>

definition visit_while_b :: "emitters \<Rightarrow> expression \<Rightarrow> statement \<Rightarrow> llvm_any emission" where
  "visit_while_b E condition_node body =
     bind_b current_function (\<lambda>function.
     bind_b (ask (New_block ''while.condition'')) (\<lambda>condition_branch.
     bind_b (ask (New_block ''while.loop'')) (\<lambda>loop_branch.
     bind_b (ask (New_block ''while.end'')) (\<lambda>end_branch.
     then_b (steps_b [
       push_loop_blocks end_branch condition_branch,
       enter_b (Create_br condition_branch),
       start_block_b function condition_branch])
     (bind_b (node_value E condition_node) (\<lambda>condition.
      then_b (steps_b [
        enter_b (Create_cond_br condition loop_branch end_branch),
        start_block_b function loop_branch,
        push_alloca_inst_scope,
        ignore_b (e_statement E body),
        pop_alloca_inst_scope,
        close_loop function condition_branch end_branch]) (return_b AnyInt)))))))"

subsection \<open>Leaving statements\<close>

definition create_ret :: "handle \<Rightarrow> llvm_any emission" where
  "create_ret v = any_of RETURN_INST (ask (Create_ret v))"

definition return_value :: "emitters \<Rightarrow> expression \<Rightarrow> llvm_any \<Rightarrow> llvm_any emission" where
  "return_value E node value = (case value of
     AnyPointer ALLOCA_INST init_value \<Rightarrow> through init_value (
       bind_b (ask (Allocated_type init_value)) (\<lambda>t. bind_b (ask (Create_load t init_value)) create_ret))
   | AnyPointer GLOBAL_VARIABLE variable \<Rightarrow> through variable (
       bind_b (ask (Value_type variable)) (\<lambda>t. bind_b (ask (Create_load t variable)) create_ret))
   | AnyPointer PHI_NODE phi \<Rightarrow>
       bind_b (expression_llvm_type E node) (\<lambda>expected_llvm_type. bind_b (type_of phi) (\<lambda>t.
       if t = expected_llvm_type then create_ret phi
       else bind_b (derefernecs_llvm_pointer phi) create_ret))
   | AnyPointer c v \<Rightarrow>
       if c \<in> {VALUE, CALL_INST, LLVM_FUNCTION, CONSTANT, CONSTANT_INT, LOAD_INST} then create_ret v
       else internal_compiler_error
   | _ \<Rightarrow> internal_compiler_error)"

definition visit_return_b :: "emitters \<Rightarrow> expression option \<Rightarrow> bool \<Rightarrow> llvm_any emission" where
  "visit_return_b E value has_value =
     then_b (modify_b (\<lambda>s. s\<lparr>has_return_statement := True\<rparr>))
     (if \<not> has_value then any_of RETURN_INST (ask Create_ret_void)
      else bind_b (some_b NullAccess value) (\<lambda>node. bind_b (e_expression E node) (return_value E node)))"

definition push_deferred :: "defer_call \<Rightarrow> llvm_any emission" where
  "push_deferred d = then_b (change_top_defer_calls (list_push_front d)) (return_b AnyInt)"

definition visit_defer_b :: "emitters \<Rightarrow> expression \<Rightarrow> llvm_any emission" where
  "visit_defer_b E call_expression = (case call_expression of
     CallExpression _ (LiteralExpression callee _ _) arguments t _ \<Rightarrow>
       bind_b (lookup_function E (literal callee)) (\<lambda>function.
       if function = 0 then
         function_variable E (literal callee) t arguments
           (\<lambda>function_pointer loaded arguments_values.
              push_deferred (DeferFunctionPtrCall function_pointer loaded arguments_values))
           (\<lambda>_. return_b AnyInt) (return_b AnyInt)
       else
         bind_b (ask_number (Argument_count function)) (\<lambda>parameter_size.
         bind_b (pass_arguments E pass_extra parameter_size (argument_type_of function) arguments) (\<lambda>arguments_values.
         push_deferred (DeferFunctionCall function arguments_values))))
   | _ \<Rightarrow> fail_b NullAccess)"

text \<open>The blocks of the loops that are left are popped for good.\<close>

definition leave_loops :: "unit emission \<Rightarrow> (backend \<Rightarrow> handle list) \<Rightarrow> int \<Rightarrow> llvm_any emission" where
  "leave_loops pop blocks levels =
     then_b (modify_b (\<lambda>s. s\<lparr>has_break_or_continue_statement := True\<rparr>))
     (then_b (each_b (\<lambda>_. pop) [1 ..< nat levels])
     (bind_b (read_b blocks) (\<lambda>st. case st of
        [] \<Rightarrow> fail_b EmptyContainer
      | block # _ \<Rightarrow> then_b (enter_b (Create_br block)) (return_b AnyInt))))"

definition visit_break_b :: "int \<Rightarrow> llvm_any emission" where
  "visit_break_b = leave_loops pop_break_block break_blocks_stack"

definition visit_continue_b :: "int \<Rightarrow> llvm_any emission" where
  "visit_continue_b = leave_loops pop_continue_block continue_blocks_stack"

subsection \<open>Dispatch\<close>

definition visit_statement_b :: "emitters \<Rightarrow> statement \<Rightarrow> llvm_any emission" where
  "visit_statement_b E s = (case s of
     BlockStatement statements \<Rightarrow> visit_block_b E statements
   | FieldDeclaration name t value is_global _ \<Rightarrow> visit_field_b E (literal name) t value is_global
   | DestructuringDeclaraion names ts value _ _ \<Rightarrow> visit_destructuring_b E names ts value
   | ConstDeclaration _ _ \<Rightarrow> return_b AnyInt
   | FunctionPrototype prototype \<Rightarrow> any_of LLVM_FUNCTION (visit_prototype_b E prototype)
   | IntrinsicPrototype name native_name parameters _ _ _ \<Rightarrow>
       any_of LLVM_FUNCTION (visit_intrinsic_b E name native_name parameters)
   | FunctionDeclaration prototype body \<Rightarrow> visit_function_declaration_b E prototype body
   | OperatorFunctionDeclaraion _ prototype body \<Rightarrow> e_statement E (FunctionDeclaration prototype body)
   | StructDeclaration name \<Rightarrow> visit_struct_b E name
   | EnumDeclaration _ _ \<Rightarrow> return_b AnyInt
   | IfStatement conditional_blocks _ \<Rightarrow> visit_if_b E conditional_blocks
   | ForRangeStatement _ element_name range_start range_end step body \<Rightarrow>
       visit_for_range_b E element_name range_start range_end step body
   | ForEachStatement _ element_name index_name collection body \<Rightarrow>
       visit_for_each_b E element_name index_name collection body
   | ForeverStatement _ body \<Rightarrow> visit_forever_b E body
   | WhileStatement _ condition body \<Rightarrow> visit_while_b E condition body
   | SwitchStatement _ argument cases op has_default_case _ \<Rightarrow> visit_switch_b E argument cases op has_default_case
   | ReturnStatement _ value has_value \<Rightarrow> visit_return_b E value has_value
   | DeferStatement call_expression \<Rightarrow> visit_defer_b E call_expression
   | BreakStatement _ _ levels \<Rightarrow> visit_break_b levels
   | ContinueStatement _ _ levels \<Rightarrow> visit_continue_b levels
   | ExpressionStatement e \<Rightarrow> then_b (ignore_b (e_expression E e)) (return_b AnyInt))"

primrec emitters_at :: "nat \<Rightarrow> emitters" where
  "emitters_at 0 = \<lparr>e_expression = (\<lambda>_ _. TooDeep), e_statement = (\<lambda>_ _. TooDeep), e_type = (\<lambda>_ _. TooDeep)\<rparr>"
| "emitters_at (Suc n) = \<lparr>e_expression = visit_expression_b (emitters_at n),
     e_statement = visit_statement_b (emitters_at n), e_type = llvm_type_from_amun_type (emitters_at n)\<rparr>"

text \<open>\<open>compile\<close>: an exception ends the walk, and the module built so far is returned.\<close>

definition compile_backend :: "nat \<Rightarrow> statement list \<Rightarrow> unit emission" where
  "compile_backend n tree_nodes s =
     (case each_b (\<lambda>node. ignore_b (e_statement (emitters_at n) node)) tree_nodes s of
        Raises s' \<Rightarrow> Emits () s' | r \<Rightarrow> r)"

end
