(* ===== verification/Backend_Frames.thy ===== *)
theory Backend_Frames
  imports Backend_Statements
begin

text \<open>
  What every visitor of the code generator leaves alone.  \<open>framed\<close> relates the states before and after a visitor
  that returns, \<open>stays\<close> says that a visitor respects it.  A visitor opens scopes and closes them, so \<open>leads\<close> is a
  triple whose assertions \<open>inside f P\<close> say that a scope was opened by \<open>f\<close> in a state with \<open>P\<close>.
\<close>

named_theorems stays
named_theorems leads

subsection \<open>The relation\<close>

text \<open>The innermost scope may get names, the others keep theirs.\<close>

definition scopes_stay :: "('k \<rightharpoonup> 'v) list \<Rightarrow> ('k \<rightharpoonup> 'v) list \<Rightarrow> bool" where
  "scopes_stay ms ms' \<longleftrightarrow> length ms' = length ms \<and> map dom (butlast ms') = map dom (butlast ms)
     \<and> (ms \<noteq> [] \<longrightarrow> dom (last ms) \<subseteq> dom (last ms'))"

text \<open>Calls may be put in front of the innermost scope of the top list, everything else stays.\<close>

definition calls_stay :: "'a list list \<Rightarrow> 'a list list \<Rightarrow> bool" where
  "calls_stay ls ls' \<longleftrightarrow> (if ls = [] then ls' = [] else \<exists>new. ls' = butlast ls @ [new @ last ls])"

definition defers_stay :: "'a scoped_list list \<Rightarrow> 'a scoped_list list \<Rightarrow> bool" where
  "defers_stay st st' \<longleftrightarrow> (case st of [] \<Rightarrow> st' = []
     | c # r \<Rightarrow> \<exists>c'. st' = c' # r \<and> calls_stay (linked_scopes c) (linked_scopes c'))"

text \<open>Blocks of enclosing loops may have been popped.\<close>

definition blocks_stay :: "'a list \<Rightarrow> 'a list \<Rightarrow> bool" where
  "blocks_stay bs bs' \<longleftrightarrow> (\<exists>k. bs' = drop k bs)"

definition extends :: "'a list \<Rightarrow> 'a list \<Rightarrow> bool" where
  "extends l l' \<longleftrightarrow> (\<exists>new. l' = l @ new)"

definition framed :: "backend \<Rightarrow> backend \<Rightarrow> bool" where
  "framed s s' \<longleftrightarrow> library s' = library s \<and> struct_objects s' = struct_objects s
     \<and> extends (log s) (log s')
     \<and> scopes_stay (linked_scoped (alloca_inst_table s)) (linked_scoped (alloca_inst_table s'))
     \<and> defers_stay (defer_calls_stack s) (defer_calls_stack s')
     \<and> blocks_stay (break_blocks_stack s) (break_blocks_stack s')
     \<and> blocks_stay (continue_blocks_stack s) (continue_blocks_stack s')
     \<and> lambda_unique_id s \<le> lambda_unique_id s'"

lemma calls_stay_refl: "calls_stay ls ls"
  by (auto simp: calls_stay_def intro: exI [of _ "[]"])

lemma calls_stay_trans: "calls_stay a b \<Longrightarrow> calls_stay b c \<Longrightarrow> calls_stay a c"
  by (auto simp: calls_stay_def split: if_splits)

lemma defers_stay_refl: "defers_stay st st"
  by (auto simp: defers_stay_def calls_stay_refl split: list.split)

lemma defers_stay_trans: "defers_stay a b \<Longrightarrow> defers_stay b c \<Longrightarrow> defers_stay a c"
  by (auto simp: defers_stay_def intro: calls_stay_trans split: list.splits)

lemma blocks_stay_refl: "blocks_stay bs bs"
  unfolding blocks_stay_def by (rule exI [of _ 0]) simp

lemma blocks_stay_trans: "blocks_stay a b \<Longrightarrow> blocks_stay b c \<Longrightarrow> blocks_stay a c"
  by (auto simp: blocks_stay_def)

lemma blocks_stay_tl: "blocks_stay bs (b # bs') \<Longrightarrow> blocks_stay bs bs'"
  unfolding blocks_stay_def by (metis drop_Suc list.sel(3) tl_drop)

lemma blocks_stay_under: "blocks_stay (b # bs) (b' # bs') \<Longrightarrow> blocks_stay bs bs'"
  unfolding blocks_stay_def by (metis drop_Suc list.sel(3) tl_drop)

lemma extends_refl: "extends l l" by (simp add: extends_def)

lemma extends_trans: "extends a b \<Longrightarrow> extends b c \<Longrightarrow> extends a c"
  by (auto simp: extends_def)

lemma scopes_stay_refl: "scopes_stay ms ms" by (simp add: scopes_stay_def)

lemma scopes_stay_trans: "scopes_stay a b \<Longrightarrow> scopes_stay b c \<Longrightarrow> scopes_stay a c"
  by (auto simp: scopes_stay_def)

lemma framed_refl: "framed s s"
  by (simp add: framed_def extends_refl scopes_stay_refl defers_stay_refl blocks_stay_refl)

lemma framed_trans: "framed s t \<Longrightarrow> framed t u \<Longrightarrow> framed s u"
  unfolding framed_def
  by (metis extends_trans scopes_stay_trans defers_stay_trans blocks_stay_trans order_trans)

subsection \<open>Visitors and triples\<close>

definition stays_in :: "'a emission \<Rightarrow> backend \<Rightarrow> bool" where
  "stays_in m s \<longleftrightarrow> (\<forall>x s'. m s = Emits x s' \<longrightarrow> framed s s')"

definition stays_always :: "'a emission \<Rightarrow> bool" where
  "stays_always m \<longleftrightarrow> (\<forall>s. stays_in m s)"

definition leads_to :: "(backend \<Rightarrow> bool) \<Rightarrow> 'a emission \<Rightarrow> (backend \<Rightarrow> bool) \<Rightarrow> bool" where
  "leads_to P m Q \<longleftrightarrow> (\<forall>s x s'. P s \<longrightarrow> m s = Emits x s' \<longrightarrow> Q s')"

definition closed :: "(backend \<Rightarrow> bool) \<Rightarrow> bool" where
  "closed P \<longleftrightarrow> (\<forall>s s'. P s \<longrightarrow> framed s s' \<longrightarrow> P s')"

definition inside :: "(backend \<Rightarrow> backend) \<Rightarrow> (backend \<Rightarrow> bool) \<Rightarrow> backend \<Rightarrow> bool" where
  "inside f P s \<longleftrightarrow> (\<exists>t. P t \<and> framed (f t) s)"

lemma staysI: "(\<And>s x s'. m s = Emits x s' \<Longrightarrow> framed s s') \<Longrightarrow> stays_always m"
  by (simp add: stays_always_def stays_in_def)

lemma staysD: "stays_always m \<Longrightarrow> m s = Emits x s' \<Longrightarrow> framed s s'"
  by (simp add: stays_always_def stays_in_def)

lemma closed_framed [leads]: "closed (framed s)"
  by (auto simp: closed_def intro: framed_trans)

lemma closed_inside [leads]: "closed (inside f P)"
  by (auto simp: closed_def inside_def intro: framed_trans)

lemma stays_leads: "(\<And>s0. leads_to (framed s0) m (framed s0)) \<Longrightarrow> stays_always m"
  by (rule staysI) (auto simp: leads_to_def intro: framed_refl)

lemma leads_stays: "stays_always m \<Longrightarrow> closed P \<Longrightarrow> leads_to P m P"
  by (auto simp: leads_to_def closed_def dest: staysD)

lemma bind_b_Emits: "bind_b m f s = Emits y s' \<longleftrightarrow> (\<exists>x s1. m s = Emits x s1 \<and> f x s1 = Emits y s')"
  by (auto simp: bind_b_def split: emitted.splits)

lemma leads_bind: "leads_to P m Q \<Longrightarrow> (\<And>x. leads_to Q (f x) R) \<Longrightarrow> leads_to P (bind_b m f) R"
  unfolding leads_to_def bind_b_Emits by blast

lemma leads_then: "leads_to P m Q \<Longrightarrow> leads_to Q n R \<Longrightarrow> leads_to P (then_b m n) R"
  unfolding then_b_def by (rule leads_bind)

lemma leads_through: "leads_to P m Q \<Longrightarrow> leads_to P (through h m) Q"
  by (simp add: through_def leads_to_def fail_b_def)

lemma steps_b_simps: "steps_b [] = return_b ()" "steps_b (m # ms) = then_b m (steps_b ms)"
  by (simp_all add: steps_b_def)

lemma leads_steps: "leads_to P m Q \<Longrightarrow> leads_to Q (steps_b ms) R \<Longrightarrow> leads_to P (steps_b (m # ms)) R"
  by (simp add: steps_b_simps leads_then)

lemma leads_ignore: "leads_to P m Q \<Longrightarrow> leads_to P (ignore_b m) Q"
  by (auto simp: leads_to_def ignore_b_def bind_b_Emits return_b_def)

lemmas leads_structure = leads_bind leads_then leads_steps leads_through

subsection \<open>The combinators\<close>

lemma stays_return [stays]: "stays_always (return_b x)"
  by (rule staysI) (simp add: return_b_def framed_refl)

lemma stays_fail [stays]: "stays_always (fail_b c)" "stays_always raise_b" "stays_always internal_compiler_error"
  by (auto intro: staysI simp: fail_b_def raise_b_def internal_compiler_error_def)

lemma stays_read [stays]: "stays_always (read_b f)"
  by (rule staysI) (simp add: read_b_def framed_refl)

lemma stays_bind [stays]:
  assumes "stays_always m" and "\<And>x. stays_always (f x)"
  shows "stays_always (bind_b m f)"
proof (rule staysI)
  fix s y s'
  assume "bind_b m f s = Emits y s'"
  then obtain x s1 where "m s = Emits x s1" "f x s1 = Emits y s'" by (auto simp: bind_b_Emits)
  then show "framed s s'" using assms by (meson staysD framed_trans)
qed

lemma stays_then [stays]: "stays_always m \<Longrightarrow> stays_always n \<Longrightarrow> stays_always (then_b m n)"
  by (simp add: then_b_def stays_bind)

lemma stays_ignore [stays]: "stays_always m \<Longrightarrow> stays_always (ignore_b m)"
  by (simp add: ignore_b_def stays_bind stays_return)

lemma stays_through [stays]: "stays_always m \<Longrightarrow> stays_always (through h m)"
  by (simp add: through_def stays_fail)

lemma stays_some [stays]: "stays_always (some_b c v)"
  by (auto simp: some_b_def stays split: option.split)

lemma stays_nth [stays]: "stays_always (nth_b xs i)"
  by (auto simp: nth_b_def stays)

lemma stays_map [stays]: "(\<And>x. stays_always (f x)) \<Longrightarrow> stays_always (map_b f xs)"
  by (induction xs) (auto intro!: stays)

lemma stays_each [stays]: "(\<And>x. stays_always (f x)) \<Longrightarrow> stays_always (each_b f xs)"
  by (induction xs) (auto intro!: stays)

lemma stays_steps_Nil [stays]: "stays_always (steps_b [])"
  by (simp add: steps_b_simps stays)

lemma stays_steps_Cons [stays]: "stays_always m \<Longrightarrow> stays_always (steps_b ms) \<Longrightarrow> stays_always (steps_b (m # ms))"
  by (simp add: steps_b_simps stays)

lemma stays_if [stays]: "stays_always m \<Longrightarrow> stays_always n \<Longrightarrow> stays_always (if b then m else n)"
  by simp

lemma stays_Let [stays]: "stays_always (f v) \<Longrightarrow> stays_always (Let v f)"
  by simp

lemma stays_prod [stays]: "(\<And>a b. stays_always (f a b)) \<Longrightarrow> stays_always (case_prod f p)"
  by (cases p) simp

lemma stays_option [stays]:
  "stays_always m \<Longrightarrow> (\<And>x. stays_always (f x)) \<Longrightarrow> stays_always (case_option m f v)"
  by (cases v) simp_all

lemma stays_list [stays]:
  "stays_always m \<Longrightarrow> (\<And>x xs. stays_always (f x xs)) \<Longrightarrow> stays_always (case_list m f v)"
  by (cases v) simp_all

lemma stays_llvm_any [stays]:
  "stays_always m \<Longrightarrow> stays_always n \<Longrightarrow> (\<And>c h. stays_always (f c h)) \<Longrightarrow> stays_always (case_llvm_any m n f v)"
  by (cases v) simp_all

lemma stays_value_class [stays]:
  assumes "stays_always f1" "stays_always f2" "stays_always f3" "stays_always f4" "stays_always f5"
    "stays_always f6" "stays_always f7" "stays_always f8" "stays_always f9" "stays_always f10"
    "stays_always f11" "stays_always f12" "stays_always f13" "stays_always f14" "stays_always f15"
  shows "stays_always (case_value_class f1 f2 f3 f4 f5 f6 f7 f8 f9 f10 f11 f12 f13 f14 f15 c)"
  using assms by (cases c) simp_all

lemma stays_number_kind [stays]:
  assumes "stays_always f1" "stays_always f2" "stays_always f3" "stays_always f4" "stays_always f5"
    "stays_always f6" "stays_always f7" "stays_always f8" "stays_always f9" "stays_always f10" "stays_always f11"
  shows "stays_always (case_number_kind f1 f2 f3 f4 f5 f6 f7 f8 f9 f10 f11 k)"
  using assms by (cases k) simp_all

lemma stays_defer_call [stays]:
  "(\<And>f a. stays_always (f1 f a)) \<Longrightarrow> (\<And>t f a. stays_always (f2 t f a)) \<Longrightarrow> stays_always (case_defer_call f1 f2 d)"
  by (cases d) simp_all

lemma stays_type_node [stays]:
  "stays_always f1 \<Longrightarrow> (\<And>t. stays_always (f2 t)) \<Longrightarrow> (\<And>t n. stays_always (f3 t n)) \<Longrightarrow>
   (\<And>t n. stays_always (f4 t n)) \<Longrightarrow> stays_always (case_type_node f1 f2 f3 f4 t)"
  by (cases t) simp_all

lemma stays_ty [stays]:
  assumes "\<And>k. stays_always (f1 k)" "\<And>b. stays_always (f2 b)"
    "\<And>n p r i v w x g y. stays_always (f3 n p r i v w x g y)"
    "\<And>e n. stays_always (f4 e n)" "\<And>e n. stays_always (f5 e n)" "\<And>n. stays_always (f6 n)"
    "\<And>n ts. stays_always (f7 n ts)" "\<And>n vs e. stays_always (f8 n vs e)" "\<And>n e. stays_always (f9 n e)"
    "\<And>n. stays_always (f10 n)" "\<And>n ps. stays_always (f11 n ps)" "stays_always f12" "stays_always f13"
    "stays_always f14"
  shows "stays_always (case_ty f1 f2 f3 f4 f5 f6 f7 f8 f9 f10 f11 f12 f13 f14 t)"
  using assms by (cases t) simp_all

lemma stays_case_expression [stays]:
  assumes "\<And>a b c d. stays_always (f1 a b c d)" "\<And>a b c d e f g. stays_always (f2 a b c d e f g)"
    "\<And>a b c. stays_always (f3 a b c)" "\<And>a b c d. stays_always (f4 a b c d)"
    "\<And>a b c d. stays_always (f5 a b c d)" "\<And>a b c d. stays_always (f6 a b c d)"
    "\<And>a b c d. stays_always (f7 a b c d)" "\<And>a b c d. stays_always (f8 a b c d)"
    "\<And>a b c. stays_always (f9 a b c)" "\<And>a b c. stays_always (f10 a b c)"
    "\<And>a b c d e. stays_always (f11 a b c d e)" "\<And>a b c. stays_always (f12 a b c)"
    "\<And>a b c d e f g. stays_always (f13 a b c d e f g)" "\<And>a b c d e f. stays_always (f14 a b c d e f)"
    "\<And>a b c. stays_always (f15 a b c)" "\<And>a. stays_always (f16 a)" "\<And>a. stays_always (f17 a)"
    "\<And>a. stays_always (f18 a)" "\<And>a b c d. stays_always (f19 a b c d)"
    "\<And>a b c d. stays_always (f20 a b c d)" "\<And>a b c d. stays_always (f21 a b c d)"
    "\<And>a. stays_always (f22 a)" "\<And>a b. stays_always (f23 a b)" "\<And>a b c. stays_always (f24 a b c)"
    "\<And>a b. stays_always (f25 a b)" "\<And>a b. stays_always (f26 a b)" "\<And>a b. stays_always (f27 a b)"
    "\<And>a b c. stays_always (f28 a b c)" "\<And>a b. stays_always (f29 a b)" "\<And>a. stays_always (f30 a)"
  shows "stays_always (case_expression f1 f2 f3 f4 f5 f6 f7 f8 f9 f10 f11 f12 f13 f14 f15 f16 f17
    f18 f19 f20 f21 f22 f23 f24 f25 f26 f27 f28 f29 f30 e)"
  using assms by (cases e) simp_all

subsection \<open>The state\<close>

lemma stays_modify [stays]:
  assumes "\<And>s. library (f s) = library s" "\<And>s. struct_objects (f s) = struct_objects s" "\<And>s. log (f s) = log s"
    "\<And>s. alloca_inst_table (f s) = alloca_inst_table s" "\<And>s. defer_calls_stack (f s) = defer_calls_stack s"
    "\<And>s. break_blocks_stack (f s) = break_blocks_stack s"
    "\<And>s. continue_blocks_stack (f s) = continue_blocks_stack s"
    "\<And>s. lambda_unique_id s \<le> lambda_unique_id (f s)"
  shows "stays_always (modify_b f)"
  using assms by (auto intro!: staysI simp: modify_b_def framed_def extends_refl scopes_stay_refl
      defers_stay_refl blocks_stay_refl)

lemma stays_enter [stays]: "stays_always (enter_b c)"
  by (rule staysI) (auto simp: enter_b_def modify_b_def framed_def extends_def scopes_stay_refl
      defers_stay_refl blocks_stay_refl)

lemma stays_answer [stays]: "stays_always (answer_b f c)"
  unfolding answer_b_def by (intro stays)

lemma stays_ask [stays]: "stays_always (ask c)" "stays_always (ask_flag c)" "stays_always (ask_number c)"
  "stays_always (ask_text c)"
  unfolding ask_def ask_flag_def ask_number_def ask_text_def by (rule stays)+

lemma dom_update_known:
  assumes "n < length ms" "(ms ! n) k \<noteq> None"
  shows "map dom (ms[n := (ms ! n)(k \<mapsto> v)]) = map dom ms"
proof -
  have "dom ((ms ! n)(k \<mapsto> v)) = map dom ms ! n" using assms by auto
  then show ?thesis by (simp only: map_update list_update_id)
qed

lemma dom_update_from:
  "n \<le> length ms \<Longrightarrow> map dom (update_from k v n ms) = map dom ms"
proof (induction n arbitrary: ms)
  case (Suc n)
  then show ?case by (simp add: dom_update_known)
qed simp

lemma scopes_stay_dom: "map dom ms' = map dom ms \<Longrightarrow> scopes_stay ms ms'"
  unfolding scopes_stay_def
  by (metis last_map length_map list.map_disc_iff map_butlast order_refl)

lemma stays_update [stays]:
  "stays_always (modify_b (\<lambda>s. s\<lparr>alloca_inst_table := update_symbol name v (alloca_inst_table s)\<rparr>))"
  by (rule staysI) (auto simp: modify_b_def framed_def extends_refl defers_stay_refl blocks_stay_refl
      update_symbol_def intro!: scopes_stay_dom dom_update_from)

lemma stays_define [stays]: "stays_always (define_alloca name v)"
proof (rule staysI)
  fix s x s'
  assume r: "define_alloca name v s = Emits x s'"
  then have ne: "linked_scoped (alloca_inst_table s) \<noteq> []"
    by (auto simp: define_alloca_def bind_b_def read_b_def some_b_def define_symbol_def fail_b_def split: if_splits)
  then obtain ms m where ms: "linked_scoped (alloca_inst_table s) = ms @ [m]" by (metis append_butlast_last_id)
  then show "framed s s'"
    using r by (auto simp: define_alloca_def bind_b_def read_b_def some_b_def define_symbol_def return_b_def
        modify_b_def framed_def extends_refl defers_stay_refl blocks_stay_refl scopes_stay_def split: if_splits)
qed

lemma stays_push_front [stays]: "stays_always (change_top_defer_calls (list_push_front d))"
  by (rule staysI) (auto simp: change_top_defer_calls_def bind_b_Emits read_b_def some_b_def list_push_front_def
      return_b_def fail_b_def modify_b_def framed_def extends_refl scopes_stay_refl blocks_stay_refl defers_stay_def
      calls_stay_def split: list.splits if_splits)

lemma stays_pops [stays]: "stays_always pop_break_block" "stays_always pop_continue_block"
  by (auto intro!: staysI simp: pop_break_block_def pop_continue_block_def bind_b_Emits read_b_def modify_b_def
      fail_b_def framed_def extends_refl scopes_stay_refl blocks_stay_refl defers_stay_refl split: list.splits)
    (auto simp: blocks_stay_def intro: exI [of _ 1])

end
