(* ===== verification/Backend_Discipline.thy ===== *)
theory Backend_Discipline
  imports Backend_Frames
begin

text \<open>
  Every visitor of the code generator satisfies \<open>stays_always\<close>: the operations in the order in which they use
  each other, then the visitors in a locale that assumes it of the visitors they call, and the interpretation
  of the locale on the visitors at every fuel.
\<close>

subsection \<open>Operations\<close>

lemma stays_any_of [stays]: "stays_always m \<Longrightarrow> stays_always (any_of c m)"
  unfolding any_of_def by (intro stays)

lemma stays_end_of_body [stays]: "stays_always (end_of_body body)"
  by (cases body) (simp_all add: end_of_body_def stays)

lemma stays_each_in:
  "(\<And>x. x \<in> set xs \<Longrightarrow> stays_always (f x)) \<Longrightarrow> stays_always (each_b f xs)"
  by (induction xs) (auto intro!: stays)

lemma stays_leave_loops [stays]: "stays_always pop \<Longrightarrow> stays_always (leave_loops pop blocks levels)"
  unfolding leave_loops_def by (intro stays | simp)+

lemma stays_operations [stays]:
  "stays_always (basic t)" "stays_always (type_of v)" "stays_always (type_is c t1)" "stays_always (cast_to c1 v)"
  "stays_always (current_function)" "stays_always (push_block f b)" "stays_always (set_insert_point b)"
  "stays_always (create_entry_block_alloca function var_name t1)" "stays_always (lookup_alloca name)"
  "stays_always (top_defer_calls)" "stays_always (pop_loop_blocks)" "stays_always (execute_defer_call d)"
  "stays_always (type_of_node_b n)" "stays_always (struct_object_b name)" "stays_always (generic_type_b name)"
  "stays_always (llvm_node_value v1)" "stays_always (any_cast_to c1 v1)" "stays_always (current_struct)"
  "stays_always (remember_struct name t1)" "stays_always (stoi_b s)"
  "stays_always (create_binary instruction left right)" "stays_always (create_compare predicate left right)"
  "stays_always (set_argument_names function names)" "stays_always (create_gep_element t1 pointer index)"
  "stays_always (some_element v2)" "stays_always (constant_case_matches op argument constant_case)"
  "stays_always (remember_string text h)" "stays_always (number_literal_b e)"
  "stays_always (enter_function_table name prototype)" "stays_always (bind_generic_types names generic_arguments)"
  "stays_always (parameter_type_of function_type i)" "stays_always (pointer_base t2)"
  "stays_always (store_value v pointer)" "stays_always (push_deferred d)"
  unfolding basic_def type_of_def type_is_def cast_to_def current_function_def push_block_def set_insert_point_def
    create_entry_block_alloca_def lookup_alloca_def top_defer_calls_def pop_loop_blocks_def
    execute_defer_call_def type_of_node_b_def struct_object_b_def generic_type_b_def llvm_node_value_def
    any_cast_to_def current_struct_def remember_struct_def stoi_b_def create_binary_def create_compare_def
    set_argument_names_def create_gep_element_def some_element_def constant_case_matches_def
    remember_string_def number_literal_b_def enter_function_table_def bind_generic_types_def
    parameter_type_of_def pointer_base_def store_value_def push_deferred_def
  by (intro stays | simp)+

lemma stays_pass_checked [stays]:
  "(\<And>i. stays_always (parameter_type_at i)) \<Longrightarrow> stays_always (pass_checked parameter_type_at i v)"
  unfolding pass_checked_def type_of_def by (intro stays)

lemma stays_operations_1 [stays]:
  "stays_always (value_type_is c v)" "stays_always (type_cast_to c t)" "stays_always (create_llvm_int t1 n)"
  "stays_always (start_block_b f b)" "stays_always (execute_scope_defer_calls)"
  "stays_always (execute_all_defer_calls)" "stays_always (node_type e)" "stays_always (llvm_resolve_value v1)"
  "stays_always (llvm_resolve_variable name)" "stays_always (create_llvm_integers_bianry op x y)"
  "stays_always (create_llvm_floats_bianry op x y)" "stays_always (create_llvm_integers_vectors_bianry op x y)"
  "stays_always (create_llvm_floats_vectors_bianry op x y)" "stays_always (create_llvm_integers_comparison op x y)"
  "stays_always (create_llvm_unsigned_integers_comparison op x y)"
  "stays_always (create_llvm_floats_comparison op x y)" "stays_always (stored_member callee_value index)"
  "stays_always (constant_element array constants_index)" "stays_always (visit_vector_b array1)"
  "stays_always (vector_element n1)" "stays_always (define_argument function argument)"
  "stays_always (resolved_type t2)" "stays_always (to_double v)" "stays_always (argument_type_of function i)"
  "stays_always (create_call function arguments)" "stays_always (types_are c target c' value_type)"
  "stays_always (array_address v)" "stays_always (visit_literal_b name)"
  "stays_always (store_variable function var_name t v)" "stays_always (close_branches function end_block)"
  "stays_always (foreach_collection function collection collection_type node)" "stays_always (create_ret v)"
  "stays_always (visit_break_b x1)" "stays_always (visit_continue_b x1)"
  unfolding value_type_is_def type_cast_to_def create_llvm_int_def start_block_b_def execute_scope_defer_calls_def
    execute_all_defer_calls_def node_type_def llvm_resolve_value_def llvm_resolve_variable_def
    create_llvm_integers_bianry_def create_llvm_floats_bianry_def create_llvm_integers_vectors_bianry_def
    create_llvm_floats_vectors_bianry_def create_llvm_integers_comparison_def
    create_llvm_unsigned_integers_comparison_def create_llvm_floats_comparison_def stored_member_def
    constant_element_def visit_vector_b_def vector_element_def define_argument_def resolved_type_def
    to_double_def argument_type_of_def create_call_def types_are_def array_address_def visit_literal_b_def
    store_variable_def close_branches_def foreach_collection_def create_ret_def visit_break_b_def
    visit_continue_b_def
  by (intro stays | simp)+

lemma stays_select_cast [stays]: "stays_always (select_cast table target value_type)"
  by (induction table target value_type rule: select_cast.induct) (auto intro!: stays)

lemma stays_condition_chain [stays]:
  "(\<And>c b. (c, b) \<in> set chain \<Longrightarrow> stays_always c) \<Longrightarrow> stays_always (condition_chain function merge_branch chain)"
  unfolding condition_chain_def by (rule stays_each_in) (auto intro!: stays)

lemma stays_operations_2 [stays]:
  "stays_always (both_types_are c l r)" "stays_always (derefernecs_llvm_pointer pointer)"
  "stays_always (llvm_number_value value_litearl number_kind)"
  "stays_always (struct_member callee_value callee_llvm_type index)"
  "stays_always (resolve_constant_string_expression text)"
  "stays_always (store_step op constants_one is_prefix current_value pointer)"
  "stays_always (merge_values function merge_branch value_type incoming)"
  "stays_always (define_arguments function)" "stays_always (implicit_arguments name)"
  "stays_always (define_lambda_arguments function implicit_names explicit_parameters)"
  "stays_always (count_constant n)" "stays_always (visit_character_b v)"
  unfolding both_types_are_def derefernecs_llvm_pointer_def llvm_number_value_def struct_member_def
    resolve_constant_string_expression_def store_step_def merge_values_def define_arguments_def
    implicit_arguments_def define_lambda_arguments_def count_constant_def visit_character_b_def
  by (intro stays | simp)+

lemma stays_by_number_type [stays]:
  "(\<And>l r. stays_always (integers l r)) \<Longrightarrow> (\<And>l r. stays_always (floats l r)) \<Longrightarrow>
   stays_always (by_number_type integers floats left right)"
  unfolding by_number_type_def by (intro stays)

lemma stays_operations_3 [stays]:
  "stays_always (access_struct_member_pointer callee_value callee_llvm_type field_index)"
  "stays_always (local_array_element array index)" "stays_always (global_array_element array index)"
  "stays_always (value_array_element array index)" "stays_always (visit_number_b v t)"
  "stays_always (type_size t1)" "stays_always (define_variable function var_name llvm_type value)"
  unfolding access_struct_member_pointer_def local_array_element_def global_array_element_def value_array_element_def
    visit_number_b_def type_size_def define_variable_def
  by (intro stays | simp)+

lemma stays_operations_4 [stays]:
  "stays_always (create_llvm_numbers_bianry op x y)" "stays_always (create_llvm_numbers_comparison op x y)"
  unfolding create_llvm_numbers_bianry_def create_llvm_numbers_comparison_def
  by (intro stays | simp)+

lemma stays_operations_5 [stays]:
  "stays_always (increment_variable alloc_inst step)"
  "stays_always (loop_condition function condition_block body_block end_block op alloc_inst end_value)"
  unfolding increment_variable_def loop_condition_def
  by (intro stays | simp)+

subsection \<open>Opening and closing\<close>

definition open_alloca :: "backend \<Rightarrow> backend" where
  "open_alloca s = s\<lparr>alloca_inst_table := push_new_scope (alloca_inst_table s)\<rparr>"

definition open_defer :: "backend \<Rightarrow> backend" where
  "open_defer s = s\<lparr>defer_calls_stack := \<lparr>linked_scopes = []\<rparr> # defer_calls_stack s\<rparr>"

definition open_block :: "backend \<Rightarrow> backend" where
  "open_block s = s\<lparr>defer_calls_stack := (case defer_calls_stack s of [] \<Rightarrow> [] | c # r \<Rightarrow> list_push_new_scope c # r)\<rparr>"

definition open_loop :: "handle \<Rightarrow> handle \<Rightarrow> backend \<Rightarrow> backend" where
  "open_loop b c s = s\<lparr>break_blocks_stack := b # break_blocks_stack s,
     continue_blocks_stack := c # continue_blocks_stack s\<rparr>"

lemma leads_openI: "(\<And>s x s'. m s = Emits x s' \<Longrightarrow> s' = f s) \<Longrightarrow> leads_to P m (inside f P)"
  unfolding leads_to_def inside_def by (metis framed_refl)

lemma leads_closeI:
  "closed P \<Longrightarrow> (\<And>t s x s'. framed (f t) s \<Longrightarrow> m s = Emits x s' \<Longrightarrow> framed t s') \<Longrightarrow> leads_to (inside f P) m P"
  unfolding leads_to_def inside_def closed_def by blast

lemma leads_open:
  "leads_to P push_alloca_inst_scope (inside open_alloca P)"
  "leads_to P push_defer_stack (inside open_defer P)"
  "leads_to P (change_top_defer_calls (\<lambda>calls. Some (list_push_new_scope calls))) (inside open_block P)"
  "leads_to P (push_loop_blocks b c) (inside (open_loop b c) P)"
  by (auto intro!: leads_openI simp: push_alloca_inst_scope_def open_alloca_def push_defer_stack_def open_defer_def
      push_loop_blocks_def open_loop_def change_top_defer_calls_def open_block_def modify_b_def bind_b_Emits
      read_b_def some_b_def return_b_def fail_b_def split: list.splits)

lemma scopes_stay_pop:
  "scopes_stay (ms @ [m]) ms' \<Longrightarrow> scopes_stay ms (butlast ms')"
  by (intro scopes_stay_dom) (simp add: scopes_stay_def)

lemma calls_stay_pop: "calls_stay (ls @ [[]]) ls' \<Longrightarrow> butlast ls' = ls"
  by (auto simp: calls_stay_def)

lemma leads_pop_alloca: "closed P \<Longrightarrow> leads_to (inside open_alloca P) pop_alloca_inst_scope P"
  by (rule leads_closeI)
    (auto simp: framed_def open_alloca_def pop_alloca_inst_scope_def bind_b_Emits read_b_def some_b_def
      pop_current_scope_def return_b_def fail_b_def modify_b_def push_new_scope_def
      split: if_splits option.splits dest: scopes_stay_pop)

lemma leads_pop_defer: "closed P \<Longrightarrow> leads_to (inside open_defer P) pop_defer_stack P"
  by (rule leads_closeI)
    (auto simp: framed_def open_defer_def pop_defer_stack_def bind_b_Emits read_b_def defers_stay_def
      fail_b_def modify_b_def calls_stay_refl split: list.splits)

lemma leads_pop_block: "closed P \<Longrightarrow> leads_to (inside open_block P) (change_top_defer_calls list_pop_current_scope) P"
  by (rule leads_closeI)
    (auto simp: framed_def open_block_def change_top_defer_calls_def bind_b_Emits read_b_def defers_stay_def
      list_push_new_scope_def list_pop_current_scope_def some_b_def return_b_def fail_b_def modify_b_def
      calls_stay_refl split: list.splits if_splits option.splits dest!: calls_stay_pop)

lemma leads_pop_loop: "closed P \<Longrightarrow> leads_to (inside (open_loop b c) P) pop_loop_blocks P"
  by (rule leads_closeI)
    (auto simp: framed_def open_loop_def pop_loop_blocks_def then_b_def pop_break_block_def pop_continue_block_def
      bind_b_Emits read_b_def fail_b_def modify_b_def split: list.splits dest: blocks_stay_under)

lemma leads_if: "leads_to P m R \<Longrightarrow> leads_to P n R \<Longrightarrow> leads_to P (if b then m else n) R"
  by simp

lemmas leads_rules = leads_open leads_pop_alloca leads_pop_defer leads_pop_block leads_pop_loop leads_structure
  leads_if leads_stays closed_framed closed_inside

lemma leads_close_loop:
  "closed P \<Longrightarrow> leads_to (inside (open_loop b c) P) (close_loop function back_block end_block) P"
  unfolding close_loop_def by (rule leads_rules stays | simp)+

subsection \<open>Visitors\<close>

locale emitting =
  fixes E :: emitters
  assumes stays_expression [stays]: "\<And>e. stays_always (e_expression E e)"
    and stays_statement [stays]: "\<And>s. stays_always (e_statement E s)"
    and stays_type [stays]: "\<And>t. stays_always (e_type E t)"
begin

lemma stays_node [stays]: "stays_always (node_value E e)" "stays_always (resolve_expression E e)"
  unfolding node_value_def resolve_expression_def by (intro stays)+

lemma stays_pass_all [stays]:
  "(\<And>i. stays_always (parameter_type_at i)) \<Longrightarrow> stays_always (pass_all_checked E parameter_type_at arguments)"
  unfolding pass_all_checked_def by (intro stays)

lemma stays_pass_arguments [stays]:
  "(\<And>e v. stays_always (extra E e v)) \<Longrightarrow> (\<And>i. stays_always (parameter_type_at i)) \<Longrightarrow>
   stays_always (pass_arguments E extra parameter_size parameter_type_at arguments)"
  unfolding pass_arguments_def by (intro stays)

lemma stays_resolve_operands [stays]:
  "(\<And>l r. stays_always (f l r)) \<Longrightarrow> stays_always (resolve_operands E left right f)"
  unfolding resolve_operands_def by (intro stays)

lemma stays_types [stays]:
  "stays_always (struct_member_type E field)"
  "stays_always (generic_member_type E st parameters struct_llvm_type field)"
  "stays_always (pointer_llvm_type E v)" "stays_always (type_node_llvm E n)"
  "stays_always (expression_llvm_type E e)"
  "stays_always (create_llvm_struct_type E name members is_packed is_extern)"
  "stays_always (resolve_generic_struct_b E name parameters)"
  unfolding struct_member_type_def generic_member_type_def pointer_llvm_type_def type_node_llvm_def
    expression_llvm_type_def create_llvm_struct_type_def resolve_generic_struct_b_def
  by (intro stays | simp)+

lemma stays_llvm_type [stays]: "stays_always (llvm_type_from_amun_type E t)"
  unfolding llvm_type_from_amun_type_def by (intro stays)

lemma stays_function_variable [stays]:
  "(\<And>f l vs. stays_always (call f l vs)) \<Longrightarrow> (\<And>l. stays_always (no_function l)) \<Longrightarrow> stays_always no_alloca \<Longrightarrow>
   stays_always (function_variable E name t arguments call no_function no_alloca)"
  unfolding function_variable_def by (intro stays)

lemma stays_visitors_0 [stays]:
  "stays_always (visit_intrinsic_b E name native_name parameters)"
  unfolding visit_intrinsic_b_def
  by (intro stays | simp)+

lemma stays_visitors_1 [stays]:
  "stays_always (visit_prototype_b E node)"
  "stays_always (foreach_element_type E collection_exp_type collection_type)"
  unfolding visit_prototype_b_def foreach_element_type_def
  by (intro stays | simp)+

lemma stays_visitors_2 [stays]:
  "stays_always (lookup_function E name)"
  "stays_always (resolve_constant_index_expression E array_expression index_expression)"
  "stays_always (instance_type E t)"
  unfolding lookup_function_def resolve_constant_index_expression_def instance_type_def
  by (intro stays | simp)+

lemma stays_visitors_3 [stays]:
  "stays_always (create_overloading_function_call E name args)"
  "stays_always (library_function E name return_type arguments)" "stays_always (constant_of E e)"
  "stays_always (store_members E struct_type alloc_inst arguments1)" "stays_always (pass_extra E argument v)"
  "stays_always (pass_extra_promoted E argument v)" "stays_always (call_result E callee arguments1)"
  "stays_always (visit_cast_b E t e)" "stays_always (assign_element E array_expression index_node right)"
  "stays_always (assign_through_pointer E operand right)" "stays_always (visit_struct_b E name)"
  "stays_always (range_step E range_start step_node)" "stays_always (return_value E node value)"
  unfolding create_overloading_function_call_def library_function_def constant_of_def store_members_def pass_extra_def
    pass_extra_promoted_def call_result_def visit_cast_b_def assign_element_def assign_through_pointer_def
    visit_struct_b_def range_step_def return_value_def
  by (intro stays | simp)+

lemma stays_constant_if [stays]: "stays_always (resolve_constant_if_expression E n conditions if_values)"
proof (induction n arbitrary: conditions if_values)
  case 0
  then show ?case by (simp add: stays)
next
  case (Suc n)
  show ?case
    by (simp split: list.split) (intro allI conjI impI stays Suc | simp)+
qed

lemma stays_constant_switch [stays]:
  "stays_always (constant_switch_cases E op argument switch_cases case_values default_value)"
  by (induction switch_cases arbitrary: case_values) (auto intro!: stays split: option.split list.split)

lemma stays_function_body [stays]: "stays_always (emit_function_body E name function body)"
  by (rule stays_leads, unfold emit_function_body_def) (rule leads_rules stays | simp)+

lemma stays_lambda [stays]: "stays_always (visit_lambda_b E explicit_parameters implicit_names body t)"
  by (rule stays_leads, unfold visit_lambda_b_def) (rule leads_rules stays | simp)+

lemma stays_assign_variable [stays]: "stays_always (assign_variable E name left right)"
  unfolding assign_variable_def by (intro stays_update stays_bind stays_then stays | simp)+

lemma stays_visitors_4 [stays]:
  "stays_always (create_llvm_string_length E str)" "stays_always (create_llvm_strings_comparison E op left right)"
  "stays_always (access_member_of E callee field_index)" "stays_always (access_array_element E value_node index)"
  "stays_always (resolve_constant_expression E e)" "stays_always (visit_tuple_b E tuple_values t)"
  "stays_always (visit_array_b E node_values t constant)"
  "stays_always (call_overloaded E prefix op operands arguments)"
  "stays_always (visit_function_declaration_b E prototype body)"
  "stays_always (resolve_generic_function E prototype body generic_arguments)"
  "stays_always (create_function_call E function arguments1)" "stays_always (call_lambda E lambda arguments1)"
  "stays_always (call_member E dot arguments1)" "stays_always (visit_destructuring_b E names variable_types value)"
  "stays_always (visit_return_b E value1 has_value)" "stays_always (visit_defer_b E call_expression)"
  unfolding create_llvm_string_length_def create_llvm_strings_comparison_def access_member_of_def
    access_array_element_def resolve_constant_expression_def visit_tuple_b_def visit_array_b_def
    call_overloaded_def visit_function_declaration_b_def resolve_generic_function_def create_function_call_def
    call_lambda_def call_member_def visit_destructuring_b_def visit_return_b_def visit_defer_b_def
  by (intro stays | simp)+

lemma stays_visitors_5 [stays]:
  "stays_always (resolve_constant_switch_expression E op argument switch_cases case_values default_value)"
  "stays_always (create_llvm_value_step op E operand is_prefix)" "stays_always (visit_initialize_b E t arguments)"
  "stays_always (visit_binary_b E left operator_token right t)"
  "stays_always (visit_bitwise_b E left operator_token right)"
  "stays_always (compare_pointers E op left right lhs rhs)"
  "stays_always (visit_logical_b E left operator_token right)"
  "stays_always (call_named E callee_literal arguments t generic_arguments)" "stays_always (string_count E callee)"
  "stays_always (visit_assign_b E left right)" "stays_always (visit_field_b E var_name field_t value is_global)"
  "stays_always (foreach_length E collection_exp_type collection collection_type)"
  unfolding resolve_constant_switch_expression_def create_llvm_value_step_def visit_initialize_b_def
    visit_binary_b_def visit_bitwise_b_def compare_pointers_def visit_logical_b_def call_named_def
    string_count_def visit_assign_b_def visit_field_b_def foreach_length_def
  by (intro stays | simp)+

lemma stays_if_expression [stays]: "stays_always (visit_if_expression_b E tokens conditions if_values t)"
  unfolding visit_if_expression_b_def by (intro stays) (auto intro!: stays)

lemma stays_switch_expression [stays]:
  "stays_always (visit_switch_expression_b E keyword argument switch_cases case_values else_branch t op)"
  unfolding visit_switch_expression_b_def by (intro stays) (auto intro!: stays)

lemma stays_visitors_6 [stays]:
  "stays_always (create_llvm_value_increment E operand is_prefix)"
  "stays_always (create_llvm_value_decrement E operand is_prefix)"
  "stays_always (visit_comparison_b E left operator_token right t)"
  "stays_always (visit_call_b E callee arguments t generic_arguments)"
  "stays_always (visit_dot_b E field_index callee field_name t)"
  unfolding create_llvm_value_increment_def create_llvm_value_decrement_def visit_comparison_b_def visit_call_b_def
    visit_dot_b_def
  by (intro stays | simp)+

lemma stays_visitors_7 [stays]:
  "stays_always (visit_step_operator E prefix is_prefix op operand)"
  unfolding visit_step_operator_def
  by (intro stays | simp)+

lemma stays_visitors_8 [stays]:
  "stays_always (visit_prefix_unary_b E operator_token operand t)"
  "stays_always (visit_postfix_unary_b E operator_token operand)"
  unfolding visit_prefix_unary_b_def visit_postfix_unary_b_def
  by (intro stays | simp)+

lemma stays_visitors_9 [stays]:
  "stays_always (visit_expression_b E e)"
  unfolding visit_expression_b_def
  by (intro stays | simp)+

lemma stays_branch_body [stays]: "stays_always (branch_body E end_block body)"
  by (rule stays_leads, unfold branch_body_def) (rule leads_rules stays | simp)+

lemma stays_branch_step [stays]:
  "stays_always test \<Longrightarrow> stays_always (branch_step E function end_block is_last test body)"
  unfolding branch_step_def by (intro stays)

lemma stays_if_branches [stays]: "stays_always (if_branches E function end_block bs)"
proof (induction bs)
  case (Cons b bs)
  then show ?case by (cases b) (auto intro!: stays)
qed (simp add: stays)

lemma stays_switch_pairs [stays]: "stays_always (switch_pairs E cs)"
proof (induction cs)
  case (Cons c cs)
  then show ?case by (cases c) (auto intro!: stays)
qed (simp add: stays)

lemma stays_block_statements [stays]: "stays_always (block_statements E ss)"
  by (induction ss) (auto intro!: stays simp: Let_def)

lemma stays_block [stays]: "stays_always (visit_block_b E ss)"
  by (rule stays_leads, unfold visit_block_b_def) (rule leads_rules stays | simp)+

lemma stays_conditional [stays]: "stays_always (visit_if_b E conditional_blocks)"
  "stays_always (visit_switch_b E argument cases op has_default_case)"
  unfolding visit_if_b_def visit_switch_b_def by (intro stays)+

lemma stays_forever [stays]: "stays_always (visit_forever_b E body)"
  by (rule stays_leads, unfold visit_forever_b_def) (rule leads_close_loop leads_rules stays | simp)+

lemma stays_while [stays]: "stays_always (visit_while_b E e body)"
  by (rule stays_leads, unfold visit_while_b_def) (rule leads_close_loop leads_rules stays | simp)+

lemma stays_for_range [stays]:
  "stays_always (visit_for_range_b E name range_start range_end step_node body)"
  by (rule stays_leads, unfold visit_for_range_b_def) (rule leads_close_loop leads_rules stays | simp)+

lemma stays_for_each [stays]: "stays_always (visit_for_each_b E element_name index_name e body)"
  by (rule stays_leads, unfold visit_for_each_b_def) (rule leads_close_loop leads_rules stays | simp)+

lemma stays_visit_statement: "stays_always (visit_statement_b E s)"
  by (cases s) (simp_all add: visit_statement_b_def stays)

end

text \<open>The visitors at every fuel.\<close>

lemma emitting_zero: "emitting (emitters_at 0)"
  by unfold_locales (auto intro: staysI)

lemma emitting_Suc: "emitting (emitters_at n) \<Longrightarrow> emitting (emitters_at (Suc n))"
  by unfold_locales
    (simp_all add: emitting.stays_visit_statement emitting.stays_visitors_9 emitting.stays_llvm_type)

interpretation emitted: emitting "emitters_at n" for n
  by (induction n) (rule emitting_zero, rule emitting_Suc)

end
