(* ===== verification/Backend_Fuel.thy ===== *)
theory Backend_Fuel
  imports Backend_Frames
begin

text \<open>
  The fuel of the code generator does not matter: a visitor that is not cut off with some fuel has the same
  outcome with more.  \<open>rises m m'\<close> says that \<open>m'\<close> is \<open>m\<close> wherever \<open>m\<close> is not too deep.
\<close>

named_theorems rises

subsection \<open>The combinators\<close>

definition rises :: "'a emission \<Rightarrow> 'a emission \<Rightarrow> bool" where
  "rises m m' \<longleftrightarrow> (\<forall>s. m s \<noteq> TooDeep \<longrightarrow> m' s = m s)"

lemma rises_refl [rises]: "rises m m"
  by (simp add: rises_def)

lemma rises_trans: "rises m m' \<Longrightarrow> rises m' m'' \<Longrightarrow> rises m m''"
  by (simp add: rises_def)

lemma rises_bind [rises]:
  "rises m m' \<Longrightarrow> (\<And>x. rises (f x) (f' x)) \<Longrightarrow> rises (bind_b m f) (bind_b m' f')"
  by (auto simp: rises_def bind_b_def split: emitted.splits)

lemma rises_then [rises]: "rises m m' \<Longrightarrow> rises n n' \<Longrightarrow> rises (then_b m n) (then_b m' n')"
  by (simp add: then_b_def rises_bind)

lemma rises_ignore [rises]: "rises m m' \<Longrightarrow> rises (ignore_b m) (ignore_b m')"
  by (simp add: ignore_b_def rises_bind rises_refl)

lemma rises_through [rises]: "rises m m' \<Longrightarrow> rises (through h m) (through h m')"
  by (simp add: through_def rises_refl)

lemma rises_steps [rises]: "rises m m' \<Longrightarrow> rises (steps_b ms) (steps_b ms') \<Longrightarrow>
    rises (steps_b (m # ms)) (steps_b (m' # ms'))"
  by (simp add: steps_b_simps rises_then)

lemma rises_map [rises]: "(\<And>x. rises (f x) (f' x)) \<Longrightarrow> rises (map_b f xs) (map_b f' xs)"
  by (induction xs) (auto intro!: rises)

lemma rises_each [rises]: "(\<And>x. rises (f x) (f' x)) \<Longrightarrow> rises (each_b f xs) (each_b f' xs)"
  by (induction xs) (auto intro!: rises)

lemma rises_if [rises]: "rises m m' \<Longrightarrow> rises n n' \<Longrightarrow> rises (if b then m else n) (if b then m' else n')"
  by simp

lemma rises_Let [rises]: "rises (f v) (f' v') \<Longrightarrow> rises (Let v f) (Let v' f')"
  by simp

lemma rises_prod [rises]: "(\<And>a b. rises (f a b) (f' a b)) \<Longrightarrow> rises (case_prod f p) (case_prod f' p)"
  by (cases p) simp

lemma rises_option [rises]:
  "rises m m' \<Longrightarrow> (\<And>x. rises (f x) (f' x)) \<Longrightarrow> rises (case_option m f v) (case_option m' f' v)"
  by (cases v) simp_all

lemma rises_list [rises]:
  "rises m m' \<Longrightarrow> (\<And>x xs. rises (f x xs) (f' x xs)) \<Longrightarrow> rises (case_list m f v) (case_list m' f' v)"
  by (cases v) simp_all

lemma rises_llvm_any [rises]:
  "rises m m' \<Longrightarrow> rises n n' \<Longrightarrow> (\<And>c h. rises (f c h) (f' c h)) \<Longrightarrow>
   rises (case_llvm_any m n f v) (case_llvm_any m' n' f' v)"
  by (cases v) simp_all

lemma rises_value_class [rises]:
  assumes "rises f1 g1" "rises f2 g2" "rises f3 g3" "rises f4 g4" "rises f5 g5" "rises f6 g6" "rises f7 g7"
    "rises f8 g8" "rises f9 g9" "rises f10 g10" "rises f11 g11" "rises f12 g12" "rises f13 g13"
    "rises f14 g14" "rises f15 g15"
  shows "rises (case_value_class f1 f2 f3 f4 f5 f6 f7 f8 f9 f10 f11 f12 f13 f14 f15 c)
    (case_value_class g1 g2 g3 g4 g5 g6 g7 g8 g9 g10 g11 g12 g13 g14 g15 c)"
  using assms by (cases c) simp_all

lemma rises_type_node [rises]:
  "rises f1 g1 \<Longrightarrow> (\<And>t. rises (f2 t) (g2 t)) \<Longrightarrow> (\<And>t n. rises (f3 t n) (g3 t n)) \<Longrightarrow>
   (\<And>t n. rises (f4 t n) (g4 t n)) \<Longrightarrow> rises (case_type_node f1 f2 f3 f4 t) (case_type_node g1 g2 g3 g4 t)"
  by (cases t) simp_all

lemma rises_ty [rises]:
  assumes "\<And>k. rises (f1 k) (g1 k)" "\<And>b. rises (f2 b) (g2 b)"
    "\<And>n p r i v w x g y. rises (f3 n p r i v w x g y) (g3 n p r i v w x g y)"
    "\<And>e n. rises (f4 e n) (g4 e n)" "\<And>e n. rises (f5 e n) (g5 e n)" "\<And>n. rises (f6 n) (g6 n)"
    "\<And>n ts. rises (f7 n ts) (g7 n ts)" "\<And>n vs e. rises (f8 n vs e) (g8 n vs e)"
    "\<And>n e. rises (f9 n e) (g9 n e)" "\<And>n. rises (f10 n) (g10 n)"
    "\<And>n ps. rises (f11 n ps) (g11 n ps)" "rises f12 g12" "rises f13 g13" "rises f14 g14"
  shows "rises (case_ty f1 f2 f3 f4 f5 f6 f7 f8 f9 f10 f11 f12 f13 f14 t)
    (case_ty g1 g2 g3 g4 g5 g6 g7 g8 g9 g10 g11 g12 g13 g14 t)"
  using assms by (cases t) simp_all

lemma rises_case_expression [rises]:
  assumes "\<And>a b c d. rises (f1 a b c d) (g1 a b c d)"
    "\<And>a b c d e f g. rises (f2 a b c d e f g) (g2 a b c d e f g)"
    "\<And>a b c. rises (f3 a b c) (g3 a b c)" "\<And>a b c d. rises (f4 a b c d) (g4 a b c d)"
    "\<And>a b c d. rises (f5 a b c d) (g5 a b c d)" "\<And>a b c d. rises (f6 a b c d) (g6 a b c d)"
    "\<And>a b c d. rises (f7 a b c d) (g7 a b c d)" "\<And>a b c d. rises (f8 a b c d) (g8 a b c d)"
    "\<And>a b c. rises (f9 a b c) (g9 a b c)" "\<And>a b c. rises (f10 a b c) (g10 a b c)"
    "\<And>a b c d e. rises (f11 a b c d e) (g11 a b c d e)"
    "\<And>a b c. rises (f12 a b c) (g12 a b c)"
    "\<And>a b c d e f g. rises (f13 a b c d e f g) (g13 a b c d e f g)"
    "\<And>a b c d e f. rises (f14 a b c d e f) (g14 a b c d e f)"
    "\<And>a b c. rises (f15 a b c) (g15 a b c)" "\<And>a. rises (f16 a) (g16 a)"
    "\<And>a. rises (f17 a) (g17 a)" "\<And>a. rises (f18 a) (g18 a)"
    "\<And>a b c d. rises (f19 a b c d) (g19 a b c d)"
    "\<And>a b c d. rises (f20 a b c d) (g20 a b c d)"
    "\<And>a b c d. rises (f21 a b c d) (g21 a b c d)" "\<And>a. rises (f22 a) (g22 a)"
    "\<And>a b. rises (f23 a b) (g23 a b)" "\<And>a b c. rises (f24 a b c) (g24 a b c)"
    "\<And>a b. rises (f25 a b) (g25 a b)" "\<And>a b. rises (f26 a b) (g26 a b)"
    "\<And>a b. rises (f27 a b) (g27 a b)" "\<And>a b c. rises (f28 a b c) (g28 a b c)"
    "\<And>a b. rises (f29 a b) (g29 a b)" "\<And>a. rises (f30 a) (g30 a)"
  shows "rises (case_expression f1 f2 f3 f4 f5 f6 f7 f8 f9 f10 f11 f12 f13 f14 f15 f16 f17
      f18 f19 f20 f21 f22 f23 f24 f25 f26 f27 f28 f29 f30 e)
    (case_expression g1 g2 g3 g4 g5 g6 g7 g8 g9 g10 g11 g12 g13 g14 g15 g16 g17
      g18 g19 g20 g21 g22 g23 g24 g25 g26 g27 g28 g29 g30 e)"
  using assms by (cases e) simp_all

lemma rises_any_of [rises]: "rises m m' \<Longrightarrow> rises (any_of c m) (any_of c m')"
  unfolding any_of_def by (intro rises)

lemma rises_condition_chain [rises]:
  "(\<And>i. rises (m i) (m' i)) \<Longrightarrow>
   rises (condition_chain function merge_branch (map (\<lambda>(i, b). (m i, b)) xs))
     (condition_chain function merge_branch (map (\<lambda>(i, b). (m' i, b)) xs))"
  unfolding condition_chain_def by (induction xs) (auto intro!: rises)

subsection \<open>The visitors\<close>

text \<open>The contract of two records of visitors, the second with more fuel.\<close>

locale rising =
  fixes E :: emitters and F :: emitters
  assumes rises_expression [rises]: "\<And>e. rises (e_expression E e) (e_expression F e)"
    and rises_statement [rises]: "\<And>s. rises (e_statement E s) (e_statement F s)"
    and rises_type [rises]: "\<And>t. rises (e_type E t) (e_type F t)"
begin

lemma rises_node [rises]: "rises (node_value E e) (node_value F e)"
  "rises (resolve_expression E e) (resolve_expression F e)"
  unfolding node_value_def resolve_expression_def by (intro rises)+

lemma rises_pass_all [rises]:
  "rises (pass_all_checked E parameter_type_at arguments) (pass_all_checked F parameter_type_at arguments)"
  unfolding pass_all_checked_def by (intro rises)

lemma rises_pass_arguments [rises]:
  "(\<And>e v. rises (extra E e v) (extra F e v)) \<Longrightarrow>
   rises (pass_arguments E extra parameter_size parameter_type_at arguments)
     (pass_arguments F extra parameter_size parameter_type_at arguments)"
  unfolding pass_arguments_def by (intro rises)

lemma rises_resolve_operands [rises]:
  "(\<And>l r. rises (f l r) (f' l r)) \<Longrightarrow>
   rises (resolve_operands E left right f) (resolve_operands F left right f')"
  unfolding resolve_operands_def by (intro rises)

lemma rises_types [rises]:
  "rises (struct_member_type E field) (struct_member_type F field)"
  "rises (generic_member_type E st parameters struct_llvm_type field) (generic_member_type F st parameters struct_llvm_type field)"
  "rises (pointer_llvm_type E v) (pointer_llvm_type F v)"
  "rises (type_node_llvm E n) (type_node_llvm F n)"
  "rises (expression_llvm_type E e) (expression_llvm_type F e)"
  "rises (create_llvm_struct_type E name members is_packed is_extern) (create_llvm_struct_type F name members is_packed is_extern)"
  "rises (resolve_generic_struct_b E name parameters) (resolve_generic_struct_b F name parameters)"
  unfolding struct_member_type_def generic_member_type_def pointer_llvm_type_def type_node_llvm_def
    expression_llvm_type_def create_llvm_struct_type_def resolve_generic_struct_b_def
  by (intro rises)+

lemma rises_llvm_type [rises]: "rises (llvm_type_from_amun_type E t) (llvm_type_from_amun_type F t)"
  unfolding llvm_type_from_amun_type_def by (intro rises)

lemma rises_function_variable [rises]:
  "(\<And>f l vs. rises (call f l vs) (call' f l vs)) \<Longrightarrow> (\<And>l. rises (no_function l) (no_function' l)) \<Longrightarrow>
   rises no_alloca no_alloca' \<Longrightarrow>
   rises (function_variable E name t arguments call no_function no_alloca)
     (function_variable F name t arguments call' no_function' no_alloca')"
  unfolding function_variable_def by (intro rises)

lemma rises_visitors_0 [rises]:
  "rises (visit_intrinsic_b E name native_name parameters) (visit_intrinsic_b F name native_name parameters)"
  unfolding visit_intrinsic_b_def
  by (intro rises)+

lemma rises_visitors_1 [rises]:
  "rises (visit_prototype_b E node) (visit_prototype_b F node)"
  "rises (foreach_element_type E collection_exp_type collection_type) (foreach_element_type F collection_exp_type collection_type)"
  unfolding visit_prototype_b_def foreach_element_type_def
  by (intro rises)+

lemma rises_visitors_2 [rises]:
  "rises (lookup_function E name) (lookup_function F name)"
  "rises (resolve_constant_index_expression E array_expression index_expression) (resolve_constant_index_expression F array_expression index_expression)"
  "rises (instance_type E t) (instance_type F t)"
  unfolding lookup_function_def resolve_constant_index_expression_def instance_type_def
  by (intro rises)+

lemma rises_visitors_3 [rises]:
  "rises (create_overloading_function_call E name args) (create_overloading_function_call F name args)"
  "rises (library_function E name return_type arguments) (library_function F name return_type arguments)"
  "rises (constant_of E e) (constant_of F e)"
  "rises (store_members E struct_type alloc_inst arguments1) (store_members F struct_type alloc_inst arguments1)"
  "rises (pass_extra E argument v) (pass_extra F argument v)"
  "rises (pass_extra_promoted E argument v) (pass_extra_promoted F argument v)"
  "rises (call_result E callee arguments1) (call_result F callee arguments1)"
  "rises (visit_cast_b E t e) (visit_cast_b F t e)"
  "rises (assign_element E array_expression index_node right) (assign_element F array_expression index_node right)"
  "rises (assign_through_pointer E operand right) (assign_through_pointer F operand right)"
  "rises (visit_struct_b E name) (visit_struct_b F name)"
  "rises (range_step E range_start step_node) (range_step F range_start step_node)"
  "rises (return_value E node value) (return_value F node value)"
  unfolding create_overloading_function_call_def library_function_def constant_of_def store_members_def pass_extra_def
    pass_extra_promoted_def call_result_def visit_cast_b_def assign_element_def assign_through_pointer_def
    visit_struct_b_def range_step_def return_value_def
  by (intro rises)+

lemma rises_constant_if [rises]:
  "rises (resolve_constant_if_expression E n conditions if_values)
     (resolve_constant_if_expression F n conditions if_values)"
  by (induction n arbitrary: conditions if_values) (auto intro!: rises)

lemma rises_constant_switch [rises]:
  "rises (constant_switch_cases E op argument switch_cases case_values default_value)
     (constant_switch_cases F op argument switch_cases case_values default_value)"
  by (induction switch_cases arbitrary: case_values) (auto intro!: rises)

lemma rises_function_body [rises]: "rises (emit_function_body E name f body) (emit_function_body F name f body)"
  unfolding emit_function_body_def by (intro rises)

lemma rises_lambda [rises]:
  "rises (visit_lambda_b E explicit_parameters implicit_names body t)
     (visit_lambda_b F explicit_parameters implicit_names body t)"
  unfolding visit_lambda_b_def by (intro rises)

lemma rises_assign_variable [rises]: "rises (assign_variable E name left right) (assign_variable F name left right)"
  unfolding assign_variable_def by (intro rises)

lemma rises_visitors_4 [rises]:
  "rises (create_llvm_string_length E str) (create_llvm_string_length F str)"
  "rises (create_llvm_strings_comparison E op left right) (create_llvm_strings_comparison F op left right)"
  "rises (access_member_of E callee field_index) (access_member_of F callee field_index)"
  "rises (access_array_element E value_node index) (access_array_element F value_node index)"
  "rises (resolve_constant_expression E e) (resolve_constant_expression F e)"
  "rises (visit_tuple_b E tuple_values t) (visit_tuple_b F tuple_values t)"
  "rises (visit_array_b E node_values t constant) (visit_array_b F node_values t constant)"
  "rises (call_overloaded E prefix op operands arguments) (call_overloaded F prefix op operands arguments)"
  "rises (visit_function_declaration_b E prototype body) (visit_function_declaration_b F prototype body)"
  "rises (resolve_generic_function E prototype body generic_arguments) (resolve_generic_function F prototype body generic_arguments)"
  "rises (create_function_call E function arguments1) (create_function_call F function arguments1)"
  "rises (call_lambda E lambda arguments1) (call_lambda F lambda arguments1)"
  "rises (call_member E dot arguments1) (call_member F dot arguments1)"
  "rises (visit_destructuring_b E names variable_types value) (visit_destructuring_b F names variable_types value)"
  "rises (visit_return_b E value1 has_value) (visit_return_b F value1 has_value)"
  "rises (visit_defer_b E call_expression) (visit_defer_b F call_expression)"
  unfolding create_llvm_string_length_def create_llvm_strings_comparison_def access_member_of_def
    access_array_element_def resolve_constant_expression_def visit_tuple_b_def visit_array_b_def
    call_overloaded_def visit_function_declaration_b_def resolve_generic_function_def create_function_call_def
    call_lambda_def call_member_def visit_destructuring_b_def visit_return_b_def visit_defer_b_def
  by (intro rises)+

lemma rises_visitors_5 [rises]:
  "rises (resolve_constant_switch_expression E op argument switch_cases case_values default_value) (resolve_constant_switch_expression F op argument switch_cases case_values default_value)"
  "rises (create_llvm_value_step op E operand is_prefix) (create_llvm_value_step op F operand is_prefix)"
  "rises (visit_initialize_b E t arguments) (visit_initialize_b F t arguments)"
  "rises (visit_binary_b E left operator_token right t) (visit_binary_b F left operator_token right t)"
  "rises (visit_bitwise_b E left operator_token right) (visit_bitwise_b F left operator_token right)"
  "rises (compare_pointers E op left right lhs rhs) (compare_pointers F op left right lhs rhs)"
  "rises (visit_logical_b E left operator_token right) (visit_logical_b F left operator_token right)"
  "rises (call_named E callee_literal arguments t generic_arguments) (call_named F callee_literal arguments t generic_arguments)"
  "rises (string_count E callee) (string_count F callee)"
  "rises (visit_assign_b E left right) (visit_assign_b F left right)"
  "rises (visit_field_b E var_name field_t value is_global) (visit_field_b F var_name field_t value is_global)"
  "rises (foreach_length E collection_exp_type collection collection_type) (foreach_length F collection_exp_type collection collection_type)"
  unfolding resolve_constant_switch_expression_def create_llvm_value_step_def visit_initialize_b_def
    visit_binary_b_def visit_bitwise_b_def compare_pointers_def visit_logical_b_def call_named_def
    string_count_def visit_assign_b_def visit_field_b_def foreach_length_def
  by (intro rises)+

lemma rises_if_expression [rises]:
  "rises (visit_if_expression_b E tokens conditions if_values t)
     (visit_if_expression_b F tokens conditions if_values t)"
  unfolding visit_if_expression_b_def by (intro rises)

lemma rises_switch_expression [rises]:
  "rises (visit_switch_expression_b E keyword argument switch_cases case_values else_branch t op)
     (visit_switch_expression_b F keyword argument switch_cases case_values else_branch t op)"
  unfolding visit_switch_expression_b_def by (intro rises)

lemma rises_visitors_6 [rises]:
  "rises (create_llvm_value_increment E operand is_prefix) (create_llvm_value_increment F operand is_prefix)"
  "rises (create_llvm_value_decrement E operand is_prefix) (create_llvm_value_decrement F operand is_prefix)"
  "rises (visit_comparison_b E left operator_token right t) (visit_comparison_b F left operator_token right t)"
  "rises (visit_call_b E callee arguments t generic_arguments) (visit_call_b F callee arguments t generic_arguments)"
  "rises (visit_dot_b E field_index callee field_name t) (visit_dot_b F field_index callee field_name t)"
  unfolding create_llvm_value_increment_def create_llvm_value_decrement_def visit_comparison_b_def visit_call_b_def
    visit_dot_b_def
  by (intro rises)+

lemma rises_visitors_7 [rises]:
  "rises (visit_step_operator E prefix is_prefix op operand) (visit_step_operator F prefix is_prefix op operand)"
  unfolding visit_step_operator_def
  by (intro rises)+

lemma rises_visitors_8 [rises]:
  "rises (visit_prefix_unary_b E operator_token operand t) (visit_prefix_unary_b F operator_token operand t)"
  "rises (visit_postfix_unary_b E operator_token operand) (visit_postfix_unary_b F operator_token operand)"
  unfolding visit_prefix_unary_b_def visit_postfix_unary_b_def
  by (intro rises)+

lemma rises_visitors_9 [rises]:
  "rises (visit_expression_b E e) (visit_expression_b F e)"
  unfolding visit_expression_b_def
  by (intro rises)+

lemma rises_branch_step [rises]:
  "rises test test' \<Longrightarrow>
   rises (branch_step E f end_block is_last test body) (branch_step F f end_block is_last test' body)"
  unfolding branch_step_def branch_body_def by (intro rises)

lemma rises_if_branches [rises]: "rises (if_branches E f end_block bs) (if_branches F f end_block bs)"
proof (induction bs)
  case (Cons b bs)
  then show ?case by (cases b) (auto intro!: rises)
qed (simp add: rises)

lemma rises_switch_pairs [rises]: "rises (switch_pairs E cs) (switch_pairs F cs)"
proof (induction cs)
  case (Cons c cs)
  then show ?case by (cases c) (auto intro!: rises)
qed (simp add: rises)

lemma rises_block_statements [rises]: "rises (block_statements E ss) (block_statements F ss)"
  by (induction ss) (auto intro!: rises simp: Let_def)

lemma rises_block [rises]: "rises (visit_block_b E ss) (visit_block_b F ss)"
  "rises (visit_if_b E conditional_blocks) (visit_if_b F conditional_blocks)"
  "rises (visit_switch_b E argument cases op d) (visit_switch_b F argument cases op d)"
  unfolding visit_block_b_def visit_if_b_def visit_switch_b_def by (intro rises)+

lemma rises_loops [rises]: "rises (visit_forever_b E body) (visit_forever_b F body)"
  "rises (visit_while_b E e body) (visit_while_b F e body)"
  "rises (visit_for_range_b E name range_start range_end step_node body)
     (visit_for_range_b F name range_start range_end step_node body)"
  "rises (visit_for_each_b E element_name index_name e body) (visit_for_each_b F element_name index_name e body)"
  unfolding visit_forever_b_def visit_while_b_def visit_for_range_b_def visit_for_each_b_def by (intro rises)+

lemma rises_visit_statement: "rises (visit_statement_b E s) (visit_statement_b F s)"
  by (cases s) (simp_all add: visit_statement_b_def rises)

end

text \<open>The visitors at every fuel, compared with one more.\<close>

lemma rising_zero: "rising (emitters_at 0) F"
  by unfold_locales (simp_all add: rises_def)

lemma rising_Suc: "rising (emitters_at n) (emitters_at m) \<Longrightarrow> rising (emitters_at (Suc n)) (emitters_at (Suc m))"
  by unfold_locales
    (simp_all add: rising.rises_visit_statement rising.rises_visitors_9 rising.rises_llvm_type)

interpretation fuel_b: rising "emitters_at n" "emitters_at (Suc n)" for n
  by (induction n) (rule rising_zero, rule rising_Suc)

lemma rises_more: "n \<le> m \<Longrightarrow> rises (e_statement (emitters_at n) s) (e_statement (emitters_at m) s)"
proof (induction m rule: dec_induct)
  case base
  show ?case by (rule rises_refl)
next
  case (step k)
  show ?case by (rule rises_trans [OF step.IH fuel_b.rises_statement])
qed

lemma rises_walk:
  "n \<le> m \<Longrightarrow> rises (each_b (\<lambda>node. ignore_b (e_statement (emitters_at n) node)) nodes)
     (each_b (\<lambda>node. ignore_b (e_statement (emitters_at m) node)) nodes)"
  by (intro rises rises_more)

end
