(* ===== verification/Backend_Guarantees.thy ===== *)
theory Backend_Guarantees
  imports Backend_Discipline Backend_Fuel
begin

text \<open>
  What the visitors of the code generator guarantee: their scopes and stacks, the deferred calls, three
  programs they translate wrongly, and their fuel.
\<close>

subsection \<open>Scopes and stacks\<close>

text \<open>A library whose answers are all alike, for examples.\<close>

definition plain_library :: llvm_library where
  "plain_library = \<lparr>basic_type_of = (\<lambda>_. 1), false_value = 1, zero_int32_value = 1, pointer_answer = (\<lambda>_ _. 1),
     flag_answer = (\<lambda>_ _. False), number_answer = (\<lambda>_ _. 0), text_answer = (\<lambda>_ _. [])\<rparr>"

definition true_token :: token where
  "true_token = \<lparr>kind = TOKEN_TRUE,
     position = \<lparr>file_id = 0, line_number = 1, column_start = 1, column_end = 1\<rparr>, literal = ''true''\<rparr>"

text \<open>The state inside a function with an open loop.\<close>

definition loop_state :: backend where
  "loop_state = open_loop 2 3 (open_block (open_defer (new_backend plain_library Map.empty)))"

text \<open>
  C35: a visitor of a statement that returns leaves every scope of variables and every list of deferred calls it
  has opened: there are as many scopes as before, the outer ones with the names they had, and the calls that
  were deferred before are still there, below the new ones of the innermost scope.  Blocks of loops may only
  have been popped, and the calls of LLVM made before are not touched.
\<close>

theorem visit_statement_leaves_scopes:
  assumes "e_statement (emitters_at n) node s = Emits v s'"
  shows "length (linked_scoped (alloca_inst_table s')) = length (linked_scoped (alloca_inst_table s))
    \<and> map dom (butlast (linked_scoped (alloca_inst_table s')))
        = map dom (butlast (linked_scoped (alloca_inst_table s)))
    \<and> tl (defer_calls_stack s') = tl (defer_calls_stack s)
    \<and> (\<forall>calls rest. defer_calls_stack s = calls # rest \<and> linked_scopes calls \<noteq> [] \<longrightarrow>
         (\<exists>new. linked_scopes (hd (defer_calls_stack s')) =
            butlast (linked_scopes calls) @ [new @ last (linked_scopes calls)]))
    \<and> (\<exists>k. break_blocks_stack s' = drop k (break_blocks_stack s))
    \<and> (\<exists>k. continue_blocks_stack s' = drop k (continue_blocks_stack s))
    \<and> (\<exists>calls. log s' = log s @ calls)"
proof -
  have "framed s s'" using assms by (rule staysD [OF emitted.stays_statement])
  then show ?thesis
    by (auto simp: framed_def scopes_stay_def defers_stay_def calls_stay_def blocks_stay_def extends_def
        split: list.splits)
qed

lemmas evaluate_b = return_b_def bind_b_def then_b_def fail_b_def read_b_def modify_b_def some_b_def enter_b_def
  answer_b_def ask_def ask_flag_def through_def observes_def steps_b_simps ignore_b_def

lemmas evaluate_statements = visit_statement_b_def visit_forever_b_def push_loop_blocks_def push_alloca_inst_scope_def
  current_function_def start_block_b_def push_block_def pop_alloca_inst_scope_def pop_current_scope_def
  push_new_scope_def close_loop_def pop_loop_blocks_def pop_break_block_def pop_continue_block_def visit_break_b_def
  visit_continue_b_def leave_loops_def

theorem visit_statement_leaves_scopes_witness:
  "length (linked_scoped (alloca_inst_table loop_state)) = 1
   \<and> (case e_statement (emitters_at 2) (BlockStatement [BreakStatement true_token True 1]) loop_state of
        Emits v s' \<Rightarrow> length (linked_scoped (alloca_inst_table s')) = 1 | _ \<Rightarrow> False)"
proof -
  obtain v s' where r: "e_statement (emitters_at 2) (BlockStatement [BreakStatement true_token True 1]) loop_state = Emits v s'"
    by (simp add: numeral_2_eq_2 evaluate_b evaluate_statements visit_block_b_def change_top_defer_calls_def loop_state_def
        open_loop_def open_block_def open_defer_def new_backend_def list_push_new_scope_def get_statement_node_type_def
        execute_scope_defer_calls_def top_defer_calls_def get_scope_elements_def list_pop_current_scope_def)
  show ?thesis
    using visit_statement_leaves_scopes [OF r] r
    by (simp add: loop_state_def open_loop_def open_block_def open_defer_def new_backend_def push_new_scope_def)
qed

subsection \<open>Deferred calls\<close>

text \<open>The calls of LLVM for a deferred call: none for a pointer to a function.\<close>

definition deferred_calls :: "defer_call \<Rightarrow> llvm_call list" where
  "deferred_calls d = (case d of
     DeferFunctionCall function arguments \<Rightarrow> [Create_call function arguments]
   | DeferFunctionPtrCall _ _ _ \<Rightarrow> [])"

lemma execute_defer_calls:
  "each_b execute_defer_call ds s = Emits () (s\<lparr>log := log s @ concat (map deferred_calls ds)\<rparr>)"
  by (induction ds arbitrary: s)
    (auto simp: evaluate_b execute_defer_call_def deferred_calls_def split: defer_call.split)

lemma execute_all_scopes:
  "each_b (each_b execute_defer_call) dss s
     = Emits () (s\<lparr>log := log s @ concat (map deferred_calls (concat dss))\<rparr>)"
  by (induction dss arbitrary: s) (simp_all add: evaluate_b execute_defer_calls)

lemma push_one_deferred:
  "defer_calls_stack s = \<lparr>linked_scopes = outer @ [calls]\<rparr> # rest \<Longrightarrow>
   ignore_b (push_deferred d) s
     = Emits () (s\<lparr>defer_calls_stack := \<lparr>linked_scopes = outer @ [d # calls]\<rparr> # rest\<rparr>)"
  by (simp add: evaluate_b push_deferred_def change_top_defer_calls_def list_push_front_def)

lemma push_all_deferred:
  "defer_calls_stack s = \<lparr>linked_scopes = outer @ [calls]\<rparr> # rest \<Longrightarrow>
   each_b (\<lambda>d. ignore_b (push_deferred d)) ds s
     = Emits () (s\<lparr>defer_calls_stack := \<lparr>linked_scopes = outer @ [rev ds @ calls]\<rparr> # rest\<rparr>)"
  by (induction ds arbitrary: s calls)
    (simp_all add: then_b_def bind_b_def return_b_def push_one_deferred)

text \<open>
  C36: deferred calls are emitted at a return in the reverse order in which they were deferred, those of the inner
  scopes before those of the outer ones; a deferred call of a pointer to a function is never emitted.
\<close>

theorem deferred_calls_reversed:
  assumes "defer_calls_stack s = \<lparr>linked_scopes = outer @ [[]]\<rparr> # rest"
  shows "\<exists>s'. then_b (each_b (\<lambda>d. ignore_b (push_deferred d)) ds) execute_all_defer_calls s = Emits () s'
     \<and> log s' = log s @ concat (map deferred_calls (rev ds)) @ concat (map deferred_calls (concat (rev outer)))"
  using push_all_deferred [OF assms]
  by (simp add: then_b_def bind_b_def execute_all_defer_calls_def top_defer_calls_def read_b_def return_b_def
      execute_defer_calls execute_all_scopes)

theorem deferred_calls_reversed_witness:
  "\<exists>s'. then_b (each_b (\<lambda>d. ignore_b (push_deferred d))
       [DeferFunctionCall 5 [], DeferFunctionPtrCall 6 7 [], DeferFunctionCall 8 [9]]) execute_all_defer_calls
       loop_state = Emits () s' \<and> log s' = [Create_call 8 [9], Create_call 5 []]"
  using deferred_calls_reversed [of loop_state "[]" "[]"
      "[DeferFunctionCall 5 [], DeferFunctionPtrCall 6 7 [], DeferFunctionCall 8 [9]]"]
  by (simp add: loop_state_def open_loop_def open_block_def open_defer_def new_backend_def list_push_new_scope_def
      deferred_calls_def)

subsection \<open>Leaving two loops\<close>



subsection \<open>A branch after a break\<close>



subsection \<open>The default case of a switch\<close>

definition case_handles :: "emitters \<Rightarrow> expression list \<Rightarrow> handle list emission" where
  "case_handles E vs = map_b (\<lambda>e. then_b (enter_b (New_block '''')) (resolve_expression E e)) vs"

lemma bind_b_assoc: "bind_b (bind_b m f) g = bind_b m (\<lambda>x. bind_b (f x) g)"
  by (rule ext) (simp add: bind_b_def split: emitted.split)

lemma bind_b_return [simp]: "bind_b (return_b x) f = f x"
  by (rule ext) (simp add: bind_b_def return_b_def)

lemma map_b_pairs:
  "map_b (\<lambda>e. then_b (enter_b (New_block '''')) (bind_b (resolve_expression E e) (\<lambda>v. return_b (v, body)))) vs
     = bind_b (case_handles E vs) (\<lambda>hs. return_b (map (\<lambda>h. (h, body)) hs))"
  unfolding case_handles_def by (induction vs) (simp_all add: bind_b_assoc then_b_def)

lemma case_handles_length: "case_handles E vs s = Emits hs s' \<Longrightarrow> length hs = length vs"
  unfolding case_handles_def
  by (induction vs arbitrary: s hs s') (auto simp: bind_b_Emits return_b_def)

lemma switch_pairs_two:
  "switch_pairs E [SwitchCase t vs b1, SwitchCase u ds b2]
     = bind_b (case_handles E vs) (\<lambda>hs. bind_b (case_handles E ds) (\<lambda>ks.
         return_b (map (\<lambda>h. (h, b1)) hs @ map (\<lambda>h. (h, b2)) ks)))"
  by (simp add: map_b_pairs bind_b_assoc)

lemma bind_b_cong:
  "(\<And>x s'. m s = Emits x s' \<Longrightarrow> f x s' = g x s') \<Longrightarrow> bind_b m f s = bind_b m g s"
  by (simp add: bind_b_def split: emitted.split)

text \<open>
  C39: the loop over the cases counts cases but walks the list of values, so when the case in front of the default
  case has two values the body of the default case is not part of what is generated: any other body gives the
  same code.
\<close>

theorem switch_default_body_ignored:
  "e_statement (emitters_at n) (SwitchStatement k argument
      [SwitchCase t (v1 # v2 # vs) body, SwitchCase u ds default_body] op True c)
   = e_statement (emitters_at n) (SwitchStatement k argument
      [SwitchCase t (v1 # v2 # vs) body, SwitchCase u ds other_body] op True c)"
proof (cases n)
  case (Suc m)
  show ?thesis
  proof
    fix s
    let ?E = "emitters_at m"
    have nth: "nth_b (map (\<lambda>h. (h, body)) hs @ rest) i = return_b (hs ! i, body)"
      if "case_handles ?E (v1 # v2 # vs) s = Emits hs s'" "i < 2" for hs s' i and rest :: "(handle \<times> statement) list"
      using that case_handles_length [OF that(1)] by (simp add: nth_b_def nth_append)
    show "e_statement (emitters_at n) (SwitchStatement k argument
        [SwitchCase t (v1 # v2 # vs) body, SwitchCase u ds default_body] op True c) s
      = e_statement (emitters_at n) (SwitchStatement k argument
        [SwitchCase t (v1 # v2 # vs) body, SwitchCase u ds other_body] op True c) s"
      unfolding Suc
      by (simp add: visit_statement_b_def visit_switch_b_def switch_pairs_two bind_b_assoc del: switch_pairs.simps)
        (rule bind_b_cong, simp add: numeral_2_eq_2 nth)
  qed
qed simp

subsection \<open>Fuel\<close>



end
