(* ===== verification/Spec2Isabelle.thy ===== *)
theory Spec2Isabelle
  imports Lexing Lexing_Operators Lexing_Literals Lexing_Comments Name_Mangle Scoped_Tables Support
    Parser_Guarantees Parser_Precedence Checker_Checks Checker_Endless Checker_Collision Driver_Guarantees
    Backend_Guarantees
begin

text \<open>
  A verification development for the Amun compiler (\<open>src/\<close> and \<open>include/\<close> of the repository).

  The program.  \<open>main.cpp\<close> dispatches a command to \<open>amun_command.cpp\<close>, which drives \<open>amun_compiler.cpp\<close>: read the
  source, scan it (\<open>amun_tokenizer.cpp\<close>), parse it (\<open>amun_parser*.cpp\<close>, which loads and parses imported files on
  its way), check it (\<open>amun_typechecker.cpp\<close>), translate it (\<open>amun_llvm_backend.cpp\<close>), write the object file or the
  text of the module, and start a linker.  All parts share the context: options, diagnostics, the source
  manager and the tables of structures, enumerations, constants and operators.

  Conventions.  A class with state is a record, an enumeration or a class hierarchy a datatype with the names
  of the source, a member function a definition with the name of the function (with a suffix where HOL or
  another part has the name: \<open>_t\<close> for the type checker, \<open>_p\<close> for the parser, \<open>_b\<close> for the backend, \<open>_d\<close> for the
  driver).  State is passed explicitly through one small monad per part.  Exceptions, the end of the process,
  undefined behaviour and exhausted fuel are outcomes of their own, never conflated with results; where an
  index, a null pointer or an empty container is used wrongly, the model has the outcome of undefined
  behaviour.  Fixed-width integers are \<open>int\<close> with the wrap-around or the overflow written out.

  Parts and theories.
  Helpers: \<open>Amun_Prelude\<close> (lists, maps, numbers as text), \<open>Support\<close> (\<open>amun_basic.cpp\<close>, source manager,
  diagnostics, compiler options), \<open>Scoped_Tables\<close> (\<open>ScopedMap\<close>, \<open>ScopedList\<close>, \<open>AliasTable\<close>, with the locales
  \<open>symbol_table\<close> and \<open>scoped_table\<close> for what their clients rely on), \<open>Name_Mangle\<close>, \<open>Types\<close>.
  Scanner: \<open>Tokens\<close>, \<open>Tokenizer\<close>; \<open>Tokenizer_Safety\<close> has the consistency of its state, the theories \<open>Lexing\<close> to
  \<open>Lexing_Comments\<close> what each kind of token is scanned to.
  Parser: \<open>Ast\<close>, \<open>Parser_State\<close> and \<open>Parser_Types\<close> to \<open>Parser_Declarations\<close>, one definition per parsing function,
  and \<open>Front_End\<close>.  \<open>Parser_Logic\<close> and the theories \<open>Parser_*_Total\<close> prove, in the locale \<open>parser_procs\<close>, that every
  function consumes tokens or throws; \<open>Parser_Totality\<close> and \<open>Parser_Guarantees\<close> draw the conclusions for whole
  sources, \<open>Ast_Wellformed\<close> says what an accepted tree looks like, and \<open>Parser_Precedence\<close> relates expressions to
  a stratified grammar.
  Type checker: \<open>Checker_State\<close>, \<open>Checker_Types\<close>, \<open>Checker_Expressions\<close>, \<open>Checker_Calls\<close>, \<open>Checker_Statements\<close>,
  \<open>Checker_Returns\<close>.  \<open>Checker_Frames\<close>, \<open>Checker_Fuel\<close>, \<open>Checker_Shape\<close> and \<open>Checker_Termination\<close> each prove one
  relation for every visitor in a locale and interpret it on the visitors; \<open>Checker_Guarantees\<close>,
  \<open>Checker_Checks\<close>, \<open>Checker_Endless\<close> and \<open>Checker_Collision\<close> state the results.
  Code generator: \<open>Backend_State\<close> (state, outcomes, LLVM as a parameter), \<open>Backend_Types\<close>, \<open>Backend_Values\<close>,
  \<open>Backend_Expressions\<close>, \<open>Backend_Calls\<close>, \<open>Backend_Nodes\<close> and \<open>Backend_Statements\<close>, one definition per visitor and
  helper of \<open>LLVMBackend\<close>; \<open>Backend_Frames\<close> and \<open>Backend_Discipline\<close> prove the discipline of its scopes and stacks
  for every visitor, \<open>Backend_Fuel\<close> that they do not depend on the fuel, \<open>Backend_Guarantees\<close> the results.
  Driver: \<open>Driver\<close>, \<open>Driver_Guarantees\<close>.

  What is shown.  C1 to C10: the scanner is safe and total, and scans identifiers, operators, numbers, strings
  and comments to what they denote.  C11 to C15: equality of types, mangled names, scoped tables
  and options.  C16 to C21: the front end comes back on every source text, with a well-formed tree, exactly
  one error or a known crash, and expressions follow the grammar.  C22 to C29 and C34: soundness of the check
  for missing returns and of the ranges of literals, balance, errors, fuel, shape and termination of the
  type checker, and the programs on which it does not answer or does not check.  C30 to C33: what the
  commands write, print and return.  C35 to C40: the code generator closes what it opens, emits deferred calls
  in reverse order, mistranslates three kinds of programs, and does not depend on its fuel.

  Fuel and bounds.  The parser recurses on fuel: \<open>unit_fuel\<close> is the number of tokens plus four, and the depth of
  nested imports has to exceed the number of files; C16 shows that both are enough.  The type checker runs at
  a fuel (\<open>visitors_at\<close>); C26 shows that more fuel never changes an answer, C28 that there is enough of it for
  units without generic functions, and C29 a unit for which there is none.  The code generator runs at a fuel
  in the same way (\<open>emitters_at\<close>): \<open>TooDeep\<close> is the outcome of too little, and C40 shows that more never changes
  another outcome.

  Parameters.  \<open>file_system\<close> is what reading a path gives, \<open>toolchain\<close> what the system, the linker and the emission
  of object code do, and \<open>llvm_library\<close> what LLVM answers to a call, given the calls before; nothing is assumed
  of them beyond the hypotheses that a property names.  Where C++ leaves the order of evaluation open, the
  model goes from left to right; the observations of LLVM this concerns have no effect.

  Not modelled: the visitor interface (\<open>amun_ast_visitor.hpp\<close>, declarations only), the logger and the colours;
  the rounding of \<open>str_to_float\<close>, \<open>std::stof\<close> and \<open>std::stod\<close> and their range errors (literals of floats and the
  elements of vector literals are handed to LLVM as their text); the names LLVM shows for instructions; the
  printing of the message of an internal error.  Types are values: where the type checker changes a type
  object that another node shares, the model stops with \<open>SharedType\<close>, and with \<open>NameClash\<close> where a structure is
  declared under the name of an instance.
\<close>

end
